(* ===== verification/Prelude.thy ===== *)
theory Prelude
  imports Main "HOL-Library.AList"
begin

text \<open>
  Shared vocabulary of the development: the standard-library containers and pointers the
  client is written with, and the generic facts the component theories rely on.

  \<^item> \<open>umap\<close>: a \<^verbatim>\<open>std::unordered_map\<close> (or \<^verbatim>\<open>std::map\<close>) as an association list. The order of the
    list is the order a range-based \<^verbatim>\<open>for\<close> visits the entries; it is unspecified in C++, and
    every statement about an iteration holds for an arbitrary list.
  \<^item> \<open>um_find\<close>, \<open>um_put\<close>, \<open>um_erase\<close>: \<^verbatim>\<open>find\<close>, assignment through \<^verbatim>\<open>operator[]\<close>, \<^verbatim>\<open>erase\<close>.
  \<^item> \<open>um_index\<close>: reading through \<^verbatim>\<open>operator[]\<close>, which inserts a value-initialised entry when
    the key is absent.
  \<^item> a nullable \<^verbatim>\<open>std::shared_ptr<T>\<close> is \<open>'t option\<close>; \<^verbatim>\<open>absl::optional<T>\<close> too.
\<close>

named_theorems model_defs \<open>definitions of the models' operations\<close>
named_theorems frame_simps \<open>fields an operation leaves alone\<close>

type_synonym ('k, 'v) umap = "('k \<times> 'v) list"

definition um_find :: "('k, 'v) umap \<Rightarrow> 'k \<Rightarrow> 'v option" where
  "um_find m k = map_of m k"

definition um_put :: "'k \<Rightarrow> 'v \<Rightarrow> ('k, 'v) umap \<Rightarrow> ('k, 'v) umap" where
  "um_put k v m = AList.update k v m"

definition um_erase :: "'k \<Rightarrow> ('k, 'v) umap \<Rightarrow> ('k, 'v) umap" where
  "um_erase k m = AList.delete k m"

definition um_index :: "'v \<Rightarrow> 'k \<Rightarrow> ('k, 'v) umap \<Rightarrow> 'v \<times> ('k, 'v) umap" where
  "um_index d k m = (case um_find m k of Some v \<Rightarrow> (v, m) | None \<Rightarrow> (d, um_put k d m))"

definition um_wf :: "('k, 'v) umap \<Rightarrow> bool" where
  "um_wf m \<longleftrightarrow> distinct (map fst m)"

definition um_keys :: "('k, 'v) umap \<Rightarrow> 'k set" where
  "um_keys m = set (map fst m)"

text \<open>\<^verbatim>\<open>absl::optional<T>::value_or\<close>.\<close>

definition value_or :: "'a option \<Rightarrow> 'a \<Rightarrow> 'a" where
  "value_or v d = (case v of None \<Rightarrow> d | Some x \<Rightarrow> x)"

lemma value_or_simps [simp]:
  "value_or None d = d" "value_or (Some x) d = x"
  by (simp_all add: value_or_def)

subsection \<open>The contract of a keyed store\<close>

text \<open>
  What every client of a keyed container relies on. The controllers of the client program
  use nothing else of \<^verbatim>\<open>std::unordered_map\<close> when they do not iterate.
\<close>

locale keyed_store =
  fixes empty :: 'm
    and find :: "'m \<Rightarrow> 'k \<Rightarrow> 'v option"
    and put :: "'k \<Rightarrow> 'v \<Rightarrow> 'm \<Rightarrow> 'm"
    and erase :: "'k \<Rightarrow> 'm \<Rightarrow> 'm"
  assumes find_empty: "find empty k = None"
    and find_put: "find (put k v m) k' = (if k' = k then Some v else find m k')"
    and find_erase: "find (erase k m) k' = (if k' = k then None else find m k')"
begin

lemma find_put_same: "find (put k v m) k = Some v"
  by (simp add: find_put)

lemma find_put_other: "k' \<noteq> k \<Longrightarrow> find (put k v m) k' = find m k'"
  by (simp add: find_put)

lemma find_erase_put: "find (erase k (put k v m)) k' = find (erase k m) k'"
  by (simp add: find_put find_erase)

lemma find_put_overwrite: "find (put k v (put k w m)) k' = find (put k v m) k'"
  by (simp add: find_put)

lemma find_erase_absent: "find m k = None \<Longrightarrow> find (erase k m) k' = find m k'"
  by (simp add: find_erase)

end

interpretation um: keyed_store "[]" um_find um_put um_erase
  by unfold_locales
    (auto simp: um_find_def um_put_def um_erase_def update_conv' delete_conv')

lemmas um_laws = um.find_empty um.find_put um.find_erase

declare um_laws [simp]

lemma um_find_Cons [simp]:
  "um_find ((k, v) # m) k' = (if k' = k then Some v else um_find m k')"
  by (simp add: um_find_def)

lemma um_index_found: "um_find m k = Some v \<Longrightarrow> um_index d k m = (v, m)"
  by (simp add: um_index_def)

lemma um_index_absent: "um_find m k = None \<Longrightarrow> um_index d k m = (d, um_put k d m)"
  by (simp add: um_index_def)

lemma um_find_snd_index:
  "um_find (snd (um_index d k m)) k' =
     (if k' = k \<and> um_find m k = None then Some d else um_find m k')"
  by (auto simp: um_index_def split: option.splits)

lemma um_wf_simps [simp]:
  "um_wf []"
  "um_wf m \<Longrightarrow> um_wf (um_put k v m)"
  "um_wf m \<Longrightarrow> um_wf (um_erase k m)"
  by (simp_all add: um_wf_def um_put_def um_erase_def distinct_update distinct_delete)

lemma um_wf_index: "um_wf m \<Longrightarrow> um_wf (snd (um_index d k m))"
  by (auto simp: um_index_def split: option.splits)

lemma um_find_in_set: "um_wf m \<Longrightarrow> (k, v) \<in> set m \<longleftrightarrow> um_find m k = Some v"
  by (auto simp: um_wf_def um_find_def)

lemma um_find_None_iff: "um_find m k = None \<longleftrightarrow> k \<notin> fst ` set m"
  by (simp add: um_find_def map_of_eq_None_iff)

lemma um_keys_find: "k \<in> um_keys m \<longleftrightarrow> um_find m k \<noteq> None"
  using um_find_None_iff [of m k] by (simp add: um_keys_def)

lemma um_keys_simps [simp]:
  "um_keys [] = {}"
  "um_keys (um_put k v m) = insert k (um_keys m)"
  "um_keys (um_erase k m) = um_keys m - {k}"
  by (auto simp: um_keys_find split: if_splits)

lemma um_keys_index [simp]: "um_keys (snd (um_index d k m)) = insert k (um_keys m)"
  by (auto simp: um_index_def um_keys_find split: option.splits)

subsection \<open>Fallible computations\<close>

text \<open>
  What ends a task of the program for good: a null pointer that is dereferenced, an empty
  optional that is read, an exception of a library that nothing catches.
\<close>

datatype fault = NullDeref string | BadOptionalAccess string | LibException string

text \<open>
  A C++ function that may throw is a function into \<open>'e + 'a\<close> with \<open>Inl\<close> for the exception:
  \<open>ebind\<close> is sequencing, \<open>etraverse\<close> is a loop whose body may throw.
\<close>

definition ebind :: "'e + 'a \<Rightarrow> ('a \<Rightarrow> 'e + 'b) \<Rightarrow> 'e + 'b" where
  "ebind r f = (case r of Inl e \<Rightarrow> Inl e | Inr x \<Rightarrow> f x)"

lemma ebind_simps [simp]: "ebind (Inl e) f = Inl e" "ebind (Inr x) f = f x"
  by (simp_all add: ebind_def)

lemma ebind_eq_Inr: "ebind r f = Inr y \<longleftrightarrow> (\<exists>x. r = Inr x \<and> f x = Inr y)"
  by (cases r) auto

lemma ebind_eq_Inl: "ebind r f = Inl e \<longleftrightarrow> r = Inl e \<or> (\<exists>x. r = Inr x \<and> f x = Inl e)"
  by (cases r) auto

text \<open>A call of a library that reports failure by an exception nothing catches.\<close>

definition lib_call :: "string + 'a \<Rightarrow> fault + 'a" where
  "lib_call r = (case r of Inl e \<Rightarrow> Inl (LibException e) | Inr x \<Rightarrow> Inr x)"

lemma lib_call_simps [simp]: "lib_call (Inl e) = Inl (LibException e)" "lib_call (Inr x) = Inr x"
  by (simp_all add: lib_call_def)

lemma lib_call_eq_Inr [simp]: "lib_call r = Inr x \<longleftrightarrow> r = Inr x"
  by (cases r) auto

text \<open>Reading an optional that has to hold a value.\<close>

definition deref :: "string \<Rightarrow> 'a option \<Rightarrow> fault + 'a" where
  "deref name v = (case v of None \<Rightarrow> Inl (BadOptionalAccess name) | Some x \<Rightarrow> Inr x)"

lemma deref_simps [simp]: "deref n None = Inl (BadOptionalAccess n)" "deref n (Some x) = Inr x"
  by (simp_all add: deref_def)

lemma deref_eq_Inr [simp]: "deref n v = Inr x \<longleftrightarrow> v = Some x"
  by (cases v) auto

lemma ebind_cong [fundef_cong]:
  "r = s \<Longrightarrow> (\<And>x. s = Inr x \<Longrightarrow> f x = g x) \<Longrightarrow> ebind r f = ebind s g"
  by (cases s) auto

fun etraverse :: "('a \<Rightarrow> 'e + 'b) \<Rightarrow> 'a list \<Rightarrow> 'e + 'b list" where
  "etraverse f [] = Inr []"
| "etraverse f (x # xs) = ebind (f x) (\<lambda>y. ebind (etraverse f xs) (\<lambda>ys. Inr (y # ys)))"

lemma etraverse_cong [fundef_cong]:
  "xs = ys \<Longrightarrow> (\<And>x. x \<in> set ys \<Longrightarrow> f x = g x) \<Longrightarrow> etraverse f xs = etraverse g ys"
  by (induction xs arbitrary: ys) auto

lemma etraverse_map_Inr:
  "(\<And>x. x \<in> set xs \<Longrightarrow> f (g x) = Inr x) \<Longrightarrow> etraverse f (map g xs) = Inr xs"
  by (induction xs) auto

lemma etraverse_all:
  assumes "etraverse f xs = Inr ys" and "\<And>x y. x \<in> set xs \<Longrightarrow> f x = Inr y \<Longrightarrow> P y"
  shows "list_all P ys"
  using assms
proof (induction xs arbitrary: ys)
  case (Cons x xs)
  then obtain y zs where y: "f x = Inr y" and zs: "etraverse f xs = Inr zs" and "ys = y # zs"
    by (auto simp: ebind_eq_Inr)
  moreover have "P y" by (rule Cons.prems(2) [OF _ y]) simp
  moreover have "list_all P zs" by (rule Cons.IH [OF zs], rule Cons.prems(2)) simp_all
  ultimately show ?case by simp
qed simp

lemma etraverse_length: "etraverse f xs = Inr ys \<Longrightarrow> length ys = length xs"
  by (induction xs arbitrary: ys) (auto simp: ebind_eq_Inr)

end
