(* ===== verification/Observables.thy ===== *)
theory Observables
  imports Prelude
begin

text \<open>
  \<^verbatim>\<open>src/core/utils/universal_observable.hpp\<close>: the observer list every component of the client
  notifies through, and the older \<^verbatim>\<open>src/core/utils/observable.h\<close>.

  An observer object is known by its address (\<open>'o\<close>); \<open>live\<close> is the set of objects some
  \<^verbatim>\<open>shared_ptr\<close> still owns at the moment of the call, so \<^verbatim>\<open>weak_ptr::lock\<close> is \<open>entry_ptr live\<close>. A
  notification is the list of its effects: a call made at once on the current thread, or a task
  posted to the observer's thread. A posted task holds the observer weakly and looks it up
  again when it runs.

  The locale \<open>registry\<close> is the contract a component relies on; its interpretation below
  discharges it for the modelled list.
\<close>

datatype ('o, 't) entry =
    WeakObject "'o option" "'t option"
  | Object "'o option" "'t option"

fun entry_ptr :: "'o set \<Rightarrow> ('o, 't) entry \<Rightarrow> 'o option" where
  "entry_ptr live (WeakObject w t) = (case w of None \<Rightarrow> None | Some x \<Rightarrow> if x \<in> live then Some x else None)"
| "entry_ptr live (Object p t) = p"

fun entry_thread :: "('o, 't) entry \<Rightarrow> 't option" where
  "entry_thread (WeakObject w t) = t"
| "entry_thread (Object p t) = t"

definition hasObserverInternal :: "'o set \<Rightarrow> ('o, 't) entry list \<Rightarrow> 'o option \<Rightarrow> bool" where
  "hasObserverInternal live obs p = list_ex (\<lambda>e. entry_ptr live e = p) obs"

definition addWeakObserver ::
  "'o set \<Rightarrow> 'o option \<Rightarrow> 't option \<Rightarrow> ('o, 't) entry list \<Rightarrow> ('o, 't) entry list" where
  "addWeakObserver live p t obs =
     (if hasObserverInternal live obs p then obs else obs @ [WeakObject p t])"

definition addObserver ::
  "'o set \<Rightarrow> 'o option \<Rightarrow> 't option \<Rightarrow> ('o, 't) entry list \<Rightarrow> ('o, 't) entry list" where
  "addObserver live p t obs =
     (if hasObserverInternal live obs p then obs else obs @ [Object p t])"

fun removeObserver :: "'o set \<Rightarrow> 'o option \<Rightarrow> ('o, 't) entry list \<Rightarrow> ('o, 't) entry list" where
  "removeObserver live p [] = []"
| "removeObserver live p (e # obs) =
     (if entry_ptr live e = p then obs else e # removeObserver live p obs)"

definition clearObserver :: "('o, 't) entry list \<Rightarrow> ('o, 't) entry list" where
  "clearObserver obs = []"

definition numOfObservers :: "('o, 't) entry list \<Rightarrow> nat" where
  "numOfObservers obs = length obs"

definition hasObserver :: "'o set \<Rightarrow> ('o, 't) entry list \<Rightarrow> 'o option \<Rightarrow> bool" where
  "hasObserver live obs p = hasObserverInternal live obs p"

datatype ('o, 't) delivery = Direct 'o | Posted 't 'o

datatype notify_fault = NullThread

text \<open>
  \<^verbatim>\<open>notifyObservers\<close>: \<open>cur\<close> is the current thread. A live observer registered without a thread
  fails the \<^verbatim>\<open>assert\<close>.
\<close>

fun notifyObservers ::
  "'o set \<Rightarrow> 't \<Rightarrow> ('o, 't) entry list \<Rightarrow> notify_fault + ('o, 't) delivery list" where
  "notifyObservers live cur [] = Inr []"
| "notifyObservers live cur (e # obs) =
     (case entry_ptr live e of
        None \<Rightarrow> notifyObservers live cur obs
      | Some x \<Rightarrow>
          (case entry_thread e of
             None \<Rightarrow> Inl NullThread
           | Some t \<Rightarrow>
               ebind (notifyObservers live cur obs)
                 (\<lambda>ds. Inr ((if t = cur then Direct x else Posted t x) # ds))))"

text \<open>Running a posted task later, when the objects of \<open>live'\<close> are the ones still owned.\<close>

fun run_delivery :: "'o set \<Rightarrow> ('o, 't) delivery \<Rightarrow> 'o list" where
  "run_delivery live' (Direct x) = [x]"
| "run_delivery live' (Posted t x) = (if x \<in> live' then [x] else [])"

subsection \<open>The older vector-based helper\<close>

definition Observable_addObserver :: "'o set \<Rightarrow> 'o list \<Rightarrow> 'o \<Rightarrow> 'o list" where
  "Observable_addObserver live observers x = (if x \<in> live then observers @ [x] else observers)"

text \<open>The loop of \<^verbatim>\<open>Observable::removeObserver\<close>: expired entries met on the way are erased too.\<close>

fun remove_loop :: "'o set \<Rightarrow> 'o \<Rightarrow> 'o list \<Rightarrow> 'o list" where
  "remove_loop live x [] = []"
| "remove_loop live x (w # ws) =
     (if w \<notin> live then remove_loop live x ws
      else if w = x then ws
      else w # remove_loop live x ws)"

definition Observable_removeObserver :: "'o set \<Rightarrow> 'o list \<Rightarrow> 'o \<Rightarrow> 'o list" where
  "Observable_removeObserver live observers x =
     (if x \<notin> live then observers else remove_loop live x observers)"

definition Observable_removeInvalid :: "'o set \<Rightarrow> 'o list \<Rightarrow> 'o list" where
  "Observable_removeInvalid live observers = filter (\<lambda>w. w \<in> live) observers"

subsection \<open>Live targets and the registration invariant\<close>

definition targets :: "'o set \<Rightarrow> ('o, 't) entry list \<Rightarrow> 'o list" where
  "targets live obs = List.map_filter (entry_ptr live) obs"

definition registered_once :: "'o set \<Rightarrow> ('o, 't) entry list \<Rightarrow> bool" where
  "registered_once live obs \<longleftrightarrow> distinct (targets live obs)"

lemma targets_simps [simp]:
  "targets live [] = []"
  "targets live (e # obs) =
     (case entry_ptr live e of None \<Rightarrow> targets live obs | Some x \<Rightarrow> x # targets live obs)"
  "targets live (obs @ obs') = targets live obs @ targets live obs'"
  by (simp_all add: targets_def map_filter_def split: option.splits)

lemma hasObserver_targets:
  "hasObserverInternal live obs (Some x) \<longleftrightarrow> x \<in> set (targets live obs)"
  by (induction obs) (auto simp: hasObserverInternal_def split: option.splits)

lemma targets_addWeak:
  "x \<in> live \<Longrightarrow> targets live (addWeakObserver live (Some x) t obs) =
     (if x \<in> set (targets live obs) then targets live obs else targets live obs @ [x])"
  by (simp add: addWeakObserver_def hasObserver_targets)

lemma targets_remove:
  "targets live (removeObserver live (Some x) obs) = remove1 x (targets live obs)"
  by (induction obs) (auto split: option.splits)

lemma entry_ptr_mono: "live' \<subseteq> live \<Longrightarrow> entry_ptr live' e = Some x \<Longrightarrow> entry_ptr live e = Some x"
  by (cases e) (auto split: option.splits if_splits)

lemma targets_subset: "live' \<subseteq> live \<Longrightarrow> set (targets live' obs) \<subseteq> set (targets live obs)"
  by (induction obs) (auto split: option.splits dest: entry_ptr_mono)

lemma registered_once_shrink:
  assumes "live' \<subseteq> live" and "registered_once live obs"
  shows "registered_once live' obs"
  using assms(2)
proof (induction obs)
  case (Cons e obs)
  show ?case
  proof (cases "entry_ptr live' e")
    case None
    with Cons show ?thesis by (auto simp: registered_once_def split: option.splits)
  next
    case (Some x)
    then have "entry_ptr live e = Some x" using assms(1) by (rule entry_ptr_mono [rotated])
    with Cons Some targets_subset [OF assms(1), of obs] show ?thesis
      by (auto simp: registered_once_def)
  qed
qed (simp add: registered_once_def)

subsection \<open>The contract of an observer registry\<close>

locale registry =
  fixes subscribe :: "'o \<Rightarrow> 's \<Rightarrow> 's"
    and unsubscribe :: "'o \<Rightarrow> 's \<Rightarrow> 's"
    and receivers :: "'s \<Rightarrow> 'o list"
    and ok :: "'s \<Rightarrow> bool"
    and alive :: "'o \<Rightarrow> bool"
  assumes receivers_subscribe:
      "alive x \<Longrightarrow> receivers (subscribe x s) =
         (if x \<in> set (receivers s) then receivers s else receivers s @ [x])"
    and receivers_unsubscribe: "receivers (unsubscribe x s) = remove1 x (receivers s)"
    and ok_distinct: "ok s \<longleftrightarrow> distinct (receivers s)"
begin

lemma ok_subscribe: "alive x \<Longrightarrow> ok s \<Longrightarrow> ok (subscribe x s)"
  by (simp add: ok_distinct receivers_subscribe)

lemma ok_unsubscribe: "ok s \<Longrightarrow> ok (unsubscribe x s)"
  by (simp add: ok_distinct receivers_unsubscribe)

lemma subscribe_receives: "alive x \<Longrightarrow> x \<in> set (receivers (subscribe x s))"
  by (simp add: receivers_subscribe)

lemma subscribe_idem: "alive x \<Longrightarrow> receivers (subscribe x (subscribe x s)) = receivers (subscribe x s)"
  by (simp add: receivers_subscribe)

lemma unsubscribe_silences: "ok s \<Longrightarrow> x \<notin> set (receivers (unsubscribe x s))"
  by (simp add: ok_distinct receivers_unsubscribe set_remove1_eq)

lemma unsubscribe_keeps_others:
  "y \<noteq> x \<Longrightarrow> y \<in> set (receivers (unsubscribe x s)) \<longleftrightarrow> y \<in> set (receivers s)"
  by (simp add: receivers_unsubscribe)

lemma subscribe_unsubscribe:
  "alive x \<Longrightarrow> x \<notin> set (receivers s) \<Longrightarrow> receivers (unsubscribe x (subscribe x s)) = receivers s"
  by (simp add: receivers_subscribe receivers_unsubscribe remove1_append)

end

interpretation weak_reg: registry
  "\<lambda>x. addWeakObserver live (Some x) t" "\<lambda>x. removeObserver live (Some x)" "targets live"
  "registered_once live" "\<lambda>x. x \<in> live"
  for live :: "'o set" and t :: "'t option"
  by unfold_locales (simp_all add: targets_addWeak targets_remove registered_once_def)

subsection \<open>Delivery\<close>

definition delivery_target :: "('o, 't) delivery \<Rightarrow> 'o" where
  "delivery_target d = (case d of Direct x \<Rightarrow> x | Posted t x \<Rightarrow> x)"

definition has_threads :: "('o, 't) entry list \<Rightarrow> bool" where
  "has_threads obs \<longleftrightarrow> (\<forall>e \<in> set obs. entry_thread e \<noteq> None)"

lemma notify_targets:
  "notifyObservers live cur obs = Inr ds \<Longrightarrow> map delivery_target ds = targets live obs"
  by (induction obs arbitrary: ds)
    (auto simp: ebind_eq_Inr delivery_target_def split: option.splits if_splits)

lemma notify_returns:
  "has_threads obs \<Longrightarrow> \<exists>ds. notifyObservers live cur obs = Inr ds"
proof (induction obs)
  case (Cons e obs)
  then obtain ds where "notifyObservers live cur obs = Inr ds" by (auto simp: has_threads_def)
  with Cons.prems show ?case by (auto simp: has_threads_def split: option.splits)
qed simp

text \<open>
  The life of a registry: objects register weakly or strongly with a thread, unregister, and die. A
  caller holds the object it registers, and an object that is registered strongly cannot die.
\<close>

datatype ('o, 't) reg_op =
    RegWeak 'o 't
  | RegStrong 'o 't
  | Unreg 'o
  | RegClear
  | Dies 'o

fun legal_op :: "('o, 't) reg_op \<Rightarrow> 'o set \<times> ('o, 't) entry list \<Rightarrow> bool" where
  "legal_op (RegWeak x t) (live, obs) \<longleftrightarrow> x \<in> live"
| "legal_op (RegStrong x t) (live, obs) \<longleftrightarrow> x \<in> live"
| "legal_op (Dies x) (live, obs) \<longleftrightarrow> \<not> list_ex (\<lambda>e. case e of Object p _ \<Rightarrow> p = Some x | WeakObject _ _ \<Rightarrow> False) obs"
| "legal_op _ s \<longleftrightarrow> True"

fun run_op :: "('o, 't) reg_op \<Rightarrow> 'o set \<times> ('o, 't) entry list \<Rightarrow> 'o set \<times> ('o, 't) entry list" where
  "run_op (RegWeak x t) (live, obs) = (live, addWeakObserver live (Some x) (Some t) obs)"
| "run_op (RegStrong x t) (live, obs) = (live, addObserver live (Some x) (Some t) obs)"
| "run_op (Unreg x) (live, obs) = (live, removeObserver live (Some x) obs)"
| "run_op RegClear (live, obs) = (live, clearObserver obs)"
| "run_op (Dies x) (live, obs) = (live - {x}, obs)"

fun run_ops :: "('o, 't) reg_op list \<Rightarrow> 'o set \<times> ('o, 't) entry list \<Rightarrow> ('o set \<times> ('o, 't) entry list) option" where
  "run_ops [] s = Some s"
| "run_ops (op # ops) s = (if legal_op op s then run_ops ops (run_op op s) else None)"

text \<open>What a registry promises: the objects registered and alive, in order, each with the thread of its first registration.\<close>

fun spec_op :: "('o, 't) reg_op \<Rightarrow> ('o \<times> 't) list \<Rightarrow> ('o \<times> 't) list" where
  "spec_op (RegWeak x t) r = (if x \<in> fst ` set r then r else r @ [(x, t)])"
| "spec_op (RegStrong x t) r = (if x \<in> fst ` set r then r else r @ [(x, t)])"
| "spec_op (Unreg x) r = filter (\<lambda>(y, t). y \<noteq> x) r"
| "spec_op RegClear r = []"
| "spec_op (Dies x) r = filter (\<lambda>(y, t). y \<noteq> x) r"

definition audience :: "'o set \<Rightarrow> ('o, 't) entry list \<Rightarrow> ('o \<times> 't) list" where
  "audience live obs = List.map_filter
     (\<lambda>e. case entry_ptr live e of None \<Rightarrow> None | Some x \<Rightarrow> map_option (Pair x) (entry_thread e)) obs"

lemma audience_simps [simp]:
  "audience live [] = []"
  "audience live (e # obs) =
     (case entry_ptr live e of None \<Rightarrow> audience live obs
      | Some x \<Rightarrow> (case entry_thread e of None \<Rightarrow> audience live obs | Some t \<Rightarrow> (x, t) # audience live obs))"
  "audience live (obs @ obs') = audience live obs @ audience live obs'"
  by (simp_all add: audience_def map_filter_def split: option.splits)

lemma audience_targets: "has_threads obs \<Longrightarrow> map fst (audience live obs) = targets live obs"
  by (induction obs) (auto simp: has_threads_def split: option.splits)

lemma audience_unreg:
  "has_threads obs \<Longrightarrow> distinct (map fst (audience live obs)) \<Longrightarrow>
   audience live (removeObserver live (Some x) obs) = filter (\<lambda>(y, t). y \<noteq> x) (audience live obs)"
proof (induction obs)
  case (Cons e obs)
  then obtain t where t: "entry_thread e = Some t" and obs: "has_threads obs" by (auto simp: has_threads_def)
  have rest: "filter (\<lambda>(y, t). y \<noteq> x) r = r" if "x \<notin> fst ` set r" for r :: "('a \<times> 'b) list"
    using that by (intro filter_True) force
  from Cons t obs rest show ?case by (auto split: option.splits)
qed simp

lemma audience_dies:
  "has_threads obs \<Longrightarrow> legal_op (Dies x :: ('o, 't) reg_op) (live, obs) \<Longrightarrow>
   audience (live - {x}) obs = filter (\<lambda>(y, t). y \<noteq> x) (audience live obs)"
proof (induction obs)
  case (Cons e obs)
  then show ?case by (cases e) (auto simp: has_threads_def split: option.splits)
qed simp

lemma has_threads_op: "has_threads obs \<Longrightarrow> run_op op (live, obs) = (live', obs') \<Longrightarrow> has_threads obs'"
proof (cases op)
  case (Unreg x)
  have "set (removeObserver live (Some x) obs) \<subseteq> set obs" for obs :: "('a, 'b) entry list" by (induction obs) auto
  with Unreg show "has_threads obs \<Longrightarrow> run_op op (live, obs) = (live', obs') \<Longrightarrow> has_threads obs'"
    by (auto simp: has_threads_def)
qed (auto simp: has_threads_def addWeakObserver_def addObserver_def clearObserver_def split: if_splits)

lemma registered_iff: "has_threads obs \<Longrightarrow> hasObserverInternal live obs (Some x) \<longleftrightarrow> x \<in> fst ` set (audience live obs)"
  by (simp add: hasObserver_targets audience_targets [symmetric])

lemma op_refines:
  assumes "has_threads obs" and "distinct (map fst (audience live obs))" and "legal_op op (live, obs)"
    and "run_op op (live, obs) = (live', obs')"
  shows "audience live' obs' = spec_op op (audience live obs)"
  using assms
  by (cases op) (auto simp: addWeakObserver_def addObserver_def clearObserver_def registered_iff audience_unreg
      audience_dies split: if_splits)

lemma spec_op_distinct: "distinct (map fst r) \<Longrightarrow> distinct (map fst (spec_op op r))"
  by (cases op) (auto simp: distinct_map_filter)

lemma run_ops_refines:
  "run_ops ops (live, obs) = Some (live', obs') \<Longrightarrow> has_threads obs \<Longrightarrow> distinct (map fst (audience live obs)) \<Longrightarrow>
   has_threads obs' \<and> audience live' obs' = fold spec_op ops (audience live obs) \<and> distinct (map fst (audience live' obs'))"
proof (induction ops arbitrary: live obs)
  case (Cons op ops)
  obtain live1 obs1 where 1: "run_op op (live, obs) = (live1, obs1)" by (cases "run_op op (live, obs)")
  note op = op_refines [OF Cons.prems(2,3) _ 1]
  have "legal_op op (live, obs)" "run_ops ops (live1, obs1) = Some (live', obs')"
    using Cons.prems(1) 1 by (auto split: if_splits)
  with op has_threads_op [OF Cons.prems(2) 1] spec_op_distinct [OF Cons.prems(3), of op] Cons.IH [of live1 obs1]
  show ?case unfolding fold_simps by metis
qed simp

lemma notify_audience:
  "has_threads obs \<Longrightarrow> notifyObservers live cur obs =
     Inr (map (\<lambda>(x, t). if t = cur then Direct x else Posted t x) (audience live obs))"
  by (induction obs) (auto simp: has_threads_def split: option.splits)

text \<open>C17. A registry keeps its promise over its whole life: whatever sequence of weak and strong registrations,
  removals, clearings and deaths of objects it goes through, a notification reaches exactly the
  objects that are registered and alive, each once, in the order of registration, and on the
  thread it first registered with: at once if that is the current thread, posted to it otherwise.\<close>

theorem registry_refines:
  assumes "run_ops ops (live, []) = Some (live', obs)"
  shows "notifyObservers live' cur obs =
      Inr (map (\<lambda>(x, t). if t = cur then Direct x else Posted t x) (fold spec_op ops [])) \<and>
    distinct (map fst (fold spec_op ops []))"
proof -
  have "has_threads ([] :: ('a, 'b) entry list)" by (simp add: has_threads_def)
  with run_ops_refines [OF assms] have "has_threads obs" "audience live' obs = fold spec_op ops []" "distinct (map fst (audience live' obs))"
    by (metis audience_simps(1) list.map(1) distinct.simps(1))+
  with notify_audience [of obs live' cur] show ?thesis by metis
qed

text \<open>Three observers register, one twice; one of them dies and one leaves.\<close>

theorem registry_refines_witness:
  "\<exists>live' obs. run_ops [RegWeak 1 5, RegWeak 2 6, RegStrong 3 5, RegWeak 1 7, Dies 2, Unreg 3] ({1, 2, 3 :: nat}, []) = Some (live', obs) \<and>
     notifyObservers live' (0 :: nat) obs = Inr [Posted 5 1]"
proof -
  let ?ops = "[RegWeak 1 5, RegWeak 2 6, RegStrong 3 5, RegWeak 1 7, Dies 2, Unreg 3] :: (nat, nat) reg_op list"
  obtain s where s: "run_ops ?ops ({1, 2, 3}, []) = Some s"
    by (simp add: addWeakObserver_def addObserver_def hasObserverInternal_def)
  obtain live' obs where "s = (live', obs)" by (cases s)
  with s registry_refines [of ?ops "{1, 2, 3}" live' obs 0] show ?thesis by auto
qed

text \<open>Registering twice is registering once; after unregistering an observer it is no
  longer notified while every other observer still is.\<close>

theorem register_unregister:
  fixes obs :: "('o, 't) entry list"
  assumes ok: "registered_once live obs" and x: "x \<in> live"
  shows "targets live (addWeakObserver live (Some x) t (addWeakObserver live (Some x) t obs))
           = targets live (addWeakObserver live (Some x) t obs) \<and>
         registered_once live (addWeakObserver live (Some x) t obs) \<and>
         x \<in> set (targets live (addWeakObserver live (Some x) t obs)) \<and>
         x \<notin> set (targets live (removeObserver live (Some x) obs)) \<and>
         (\<forall>y. y \<noteq> x \<longrightarrow> (y \<in> set (targets live (removeObserver live (Some x) obs))
                        \<longleftrightarrow> y \<in> set (targets live obs)))"
proof (intro conjI allI impI)
  show "targets live (addWeakObserver live (Some x) t (addWeakObserver live (Some x) t obs))
      = targets live (addWeakObserver live (Some x) t obs)"
    using x by (rule weak_reg.subscribe_idem)
  show "registered_once live (addWeakObserver live (Some x) t obs)"
    using x ok by (rule weak_reg.ok_subscribe)
  show "x \<in> set (targets live (addWeakObserver live (Some x) t obs))"
    using x by (rule weak_reg.subscribe_receives)
  show "x \<notin> set (targets live (removeObserver live (Some x) obs))"
    using ok by (rule weak_reg.unsubscribe_silences)
  show "y \<in> set (targets live (removeObserver live (Some x) obs)) \<longleftrightarrow> y \<in> set (targets live obs)"
    if "y \<noteq> x" for y
    using that by (rule weak_reg.unsubscribe_keeps_others)
qed

theorem register_unregister_witness:
  "4 \<notin> set (targets {3, 4 :: nat} (removeObserver {3, 4} (Some 4)
      [WeakObject (Some 3) (Some 0), WeakObject (Some 4) (Some (0 :: nat))]))"
  using register_unregister [of "{3, 4 :: nat}"
      "[WeakObject (Some 3) (Some 0), WeakObject (Some 4) (Some (0 :: nat))]" 4]
  by (simp add: registered_once_def)

subsection \<open>The older helper\<close>

lemma remove_loop_removeInvalid:
  "Observable_removeInvalid live (remove_loop live x ws) =
     remove1 x (Observable_removeInvalid live ws)" if "x \<in> live"
  using that by (induction ws) (auto simp: Observable_removeInvalid_def)

lemma Observable_remove_correct:
  "x \<in> live \<Longrightarrow> Observable_removeInvalid live (Observable_removeObserver live observers x) =
     remove1 x (Observable_removeInvalid live observers)"
  by (simp add: Observable_removeObserver_def remove_loop_removeInvalid)


subsection \<open>A single observer of notifications\<close>

text \<open>
  \<^verbatim>\<open>src/core/utils/observer.hpp\<close>: an object held weakly, the method to call and the thread to call it
  on. \<open>cast\<close> is \<^verbatim>\<open>dynamic_pointer_cast<N>\<close> on a notification; \<open>live\<close> are the objects still owned. An
  observer of another instance of the template is \<open>None\<close> in \<open>Observer_equals\<close>, where the
  \<^verbatim>\<open>dynamic_cast\<close> fails.
\<close>

record ('o, 'm, 't) observer =
  ob_object :: 'o
  ob_method :: "'m option"
  ob_scheduleThread :: "'t option"

definition Observer_notify :: "'o set \<Rightarrow> ('a \<Rightarrow> 'n option) \<Rightarrow> 'a \<Rightarrow> ('o, 'm, 't) observer \<Rightarrow> ('o \<times> 'm \<times> 'n) list" where
  "Observer_notify live cast notification ob =
     (case cast notification of
        None \<Rightarrow> []
      | Some nf \<Rightarrow>
          if ob_object ob \<in> live then
            (case ob_method ob of None \<Rightarrow> [] | Some m \<Rightarrow> [(ob_object ob, m, nf)])
          else [])"

definition Observer_shouldAccept :: "('a \<Rightarrow> 'n option) \<Rightarrow> 'a \<Rightarrow> bool" where
  "Observer_shouldAccept cast nf \<longleftrightarrow> cast nf \<noteq> None"

definition Observer_equals :: "'o set \<Rightarrow> ('o, 'm, 't) observer option \<Rightarrow> ('o, 'm, 't) observer \<Rightarrow> bool" where
  "Observer_equals live other ob =
     (case other of
        None \<Rightarrow> False
      | Some obs \<Rightarrow> ob_object ob \<in> live \<and> ob_object obs \<in> live \<and> ob_object obs = ob_object ob \<and> ob_method obs = ob_method ob)"

definition Observer_isValid :: "'o set \<Rightarrow> ('o, 'm, 't) observer \<Rightarrow> bool" where
  "Observer_isValid live ob \<longleftrightarrow> ob_object ob \<in> live \<and> ob_method ob \<noteq> None"

definition Observer_clone :: "('o, 'm, 't) observer \<Rightarrow> ('o, 'm, 't) observer" where
  "Observer_clone ob = ob"

text \<open>A notification is a call exactly for a valid observer that accepts it.\<close>

lemma Observer_notify_iff:
  "Observer_notify live cast nf ob \<noteq> [] \<longleftrightarrow> Observer_isValid live ob \<and> Observer_shouldAccept cast nf"
  by (auto simp: Observer_notify_def Observer_isValid_def Observer_shouldAccept_def split: option.split)

text \<open>Equal observers make the same calls; an observer equals its clone while its object lives.\<close>

lemma Observer_equals_notify:
  "Observer_equals live (Some obs) ob \<Longrightarrow> Observer_notify live cast nf obs = Observer_notify live cast nf ob"
  by (auto simp: Observer_equals_def Observer_notify_def split: option.split)

lemma Observer_equals_equiv:
  "Observer_equals live (Some (Observer_clone ob)) ob \<longleftrightarrow> ob_object ob \<in> live"
  "Observer_equals live (Some a) b \<Longrightarrow> Observer_equals live (Some b) a"
  "Observer_equals live (Some a) b \<Longrightarrow> Observer_equals live (Some b) c \<Longrightarrow> Observer_equals live (Some a) c"
  by (auto simp: Observer_equals_def Observer_clone_def)

subsection \<open>The registries of the components\<close>

text \<open>
  The classes that derive from the registry register their observers weakly: the transport and the
  signaling client with the thread they were built with, the media controller, the participant
  controller and the room with a thread the caller names.
\<close>

definition WebsocketTransport_addObserver ::
  "'o set \<Rightarrow> 't option \<Rightarrow> 'o option \<Rightarrow> ('o, 't) entry list \<Rightarrow> ('o, 't) entry list" where
  "WebsocketTransport_addObserver live thread observer obs = addWeakObserver live observer thread obs"

definition WebsocketTransport_removeObserver :: "'o set \<Rightarrow> 'o option \<Rightarrow> ('o, 't) entry list \<Rightarrow> ('o, 't) entry list" where
  "WebsocketTransport_removeObserver live observer obs = removeObserver live observer obs"

definition SignalingClient_addObserver ::
  "'o set \<Rightarrow> 't option \<Rightarrow> 'o option \<Rightarrow> ('o, 't) entry list \<Rightarrow> ('o, 't) entry list" where
  "SignalingClient_addObserver live thread observer obs = addWeakObserver live observer thread obs"

definition SignalingClient_removeObserver :: "'o set \<Rightarrow> 'o option \<Rightarrow> ('o, 't) entry list \<Rightarrow> ('o, 't) entry list" where
  "SignalingClient_removeObserver live observer obs = removeObserver live observer obs"

definition MediaController_addObserver ::
  "'o set \<Rightarrow> 'o option \<Rightarrow> 't option \<Rightarrow> ('o, 't) entry list \<Rightarrow> ('o, 't) entry list" where
  "MediaController_addObserver live observer callbackThread obs = addWeakObserver live observer callbackThread obs"

definition MediaController_removeObserver :: "'o set \<Rightarrow> 'o option \<Rightarrow> ('o, 't) entry list \<Rightarrow> ('o, 't) entry list" where
  "MediaController_removeObserver live observer obs = removeObserver live observer obs"

definition ParticipantController_addObserver ::
  "'o set \<Rightarrow> 'o option \<Rightarrow> 't option \<Rightarrow> ('o, 't) entry list \<Rightarrow> ('o, 't) entry list" where
  "ParticipantController_addObserver live observer callbackThread obs = addWeakObserver live observer callbackThread obs"

definition ParticipantController_removeObserver :: "'o set \<Rightarrow> 'o option \<Rightarrow> ('o, 't) entry list \<Rightarrow> ('o, 't) entry list" where
  "ParticipantController_removeObserver live observer obs = removeObserver live observer obs"

interpretation transport_reg: registry
  "\<lambda>x. WebsocketTransport_addObserver live t (Some x)" "\<lambda>x. WebsocketTransport_removeObserver live (Some x)"
  "targets live" "registered_once live" "\<lambda>x. x \<in> live"
  for live :: "'o set" and t :: "'t option"
  unfolding WebsocketTransport_addObserver_def WebsocketTransport_removeObserver_def by (rule weak_reg.registry_axioms)

interpretation signaling_reg: registry
  "\<lambda>x. SignalingClient_addObserver live t (Some x)" "\<lambda>x. SignalingClient_removeObserver live (Some x)"
  "targets live" "registered_once live" "\<lambda>x. x \<in> live"
  for live :: "'o set" and t :: "'t option"
  unfolding SignalingClient_addObserver_def SignalingClient_removeObserver_def by (rule weak_reg.registry_axioms)

interpretation media_reg: registry
  "\<lambda>x. MediaController_addObserver live (Some x) t" "\<lambda>x. MediaController_removeObserver live (Some x)"
  "targets live" "registered_once live" "\<lambda>x. x \<in> live"
  for live :: "'o set" and t :: "'t option"
  unfolding MediaController_addObserver_def MediaController_removeObserver_def by (rule weak_reg.registry_axioms)

interpretation participant_reg: registry
  "\<lambda>x. ParticipantController_addObserver live (Some x) t" "\<lambda>x. ParticipantController_removeObserver live (Some x)"
  "targets live" "registered_once live" "\<lambda>x. x \<in> live"
  for live :: "'o set" and t :: "'t option"
  unfolding ParticipantController_addObserver_def ParticipantController_removeObserver_def by (rule weak_reg.registry_axioms)

subsection \<open>Notifications\<close>

text \<open>
  \<^verbatim>\<open>utils/notifications.hpp\<close> and \<^verbatim>\<open>i_notification.h\<close>: a key with a value of any type. \<open>type_name\<close> is
  what \<^verbatim>\<open>typeid(...).name()\<close> gives for the dynamic class of a notification.
\<close>

record 'v KeyValueNotification =
  m_key :: string
  m_value :: 'v

definition new_KeyValueNotification :: "string \<Rightarrow> 'v \<Rightarrow> 'v KeyValueNotification" where
  "new_KeyValueNotification key v = \<lparr>m_key = key, m_value = v\<rparr>"

definition KeyValueNotification_set :: "'v \<Rightarrow> 'v KeyValueNotification \<Rightarrow> 'v KeyValueNotification" where
  "KeyValueNotification_set v nf = nf\<lparr>m_value := v\<rparr>"

definition INotification_type :: "('n \<Rightarrow> string) \<Rightarrow> 'n \<Rightarrow> string" where
  "INotification_type type_name nf = type_name nf"

text \<open>An observer of key-value notifications gets the value that was set last.\<close>

lemma key_value_observed:
  assumes "Observer_isValid live ob"
  shows "\<exists>m. Observer_notify live Some (KeyValueNotification_set v (new_KeyValueNotification key u)) ob =
    [(ob_object ob, m, \<lparr>m_key = key, m_value = v\<rparr>)]"
  using assms by (auto simp: Observer_notify_def Observer_isValid_def KeyValueNotification_set_def new_KeyValueNotification_def)

end
