(* ===== verification/Json.thy ===== *)
theory Json
  imports Prelude
begin

text \<open>
  The reflective JSON codec of \<^verbatim>\<open>src/core/json/serialization.hpp\<close> and \<^verbatim>\<open>jsonable.hpp\<close>.

  A \<^verbatim>\<open>rapidjson::Value\<close> is a \<open>json\<close>; an object keeps its members in insertion order and may
  repeat a name (\<open>FindMember\<close> takes the first). A C++ member type is a \<open>jtype\<close>, a value of
  it a \<open>jval\<close>; every field of a signaling model is an \<^verbatim>\<open>absl::optional\<close>, so a model object is
  the list of its fields' optional values in the order of its \<^verbatim>\<open>FIELDS_MAP\<close>. The template
  dispatch of \<^verbatim>\<open>json_serialize\<close> / \<^verbatim>\<open>json_deserialize\<close> over the member type is the case
  distinction on the \<open>jtype\<close>. Exceptions are the left values of a sum. The text layer
  (rapidjson's writer and reader) is a parameter of \<open>fromJsonString\<close> and \<open>toJsonString\<close>.
  The \<^verbatim>\<open>std::map\<close> serializers, which no signaling model uses, are in \<open>Json_Map\<close>.
\<close>

subsection \<open>Floating-point values\<close>

text \<open>
  A finite double is \<open>Fin s m e\<close>: the number \<open>m * 2 ^ e\<close> with sign \<open>s\<close>, in canonical form
  (\<open>m\<close> odd, or \<open>m = 0\<close> and \<open>e = 0\<close>). \<open>to_float\<close> is the conversion \<^verbatim>\<open>(float)d\<close> of IEEE 754:
  identity on the values a float represents, else round to nearest, ties to even.
\<close>

datatype dbl = Fin bool nat int | Infinity bool

fun bitlen :: "nat \<Rightarrow> nat" where
  "bitlen n = (if n = 0 then 0 else Suc (bitlen (n div 2)))"

declare bitlen.simps [simp del]

fun canonical :: "nat \<Rightarrow> int \<Rightarrow> nat \<times> int" where
  "canonical m e = (if m = 0 then (0, 0) else if even m then canonical (m div 2) (e + 1) else (m, e))"

declare canonical.simps [simp del]

fun float_repr :: "dbl \<Rightarrow> bool" where
  "float_repr (Fin s m e) \<longleftrightarrow> bitlen m \<le> 24 \<and> -149 \<le> e \<and> e + int (bitlen m) \<le> 128"
| "float_repr (Infinity s) \<longleftrightarrow> True"

definition round_half_even :: "nat \<Rightarrow> nat \<Rightarrow> nat" where
  "round_half_even m s =
     (let k = m div 2 ^ s; r = m mod 2 ^ s
      in if 2 * r > 2 ^ s \<or> (2 * r = 2 ^ s \<and> odd k) then k + 1 else k)"

fun to_float :: "dbl \<Rightarrow> dbl" where
  "to_float (Infinity s) = Infinity s"
| "to_float (Fin s m e) =
     (if float_repr (Fin s m e) then Fin s m e
      else let q = max (-149) (e + int (bitlen m) - 24);
               (m', e') = canonical (round_half_even m (nat (q - e))) q
           in if 128 < e' + int (bitlen m') then Infinity s else Fin s m' e')"

subsection \<open>JSON values, member types and model values\<close>

datatype json =
    JNull
  | JBool bool
  | JInt int
  | JDouble dbl
  | JString string
  | JArray "json list"
  | JObject "(string \<times> json) list"

datatype jtype =
    TInt64
  | TInt
  | TDouble
  | TFloat
  | TString
  | TBool
  | TVec jtype
  | TStruct "(string \<times> jtype) list"

type_synonym fields = "(string \<times> jtype) list"

datatype jval =
    VInt int
  | VDouble dbl
  | VStr string
  | VBool bool
  | VVec "jval list"
  | VStruct "jval option list"

datatype jerr =
    JsonParsingFailed string
  | JsonMissingKey json string
  | JsonTypeMismatch json string

subsection \<open>The predicates and accessors of a JSON value\<close>

definition is_int32 :: "int \<Rightarrow> bool" where
  "is_int32 i \<longleftrightarrow> - (2 ^ 31) \<le> i \<and> i < 2 ^ 31"

definition is_int64 :: "int \<Rightarrow> bool" where
  "is_int64 i \<longleftrightarrow> - (2 ^ 63) \<le> i \<and> i < 2 ^ 63"

fun IsObject :: "json \<Rightarrow> bool" where
  "IsObject (JObject ms) = True"
| "IsObject _ = False"

fun FindMember :: "json \<Rightarrow> string \<Rightarrow> json option" where
  "FindMember (JObject ms) n = map_of ms n"
| "FindMember _ n = None"

text \<open>\<^verbatim>\<open>std::string = const char *\<close>: the copy stops at the first NUL.\<close>

definition c_str_copy :: "string \<Rightarrow> string" where
  "c_str_copy s = takeWhile (\<lambda>c. c \<noteq> CHR 0x00) s"

subsection \<open>Native types\<close>

fun is_native_type :: "jtype \<Rightarrow> bool" where
  "is_native_type (TVec t) = is_native_type t"
| "is_native_type (TStruct fs) = False"
| "is_native_type _ = True"

text \<open>
  \<^verbatim>\<open>JsonValueAdapter::operator()\<close>, one overload per native type. There is no overload for a
  model type; the last equation is not reached by the dispatch below.
\<close>

fun adapter_read :: "jtype \<Rightarrow> json \<Rightarrow> string \<Rightarrow> jerr + jval" where
  "adapter_read TInt64 j name =
     (case j of JInt i \<Rightarrow> if is_int64 i then Inr (VInt i) else Inl (JsonTypeMismatch j name)
      | _ \<Rightarrow> Inl (JsonTypeMismatch j name))"
| "adapter_read TInt j name =
     (case j of JInt i \<Rightarrow> if is_int32 i then Inr (VInt i) else Inl (JsonTypeMismatch j name)
      | _ \<Rightarrow> Inl (JsonTypeMismatch j name))"
| "adapter_read TDouble j name =
     (case j of JDouble d \<Rightarrow> Inr (VDouble d) | _ \<Rightarrow> Inl (JsonTypeMismatch j name))"
| "adapter_read TFloat j name =
     (case j of JDouble d \<Rightarrow> Inr (VDouble (to_float d)) | _ \<Rightarrow> Inl (JsonTypeMismatch j name))"
| "adapter_read TString j name =
     (case j of JString s \<Rightarrow> Inr (VStr (c_str_copy s)) | _ \<Rightarrow> Inl (JsonTypeMismatch j name))"
| "adapter_read TBool j name =
     (case j of JBool b \<Rightarrow> Inr (VBool b) | _ \<Rightarrow> Inl (JsonTypeMismatch j name))"
| "adapter_read (TVec t) j name =
     (case j of
        JArray js \<Rightarrow> ebind (etraverse (\<lambda>item. adapter_read t item name) js) (\<lambda>vs. Inr (VVec vs))
      | _ \<Rightarrow> Inl (JsonTypeMismatch j name))"
| "adapter_read (TStruct fs) j name = Inl (JsonTypeMismatch j name)"

text \<open>\<^verbatim>\<open>JsonValueAdapter::set\<close>; a \<^verbatim>\<open>float\<close> is promoted to the \<^verbatim>\<open>double\<close> overload.\<close>

fun adapter_set :: "jval \<Rightarrow> json" where
  "adapter_set (VInt i) = JInt i"
| "adapter_set (VDouble d) = JDouble d"
| "adapter_set (VStr s) = JString s"
| "adapter_set (VBool b) = JBool b"
| "adapter_set (VVec vs) = JArray (map adapter_set vs)"
| "adapter_set (VStruct vs) = JNull"

text \<open>\<^verbatim>\<open>JsonSerializerPod<Key, Type, false>::backward\<close>.\<close>

definition pod_backward :: "jtype \<Rightarrow> json \<Rightarrow> string \<Rightarrow> jerr + jval" where
  "pod_backward t jlist name =
     (case FindMember jlist name of
        None \<Rightarrow> Inl (JsonMissingKey jlist name)
      | Some member \<Rightarrow> adapter_read t member name)"

subsection \<open>Deserialization\<close>

text \<open>
  \<^verbatim>\<open>JsonSerializer<Key, optional<Type>>::backward\<close>. The value keeps what it held before
  (\<open>value\<close>) when the member is absent or null; \<open>deser\<close> is \<^verbatim>\<open>json_deserialize\<close> at \<^verbatim>\<open>Type\<close>.
\<close>

definition optional_backward ::
  "(json \<Rightarrow> string \<Rightarrow> jerr + jval) \<Rightarrow> json \<Rightarrow> string \<Rightarrow> jval option \<Rightarrow> jerr + jval option" where
  "optional_backward deser jlist name value =
     (if \<not> IsObject jlist then Inl (JsonTypeMismatch jlist name)
      else case FindMember jlist name of
        None \<Rightarrow> Inr value
      | Some JNull \<Rightarrow> Inr value
      | Some _ \<Rightarrow> ebind (deser jlist name) (\<lambda>v. Inr (Some v)))"

text \<open>A default-constructed nested model object: every field is empty.\<close>

definition default_object :: "fields \<Rightarrow> jval option list" where
  "default_object fs = replicate (length fs) None"

fun tsize :: "jtype \<Rightarrow> nat" and fsize :: "fields \<Rightarrow> nat" where
  "tsize (TVec t) = Suc (tsize t)"
| "tsize (TStruct fs) = Suc (fsize fs)"
| "tsize _ = 1"
| "fsize [] = 0"
| "fsize ((n, t) # fs) = Suc (tsize t + fsize fs)"

text \<open>
  \<open>jdeserialize fs obj j\<close> is \<^verbatim>\<open>obj.jdeserialize(j)\<close> for a model with fields \<open>fs\<close>: the fields in
  the order of \<^verbatim>\<open>FIELDS_MAP\<close>, each through \<open>optional_backward\<close>. \<open>json_deserialize\<close> dispatches
  on the field's type: \<^verbatim>\<open>JsonSerializer\<close> for a model, \<^verbatim>\<open>JsonSerializerVector\<close> for a vector of
  models, \<^verbatim>\<open>JsonSerializerPod\<close> for a native type.
\<close>

function (sequential)
  jdeserialize :: "fields \<Rightarrow> jval option list \<Rightarrow> json \<Rightarrow> jerr + jval option list"
and
  json_deserialize :: "jtype \<Rightarrow> json \<Rightarrow> string \<Rightarrow> jerr + jval"
where
  "jdeserialize [] obj j = Inr []"
| "jdeserialize ((name, t) # fs) obj j =
     ebind (optional_backward (\<lambda>jl nm. json_deserialize t jl nm) j name
              (case obj of [] \<Rightarrow> None | v # _ \<Rightarrow> v))
       (\<lambda>v. ebind (jdeserialize fs (drop 1 obj) j) (\<lambda>vs. Inr (v # vs)))"
| "json_deserialize (TStruct fs) jlist name =
     (if \<not> IsObject jlist then Inl (JsonTypeMismatch jlist name)
      else case FindMember jlist name of
        None \<Rightarrow> Inl (JsonMissingKey jlist name)
      | Some member \<Rightarrow>
          ebind (jdeserialize fs (default_object fs) member) (\<lambda>vs. Inr (VStruct vs)))"
| "json_deserialize (TVec (TStruct fs)) jlist name =
     (case FindMember jlist name of
        None \<Rightarrow> Inr (VVec [])
      | Some (JArray items) \<Rightarrow>
          ebind (etraverse (\<lambda>jitem. ebind (jdeserialize fs (default_object fs) jitem)
                                     (\<lambda>vs. Inr (VStruct vs))) items)
            (\<lambda>vs. Inr (VVec vs))
      | Some it \<Rightarrow> Inl (JsonTypeMismatch it name))"
| "json_deserialize t jlist name = pod_backward t jlist name"
  by pat_completeness auto
termination
  by (relation "measure (case_sum (\<lambda>(fs, _, _). fsize fs) (\<lambda>(t, _, _). tsize t))") auto

subsection \<open>Serialization\<close>

text \<open>
  \<open>jserialize\<close> adds one member per non-empty field, in order; \<open>json_forward\<close> is the value the
  selected serializer stores.
\<close>

function (sequential)
  json_members :: "fields \<Rightarrow> jval option list \<Rightarrow> (string \<times> json) list"
and
  json_forward :: "jtype \<Rightarrow> jval \<Rightarrow> json"
where
  "json_members ((name, t) # fs) (v # vs) =
     (case v of None \<Rightarrow> [] | Some x \<Rightarrow> [(name, json_forward t x)]) @ json_members fs vs"
| "json_members _ _ = []"
| "json_forward (TStruct fs) (VStruct vs) = JObject (json_members fs vs)"
| "json_forward (TVec (TStruct fs)) (VVec xs) = JArray (map (\<lambda>x. json_forward (TStruct fs) x) xs)"
| "json_forward t v = adapter_set v"
  by pat_completeness auto
termination
  by (relation "measure (case_sum (\<lambda>(fs, _). fsize fs) (\<lambda>(t, _). tsize t))") auto

definition jserialize :: "fields \<Rightarrow> jval option list \<Rightarrow> json" where
  "jserialize fs obj = JObject (json_members fs obj)"

subsection \<open>The text layer\<close>

text \<open>
  \<^verbatim>\<open>stringToJson\<close>, \<^verbatim>\<open>fromJsonString(data, error)\<close> and \<^verbatim>\<open>toJsonString\<close>. \<open>parse\<close> is rapidjson's
  \<^verbatim>\<open>Document::Parse\<close> (None: \<^verbatim>\<open>HasParseError\<close>), \<open>print\<close> is its writer. On an error the C++
  function also returns the half-filled object; every caller drops it when \<^verbatim>\<open>error\<close> is set.
\<close>

definition stringToJson :: "(string \<Rightarrow> json option) \<Rightarrow> string \<Rightarrow> jerr + json" where
  "stringToJson parse data =
     (case parse data of None \<Rightarrow> Inl (JsonParsingFailed data) | Some d \<Rightarrow> Inr d)"

definition fromJsonString ::
  "(string \<Rightarrow> json option) \<Rightarrow> fields \<Rightarrow> jval option list \<Rightarrow> string \<Rightarrow> jerr + jval option list" where
  "fromJsonString parse fs obj data = ebind (stringToJson parse data) (\<lambda>j. jdeserialize fs obj j)"

definition toJsonString :: "(json \<Rightarrow> string) \<Rightarrow> fields \<Rightarrow> jval option list \<Rightarrow> string" where
  "toJsonString print fs obj = print (jserialize fs obj)"

subsection \<open>Well-formed member types and well-typed values\<close>

text \<open>
  \<open>wf_type\<close> holds for the member types the templates accept: JSON keys of a model are
  distinct, and a vector holds native values or model objects. \<open>wt\<close> holds for the values a
  C++ member of that type can carry through JSON unchanged: integers of the member's width,
  strings without NUL, floats representable in single precision.
\<close>

fun is_struct :: "jtype \<Rightarrow> bool" where
  "is_struct (TStruct fs) = True"
| "is_struct _ = False"

fun wf_type :: "jtype \<Rightarrow> bool" and wf_fields :: "fields \<Rightarrow> bool" where
  "wf_type (TVec t) = (wf_type t \<and> (is_native_type t \<or> is_struct t))"
| "wf_type (TStruct fs) = wf_fields fs"
| "wf_type _ = True"
| "wf_fields [] = True"
| "wf_fields ((n, t) # fs) = (n \<notin> set (map fst fs) \<and> wf_type t \<and> wf_fields fs)"

fun wt :: "jtype \<Rightarrow> jval \<Rightarrow> bool" and wts :: "fields \<Rightarrow> jval option list \<Rightarrow> bool" where
  "wt TInt64 (VInt i) = is_int64 i"
| "wt TInt (VInt i) = is_int32 i"
| "wt TDouble (VDouble d) = True"
| "wt TFloat (VDouble d) = float_repr d"
| "wt TString (VStr s) = (CHR 0x00 \<notin> set s)"
| "wt TBool (VBool b) = True"
| "wt (TVec t) (VVec vs) = list_all (\<lambda>v. wt t v) vs"
| "wt (TStruct fs) (VStruct vs) = wts fs vs"
| "wt _ _ = False"
| "wts [] [] = True"
| "wts ((n, t) # fs) (v # vs) = ((case v of None \<Rightarrow> True | Some x \<Rightarrow> wt t x) \<and> wts fs vs)"
| "wts _ _ = False"

text \<open>What decoding leaves in an object: a decoded field overrides the value it had.\<close>

definition overlay :: "jval option list \<Rightarrow> jval option list \<Rightarrow> jval option list" where
  "overlay obj vs = map2 (\<lambda>o' v. case v of None \<Rightarrow> o' | Some x \<Rightarrow> Some x) obj vs"

lemma overlay_simps [simp]:
  "overlay [] vs = []"
  "overlay (o' # obj) (v # vs) = (case v of None \<Rightarrow> o' | Some x \<Rightarrow> Some x) # overlay obj vs"
  by (simp_all add: overlay_def)

lemma default_object_simps [simp]:
  "default_object [] = []" "default_object (f # fs) = None # default_object fs"
  "length (default_object fs) = length fs"
  by (simp_all add: default_object_def)

lemma overlay_default: "length vs = length fs \<Longrightarrow> overlay (default_object fs) vs = vs"
  by (induction vs fs rule: list_induct2) (auto split: option.splits)

lemma wts_length: "wts fs vs \<Longrightarrow> length vs = length fs"
proof (induction fs arbitrary: vs)
  case (Cons f fs)
  then show ?case by (cases f; cases vs) auto
qed (case_tac vs, auto)

subsection \<open>Rounding to single precision\<close>

lemma bitlen_le_iff: "bitlen n \<le> k \<longleftrightarrow> n < 2 ^ k"
proof (induction k arbitrary: n)
  case 0
  then show ?case by (subst bitlen.simps) simp
next
  case (Suc k)
  show ?case
    by (subst bitlen.simps) (auto simp: Suc.IH less_mult_imp_div_less mult.commute)
qed

lemma canonical_bounds:
  assumes "canonical m e = (m', e')" and "m \<le> 2 ^ k" and "0 < k" and "lo \<le> e" and "lo \<le> 0"
  shows "m' < 2 ^ k \<and> lo \<le> e'"
  using assms
proof (induction m e rule: canonical.induct)
  case (1 m e)
  show ?case
  proof (cases "m \<noteq> 0 \<and> even m")
    case True
    then have "canonical (m div 2) (e + 1) = (m', e')"
      using "1.prems"(1) by (simp add: canonical.simps [of m e])
    moreover have "m div 2 \<le> 2 ^ k" using "1.prems"(2) by (meson div_le_dividend le_trans)
    ultimately show ?thesis using "1.IH" "1.prems" True by auto
  next
    case False
    then have "m' = m \<or> m' = 0" "e' = e \<or> e' = 0" "m = 0 \<or> odd m"
      using "1.prems"(1) by (auto simp: canonical.simps [of m e] split: if_splits)
    moreover have "odd m \<Longrightarrow> m \<noteq> 2 ^ k" using \<open>0 < k\<close> by auto
    ultimately show ?thesis using "1.prems" by (auto simp: le_less)
  qed
qed

lemma round_half_even_le: "m < 2 ^ (s + k) \<Longrightarrow> round_half_even m s \<le> 2 ^ k"
proof -
  assume "m < 2 ^ (s + k)"
  then have "m div 2 ^ s < 2 ^ k"
    by (simp add: power_add less_mult_imp_div_less mult.commute)
  then show ?thesis by (simp add: round_half_even_def Let_def)
qed

lemma float_repr_to_float: "float_repr (to_float d)"
proof (cases d)
  case (Fin s m e)
  let ?q = "max (-149) (e + int (bitlen m) - 24)"
  obtain m' e' where c: "canonical (round_half_even m (nat (?q - e))) ?q = (m', e')"
    by (cases "canonical (round_half_even m (nat (?q - e))) ?q")
  have "bitlen m \<le> nat (?q - e) + 24" by linarith
  then have "m < 2 ^ (nat (?q - e) + 24)" by (simp only: bitlen_le_iff)
  then have "round_half_even m (nat (?q - e)) \<le> 2 ^ 24" by (rule round_half_even_le)
  then have "m' < 2 ^ 24 \<and> -149 \<le> e'"
    by (rule canonical_bounds [OF c]) auto
  then have "bitlen m' \<le> 24 \<and> -149 \<le> e'" by (simp only: bitlen_le_iff)
  then show ?thesis using Fin c by (auto simp: Let_def)
qed simp

subsection \<open>Decoding is typed\<close>

lemma c_str_copy_no_nul: "CHR 0x00 \<notin> set (c_str_copy s)"
  by (auto simp: c_str_copy_def dest: set_takeWhileD)

lemma c_str_copy_id: "CHR 0x00 \<notin> set s \<Longrightarrow> c_str_copy s = s"
  unfolding c_str_copy_def by (subst takeWhile_eq_all_conv) auto

lemma adapter_read_wt: "adapter_read t j name = Inr v \<Longrightarrow> wt t v"
proof (induction t arbitrary: j v)
  case (TVec t)
  then obtain js vs where "etraverse (\<lambda>item. adapter_read t item name) js = Inr vs" "v = VVec vs"
    by (auto simp: ebind_eq_Inr split: json.splits)
  then show ?case using TVec.IH by (auto intro: etraverse_all)
qed (auto simp: float_repr_to_float c_str_copy_no_nul split: json.splits if_splits)

lemma wts_default [simp]: "wts fs (default_object fs)"
  by (induction fs) auto

lemma optional_backward_wt:
  assumes "optional_backward deser j name v0 = Inr v"
    and "\<And>w. deser j name = Inr w \<Longrightarrow> wt t w"
    and "case v0 of None \<Rightarrow> True | Some x \<Rightarrow> wt t x"
  shows "case v of None \<Rightarrow> True | Some x \<Rightarrow> wt t x"
  using assms
  by (auto simp: optional_backward_def ebind_eq_Inr split: if_splits option.splits json.splits)

lemma pod_backward_wt: "pod_backward t j name = Inr v \<Longrightarrow> wt t v"
  by (auto simp: pod_backward_def adapter_read_wt split: option.splits)

lemma deserialize_wt:
  "jdeserialize fs obj j = Inr vs \<Longrightarrow> wts fs obj \<Longrightarrow> wts fs vs"
  "json_deserialize t jl name = Inr v \<Longrightarrow> wt t v"
proof (induction fs obj j and t jl name arbitrary: vs and v
        rule: jdeserialize_json_deserialize.induct)
  case (2 name t fs obj j)
  then obtain w ws where
    w: "optional_backward (\<lambda>jl nm. json_deserialize t jl nm) j name
          (case obj of [] \<Rightarrow> None | v # _ \<Rightarrow> v) = Inr w"
    and ws: "jdeserialize fs (drop 1 obj) j = Inr ws" and vs: "vs = w # ws"
    by (auto simp: ebind_eq_Inr)
  from "2.prems"(2) obtain o' obj' where obj: "obj = o' # obj'" by (cases obj) auto
  have "case w of None \<Rightarrow> True | Some x \<Rightarrow> wt t x"
    by (rule optional_backward_wt [OF w]) (use "2.IH"(1) "2.prems"(2) obj in auto)
  moreover have "wts fs ws" using "2.IH"(2) [OF w ws] "2.prems"(2) obj by simp
  ultimately show ?case using vs by simp
next
  case (4 fs jl name)
  show ?case
  proof (cases "FindMember jl name")
    case None
    with "4.prems" show ?thesis by auto
  next
    case (Some m)
    then obtain items ws where m: "m = JArray items" and v: "v = VVec ws"
      and ws: "etraverse (\<lambda>jitem. ebind (jdeserialize fs (default_object fs) jitem)
                                     (\<lambda>vs. Inr (VStruct vs))) items = Inr ws"
      using "4.prems" by (cases m) (auto simp: ebind_eq_Inr)
    have "list_all (\<lambda>v. wt (TStruct fs) v) ws"
      by (rule etraverse_all [OF ws]) (use "4.IH" Some m in \<open>auto simp: ebind_eq_Inr\<close>)
    with v show ?thesis by simp
  qed
qed (auto simp: ebind_eq_Inr pod_backward_wt split: if_splits option.splits)

subsection \<open>Encoding and decoding are inverse\<close>

lemma json_forward_native: "is_native_type t \<Longrightarrow> json_forward t v = adapter_set v"
  by (cases "(t, v)" rule: json_forward.cases) auto

lemma adapter_roundtrip:
  "is_native_type t \<Longrightarrow> wt t v \<Longrightarrow> adapter_read t (adapter_set v) name = Inr v"
proof (induction t arbitrary: v)
  case (TVec t)
  then obtain vs where v: "v = VVec vs" and vs: "list_all (\<lambda>v. wt t v) vs" by (cases v) auto
  have "etraverse (\<lambda>item. adapter_read t item name) (map adapter_set vs) = Inr vs"
    by (rule etraverse_map_Inr) (use TVec vs in \<open>auto simp: list_all_iff\<close>)
  with v show ?case by simp
next
  case TFloat
  then show ?case by (cases v) (auto, case_tac x2, auto)
qed (case_tac v; auto simp: c_str_copy_id)+

lemma json_forward_not_null: "wt t v \<Longrightarrow> json_forward t v \<noteq> JNull"
  by (cases "(t, v)" rule: json_forward.cases; cases t; cases v) auto

lemma json_members_keys: "fst ` set (json_members fs vs) \<subseteq> fst ` set fs"
proof (induction fs arbitrary: vs)
  case (Cons f fs)
  then show ?case by (cases f; cases vs) (auto split: option.splits)
qed simp

lemma json_members_absent: "n \<notin> fst ` set fs \<Longrightarrow> map_of (json_members fs vs) n = None"
  using json_members_keys [of fs vs] by (auto simp: map_of_eq_None_iff)

lemma json_deserialize_native:
  "is_native_type t \<Longrightarrow> json_deserialize t jl name = pod_backward t jl name"
  by (cases "(t, jl, name)" rule: json_deserialize.cases) auto

lemma native_roundtrip:
  assumes "is_native_type t" and "wt t v" and "map_of ns name = Some (json_forward t v)"
  shows "json_deserialize t (JObject ns) name = Inr v"
  using assms
  by (simp add: json_deserialize_native json_forward_native pod_backward_def adapter_roundtrip)

lemma wt_scalar_native [simp]:
  "wt t (VInt i) \<Longrightarrow> is_native_type t" "wt t (VDouble d) \<Longrightarrow> is_native_type t"
  "wt t (VStr s) \<Longrightarrow> is_native_type t" "wt t (VBool b) \<Longrightarrow> is_native_type t"
  by (cases t; simp)+

lemma wts_Nil_iff [simp]: "wts fs [] \<longleftrightarrow> fs = []"
  by (cases fs) auto

lemma json_deserialize_struct_at:
  assumes "json_deserialize (TStruct fs) (JObject [(n, j)]) n = Inr v"
  shows "ebind (jdeserialize fs (default_object fs) j) (\<lambda>vs. Inr (VStruct vs)) = Inr v"
  using assms by simp

lemma roundtrip_aux:
  "wf_fields fs \<Longrightarrow> wts fs vs \<Longrightarrow> length obj = length fs \<Longrightarrow>
     (\<And>n. n \<in> fst ` set fs \<Longrightarrow> map_of ms n = map_of (json_members fs vs) n) \<Longrightarrow>
     jdeserialize fs obj (JObject ms) = Inr (overlay obj vs)"
  "wf_type t \<Longrightarrow> wt t v \<Longrightarrow> map_of ns name = Some (json_forward t v) \<Longrightarrow>
     json_deserialize t (JObject ns) name = Inr v"
proof (induction fs vs and t v arbitrary: obj ms and ns name
        rule: json_members_json_forward.induct)
  case (1 name t fs v vs)
  then obtain o' obj' where obj: "obj = o' # obj'" and len: "length obj' = length fs"
    by (cases obj) auto
  have new: "name \<notin> fst ` set fs" using "1.prems"(1) by simp
  have here: "map_of ms name = map_option (json_forward t) v"
    using "1.prems"(4) [of name] new by (cases v) (auto simp: json_members_absent)
  have "optional_backward (\<lambda>jl nm. json_deserialize t jl nm) (JObject ms) name o' =
          Inr (case v of None \<Rightarrow> o' | Some x \<Rightarrow> Some x)"
  proof (cases v)
    case None
    with here show ?thesis by (simp add: optional_backward_def)
  next
    case (Some x)
    then have "wt t x" using "1.prems"(2) by simp
    with Some here "1.IH"(1) [of x ms name] "1.prems"(1) json_forward_not_null [of t x]
    show ?thesis by (auto simp: optional_backward_def split: json.splits)
  qed
  moreover have "jdeserialize fs obj' (JObject ms) = Inr (overlay obj' vs)"
  proof (rule "1.IH"(2))
    fix n assume n: "n \<in> fst ` set fs"
    with new have "n \<noteq> name" by auto
    then show "map_of ms n = map_of (json_members fs vs) n"
      using "1.prems"(4) [of n] n by (auto split: option.splits)
  qed (use "1.prems" len in auto)
  ultimately show ?case by (simp add: obj)
next
  case (4 fs xs)
  have "etraverse (\<lambda>jitem. ebind (jdeserialize fs (default_object fs) jitem)
          (\<lambda>vs. Inr (VStruct vs))) (map (\<lambda>x. json_forward (TStruct fs) x) xs) = Inr xs"
  proof (rule etraverse_map_Inr)
    fix x assume x: "x \<in> set xs"
    have "json_deserialize (TStruct fs) (JObject [([], json_forward (TStruct fs) x)]) [] = Inr x"
      by (rule "4.IH" [OF x]) (use "4.prems" x in \<open>auto simp: list_all_iff\<close>)
    then show "ebind (jdeserialize fs (default_object fs) (json_forward (TStruct fs) x))
                 (\<lambda>vs. Inr (VStruct vs)) = Inr x"
      by (rule json_deserialize_struct_at)
  qed
  with "4.prems"(3) show ?case by simp
next
  case (3 fs vs)
  have "jdeserialize fs (default_object fs) (JObject (json_members fs vs)) =
          Inr (overlay (default_object fs) vs)"
    by (rule "3.IH") (use "3.prems" in auto)
  with "3.prems" show ?case by (simp add: overlay_default wts_length)
qed (auto intro!: native_roundtrip simp del: json_deserialize.simps json_forward.simps)

text \<open>Encoding a well-typed model object and decoding the result gives the object back.\<close>

theorem json_roundtrip:
  assumes "wf_fields fs" and "wts fs vs"
  shows "jdeserialize fs (default_object fs) (jserialize fs vs) = Inr vs"
  using roundtrip_aux(1) [OF assms, of "default_object fs" "json_members fs vs"]
  by (simp add: jserialize_def overlay_default wts_length [OF assms(2)])

theorem json_roundtrip_witness:
  "jdeserialize [(''id'', TInt), (''tags'', TVec TString)] [None, None]
     (jserialize [(''id'', TInt), (''tags'', TVec TString)] [Some (VInt 7), Some (VVec [VStr ''a''])]) =
   Inr [Some (VInt 7), Some (VVec [VStr ''a''])]"
  using json_roundtrip [of "[(''id'', TInt), (''tags'', TVec TString)]" "[Some (VInt 7), Some (VVec [VStr ''a''])]"]
  by (simp add: is_int32_def)

lemma jdeserialize_into:
  assumes "wf_fields fs" and "wts fs vs" and "length obj = length fs"
  shows "jdeserialize fs obj (jserialize fs vs) = Inr (overlay obj vs)"
  using roundtrip_aux(1) [OF assms, of "json_members fs vs"] by (simp add: jserialize_def)

lemma json_deserialize_local:
  assumes "map_of ns name = map_of ns' name" and "map_of ns name \<noteq> None"
  shows "json_deserialize t (JObject ns) name = json_deserialize t (JObject ns') name"
proof (cases "is_native_type t")
  case True
  with assms show ?thesis by (auto simp: json_deserialize_native pod_backward_def)
next
  case False
  with assms show ?thesis
    by (cases "(t, JObject ns, name)" rule: json_deserialize.cases)
      (auto simp: pod_backward_def split: option.splits)
qed

lemma optional_backward_local:
  assumes "map_of ns name = map_of ns' name"
  shows "optional_backward (\<lambda>jl nm. json_deserialize t jl nm) (JObject ns) name v =
         optional_backward (\<lambda>jl nm. json_deserialize t jl nm) (JObject ns') name v"
proof (cases "map_of ns name")
  case None
  with assms show ?thesis by (simp add: optional_backward_def)
next
  case (Some m)
  then have "json_deserialize t (JObject ns) name = json_deserialize t (JObject ns') name"
    by (intro json_deserialize_local assms) simp
  with Some assms [symmetric] show ?thesis
    by (simp add: optional_backward_def split: json.splits)
qed

text \<open>Decoding looks only at the first member of each declared name: members the model does
  not declare, and later duplicates, change nothing.\<close>

theorem jdeserialize_ignores_unknown:
  assumes "\<And>n. n \<in> fst ` set fs \<Longrightarrow> map_of ms n = map_of ms' n"
  shows "jdeserialize fs obj (JObject ms) = jdeserialize fs obj (JObject ms')"
  using assms
proof (induction fs arbitrary: obj)
  case (Cons f fs)
  obtain name t where f: "f = (name, t)" by (cases f)
  have "jdeserialize fs (drop 1 obj) (JObject ms) = jdeserialize fs (drop 1 obj) (JObject ms')"
    by (rule Cons.IH) (use Cons.prems in auto)
  then show ?case
    using optional_backward_local [of ms name ms'] Cons.prems [of name] by (simp add: f)
qed simp

theorem jdeserialize_ignores_unknown_witness:
  "jdeserialize [(''id'', TInt)] [None] (JObject [(''x'', JNull), (''id'', JInt 1), (''id'', JBool True)]) =
   jdeserialize [(''id'', TInt)] [None] (JObject [(''id'', JInt 1)])"
  using jdeserialize_ignores_unknown [of "[(''id'', TInt)]"
      "[(''x'', JNull), (''id'', JInt 1), (''id'', JBool True)]" "[(''id'', JInt 1)]" "[None]"]
  by simp

text \<open>A field that makes decoding fail: present, not null, and of the wrong type.\<close>

definition bad_member :: "(string \<times> json) list \<Rightarrow> string \<times> jtype \<Rightarrow> bool" where
  "bad_member ms f \<longleftrightarrow>
     (case map_of ms (fst f) of
        None \<Rightarrow> False
      | Some m \<Rightarrow> m \<noteq> JNull \<and>
                  isl (json_deserialize (snd f) (JObject ms) (fst f)))"

lemma optional_backward_isl:
  "isl (optional_backward (\<lambda>jl nm. json_deserialize t jl nm) (JObject ms) name v) \<longleftrightarrow>
     bad_member ms (name, t)"
  by (cases "json_deserialize t (JObject ms) name")
    (auto simp: optional_backward_def bad_member_def split: option.splits json.splits)


text \<open>C36. What decoding produces is well typed: integers in range, strings without NUL, floats
  of single precision, nested objects with all their fields.\<close>

theorem jdeserialize_typed:
  assumes "wts fs obj" and "jdeserialize fs obj j = Inr vs"
  shows "wts fs vs"
  using deserialize_wt(1) [OF assms(2,1)] .

theorem jdeserialize_typed_witness:
  "wts [(''id'', TInt)] [Some (VInt 5)]"
  using jdeserialize_typed [of "[(''id'', TInt)]" "[None]" "JObject [(''id'', JInt 5)]" "[Some (VInt 5)]"]
  by (simp add: optional_backward_def pod_backward_def is_int32_def)

subsection \<open>Reading a header out of a longer message\<close>

text \<open>
  A receiver first decodes a message with a header model whose members the full model declares
  as well: it sees the values those members have in the full object.
\<close>

definition value_at :: "fields \<Rightarrow> jval option list \<Rightarrow> string \<Rightarrow> jval option" where
  "value_at fs obj n = (case map_of (zip (map fst fs) obj) n of None \<Rightarrow> None | Some v \<Rightarrow> v)"

lemma value_at_simps [simp]:
  "value_at [] obj n = None"
  "value_at ((m, t) # fs) (v # obj) n = (if n = m then v else value_at fs obj n)"
  by (simp_all add: value_at_def)

lemma value_at_wt:
  "wf_fields fs \<Longrightarrow> wts fs obj \<Longrightarrow> (n, t) \<in> set fs \<Longrightarrow> value_at fs obj n = Some v \<Longrightarrow> wt t v"
proof (induction fs arbitrary: obj)
  case (Cons f fs)
  then show ?case by (cases f; cases obj) (auto split: if_splits, force)
qed simp

lemma json_members_at:
  "wf_fields fs \<Longrightarrow> wts fs obj \<Longrightarrow> (n, t) \<in> set fs \<Longrightarrow>
     map_of (json_members fs obj) n = map_option (json_forward t) (value_at fs obj n)"
proof (induction fs arbitrary: obj)
  case (Cons f fs)
  obtain m u where f: "f = (m, u)" by (cases f)
  obtain v obj' where obj: "obj = v # obj'" using Cons.prems(2) f by (cases obj) auto
  show ?case
  proof (cases "n = m")
    case True
    then have "m \<notin> fst ` set fs" "t = u" using Cons.prems f by force+
    with True show ?thesis by (cases v) (auto simp: f obj json_members_absent)
  next
    case False
    with Cons show ?thesis by (cases v) (auto simp: f obj)
  qed
qed simp

lemma value_at_absent: "n \<notin> fst ` set fs \<Longrightarrow> value_at fs obj n = None"
  by (auto simp: value_at_def split: option.splits dest!: map_of_SomeD set_zip_leftD)

definition header_of :: "fields \<Rightarrow> fields \<Rightarrow> bool" where
  "header_of hs fs \<longleftrightarrow> list_all (\<lambda>(n, t). (n, t) \<in> set fs \<or> n \<notin> fst ` set fs) hs"

lemma wts_project:
  assumes "wf_fields fs" and "wts fs obj" and "header_of hs fs"
  shows "wts hs (map (\<lambda>(n, t). value_at fs obj n) hs)"
  using assms(3) unfolding header_of_def
  by (induction hs)
    (auto split: option.splits intro: value_at_wt [OF assms(1,2)] simp: value_at_absent)

lemma decode_header:
  assumes "wf_fields fs" and "wts fs obj" and "wf_fields hs" and "header_of hs fs"
  shows "jdeserialize hs (default_object hs) (jserialize fs obj) =
    Inr (map (\<lambda>(n, t). value_at fs obj n) hs)"
proof -
  let ?vs = "map (\<lambda>(n, t). value_at fs obj n) hs"
  have vs: "wts hs ?vs" by (rule wts_project [OF assms(1,2,4)])
  have at: "value_at hs ?vs n = value_at fs obj n" if "(n, t) \<in> set hs" for n t
    using that by (induction hs) auto
  have "map_of (json_members fs obj) n = map_of (json_members hs ?vs) n" if "n \<in> fst ` set hs" for n
  proof -
    from that obtain t where t: "(n, t) \<in> set hs" by auto
    with assms(4) consider "(n, t) \<in> set fs" | "n \<notin> fst ` set fs"
      by (auto simp: header_of_def list_all_iff)
    then show ?thesis
    proof cases
      case 1
      then show ?thesis
        by (simp add: json_members_at [OF assms(1,2)] json_members_at [OF assms(3) vs t] at [OF t])
    next
      case 2
      then show ?thesis
        by (simp add: json_members_absent json_members_at [OF assms(3) vs t] at [OF t] value_at_absent)
    qed
  qed
  then have "jdeserialize hs (default_object hs) (JObject (json_members fs obj)) =
      Inr (overlay (default_object hs) ?vs)"
    by (intro roundtrip_aux(1) assms(3) vs) simp_all
  then show ?thesis by (simp add: jserialize_def overlay_default)
qed

text \<open>A \<^verbatim>\<open>double\<close> member is read only from a JSON number written with a fraction or an exponent:
  \<^verbatim>\<open>IsDouble\<close> is false for an integral literal.\<close>

lemma double_member_rejects_integer:
  "adapter_read TDouble (JInt i) name = Inl (JsonTypeMismatch (JInt i) name)"
  by simp

end
