(* ===== verification/Json_Map.thy ===== *)
theory Json_Map
  imports Json "HOL-Library.Char_ord" "HOL-Library.List_Lexorder"
begin

text \<open>
  The \<^verbatim>\<open>std::map<std::string, T>\<close> side of the codec in \<^verbatim>\<open>core/json/serialization.hpp\<close>: the overloads of
  \<^verbatim>\<open>JsonValueAdapter\<close> for maps of native types, \<^verbatim>\<open>JsonSerializerMap\<close> for maps of models, the
  variant of \<open>fromJsonString\<close> that checks for an object, enumerations, parameter packs and error texts.

  A \<^verbatim>\<open>std::map\<close> is an association list in ascending order of its keys (\<open>smap\<close>); the order is that of
  the character codes. \<open>rd\<close> and \<open>wr\<close> read and write one mapped value: \<open>adapter_read\<close> and
  \<open>adapter_set\<close> of a native type, or \<open>jdeserialize\<close> and \<open>jserialize\<close> of a model.
\<close>

subsection \<open>Ordered maps\<close>

type_synonym 'v smap = "(string \<times> 'v) list"

fun smap_put :: "string \<Rightarrow> 'v \<Rightarrow> 'v smap \<Rightarrow> 'v smap" where
  "smap_put k v [] = [(k, v)]"
| "smap_put k v ((k', v') # m) =
     (if k < k' then (k, v) # (k', v') # m else if k = k' then (k, v) # m else (k', v') # smap_put k v m)"

definition smap_ok :: "'v smap \<Rightarrow> bool" where
  "smap_ok m \<longleftrightarrow> sorted_wrt (<) (map fst m)"

subsection \<open>Reading and writing\<close>

fun read_members :: "(json \<Rightarrow> string \<Rightarrow> jerr + 'v) \<Rightarrow> (string \<times> json) list \<Rightarrow> 'v smap \<Rightarrow> jerr + 'v smap" where
  "read_members rd [] m = Inr m"
| "read_members rd ((k, j) # ms) m = ebind (rd j k) (\<lambda>v. read_members rd ms (smap_put k v m))"

definition adapter_read_map :: "jtype \<Rightarrow> json \<Rightarrow> string \<Rightarrow> jerr + jval smap" where
  "adapter_read_map t j name =
     (case j of
        JObject ms \<Rightarrow> read_members (\<lambda>item k. adapter_read t item k) ms []
      | _ \<Rightarrow> Inl (JsonTypeMismatch j name))"

definition adapter_set_map :: "jval smap \<Rightarrow> json" where
  "adapter_set_map m = JObject (map (\<lambda>(k, v). (k, adapter_set v)) m)"

text \<open>\<open>forward\<close> adds the member to the document \<open>jlist\<close>, an object.\<close>

definition JsonSerializerMap_forward :: "('v \<Rightarrow> json) \<Rightarrow> json \<Rightarrow> string \<Rightarrow> 'v smap \<Rightarrow> json" where
  "JsonSerializerMap_forward wr jlist name m =
     (case jlist of
        JObject ms \<Rightarrow> JObject (ms @ [(name, JObject (map (\<lambda>(k, v). (k, wr v)) m))])
      | _ \<Rightarrow> jlist)"

text \<open>A missing member leaves the cleared map. The keys of a parsed object are strings.\<close>

definition JsonSerializerMap_backward :: "(json \<Rightarrow> jerr + 'v) \<Rightarrow> json \<Rightarrow> string \<Rightarrow> jerr + 'v smap" where
  "JsonSerializerMap_backward rd jlist name =
     (case FindMember jlist name of
        None \<Rightarrow> Inr []
      | Some (JObject ms) \<Rightarrow> read_members (\<lambda>item k. rd item) ms []
      | Some other \<Rightarrow> Inl (JsonTypeMismatch other name))"

text \<open>\<open>fromJsonString(data, bCheckValidObject)\<close>: a null pointer when the check refuses the document.\<close>

definition fromJsonString_checked ::
  "(string \<Rightarrow> json option) \<Rightarrow> fields \<Rightarrow> bool \<Rightarrow> string \<Rightarrow> jerr + jval option list option" where
  "fromJsonString_checked parse fs bCheckValidObject data =
     ebind (stringToJson parse data) (\<lambda>j.
       if bCheckValidObject \<and> \<not> IsObject j then Inr None
       else ebind (jdeserialize fs (default_object fs) j) (\<lambda>x. Inr (Some x)))"

subsection \<open>Ordered maps are keyed stores\<close>

lemma smap_put_find: "map_of (smap_put k v m) k' = (if k' = k then Some v else map_of m k')" if "smap_ok m"
  using that by (induction k v m rule: smap_put.induct) (auto simp: smap_ok_def)

lemma smap_put_keys: "fst ` set (smap_put k v m) = insert k (fst ` set m)"
  by (induction k v m rule: smap_put.induct) auto

lemma smap_put_ok: "smap_ok m \<Longrightarrow> smap_ok (smap_put k v m)"
proof (induction k v m rule: smap_put.induct)
  case (2 k v k' v' m)
  then have "\<forall>x \<in> fst ` set (smap_put k v m). k' < x" if "k' < k"
    using that by (auto simp: smap_ok_def smap_put_keys)
  with 2 show ?case by (auto simp: smap_ok_def)
qed (simp add: smap_ok_def)

lemma smap_put_last:
  "smap_ok (m @ [(k, v)]) \<Longrightarrow> smap_put k v m = m @ [(k, v)]"
proof (induction k v m rule: smap_put.induct)
  case (2 k v k' v' m)
  then have "k' < k" by (auto simp: smap_ok_def)
  with 2 show ?case by (auto simp: smap_ok_def)
qed simp

subsection \<open>Round trip\<close>

lemma read_members_write:
  assumes "\<And>k v. (k, v) \<in> set m \<Longrightarrow> rd (wr v) k = Inr v" and "smap_ok (m0 @ m)"
  shows "read_members rd (map (\<lambda>(k, v). (k, wr v)) m) m0 = Inr (m0 @ m)"
  using assms
proof (induction m arbitrary: m0)
  case (Cons e m)
  obtain k v where e: "e = (k, v)" by (cases e)
  have "smap_ok (m0 @ [(k, v)])" using Cons.prems(2) by (auto simp: smap_ok_def e sorted_wrt_append)
  then have put: "smap_put k v m0 = m0 @ [(k, v)]" by (rule smap_put_last)
  show ?case using Cons.prems Cons.IH [of "m0 @ [(k, v)]"] by (simp add: e put)
qed simp

text \<open>A member name that occurs more than once counts with its last value.\<close>

lemma read_members_find:
  "read_members rd ms m = Inr m' \<Longrightarrow> smap_ok m \<Longrightarrow>
   smap_ok m' \<and> (\<forall>k. case map_of (rev ms) k of None \<Rightarrow> map_of m' k = map_of m k | Some j \<Rightarrow> \<exists>v. rd j k = Inr v \<and> map_of m' k = Some v)"
proof (induction rd ms m rule: read_members.induct)
  case (2 rd k j ms m)
  then obtain v where v: "rd j k = Inr v" and rest: "read_members rd ms (smap_put k v m) = Inr m'"
    by (auto simp: ebind_eq_Inr)
  have "smap_ok m'" and IH: "\<And>k'. case map_of (rev ms) k' of None \<Rightarrow> map_of m' k' = map_of (smap_put k v m) k'
      | Some j \<Rightarrow> \<exists>v. rd j k' = Inr v \<and> map_of m' k' = Some v"
    using 2(1) [OF v rest smap_put_ok [OF 2(3)]] by auto
  moreover have "case map_of (rev ((k, j) # ms)) k' of None \<Rightarrow> map_of m' k' = map_of m k'
      | Some j \<Rightarrow> \<exists>v. rd j k' = Inr v \<and> map_of m' k' = Some v" for k'
    using IH [of k'] v by (auto simp: map_add_def smap_put_find [OF 2(3)] split: option.splits if_splits)
  ultimately show ?case by blast
qed simp

text \<open>A map written into a document is read back as it was, whatever else the document holds under other
  names, when its mapped values survive on their own; and whatever a document holds, the result of
  reading a map is ordered and, of a name that is repeated, has the last value.\<close>

theorem map_roundtrip:
  assumes "smap_ok m" and "\<And>k v. (k, v) \<in> set m \<Longrightarrow> rd (wr v) = Inr v" and "FindMember (JObject ms) name = None"
  shows "JsonSerializerMap_backward rd (JsonSerializerMap_forward wr (JObject ms) name m) name = Inr m \<and>
    (\<forall>j m'. JsonSerializerMap_backward rd j name = Inr m' \<longrightarrow> smap_ok m' \<and>
       (\<forall>members k v. FindMember j name = Some (JObject (members @ [(k, v)])) \<longrightarrow> (\<exists>x. rd v = Inr x \<and> map_of m' k = Some x)))"
proof (intro conjI allI impI)
  have find: "map_of (ms @ [(name, x)]) name = Some x" for x
    using assms(3) by (simp add: map_add_def)
  have "read_members (\<lambda>item k. rd item) (map (\<lambda>(k, v). (k, wr v)) m) [] = Inr ([] @ m)"
    by (rule read_members_write) (use assms(1, 2) in auto)
  then show "JsonSerializerMap_backward rd (JsonSerializerMap_forward wr (JObject ms) name m) name = Inr m"
    by (simp add: JsonSerializerMap_backward_def JsonSerializerMap_forward_def find del: map_of_append)
next
  fix j m'
  assume r: "JsonSerializerMap_backward rd j name = Inr m'"
  show "smap_ok m'"
    using r read_members_find [of "\<lambda>item k. rd item" _ "[]" m']
    by (auto simp: JsonSerializerMap_backward_def smap_ok_def split: option.splits json.splits)
  fix members k v
  assume "FindMember j name = Some (JObject (members @ [(k, v)]))"
  then have "read_members (\<lambda>item k. rd item) (members @ [(k, v)]) [] = Inr m'"
    using r by (simp add: JsonSerializerMap_backward_def)
  from read_members_find [OF this] show "\<exists>x. rd v = Inr x \<and> map_of m' k = Some x"
    by (auto simp: smap_ok_def dest: spec [of _ k])
qed

theorem map_roundtrip_witness:
  "JsonSerializerMap_backward (\<lambda>j. adapter_read TInt j ''m'')
     (JsonSerializerMap_forward adapter_set (JObject [(''x'', JNull)]) ''m'' [(''a'', VInt 1), (''b'', VInt 2)]) ''m'' =
   Inr [(''a'', VInt 1), (''b'', VInt 2)]"
proof -
  have 1: "smap_ok [(''a'', VInt 1), (''b'', VInt 2)]" by (simp add: smap_ok_def less_char_def)
  have 2: "adapter_read TInt (adapter_set v) ''m'' = Inr v" if "(k, v) \<in> set [(''a'', VInt 1), (''b'', VInt 2)]" for k v
    using that by (auto simp: is_int32_def)
  have 3: "FindMember (JObject [(''x'', JNull)]) ''m'' = None" by simp
  show ?thesis by (rule map_roundtrip [THEN conjunct1, OF 1 2 3])
qed

lemma adapter_map_roundtrip:
  assumes "smap_ok m" and "\<And>k v. (k, v) \<in> set m \<Longrightarrow> adapter_read t (adapter_set v) k = Inr v"
  shows "adapter_read_map t (adapter_set_map m) name = Inr m"
  using read_members_write [of m "\<lambda>item k. adapter_read t item k" adapter_set "[]"] assms
  by (simp add: adapter_read_map_def adapter_set_map_def)

subsection \<open>Enumerations and models without members\<close>

text \<open>
  \<^verbatim>\<open>JsonSerializerPod\<close> for an enumeration. \<open>forward\<close> assigns through rapidjson's \<^verbatim>\<open>operator[]\<close>, which
  asserts that the member exists and, with assertions off (\<open>checked\<close> is false), hands out a value
  outside the document. \<open>backward\<close> reads the member with \<^verbatim>\<open>GetInt64\<close>, which asserts that it is an
  integer; without assertions the bits of whatever value it is are read (\<open>raw\<close>). \<open>None\<close> is a failed
  assertion.
\<close>

definition enum_forward :: "bool \<Rightarrow> json \<Rightarrow> string \<Rightarrow> int \<Rightarrow> json option" where
  "enum_forward checked jlist name value =
     (case jlist of
        JObject ms \<Rightarrow>
          (case map_of ms name of
             Some _ \<Rightarrow> Some (JObject (AList.update name (JInt value) ms))
           | None \<Rightarrow> if checked then None else Some jlist)
      | _ \<Rightarrow> if checked then None else Some jlist)"

definition enum_backward :: "bool \<Rightarrow> (json \<Rightarrow> int) \<Rightarrow> json \<Rightarrow> string \<Rightarrow> (jerr + int) option" where
  "enum_backward checked raw jlist name =
     (case FindMember jlist name of
        None \<Rightarrow> Some (Inl (JsonMissingKey jlist name))
      | Some (JInt i) \<Rightarrow> if is_int64 i then Some (Inr i) else if checked then None else Some (Inr (raw (JInt i)))
      | Some j \<Rightarrow> if checked then None else Some (Inr (raw j)))"

text \<open>\<^verbatim>\<open>JSON_NO_SERIALIZE\<close>: nothing is written and nothing is read.\<close>

definition no_serialize :: json where
  "no_serialize = JNull"

definition no_deserialize :: "'a \<Rightarrow> json \<Rightarrow> 'a" where
  "no_deserialize model j = model"

text \<open>
  An enumeration is never written: \<^verbatim>\<open>json_serialize\<close> hands over a document that does not have the
  member yet, where \<open>forward\<close> fails its assertion or, without assertions, changes nothing, and
  reading the document then reports the missing member. Only a member that is already there is
  replaced, and then reads back as it was written.
\<close>

theorem enum_never_written:
  "(map_of ms name = None \<longrightarrow>
      enum_forward True (JObject ms) name value = None \<and>
      enum_forward False (JObject ms) name value = Some (JObject ms) \<and>
      enum_backward checked raw (JObject ms) name = Some (Inl (JsonMissingKey (JObject ms) name)))
   \<and> (map_of ms name \<noteq> None \<and> is_int64 value \<longrightarrow>
      (\<exists>j. enum_forward checked (JObject ms) name value = Some j \<and> enum_backward checked raw j name = Some (Inr value)))"
  by (auto simp: enum_forward_def enum_backward_def update_conv)


subsection \<open>Parameter packs\<close>

text \<open>
  \<^verbatim>\<open>json_serialize\<close> and \<^verbatim>\<open>json_deserialize\<close> can also be given names and variables that are not
  optional, as \<^verbatim>\<open>toJson(params...)\<close> and the macro \<^verbatim>\<open>JSON_NO_DSERIALIZE\<close> do. The serializer is selected
  from three traits of the type.
\<close>

datatype serializer = JsonSerializerPod | JsonSerializer | JsonSerializerVector | JsonSerializerMap

fun is_vector :: "jtype \<Rightarrow> bool" where
  "is_vector (TVec t) = True"
| "is_vector _ = False"

definition is_supported_container :: "jtype \<Rightarrow> bool" where
  "is_supported_container t \<longleftrightarrow> is_vector t"

definition select_serializer :: "jtype \<Rightarrow> serializer" where
  "select_serializer t =
     (if is_native_type t then JsonSerializerPod
      else if \<not> is_supported_container t then JsonSerializer
      else if is_vector t then JsonSerializerVector
      else JsonSerializerMap)"

definition toJson :: "(string \<times> jtype \<times> jval) list \<Rightarrow> json" where
  "toJson params = JObject (map (\<lambda>(name, t, v). (name, json_forward t v)) params)"

definition toJsonString_params :: "(json \<Rightarrow> string) \<Rightarrow> (string \<times> jtype \<times> jval) list \<Rightarrow> string" where
  "toJsonString_params print params = print (toJson params)"

fun json_deserialize_params :: "(string \<times> jtype) list \<Rightarrow> json \<Rightarrow> jerr + jval list" where
  "json_deserialize_params [] jlist = Inr []"
| "json_deserialize_params ((name, t) # tail) jlist =
     ebind (json_deserialize t jlist name) (\<lambda>v. ebind (json_deserialize_params tail jlist) (\<lambda>vs. Inr (v # vs)))"

text \<open>The selection agrees with the equations of \<open>json_forward\<close> and \<open>json_deserialize\<close>, which match on the
  type; there is no map among the member types.\<close>

lemma selection_forward:
  assumes "wf_type t" and "wt t v"
  shows "json_forward t v =
    (case select_serializer t of
       JsonSerializerPod \<Rightarrow> adapter_set v
     | JsonSerializer \<Rightarrow> (case (t, v) of (TStruct fs, VStruct vs) \<Rightarrow> jserialize fs vs | _ \<Rightarrow> JNull)
     | JsonSerializerVector \<Rightarrow>
         (case (t, v) of (TVec (TStruct fs), VVec xs) \<Rightarrow>
            JArray (map (\<lambda>x. case x of VStruct vs \<Rightarrow> jserialize fs vs | _ \<Rightarrow> JNull) xs) | _ \<Rightarrow> JNull)
     | JsonSerializerMap \<Rightarrow> JNull)"
proof (cases "is_native_type t")
  case True
  then show ?thesis by (simp add: select_serializer_def json_forward_native)
next
  case False
  then consider (model) fs vs where "t = TStruct fs" "v = VStruct vs" | (vector) fs xs where "t = TVec (TStruct fs)" "v = VVec xs"
    using assms by (cases "(t, v)" rule: wt.cases) (auto elim: is_struct.elims)
  then show ?thesis
  proof cases
    case vector
    have "json_forward (TStruct fs) x = (case x of VStruct vs \<Rightarrow> jserialize fs vs | _ \<Rightarrow> JNull)" if "x \<in> set xs" for x
      using assms(2) that by (cases x) (auto simp: vector list_all_iff jserialize_def)
    then show ?thesis by (simp add: vector select_serializer_def is_supported_container_def)
  qed (simp add: select_serializer_def is_supported_container_def jserialize_def)
qed

lemma toJson_member:
  "distinct (map fst params) \<Longrightarrow> (name, t, v) \<in> set params \<Longrightarrow> FindMember (toJson params) name = Some (json_forward t v)"
  by (force simp: toJson_def map_of_eq_Some_iff comp_def split_beta)

text \<open>
  Variables written by one pack are read back by a pack of the same names and types, in any order
  and any selection. A variable whose member is missing is an error here, unlike an optional one,
  except for a vector of models, which is emptied.
\<close>

theorem params_roundtrip:
  assumes "distinct (map fst params)" and "\<And>name t v. (name, t, v) \<in> set params \<Longrightarrow> wf_type t \<and> wt t v"
    and "set sel \<subseteq> set params"
  shows "json_deserialize_params (map (\<lambda>(name, t, v). (name, t)) sel) (toJson params) = Inr (map (\<lambda>(name, t, v). v) sel)"
  using assms(3)
proof (induction sel)
  case (Cons p sel)
  obtain name t v where p: "p = (name, t, v)" by (cases p)
  have "(name, t, v) \<in> set params" using Cons.prems p by simp
  then have "json_deserialize t (toJson params) name = Inr v"
    unfolding toJson_def using toJson_member [OF assms(1)] assms(2) by (intro roundtrip_aux(2)) (auto simp: toJson_def)
  then show ?case using Cons by (simp add: p)
qed simp

lemma params_missing:
  assumes "IsObject j" and "FindMember j name = None"
  shows "json_deserialize_params ((name, t) # tail) j =
    (if \<exists>fs. t = TVec (TStruct fs)
     then ebind (json_deserialize_params tail j) (\<lambda>vs. Inr (VVec [] # vs))
     else Inl (JsonMissingKey j name))"
  using assms by (cases "(t, j, name)" rule: json_deserialize.cases) (auto simp: pod_backward_def)

subsection \<open>Error texts\<close>

text \<open>
  What the exceptions say, and \<^verbatim>\<open>fromJsonString(data, error)\<close> with the text it assigns to \<^verbatim>\<open>error\<close>. All
  its callers test that text for being empty.
\<close>

fun jerr_what :: "(json \<Rightarrow> string) \<Rightarrow> jerr \<Rightarrow> string" where
  "jerr_what to_string (JsonParsingFailed raw) = ''raw:'' @ raw @ [CHR 0x0D, CHR 0x0A] @ ''with error:'' @ [CHR 0x0D, CHR 0x0A]"
| "jerr_what to_string (JsonMissingKey j name) =
     ''JsonMissingKey:'' @ name @ [CHR 0x0D, CHR 0x0A] @ ''with json:'' @ [CHR 0x0D, CHR 0x0A] @ to_string j"
| "jerr_what to_string (JsonTypeMismatch j name) =
     ''JsonTypeMismatch:'' @ name @ [CHR 0x0D, CHR 0x0A] @ ''with json:'' @ [CHR 0x0D, CHR 0x0A] @ to_string j"

definition fromJsonString_error ::
  "(json \<Rightarrow> string) \<Rightarrow> (string \<Rightarrow> json option) \<Rightarrow> fields \<Rightarrow> string \<Rightarrow> string \<Rightarrow> string" where
  "fromJsonString_error to_string parse fs data error =
     (case fromJsonString parse fs (default_object fs) data of
        Inl e \<Rightarrow> c_str_copy (jerr_what to_string e)
      | Inr _ \<Rightarrow> error)"

text \<open>The text is empty exactly when decoding went well, so that testing it is testing the sum; an error
  text left over from an earlier call makes a later one look failed.\<close>

lemma jerr_what_nonempty: "c_str_copy (jerr_what to_string e) \<noteq> []"
  by (cases e) (auto simp: c_str_copy_def)

theorem error_text_decides:
  "(fromJsonString_error to_string parse fs data error = [] \<longleftrightarrow>
     error = [] \<and> \<not> isl (fromJsonString parse fs (default_object fs) data))"
  by (cases "fromJsonString parse fs (default_object fs) data")
    (simp_all add: fromJsonString_error_def jerr_what_nonempty)

subsection \<open>Documents and texts\<close>

text \<open>\<^verbatim>\<open>stringable<rapidjson::Document>\<close>: the parser is given a C string; a failed parse is the document with
  its error set (\<open>None\<close>), and a \<^verbatim>\<open>rapidjson::Value\<close> cannot be read back at all.\<close>

definition Document_to_string :: "(json \<Rightarrow> string) \<Rightarrow> json \<Rightarrow> string" where
  "Document_to_string print j = c_str_copy (print j)"

definition Document_convert_back :: "(string \<Rightarrow> json option) \<Rightarrow> string \<Rightarrow> json option" where
  "Document_convert_back parse s = parse (c_str_copy s)"

lemma document_roundtrip:
  "parse (print j) = Some j \<Longrightarrow> CHR 0x00 \<notin> set (print j) \<Longrightarrow> Document_convert_back parse (Document_to_string print j) = Some j"
  by (simp add: Document_to_string_def Document_convert_back_def c_str_copy_id)

end
