(* ===== verification/String_Algo.thy ===== *)
theory String_Algo
  imports Prelude "HOL-Library.Sublist"
begin

text \<open>
  The string algorithms of \<^verbatim>\<open>core/json/string_algo.hpp\<close> and \<^verbatim>\<open>core/utils/string_utils.cpp\<close>, on
  \<^verbatim>\<open>std::string\<close> arguments. Iterators into a text are offsets; the end iterator is the length.
  Reading \<^verbatim>\<open>text[text.size()]\<close> gives the character NUL, on which the loops of \<open>equals\<close> and
  \<open>startsWith\<close> stop. \<open>replace\<close> is a loop that need not end, so it is a partial function: \<open>None\<close>
  means that the call does not return.

  The lemmas compare each routine with its textbook counterpart (\<open>sublist\<close>, \<open>prefix\<close>, a
  structural replacement), say exactly when \<open>replace\<close> returns, and that numbers survive the trip
  through their decimal text.
\<close>

subsection \<open>Comparing characters\<close>

abbreviation NUL :: char where
  "NUL \<equiv> CHR 0x00"

text \<open>The number of a plain \<^verbatim>\<open>char\<close>, which is signed.\<close>

definition char_int :: "char \<Rightarrow> int" where
  "char_int c = (let n = int (of_char c) in if 128 \<le> n then n - 256 else n)"

text \<open>\<^verbatim>\<open>std::toupper\<close> in the "C" locale.\<close>

definition toupper :: "char \<Rightarrow> char" where
  "toupper c = (if 97 \<le> (of_char c :: nat) \<and> (of_char c :: nat) \<le> 122
                then char_of ((of_char c :: nat) - 32) else c)"

definition CharEqual :: "char \<Rightarrow> char \<Rightarrow> bool" where
  "CharEqual c1 c2 \<longleftrightarrow> c1 = c2"

definition ICharEqual :: "char \<Rightarrow> char \<Rightarrow> bool" where
  "ICharEqual c1 c2 \<longleftrightarrow> toupper c1 = toupper c2"

subsection \<open>Searching\<close>

fun prefix_by :: "('a \<Rightarrow> 'a \<Rightarrow> bool) \<Rightarrow> 'a list \<Rightarrow> 'a list \<Rightarrow> bool" where
  "prefix_by p xs [] \<longleftrightarrow> True"
| "prefix_by p [] (y # ys) \<longleftrightarrow> False"
| "prefix_by p (x # xs) (y # ys) \<longleftrightarrow> p x y \<and> prefix_by p xs ys"

text \<open>\<^verbatim>\<open>std::search(first, last, s_first, s_last, p)\<close> as an offset from \<^verbatim>\<open>first\<close>.\<close>

fun std_search :: "('a \<Rightarrow> 'a \<Rightarrow> bool) \<Rightarrow> 'a list \<Rightarrow> 'a list \<Rightarrow> nat" where
  "std_search p [] sub = 0"
| "std_search p (x # xs) sub = (if prefix_by p (x # xs) sub then 0 else Suc (std_search p xs sub))"

definition contains_by :: "(char \<Rightarrow> char \<Rightarrow> bool) \<Rightarrow> string \<Rightarrow> string \<Rightarrow> bool" where
  "contains_by p text1 subText \<longleftrightarrow> std_search p text1 subText \<noteq> length text1"

definition contains :: "string \<Rightarrow> string \<Rightarrow> bool" where
  "contains = contains_by CharEqual"

definition icontains :: "string \<Rightarrow> string \<Rightarrow> bool" where
  "icontains = contains_by ICharEqual"

definition find_after_by :: "(char \<Rightarrow> char \<Rightarrow> bool) \<Rightarrow> string \<Rightarrow> string \<Rightarrow> nat" where
  "find_after_by p text1 subText =
     (let it = std_search p text1 subText
      in if length text1 = it then it else it + length subText)"

definition find_after :: "string \<Rightarrow> string \<Rightarrow> nat" where
  "find_after = find_after_by CharEqual"

definition ifind_after :: "string \<Rightarrow> string \<Rightarrow> nat" where
  "ifind_after = find_after_by ICharEqual"

subsection \<open>Comparing texts\<close>

fun equals_by :: "(char \<Rightarrow> char \<Rightarrow> bool) \<Rightarrow> string \<Rightarrow> string \<Rightarrow> bool" where
  "equals_by p (a # as) (b # bs) =
     (if a \<noteq> NUL \<and> b \<noteq> NUL then (if p a b then equals_by p as bs else False) else True)"
| "equals_by p _ _ = True"

definition equals :: "string \<Rightarrow> string \<Rightarrow> bool" where
  "equals = equals_by CharEqual"

definition iequals :: "string \<Rightarrow> string \<Rightarrow> bool" where
  "iequals = equals_by ICharEqual"

text \<open>
  When the first text is exhausted, its terminating NUL is compared with a character that is not
  NUL; both predicates answer false.
\<close>

fun startsWith_by :: "(char \<Rightarrow> char \<Rightarrow> bool) \<Rightarrow> string \<Rightarrow> string \<Rightarrow> bool" where
  "startsWith_by p as [] = True"
| "startsWith_by p [] (b # bs) = (b = NUL)"
| "startsWith_by p (a # as) (b # bs) =
     (if b \<noteq> NUL then (if p a b then startsWith_by p as bs else False) else True)"

definition startsWith :: "string \<Rightarrow> string \<Rightarrow> bool" where
  "startsWith = startsWith_by CharEqual"

definition istartsWith :: "string \<Rightarrow> string \<Rightarrow> bool" where
  "istartsWith = startsWith_by ICharEqual"

subsection \<open>Replacing\<close>

text \<open>\<open>rest\<close> is the range from \<^verbatim>\<open>posLast\<close> to the end.\<close>

partial_function (option) replace_loop ::
  "(char \<Rightarrow> char \<Rightarrow> bool) \<Rightarrow> string \<Rightarrow> string \<Rightarrow> string \<Rightarrow> string \<Rightarrow> string option" where
  "replace_loop p subText newText rest result =
     (let pos = std_search p rest subText in
      if pos \<noteq> length rest
      then replace_loop p subText newText (drop (pos + length subText) rest) (result @ take pos rest @ newText)
      else Some (result @ rest))"

declare replace_loop.simps [code]

definition replace_by :: "(char \<Rightarrow> char \<Rightarrow> bool) \<Rightarrow> string \<Rightarrow> string \<Rightarrow> string \<Rightarrow> string option" where
  "replace_by p text1 subText newText = replace_loop p subText newText text1 []"

definition replace :: "string \<Rightarrow> string \<Rightarrow> string \<Rightarrow> string option" where
  "replace = replace_by CharEqual"

definition ireplace :: "string \<Rightarrow> string \<Rightarrow> string \<Rightarrow> string option" where
  "ireplace = replace_by ICharEqual"

subsection \<open>Texts of values\<close>

text \<open>\<^verbatim>\<open>std::stringstream << value\<close> for an integer, in decimal.\<close>

fun decimal :: "nat \<Rightarrow> string" where
  "decimal n = (if n < 10 then [char_of (48 + n)] else decimal (n div 10) @ [char_of (48 + n mod 10)])"

declare decimal.simps [simp del]

definition convert_primitive :: "int \<Rightarrow> string" where
  "convert_primitive i = (if i < 0 then CHR ''-'' # decimal (nat (- i)) else decimal (nat i))"

definition isspace :: "char \<Rightarrow> bool" where
  "isspace c \<longleftrightarrow> c \<in> {CHR '' '', CHR 0x09, CHR 0x0A, CHR 0x0B, CHR 0x0C, CHR 0x0D}"

definition isdigit :: "char \<Rightarrow> bool" where
  "isdigit c \<longleftrightarrow> 48 \<le> (of_char c :: nat) \<and> (of_char c :: nat) \<le> 57"

fun digits_value :: "nat \<Rightarrow> string \<Rightarrow> nat" where
  "digits_value acc [] = acc"
| "digits_value acc (c # cs) = digits_value (10 * acc + (of_char c - 48)) cs"

text \<open>
  \<^verbatim>\<open>stream >> r\<close> for a signed integer between \<open>lo\<close> and \<open>hi\<close>: white space is skipped, a sign and
  digits are read; without digits the result is 0, and a number out of range is clamped. When
  nothing but white space is there, \<^verbatim>\<open>r\<close> is not assigned and the result is indeterminate (\<open>None\<close>).
\<close>

definition convert_back :: "int \<Rightarrow> int \<Rightarrow> string \<Rightarrow> int option" where
  "convert_back lo hi s =
     (let t = dropWhile isspace s;
          (neg, u) = (case t of c # cs \<Rightarrow> if c = CHR ''-'' then (True, cs) else if c = CHR ''+'' then (False, cs) else (False, t)
                      | [] \<Rightarrow> (False, []));
          ds = takeWhile isdigit u;
          v = int (digits_value 0 ds)
      in if t = [] then None else if ds = [] then Some 0 else Some (max lo (min hi (if neg then - v else v))))"

definition lexical_cast_int :: "string \<Rightarrow> int option" where
  "lexical_cast_int = convert_back (- (2 ^ 31)) (2 ^ 31 - 1)"

text \<open>\<^verbatim>\<open>to_string\<close> of a container: every element with a separator, the last separator popped.\<close>

definition to_string_list :: "('a \<Rightarrow> string) \<Rightarrow> char \<Rightarrow> 'a list \<Rightarrow> string" where
  "to_string_list to_string separator values =
     (if values = [] then [] else butlast (concat (map (\<lambda>e. to_string e @ [separator]) values)))"

fun combineString :: "string list \<Rightarrow> string" where
  "combineString [] = []"
| "combineString [head] = head"
| "combineString (head # parameters) = head @ combineString parameters"

text \<open>\<^verbatim>\<open>randomString(len)\<close>: \<open>dist i\<close> is the i-th number \<^verbatim>\<open>uniform_int_distribution(0, 61)\<close> draws.\<close>

definition charSet :: string where
  "charSet = ''ABCDEFGHIJKLMNOPQRSTUVWXYZabcdefghijklmnopqrstuvwxyz0123456789''"

definition randomString :: "(nat \<Rightarrow> nat) \<Rightarrow> int \<Rightarrow> string" where
  "randomString dist len = concat (map (\<lambda>i. take 1 (drop (dist i) charSet)) [0..<nat len])"

subsection \<open>Searching is finding a sublist\<close>

lemma prefix_by_eq: "prefix_by (=) xs ys \<longleftrightarrow> prefix ys xs"
  by (induction "(=) :: 'a \<Rightarrow> 'a \<Rightarrow> bool" xs ys rule: prefix_by.induct) auto

lemma prefix_by_length: "prefix_by p xs ys \<Longrightarrow> length ys \<le> length xs"
  by (induction p xs ys rule: prefix_by.induct) auto

lemma std_search_le: "std_search p xs sub \<le> length xs"
  by (induction p xs sub rule: std_search.induct) auto

lemma std_search_at: "std_search p xs sub < length xs \<Longrightarrow> prefix_by p (drop (std_search p xs sub) xs) sub"
  by (induction p xs sub rule: std_search.induct) auto

lemma std_search_before: "i < std_search p xs sub \<Longrightarrow> \<not> prefix_by p (drop i xs) sub"
proof (induction p xs sub arbitrary: i rule: std_search.induct)
  case (2 p x xs sub)
  then show ?case by (cases i) (auto split: if_splits)
qed simp

lemma std_search_room:
  assumes "std_search p xs sub < length xs"
  shows "std_search p xs sub + length sub \<le> length xs"
  using prefix_by_length [OF std_search_at [OF assms]] assms by simp

lemma CharEqual_eq: "CharEqual = (=)"
  by (simp add: fun_eq_iff CharEqual_def)

lemma contains_sublist: "contains text1 subText \<longleftrightarrow> sublist subText text1 \<and> text1 \<noteq> []"
proof
  assume "contains text1 subText"
  then have less: "std_search CharEqual text1 subText < length text1"
    using std_search_le [of CharEqual text1 subText] by (simp add: contains_def contains_by_def)
  then obtain post where "drop (std_search CharEqual text1 subText) text1 = subText @ post"
    using std_search_at [OF less] by (auto simp: CharEqual_eq prefix_by_eq prefix_def)
  then have "text1 = take (std_search CharEqual text1 subText) text1 @ subText @ post"
    using append_take_drop_id [of "std_search CharEqual text1 subText" text1] by simp
  with less show "sublist subText text1 \<and> text1 \<noteq> []" by (auto simp: sublist_def)
next
  assume r: "sublist subText text1 \<and> text1 \<noteq> []"
  then obtain pre post where text1: "text1 = pre @ subText @ post" by (auto simp: sublist_def)
  have "std_search CharEqual text1 subText < length text1"
  proof (cases "subText = []")
    case True
    with r show ?thesis by (cases text1) auto
  next
    case False
    have "prefix_by CharEqual (drop (length pre) text1) subText"
      by (simp add: text1 CharEqual_eq prefix_by_eq)
    then have "std_search CharEqual text1 subText \<le> length pre"
      using std_search_before not_le_imp_less by blast
    moreover have "length pre < length text1" using False text1 by simp
    ultimately show ?thesis by (rule le_less_trans)
  qed
  then show "contains text1 subText" by (simp add: contains_def contains_by_def)
qed

lemma find_after_splits:
  assumes "contains text1 subText"
  shows "\<exists>pre. text1 = pre @ subText @ drop (find_after text1 subText) text1 \<and>
    (\<forall>i < length pre. \<not> prefix subText (drop i text1))"
proof -
  let ?i = "std_search CharEqual text1 subText"
  have less: "?i < length text1"
    using assms std_search_le [of CharEqual text1 subText] by (simp add: contains_def contains_by_def)
  then obtain post where post: "drop ?i text1 = subText @ post"
    using std_search_at [OF less] by (auto simp: CharEqual_eq prefix_by_eq prefix_def)
  then have "drop (?i + length subText) text1 = post"
    by (metis add.commute append_eq_conv_conj drop_drop)
  moreover have "text1 = take ?i text1 @ subText @ post"
    using post append_take_drop_id [of ?i text1] by simp
  moreover have "\<not> prefix subText (drop i text1)" if "i < length (take ?i text1)" for i
    using std_search_before [of i CharEqual text1 subText] that by (simp add: CharEqual_eq prefix_by_eq)
  ultimately show ?thesis
    using less by (intro exI [of _ "take ?i text1"]) (simp add: find_after_def find_after_by_def)
qed

subsection \<open>What the comparisons decide\<close>

lemma equals_prefix:
  "NUL \<notin> set a \<Longrightarrow> NUL \<notin> set b \<Longrightarrow> equals a b \<longleftrightarrow> prefix a b \<or> prefix b a"
  unfolding equals_def CharEqual_eq
  by (induction "(=) :: char \<Rightarrow> char \<Rightarrow> bool" a b rule: equals_by.induct) auto

lemma startsWith_prefix: "NUL \<notin> set b \<Longrightarrow> startsWith a b \<longleftrightarrow> prefix b a"
  unfolding startsWith_def CharEqual_eq
  by (induction "(=) :: char \<Rightarrow> char \<Rightarrow> bool" a b rule: startsWith_by.induct) auto

lemma ICharEqual_equivalence: "equivp ICharEqual"
  by (rule equivpI) (auto simp: reflp_def symp_def transp_def ICharEqual_def)

subsection \<open>Replacing\<close>

text \<open>The textbook replacement: leftmost matches first, none inside another.\<close>

function replace_all :: "('a \<Rightarrow> 'a \<Rightarrow> bool) \<Rightarrow> 'a list \<Rightarrow> 'a list \<Rightarrow> 'a list \<Rightarrow> 'a list" where
  "replace_all p sub new xs =
     (case xs of
        [] \<Rightarrow> []
      | x # xs' \<Rightarrow> if sub \<noteq> [] \<and> prefix_by p xs sub then new @ replace_all p sub new (drop (length sub) xs)
                  else x # replace_all p sub new xs')"
  by pat_completeness auto
termination
  by (relation "measure (\<lambda>(p, sub, new, xs). length xs)") auto

declare replace_all.simps [simp del]

lemma replace_all_simps [simp]:
  "replace_all p sub new [] = []"
  "sub \<noteq> [] \<Longrightarrow> prefix_by p xs sub \<Longrightarrow> replace_all p sub new xs = new @ replace_all p sub new (drop (length sub) xs)"
  "\<not> prefix_by p (x # xs) sub \<Longrightarrow> replace_all p sub new (x # xs) = x # replace_all p sub new xs"
  by (subst replace_all.simps; auto split: list.split dest: prefix_by_length)+

lemma replace_all_search:
  "sub \<noteq> [] \<Longrightarrow> replace_all p sub new xs =
     (let pos = std_search p xs sub
      in if pos \<noteq> length xs then take pos xs @ new @ replace_all p sub new (drop (pos + length sub) xs) else xs)"
proof (induction xs)
  case (Cons x xs)
  then show ?case by (cases "prefix_by p (x # xs) sub") (auto simp: Let_def)
qed simp

lemma replace_loop_total:
  assumes "subText \<noteq> []"
  shows "replace_loop p subText newText rest result = Some (result @ replace_all p subText newText rest)"
proof (induction "length rest" arbitrary: rest result rule: less_induct)
  case less
  let ?pos = "std_search p rest subText"
  show ?case
  proof (cases "?pos = length rest")
    case True
    then show ?thesis using assms
      by (subst replace_loop.simps) (simp add: replace_all_search [of subText p newText rest])
  next
    case False
    then have pos: "?pos < length rest" using std_search_le [of p rest subText] by simp
    have shorter: "length (drop (?pos + length subText) rest) < length rest" using pos assms by (cases subText) auto
    from less [OF shorter] False show ?thesis
      using assms by (subst replace_loop.simps) (simp add: replace_all_search [of subText p newText rest] Let_def)
  qed
qed

text \<open>With an empty pattern the loop finds the empty match at its own position for ever.\<close>

lemma replace_loop_empty:
  assumes "replace_loop p subText newText rest result = Some r"
  shows "subText = [] \<longrightarrow> rest = []"
proof (rule replace_loop.raw_induct [where P = "\<lambda>p subText newText rest result r. subText = [] \<longrightarrow> rest = []", OF _ assms])
  fix f p and subText newText rest result r :: string
  assume IH: "\<And>p subText newText rest result r. f p subText newText rest result = Some r \<Longrightarrow> subText = [] \<longrightarrow> rest = []"
    and eq: "(let pos = std_search p rest subText in
      if pos \<noteq> length rest then f p subText newText (drop (pos + length subText) rest) (result @ take pos rest @ newText)
      else Some (result @ rest)) = Some r"
  show "subText = [] \<longrightarrow> rest = []"
  proof
    assume sub: "subText = []"
    show "rest = []"
    proof (rule ccontr)
      assume "rest \<noteq> []"
      then have "std_search p rest subText = 0" using sub by (cases rest) auto
      with eq sub \<open>rest \<noteq> []\<close> have "f p subText newText rest (result @ newText) = Some r" by simp
      from IH [OF this] sub \<open>rest \<noteq> []\<close> show False by simp
    qed
  qed
qed

text \<open>The reference does what its name says: it keeps a text it replaces by itself, or that has no match.\<close>

lemma replace_all_same: "replace_all (=) sub sub xs = xs"
proof (cases "sub = []")
  case True
  then show ?thesis by (induction xs) (simp_all add: replace_all.simps [of _ _ _ "_ # _"])
next
  case False
  then show ?thesis
  proof (induction "length xs" arbitrary: xs rule: less_induct)
    case less
    show ?case
    proof (cases "prefix_by (=) xs sub")
      case True
      then have "sub @ drop (length sub) xs = xs" by (auto simp: prefix_by_eq prefix_def)
      moreover have "length (drop (length sub) xs) < length xs"
        using less.prems prefix_by_length [OF True] by (cases sub) auto
      ultimately show ?thesis using less True by simp
    next
      case False
      then show ?thesis using less by (cases xs) auto
    qed
  qed
qed

lemma replace_all_no_match: "std_search p xs sub = length xs \<Longrightarrow> sub \<noteq> [] \<Longrightarrow> replace_all p sub new xs = xs"
  by (simp add: replace_all_search)

text \<open>C24. \<open>replace\<close> and \<open>ireplace\<close> return the textbook replacement, except that on an empty pattern and a
  non-empty text they never return.\<close>

theorem replace_total:
  "replace text1 subText newText =
     (if subText = [] \<and> text1 \<noteq> [] then None else Some (replace_all (=) subText newText text1)) \<and>
   ireplace text1 subText newText =
     (if subText = [] \<and> text1 \<noteq> [] then None else Some (replace_all ICharEqual subText newText text1))"
proof -
  have "replace_by p text1 subText newText =
     (if subText = [] \<and> text1 \<noteq> [] then None else Some (replace_all p subText newText text1))" for p
  proof (cases "subText = []")
    case True
    then show ?thesis
      using replace_loop_empty [of p subText newText text1 "[]"]
      by (cases text1; cases "replace_loop p subText newText text1 []")
        (auto simp: replace_by_def replace_loop.simps [of _ _ _ "[]"])
  qed (simp add: replace_by_def replace_loop_total)
  then show ?thesis by (simp add: replace_def ireplace_def CharEqual_eq)
qed

text \<open>What the comparisons decide on texts without NUL: \<open>contains\<close> is having a sublist, except that the
  empty text contains nothing; \<open>startsWith\<close> is having a prefix; and \<open>equals\<close> is not equality: it
  accepts whenever one of the texts is a prefix of the other.\<close>

theorem comparisons_decide:
  assumes "NUL \<notin> set text1" and "NUL \<notin> set text2"
  shows "(contains text1 text2 \<longleftrightarrow> sublist text2 text1 \<and> text1 \<noteq> []) \<and>
    (startsWith text1 text2 \<longleftrightarrow> prefix text2 text1) \<and>
    (equals text1 text2 \<longleftrightarrow> prefix text1 text2 \<or> prefix text2 text1)"
  using contains_sublist startsWith_prefix [OF assms(2)] equals_prefix [OF assms] by blast

theorem comparisons_decide_witness:
  "contains ''abcd'' ''bc'' \<and> startsWith ''abcd'' ''ab'' \<and> equals ''abcd'' ''ab''"
  using comparisons_decide [of "''abcd''" "''bc''"] comparisons_decide [of "''abcd''" "''ab''"]
  by (simp add: sublist_code)

subsection \<open>Numbers and their texts\<close>

lemma of_char_digit: "n < 10 \<Longrightarrow> (of_char (char_of (48 + n) :: char) :: nat) = 48 + n"
  by (simp add: of_char_of)

lemma isdigit_char: "(n :: nat) < 10 \<Longrightarrow> isdigit (char_of (48 + n))"
  by (simp add: isdigit_def of_char_digit)

lemma digits_value_append: "digits_value acc (xs @ ys) = digits_value (digits_value acc xs) ys"
  by (induction acc xs rule: digits_value.induct) auto

lemma decimal_value [simp]: "digits_value 0 (decimal n) = n"
  by (induction n rule: decimal.induct) (subst decimal.simps, auto simp: digits_value_append of_char_digit)

lemma decimal_digits: "list_all isdigit (decimal n)"
  by (induction n rule: decimal.induct) (subst decimal.simps, auto simp: isdigit_char)

lemma decimal_nonempty [simp]: "decimal n \<noteq> []"
  by (subst decimal.simps) simp

lemma decimal_takeWhile [simp]: "takeWhile isdigit (decimal n) = decimal n"
  using decimal_digits by (simp add: takeWhile_eq_all_conv list_all_iff)

lemma digit_not_space: "isdigit c \<Longrightarrow> \<not> isspace c \<and> c \<noteq> CHR ''-'' \<and> c \<noteq> CHR ''+''"
  by (auto simp: isdigit_def isspace_def)

lemma decimal_hd: "\<exists>c cs. decimal n = c # cs \<and> isdigit c"
  using decimal_digits [of n] by (cases "decimal n") auto

text \<open>Reading the text of any integer as a 32-bit integer gives the integer back when it is in range, and
  the nearest bound of the range otherwise.\<close>

theorem lexical_cast_clamps:
  "lexical_cast_int (convert_primitive i) = Some (max (- (2 ^ 31)) (min (2 ^ 31 - 1) i))"
proof (cases "i < 0")
  case True
  have "dropWhile isspace (convert_primitive i) = CHR ''-'' # decimal (nat (- i))"
    using True by (simp add: convert_primitive_def isspace_def)
  with True show ?thesis by (simp add: lexical_cast_int_def convert_back_def)
next
  case False
  obtain c cs where hd: "decimal (nat i) = c # cs" "isdigit c" using decimal_hd by blast
  then have "dropWhile isspace (convert_primitive i) = decimal (nat i)"
    using False digit_not_space [OF hd(2)] by (simp add: convert_primitive_def)
  moreover have "(case decimal (nat i) of c # cs \<Rightarrow> if c = CHR ''-'' then (True, cs) else if c = CHR ''+'' then (False, cs) else (False, decimal (nat i))
                      | [] \<Rightarrow> (False, [])) = (False, decimal (nat i))"
    using hd digit_not_space [OF hd(2)] by simp
  ultimately show ?thesis using False by (simp add: lexical_cast_int_def convert_back_def)
qed

subsection \<open>Joined texts and random identifiers\<close>

lemma combineString_concat: "combineString ss = concat ss"
  by (induction ss rule: combineString.induct) auto

lemma randomString_chars:
  assumes "\<And>i. dist i < length charSet"
  shows "length (randomString dist len) = nat len" and "set (randomString dist len) \<subseteq> set charSet"
proof -
  have one: "take 1 (drop (dist i) charSet) = [charSet ! dist i]" for i
    using assms [of i] by (simp add: take_Suc_conv_app_nth [of 0] hd_drop_conv_nth take_Suc)
  then show "length (randomString dist len) = nat len"
    by (simp add: randomString_def length_concat comp_def)
  show "set (randomString dist len) \<subseteq> set charSet"
    using one nth_mem [OF assms] by (auto simp: randomString_def)
qed

text \<open>None of the characters of a random identifier needs escaping in a query string.\<close>

lemma charSet_plain: "list_all (\<lambda>c. c \<noteq> CHR ''&'' \<and> c \<noteq> CHR ''='' \<and> c \<noteq> CHR ''?'' \<and> \<not> isspace c) charSet"
  by code_simp

end
