(* ===== verification/Sdp_Utils.thy ===== *)
theory Sdp_Utils
  imports String_Algo
begin

text \<open>
  The SDP utilities of \<^verbatim>\<open>core/utils/sdp_utils.cpp\<close>: splitting and joining lines, the parsers of the
  lines that describe a media source, and the injection of simulcast sources into an offer.

  The regular expressions of the source have one way to match: a literal (compared without regard
  to case), a maximal run of digits or of characters that are not white space, and so on. A parser
  is the chain of these steps. The lines are those \<open>split\<close> returns, without a line feed, so
  \<^verbatim>\<open>^\<close> is the beginning of the line. \<open>draw\<close> supplies the numbers the random generator yields.
\<close>

subsection \<open>Parsers of lines\<close>

definition literal :: "string \<Rightarrow> string \<Rightarrow> string option" where
  "literal pattern line = (if prefix_by ICharEqual line pattern then Some (drop (length pattern) line) else None)"

definition many1 :: "(char \<Rightarrow> bool) \<Rightarrow> string \<Rightarrow> (string \<times> string) option" where
  "many1 p line = (if takeWhile p line = [] then None else Some (takeWhile p line, dropWhile p line))"

abbreviation nonspace :: "char \<Rightarrow> bool" where
  "nonspace c \<equiv> \<not> isspace c"

abbreviation CR :: char where
  "CR \<equiv> CHR 0x0D"

definition parseMline :: "string \<Rightarrow> string option" where
  "parseMline line =
     Option.bind (literal ''m='' line) (\<lambda>r.
     Option.bind (many1 nonspace r) (\<lambda>(type, r).
     if literal '' '' r \<noteq> None then Some type else None))"

definition parseFid :: "string \<Rightarrow> (string \<times> string) option" where
  "parseFid line =
     Option.bind (literal ''a=ssrc-group:FID '' line) (\<lambda>r.
     Option.bind (many1 isdigit r) (\<lambda>(ssrc, r).
     Option.bind (literal '' '' r) (\<lambda>r.
     Option.bind (many1 isdigit r) (\<lambda>(ssrcFid, r).
     if r = [CR] then Some (ssrc, ssrcFid) else None))))"

text \<open>The common shape of \<^verbatim>\<open>a=ssrc:(\d+) attribute:(\S+)\r\<close>.\<close>

definition parse_ssrc_attribute :: "string \<Rightarrow> string \<Rightarrow> (string \<times> string) option" where
  "parse_ssrc_attribute attribute line =
     Option.bind (literal ''a=ssrc:'' line) (\<lambda>r.
     Option.bind (many1 isdigit r) (\<lambda>(ssrc, r).
     Option.bind (literal ('' '' @ attribute @ '':'') r) (\<lambda>r.
     Option.bind (many1 nonspace r) (\<lambda>(val, r).
     if r = [CR] then Some (ssrc, val) else None))))"

definition parseCname :: "string \<Rightarrow> (string \<times> string) option" where
  "parseCname = parse_ssrc_attribute ''cname''"

definition parseMslabel :: "string \<Rightarrow> (string \<times> string) option" where
  "parseMslabel = parse_ssrc_attribute ''mslabel''"

definition parseLabel :: "string \<Rightarrow> (string \<times> string) option" where
  "parseLabel = parse_ssrc_attribute ''label''"

subsection \<open>Lines that are written\<close>

text \<open>\<^verbatim>\<open>std::setw(9) << std::setfill('0') << value\<close>; \<open>value\<close> is drawn between 1 and \<^verbatim>\<open>0xFFFFFFFF\<close>.\<close>

definition genSsrc :: "nat \<Rightarrow> string" where
  "genSsrc val = replicate (9 - length (decimal val)) (CHR ''0'') @ decimal val"

definition injectSsrc :: "string list \<Rightarrow> string \<Rightarrow> string \<Rightarrow> string \<Rightarrow> string \<Rightarrow> string list" where
  "injectSsrc lines ssrc cname mslabel label =
     (let assrc = ''a=ssrc:'' @ ssrc in
      lines @ [assrc @ '' cname:'' @ cname @ [CR],
               assrc @ '' msid:'' @ mslabel @ '' '' @ label @ [CR],
               assrc @ '' mslabel:'' @ mslabel @ [CR],
               assrc @ '' label:'' @ label @ [CR]])"

definition injectSsrcAndFid ::
  "nat \<Rightarrow> nat \<Rightarrow> string list \<Rightarrow> string \<Rightarrow> string \<Rightarrow> string \<Rightarrow> bool \<Rightarrow> string list \<times> string" where
  "injectSsrcAndFid draw1 draw2 lines cname mslabel label fid =
     (let ssrc = genSsrc draw1; ssrcFid = genSsrc draw2;
          lines1 = (if fid then lines @ [''a=ssrc-group:FID '' @ ssrc @ '' '' @ ssrcFid @ [CR]] else lines);
          lines2 = injectSsrc lines1 ssrc cname mslabel label;
          lines3 = (if fid then injectSsrc lines2 ssrcFid cname mslabel label else lines2)
      in (lines3, ssrc))"

subsection \<open>Splitting and joining\<close>

text \<open>\<^verbatim>\<open>std::getline\<close> fails when nothing is left; a delimiter at the very end starts no line.\<close>

function SDPUtils_split :: "char \<Rightarrow> string \<Rightarrow> string list" where
  "SDPUtils_split delim str =
     (if str = [] then []
      else takeWhile (\<lambda>c. c \<noteq> delim) str # SDPUtils_split delim (drop 1 (dropWhile (\<lambda>c. c \<noteq> delim) str)))"
  by pat_completeness auto
termination
proof (relation "measure (\<lambda>(delim, str). length str)", goal_cases)
  case (2 delim str)
  then show ?case using length_dropWhile_le [of "\<lambda>c. c \<noteq> delim" str] by (cases str) auto
qed simp

declare SDPUtils_split.simps [simp del]

fun SDPUtils_join :: "string list \<Rightarrow> string \<Rightarrow> string" where
  "SDPUtils_join [] separator = []"
| "SDPUtils_join [l] separator = l"
| "SDPUtils_join (l # ls) separator = l @ separator @ SDPUtils_join ls separator"

subsection \<open>Simulcast\<close>

record scan =
  sn_ssrc :: string
  sn_ssrcFid :: string
  sn_cname :: string
  sn_mslabel :: string
  sn_label :: string
  sn_index2inject :: nat
  sn_video :: bool
  sn_hasSimulcast :: bool

definition scan_init :: scan where
  "scan_init = \<lparr>sn_ssrc = [], sn_ssrcFid = [], sn_cname = [], sn_mslabel = [], sn_label = [],
     sn_index2inject = 0, sn_video = False, sn_hasSimulcast = False\<rparr>"

text \<open>The last test of the loop body.\<close>

definition scan_sim :: "string \<Rightarrow> scan \<Rightarrow> scan" where
  "scan_sim line st = (if prefix ''a=ssrc-group:SIM '' line then st\<lparr>sn_hasSimulcast := True\<rparr> else st)"

text \<open>The attributes of the source that was found; \<^verbatim>\<open>tmpSsrc == ssrc\<close> is the guard of each.\<close>

definition scan_attributes :: "string \<Rightarrow> scan \<Rightarrow> scan" where
  "scan_attributes line st =
     (let mine = (\<lambda>r. case r of Some (tmpSsrc, val) \<Rightarrow> tmpSsrc = sn_ssrc st | None \<Rightarrow> False) in
      if sn_ssrc st = [] then scan_sim line st
      else if sn_cname st = [] \<and> mine (parseCname line) then st\<lparr>sn_cname := snd (the (parseCname line))\<rparr>
      else if sn_mslabel st = [] \<and> mine (parseMslabel line) then st\<lparr>sn_mslabel := snd (the (parseMslabel line))\<rparr>
      else if sn_label st = [] \<and> mine (parseLabel line) then st\<lparr>sn_label := snd (the (parseLabel line))\<rparr>
      else scan_sim line st)"

definition scan_source :: "string \<Rightarrow> scan \<Rightarrow> scan" where
  "scan_source line st =
     (if sn_ssrc st = [] then
        (case parseFid line of
           Some (ssrc, ssrcFid) \<Rightarrow> st\<lparr>sn_ssrc := ssrc, sn_ssrcFid := ssrcFid\<rparr>
         | None \<Rightarrow>
             (case parseCname line of
                Some (ssrc, cname) \<Rightarrow> scan_attributes line (st\<lparr>sn_ssrc := ssrc, sn_cname := cname\<rparr>)
              | None \<Rightarrow> scan_attributes line st))
      else scan_attributes line st)"

definition scan_line :: "nat \<Rightarrow> string \<Rightarrow> scan \<Rightarrow> scan" where
  "scan_line i line st =
     (case parseMline line of
        Some mtype \<Rightarrow>
          if \<not> sn_video st \<and> mtype = ''video'' then st\<lparr>sn_video := True\<rparr>
          else if sn_video st then st\<lparr>sn_video := False, sn_index2inject := i - 1\<rparr>
          else st
      | None \<Rightarrow> if \<not> sn_video st then st else scan_source line st)"

fun scan_lines :: "nat \<Rightarrow> string list \<Rightarrow> scan \<Rightarrow> scan" where
  "scan_lines i [] st = st"
| "scan_lines i (line # lines) st = scan_lines (Suc i) lines (scan_line i line st)"

text \<open>The loop that writes one group per layer; \<open>k\<close> counts the numbers drawn so far.\<close>

fun inject_layers :: "(nat \<Rightarrow> nat) \<Rightarrow> nat \<Rightarrow> nat \<Rightarrow> scan \<Rightarrow> string list \<Rightarrow> string \<Rightarrow> string list \<times> string" where
  "inject_layers draw k 0 st simulcastLines grp = (simulcastLines, grp)"
| "inject_layers draw k (Suc n) st simulcastLines grp =
     (let (ls, assrc) = injectSsrcAndFid (draw k) (draw (k + 1)) simulcastLines (sn_cname st) (sn_mslabel st)
                          (sn_label st) (sn_ssrcFid st \<noteq> [])
      in inject_layers draw (k + 2) n st ls (grp @ '' '' @ assrc))"

definition simulcast_lines :: "(nat \<Rightarrow> nat) \<Rightarrow> nat \<Rightarrow> scan \<Rightarrow> string list" where
  "simulcast_lines draw n st =
     (let (ls, grp) = inject_layers draw 0 n st [] (''a=ssrc-group:SIM '' @ sn_ssrc st)
      in ls @ [grp @ [CR]])"

definition SDPUtils_injectSimulcast :: "(nat \<Rightarrow> nat) \<Rightarrow> int \<Rightarrow> string list \<Rightarrow> string list" where
  "SDPUtils_injectSimulcast draw simulcast lines =
     (if simulcast < 1 \<or> simulcast > 2 then lines
      else
        let st = scan_lines 0 lines scan_init in
        if \<not> sn_hasSimulcast st \<and> sn_ssrc st \<noteq> [] \<and> sn_cname st \<noteq> [] \<and> sn_mslabel st \<noteq> [] \<and> sn_label st \<noteq> []
        then
          let at = (if sn_index2inject st \<noteq> 0 then sn_index2inject st else length lines)
          in take at lines @ simulcast_lines draw (nat simulcast) st @ drop at lines
        else lines)"

subsection \<open>Splitting and joining are inverse\<close>

lemma split_simps [simp]:
  "SDPUtils_split d [] = []"
  "d \<notin> set l \<Longrightarrow> l \<noteq> [] \<Longrightarrow> SDPUtils_split d l = [l]"
  "d \<notin> set l \<Longrightarrow> SDPUtils_split d (l @ d # rest) = l # SDPUtils_split d rest"
proof -
  show nil: "SDPUtils_split d [] = []" by (simp add: SDPUtils_split.simps)
  assume l: "d \<notin> set l"
  have whole: "takeWhile (\<lambda>c. c \<noteq> d) l = l" "dropWhile (\<lambda>c. c \<noteq> d) l = []"
    unfolding takeWhile_eq_all_conv dropWhile_eq_Nil_conv using l by auto
  show "SDPUtils_split d l = [l]" if "l \<noteq> []"
    unfolding SDPUtils_split.simps [of d l] whole using that by (simp add: nil)
  have "takeWhile (\<lambda>c. c \<noteq> d) (l @ d # rest) = l" "dropWhile (\<lambda>c. c \<noteq> d) (l @ d # rest) = d # rest"
    using l by (induction l) auto
  then show "SDPUtils_split d (l @ d # rest) = l # SDPUtils_split d rest"
    by (subst SDPUtils_split.simps) simp
qed

text \<open>Every text is empty, a line, or a line followed by a delimiter and a text.\<close>

lemma split_cases:
  fixes str :: string and d :: char
  obtains (empty) "str = []" | (last) "d \<notin> set str" "str \<noteq> []" | (more) l rest where "str = l @ d # rest" "d \<notin> set l"
  using split_list_first [of d str] by (cases "str = []"; cases "d \<in> set str") auto

lemma join_Cons: "ls \<noteq> [] \<Longrightarrow> SDPUtils_join (l # ls) sep = l @ sep @ SDPUtils_join ls sep"
  by (cases ls) auto

lemma split_empty_iff [simp]: "SDPUtils_split d str = [] \<longleftrightarrow> str = []"
  by (rule split_cases [where str = str and d = d]) auto

lemma join_split: "SDPUtils_join (SDPUtils_split d str) [d] = (if str \<noteq> [] \<and> last str = d then butlast str else str)"
proof (induction "length str" arbitrary: str rule: less_induct)
  case less
  show ?case
  proof (cases rule: split_cases [where str = str and d = d])
    case last
    then show ?thesis by (auto dest: last_in_set)
  next
    case (more l rest)
    then show ?thesis using less [of rest] by (auto simp: join_Cons butlast_append)
  qed simp
qed

lemma split_join:
  "list_all (\<lambda>l. d \<notin> set l) ls \<Longrightarrow> ls = [] \<or> last ls \<noteq> [] \<Longrightarrow> SDPUtils_split d (SDPUtils_join ls [d]) = ls"
proof (induction ls)
  case (Cons l ls)
  then show ?case by (cases "ls = []") (auto simp: join_Cons)
qed simp

text \<open>Splitting a text at a delimiter and joining the lines gives the text back, up to one delimiter at the
  very end, which is lost; and joining lines that hold no delimiter and do not end in an empty line,
  then splitting, gives the lines back.\<close>

theorem split_join_roundtrip:
  assumes "list_all (\<lambda>l. d \<notin> set l) ls" and "ls = [] \<or> last ls \<noteq> []"
  shows "SDPUtils_split d (SDPUtils_join ls [d]) = ls \<and>
    SDPUtils_join (SDPUtils_split d str) [d] = (if str \<noteq> [] \<and> last str = d then butlast str else str)"
  using split_join [OF assms] join_split by blast

theorem split_join_roundtrip_witness:
  "SDPUtils_split (CHR 0x0A) (SDPUtils_join [''v=0'', [], ''m=audio''] [CHR 0x0A]) = [''v=0'', [], ''m=audio''] \<and>
   SDPUtils_join (SDPUtils_split (CHR 0x0A) [CHR ''a'', CHR 0x0A]) [CHR 0x0A] = ''a''"
  using split_join_roundtrip [of "CHR 0x0A" "[''v=0'', [], ''m=audio'']" "[CHR ''a'', CHR 0x0A]"] by simp

subsection \<open>Source identifiers\<close>

lemma digits_value_zeros: "digits_value 0 (replicate n (CHR ''0'') @ ds) = digits_value 0 ds"
  by (induction n) simp_all

lemma decimal_length: "n < 10 ^ k \<Longrightarrow> 0 < k \<Longrightarrow> length (decimal n) \<le> k"
proof (induction n arbitrary: k rule: decimal.induct)
  case (1 n)
  show ?case
  proof (cases "n < 10")
    case True
    then show ?thesis using "1.prems" by (subst decimal.simps) simp
  next
    case False
    then obtain j where k: "k = Suc j" "0 < j" using "1.prems" by (cases k; cases "k - 1") auto
    then have "n div 10 < 10 ^ j" using "1.prems" by (simp add: less_mult_imp_div_less mult.commute)
    with "1.IH" [OF False this k(2)] False k show ?thesis by (subst decimal.simps) simp
  qed
qed

text \<open>A generated source identifier is a decimal number of nine or ten digits, and reading it gives the
  number that was drawn.\<close>

theorem genSsrc_bounds:
  assumes "1 \<le> val" and "val \<le> 0xFFFFFFFF"
  shows "length (genSsrc val) \<in> {9, 10} \<and> list_all isdigit (genSsrc val) \<and> digits_value 0 (genSsrc val) = val"
proof -
  have "length (decimal val) \<le> 10" using decimal_length [of val 10] assms(2) by simp
  moreover have "isdigit (CHR ''0'')" by (simp add: isdigit_def)
  ultimately show ?thesis
    using decimal_digits [of val] by (auto simp: genSsrc_def digits_value_zeros list_all_iff)
qed

theorem genSsrc_bounds_witness: "length (genSsrc 42) \<in> {9, 10} \<and> digits_value 0 (genSsrc 42) = 42"
  using genSsrc_bounds [of 42] by simp

subsection \<open>What is written can be read\<close>

lemma prefix_by_refl: "(\<And>c. p c c) \<Longrightarrow> prefix_by p (xs @ r) xs"
  by (induction xs) auto

lemma literal_append [simp]: "literal pat (pat @ r) = Some r"
  by (simp add: literal_def prefix_by_refl ICharEqual_def)

lemma many1_span:
  assumes "list_all p xs" and "xs \<noteq> []" and "\<not> p c"
  shows "many1 p (xs @ c # r) = Some (xs, c # r)"
proof -
  have "takeWhile p (xs @ c # r) = xs \<and> dropWhile p (xs @ c # r) = c # r"
    using assms(1, 3) by (induction xs) auto
  with assms(2) show ?thesis by (simp add: many1_def)
qed

lemma not_digit [simp]: "\<not> isdigit (CHR '' '')" "\<not> isdigit CR" "isspace CR" "isspace (CHR '' '')"
  by (simp_all add: isdigit_def isspace_def)

lemma parse_written_attribute:
  assumes "list_all isdigit ssrc" and "ssrc \<noteq> []" and "list_all nonspace val" and "val \<noteq> []"
  shows "parse_ssrc_attribute attribute ((''a=ssrc:'' @ ssrc) @ ('' '' @ attribute @ '':'') @ val @ [CR]) = Some (ssrc, val)"
proof -
  have "many1 isdigit (ssrc @ '' '' @ attribute @ '':'' @ val @ [CR]) = Some (ssrc, '' '' @ attribute @ '':'' @ val @ [CR])"
    using many1_span [OF assms(1, 2), of "CHR '' ''"] by simp
  moreover have "literal ('' '' @ attribute @ '':'') ('' '' @ attribute @ '':'' @ val @ [CR]) = Some (val @ [CR])"
    using literal_append [of "'' '' @ attribute @ '':''" "val @ [CR]"] by simp
  moreover have "many1 nonspace (val @ [CR]) = Some (val, [CR])"
    using many1_span [OF assms(3, 4), of CR "[]"] by simp
  ultimately show ?thesis
    using literal_append [of "''a=ssrc:''" "ssrc @ '' '' @ attribute @ '':'' @ val @ [CR]"]
    by (simp add: parse_ssrc_attribute_def del: literal_append)
qed

lemma parse_written_fid:
  assumes "list_all isdigit ssrc" and "ssrc \<noteq> []" and "list_all isdigit fid" and "fid \<noteq> []"
  shows "parseFid (''a=ssrc-group:FID '' @ ssrc @ '' '' @ fid @ [CR]) = Some (ssrc, fid)"
proof -
  have "many1 isdigit (ssrc @ '' '' @ fid @ [CR]) = Some (ssrc, '' '' @ fid @ [CR])"
    using many1_span [OF assms(1, 2), of "CHR '' ''"] by simp
  moreover have "many1 isdigit (fid @ [CR]) = Some (fid, [CR])"
    using many1_span [OF assms(3, 4), of CR "[]"] by simp
  moreover have "literal '' '' ('' '' @ fid @ [CR]) = Some (fid @ [CR])" by (rule literal_append)
  ultimately show ?thesis
    using literal_append [of "''a=ssrc-group:FID ''" "ssrc @ '' '' @ fid @ [CR]"]
    by (simp add: parseFid_def del: literal_append)
qed

subsection \<open>Where the simulcast lines go\<close>

abbreviation scan_all :: "string list \<Rightarrow> scan" where
  "scan_all lines \<equiv> scan_lines 0 lines scan_init"

text \<open>Every video section has a line of its own: no \<^verbatim>\<open>m=video\<close> line is directly followed by an \<^verbatim>\<open>m=\<close> line.\<close>

definition video_sections_filled :: "string list \<Rightarrow> bool" where
  "video_sections_filled = successively (\<lambda>a b. parseMline a = Some ''video'' \<longrightarrow> parseMline b = None)"

lemma scan_lines_append: "scan_lines i (xs @ ys) st = scan_lines (i + length xs) ys (scan_lines i xs st)"
  by (induction i xs st rule: scan_lines.induct) auto

lemma scan_all_snoc [simp]: "scan_all (ls @ [l]) = scan_line (length ls) l (scan_all ls)"
  by (simp add: scan_lines_append)

lemmas scan_defs = scan_source_def scan_attributes_def scan_sim_def

lemma scan_source_frame [simp]:
  "sn_video (scan_source l st) = sn_video st"
  "sn_index2inject (scan_source l st) = sn_index2inject st"
  by (auto simp: scan_defs Let_def split: option.split)

lemma scan_line_simps:
  "parseMline l = None \<Longrightarrow> scan_line i l st = (if sn_video st then scan_source l st else st)"
  "parseMline l = Some t \<Longrightarrow> sn_video st \<Longrightarrow> scan_line i l st = st\<lparr>sn_video := False, sn_index2inject := i - 1\<rparr>"
  "parseMline l = Some t \<Longrightarrow> \<not> sn_video st \<Longrightarrow> scan_line i l st = (if t = ''video'' then st\<lparr>sn_video := True\<rparr> else st)"
  by (auto simp: scan_line_def)

lemma hasSimulcast_source: "sn_hasSimulcast st \<Longrightarrow> sn_hasSimulcast (scan_source l st)"
  by (auto simp: scan_defs Let_def split: option.split)

lemma hasSimulcast_mono: "sn_hasSimulcast st \<Longrightarrow> sn_hasSimulcast (scan_lines i ls st)"
  by (induction i ls st rule: scan_lines.induct)
    (auto simp: scan_line_def hasSimulcast_source split: option.split)

text \<open>The section that is open after a filled prefix began before its last line.\<close>

lemma video_open_before_last:
  assumes "video_sections_filled (ls @ [l, m])" and "parseMline m \<noteq> None" and "sn_video (scan_all (ls @ [l]))"
  shows "ls \<noteq> [] \<and> sn_video (scan_all ls)"
proof -
  have l: "parseMline l \<noteq> Some ''video''"
    using assms(1, 2) by (auto simp: video_sections_filled_def successively_append_iff)
  have "sn_video (scan_all ls)"
    using assms(3) l by (cases "parseMline l") (auto simp: scan_line_def split: if_splits)
  moreover from this have "ls \<noteq> []" by (auto simp: scan_init_def)
  ultimately show ?thesis by blast
qed

lemma filled_butlast: "video_sections_filled (ls @ ls') \<Longrightarrow> video_sections_filled ls"
  by (simp add: video_sections_filled_def successively_append_iff)

lemma index2inject_in_video:
  assumes "video_sections_filled ls"
  shows "(sn_index2inject (scan_all ls) \<noteq> 0 \<longrightarrow>
      sn_index2inject (scan_all ls) \<le> length ls \<and> sn_video (scan_all (take (sn_index2inject (scan_all ls)) ls))) \<and>
    (\<not> sn_video (scan_all ls) \<and> sn_index2inject (scan_all ls) = 0 \<longrightarrow> sn_ssrc (scan_all ls) = [])"
  using assms
proof (induction ls rule: rev_induct)
  case Nil
  then show ?case by (simp add: scan_init_def)
next
  case (snoc l ls)
  note IH = snoc.IH [OF filled_butlast [OF snoc.prems]]
  show ?case
  proof (cases "parseMline l")
    case None
    then show ?thesis using IH by (auto simp: scan_line_simps)
  next
    case (Some t)
    show ?thesis
    proof (cases "sn_video (scan_all ls)")
      case True
      then obtain ls' k where ls: "ls = ls' @ [k]"
        by (cases ls rule: rev_cases) (auto simp: scan_init_def)
      have "ls' \<noteq> [] \<and> sn_video (scan_all ls')"
        using video_open_before_last [of ls' k l] snoc.prems Some True ls by simp
      moreover have "sn_index2inject (scan_all (ls @ [l])) = length ls'"
        using Some True by (simp add: scan_line_simps) (simp add: ls)
      ultimately show ?thesis by (simp add: ls)
    next
      case False
      then show ?thesis using IH Some by (auto simp: scan_line_simps)
    qed
  qed
qed


subsection \<open>Injecting twice\<close>

lemma injected_lines:
  "list_all (\<lambda>l. \<exists>r. l = CHR ''a'' # r) ls \<Longrightarrow>
   list_all (\<lambda>l. \<exists>r. l = CHR ''a'' # r) (fst (inject_layers draw k n st ls grp)) \<and>
   (\<exists>r. snd (inject_layers draw k n st ls grp) = grp @ r)"
  by (induction draw k n st ls grp rule: inject_layers.induct)
    (fastforce simp: injectSsrcAndFid_def injectSsrc_def Let_def split: prod.split)+

text \<open>The last injected line names the group, and none of them opens a section.\<close>

lemma simulcast_lines_shape:
  "\<exists>ls r. simulcast_lines draw n st = ls @ [''a=ssrc-group:SIM '' @ r] \<and> list_all (\<lambda>l. parseMline l = None) ls"
proof -
  have a: "parseMline (CHR ''a'' # r) = None" for r
    by (simp add: parseMline_def literal_def ICharEqual_def toupper_def)
  let ?i = "inject_layers draw 0 n st [] (''a=ssrc-group:SIM '' @ sn_ssrc st)"
  have "list_all (\<lambda>l. parseMline l = None) (fst ?i)"
    using injected_lines [of "[]" draw 0 n st "''a=ssrc-group:SIM '' @ sn_ssrc st"]
    by (auto simp: list_all_iff a)
  moreover obtain r where "snd ?i = (''a=ssrc-group:SIM '' @ sn_ssrc st) @ r"
    using injected_lines [of "[]" draw 0 n st "''a=ssrc-group:SIM '' @ sn_ssrc st"] by auto
  ultimately show ?thesis
    by (intro exI [of _ "fst ?i"] exI [of _ "sn_ssrc st @ r @ [CR]"]) (simp add: simulcast_lines_def case_prod_beta)
qed

lemma scan_plain: "list_all (\<lambda>l. parseMline l = None) ls \<Longrightarrow> sn_video (scan_lines i ls st) = sn_video st"
  by (induction i ls st rule: scan_lines.induct) (auto simp: scan_line_simps)

lemma sim_line:
  "parseMline (''a=ssrc-group:SIM '' @ r) = None" "parseFid (''a=ssrc-group:SIM '' @ r) = None"
  "parse_ssrc_attribute a (''a=ssrc-group:SIM '' @ r) = None"
  by (simp_all add: parseMline_def parseFid_def parse_ssrc_attribute_def literal_def ICharEqual_def toupper_def)

lemma scan_sim_line:
  assumes "sn_video st"
  shows "sn_hasSimulcast (scan_line i (''a=ssrc-group:SIM '' @ r) st)"
proof -
  have "sn_hasSimulcast (scan_source (''a=ssrc-group:SIM '' @ r) st)"
    unfolding scan_defs parseCname_def parseMslabel_def parseLabel_def sim_line by (simp add: Let_def)
  with assms show ?thesis unfolding scan_line_simps(1) [OF sim_line(1)] by simp
qed

lemma inserted_found:
  assumes "sn_video (scan_all pre)"
  shows "sn_hasSimulcast (scan_all (pre @ simulcast_lines draw n st @ post))"
proof -
  obtain ls r where sim: "simulcast_lines draw n st = ls @ [''a=ssrc-group:SIM '' @ r]"
    and plain: "list_all (\<lambda>l. parseMline l = None) ls"
    using simulcast_lines_shape by blast
  have "sn_video (scan_lines (length pre) ls (scan_all pre))"
    using scan_plain [OF plain] assms by simp
  then have "sn_hasSimulcast (scan_line (length pre + length ls) (''a=ssrc-group:SIM '' @ r)
      (scan_lines (length pre) ls (scan_all pre)))"
    by (rule scan_sim_line)
  then show ?thesis unfolding sim scan_lines_append append_assoc
    by (simp add: hasSimulcast_mono del: append_Cons)
qed

text \<open>C20. Injecting is idempotent on an offer whose video sections have a line of their own: whatever the first
  call wrote, a second one finds the group and changes nothing. The lines that were there are kept
  in their order, and what is new is one block.\<close>

theorem simulcast_idempotent:
  assumes "video_sections_filled lines" and "1 \<le> simulcast" and "simulcast \<le> 2"
  shows "SDPUtils_injectSimulcast draw' simulcast' (SDPUtils_injectSimulcast draw simulcast lines) =
      SDPUtils_injectSimulcast draw simulcast lines \<and>
    (\<exists>pre new post. lines = pre @ post \<and> SDPUtils_injectSimulcast draw simulcast lines = pre @ new @ post)"
proof -
  let ?st = "scan_all lines"
  let ?at = "if sn_index2inject ?st \<noteq> 0 then sn_index2inject ?st else length lines"
  show ?thesis
  proof (cases "\<not> sn_hasSimulcast ?st \<and> sn_ssrc ?st \<noteq> [] \<and> sn_cname ?st \<noteq> [] \<and> sn_mslabel ?st \<noteq> [] \<and> sn_label ?st \<noteq> []")
    case True
    then have inj: "SDPUtils_injectSimulcast draw simulcast lines =
        take ?at lines @ simulcast_lines draw (nat simulcast) ?st @ drop ?at lines"
      using assms(2, 3) by (simp add: SDPUtils_injectSimulcast_def Let_def)
    have "sn_video (scan_all (take ?at lines))"
      using index2inject_in_video [OF assms(1)] True by auto
    then have "sn_hasSimulcast (scan_all (SDPUtils_injectSimulcast draw simulcast lines))"
      unfolding inj by (rule inserted_found)
    then have "SDPUtils_injectSimulcast draw' simulcast' (SDPUtils_injectSimulcast draw simulcast lines) =
        SDPUtils_injectSimulcast draw simulcast lines"
      by (subst SDPUtils_injectSimulcast_def) (simp add: Let_def)
    moreover have "\<exists>pre new post. lines = pre @ post \<and> SDPUtils_injectSimulcast draw simulcast lines = pre @ new @ post"
      unfolding inj by (intro exI [of _ "take ?at lines"] exI [of _ "drop ?at lines"] exI [of _ "simulcast_lines draw (nat simulcast) ?st"]) simp
    ultimately show ?thesis ..
  next
    case False
    then have "SDPUtils_injectSimulcast draw' s lines = lines" for draw' s
      by (auto simp: SDPUtils_injectSimulcast_def Let_def)
    then show ?thesis by (metis append.right_neutral)
  qed
qed


text \<open>An offer with one video source, one layer asked for: five lines are added, once.\<close>

definition sample_offer :: "string list" where
  "sample_offer =
     [''v=0'' @ [CR],
      ''m=video 9 UDP/TLS/RTP/SAVPF 96'' @ [CR],
      ''a=ssrc:7 cname:c'' @ [CR],
      ''a=ssrc:7 mslabel:s'' @ [CR],
      ''a=ssrc:7 label:l'' @ [CR]]"

theorem simulcast_idempotent_witness:
  "length (SDPUtils_injectSimulcast (\<lambda>i. i + 42) 1 sample_offer) = 10 \<and>
   SDPUtils_injectSimulcast id 2 (SDPUtils_injectSimulcast (\<lambda>i. i + 42) 1 sample_offer) =
     SDPUtils_injectSimulcast (\<lambda>i. i + 42) 1 sample_offer"
proof -
  have "video_sections_filled sample_offer" by code_simp
  then have "SDPUtils_injectSimulcast id 2 (SDPUtils_injectSimulcast (\<lambda>i. i + 42) 1 sample_offer) =
      SDPUtils_injectSimulcast (\<lambda>i. i + 42) 1 sample_offer"
    using simulcast_idempotent [of sample_offer 1 id 2 "\<lambda>i. i + 42"] by simp
  moreover have "length (SDPUtils_injectSimulcast (\<lambda>i. i + 42) 1 sample_offer) = 10" by code_simp
  ultimately show ?thesis by blast
qed

text \<open>Without that condition a second call injects again, above the section it means.\<close>

lemma simulcast_twice:
  "let offer = sample_offer @ [''m=video 9 UDP'' @ [CR], ''m=video 9 UDP'' @ [CR], ''m=audio 9 UDP'' @ [CR], ''a=x'' @ [CR], ''m=video 9 UDP'' @ [CR], ''m=audio 9 UDP'' @ [CR]];
       once = SDPUtils_injectSimulcast (\<lambda>i. i + 42) 1 offer
   in length once = length offer + 5 \<and> length (SDPUtils_injectSimulcast (\<lambda>i. i + 42) 1 once) = length once + 5"
  by code_simp

text \<open>C33. The lines that describe a source can be read back: the four lines written for a numeric source
  identifier and names without white space give its canonical name, stream label and track label,
  and the line that groups two sources gives both identifiers.\<close>

theorem written_source_parses:
  assumes "list_all isdigit ssrc" and "ssrc \<noteq> []" and "list_all isdigit fid" and "fid \<noteq> []"
    and "list_all (list_all nonspace) [cname, mslabel, label]" and "[] \<notin> set [cname, mslabel, label]"
  shows "\<exists>l1 l2 l3 l4. injectSsrc lines ssrc cname mslabel label = lines @ [l1, l2, l3, l4] \<and>
    parseCname l1 = Some (ssrc, cname) \<and> parseMslabel l3 = Some (ssrc, mslabel) \<and> parseLabel l4 = Some (ssrc, label) \<and>
    parseFid (''a=ssrc-group:FID '' @ ssrc @ '' '' @ fid @ [CR]) = Some (ssrc, fid)"
proof -
  note parse = parse_written_attribute [OF assms(1, 2)]
  have "parseCname ((''a=ssrc:'' @ ssrc) @ '' cname:'' @ cname @ [CR]) = Some (ssrc, cname)"
    "parseMslabel ((''a=ssrc:'' @ ssrc) @ '' mslabel:'' @ mslabel @ [CR]) = Some (ssrc, mslabel)"
    "parseLabel ((''a=ssrc:'' @ ssrc) @ '' label:'' @ label @ [CR]) = Some (ssrc, label)"
    using assms(5, 6) parse [of cname "''cname''"] parse [of mslabel "''mslabel''"] parse [of label "''label''"]
    by (auto simp: parseCname_def parseMslabel_def parseLabel_def)
  then show ?thesis
    using parse_written_fid [OF assms(1 - 4)] unfolding injectSsrc_def Let_def by blast
qed

theorem written_source_parses_witness:
  "\<exists>l1 l2 l3 l4. injectSsrc [] ''123'' ''c'' ''s'' ''l'' = [l1, l2, l3, l4] \<and> parseCname l1 = Some (''123'', ''c'')"
proof -
  have "list_all isdigit ''123''" "list_all isdigit ''45''" "list_all (list_all nonspace) [''c'', ''s'', ''l'']" by code_simp+
  then show ?thesis using written_source_parses [of "''123''" "''45''" "''c''" "''s''" "''l''" "[]"] by auto
qed

end
