(* ===== verification/Wide_Text.thy ===== *)
theory Wide_Text
  imports String_Algo
begin

text \<open>
  Wide texts and the generic conversions: \<^verbatim>\<open>core/json/stringable.hpp\<close> and the conversions of
  \<^verbatim>\<open>core/json/string_algo.hpp\<close>. A \<^verbatim>\<open>std::wstring\<close> is a list of code values, a \<^verbatim>\<open>wchar_t\<close> being a signed
  32-bit number; \<^verbatim>\<open>std::wstring_convert<std::codecvt_utf8<wchar_t>>\<close> is written out, \<open>None\<close> being
  its \<^verbatim>\<open>std::range_error\<close>.

  The lemmas: the conversion to UTF-8 and back is the identity on valid wide texts, and on bytes
  that are valid UTF-8; every value converted to a wide text has the text it has as a narrow one;
  and what the fallback makes of other bytes cannot be converted again.
\<close>

subsection \<open>UTF-8\<close>

definition utf8_write :: "nat \<Rightarrow> nat list option" where
  "utf8_write c =
     (if c < 0x80 then Some [c]
      else if c < 0x800 then Some [0xC0 + c div 64, 0x80 + c mod 64]
      else if 0xD800 \<le> c \<and> c \<le> 0xDFFF then None
      else if c < 0x10000 then Some [0xE0 + c div 4096, 0x80 + c div 64 mod 64, 0x80 + c mod 64]
      else if c \<le> 0x10FFFF
      then Some [0xF0 + c div 262144, 0x80 + c div 4096 mod 64, 0x80 + c div 64 mod 64, 0x80 + c mod 64]
      else None)"

definition tail_byte :: "nat \<Rightarrow> bool" where
  "tail_byte b \<longleftrightarrow> 0x80 \<le> b \<and> b < 0xC0"

fun utf8_read :: "nat list \<Rightarrow> (nat \<times> nat list) option" where
  "utf8_read [] = None"
| "utf8_read (a # rest) =
     (if a < 0x80 then Some (a, rest)
      else if a < 0xC2 then None
      else if a < 0xE0 then
        (case rest of
           b # rest' \<Rightarrow> if tail_byte b then Some ((a - 0xC0) * 64 + (b - 0x80), rest') else None
         | _ \<Rightarrow> None)
      else if a < 0xF0 then
        (case rest of
           b # c # rest' \<Rightarrow>
             if tail_byte b \<and> tail_byte c \<and> \<not> (a = 0xE0 \<and> b < 0xA0) \<and> \<not> (a = 0xED \<and> 0xA0 \<le> b)
             then Some ((a - 0xE0) * 4096 + (b - 0x80) * 64 + (c - 0x80), rest') else None
         | _ \<Rightarrow> None)
      else if a < 0xF5 then
        (case rest of
           b # c # d # rest' \<Rightarrow>
             if tail_byte b \<and> tail_byte c \<and> tail_byte d \<and> \<not> (a = 0xF0 \<and> b < 0x90) \<and> \<not> (a = 0xF4 \<and> 0x90 \<le> b)
             then Some ((a - 0xF0) * 262144 + (b - 0x80) * 4096 + (c - 0x80) * 64 + (d - 0x80), rest') else None
         | _ \<Rightarrow> None)
      else None)"

lemma utf8_read_shorter: "utf8_read bs = Some (c, rest) \<Longrightarrow> length rest < length bs"
  by (cases bs) (auto split: if_splits list.splits)

fun utf8_encode :: "nat list \<Rightarrow> nat list option" where
  "utf8_encode [] = Some []"
| "utf8_encode (c # cs) =
     (case utf8_write c of None \<Rightarrow> None
      | Some b \<Rightarrow> (case utf8_encode cs of None \<Rightarrow> None | Some bs \<Rightarrow> Some (b @ bs)))"

function utf8_decode :: "nat list \<Rightarrow> nat list option" where
  "utf8_decode bs =
     (if bs = [] then Some []
      else case utf8_read bs of None \<Rightarrow> None
      | Some (c, rest) \<Rightarrow> (case utf8_decode rest of None \<Rightarrow> None | Some cs \<Rightarrow> Some (c # cs)))"
  by pat_completeness auto
termination
  by (relation "measure length") (auto dest: utf8_read_shorter)

declare utf8_decode.simps [simp del]

lemma utf8_decode_Nil [simp]: "utf8_decode [] = Some []"
  by (simp add: utf8_decode.simps [of "[]"])

text \<open>A number in base 64.\<close>

lemma base64_1: "x < 64 \<Longrightarrow> (k * 64 + x) div 64 = k" "x < 64 \<Longrightarrow> (k * 64 + x) mod 64 = (x :: nat)"
  by simp_all

lemma base64_2:
  assumes "x < 64" "y < (64 :: nat)"
  shows "(k * 4096 + y * 64 + x) div 4096 = k" "(k * 4096 + y * 64 + x) div 64 mod 64 = y" "(k * 4096 + y * 64 + x) mod 64 = x"
proof -
  have eq: "k * 4096 + y * 64 + x = (k * 64 + y) * 64 + x" by simp
  show "(k * 4096 + y * 64 + x) div 64 mod 64 = y"
    unfolding eq base64_1(1) [OF assms(1)] by (rule base64_1(2) [OF assms(2)])
  show "(k * 4096 + y * 64 + x) mod 64 = x" unfolding eq by (rule base64_1(2) [OF assms(1)])
  show "(k * 4096 + y * 64 + x) div 4096 = k" using assms by simp
qed

lemma base64_3:
  assumes "x < 64" "y < 64" "z < (64 :: nat)"
  shows "(k * 262144 + z * 4096 + y * 64 + x) div 262144 = k" "(k * 262144 + z * 4096 + y * 64 + x) div 4096 mod 64 = z"
    "(k * 262144 + z * 4096 + y * 64 + x) div 64 mod 64 = y" "(k * 262144 + z * 4096 + y * 64 + x) mod 64 = x"
proof -
  have eq: "k * 262144 + z * 4096 + y * 64 + x = (k * 64 + z) * 4096 + y * 64 + x" by simp
  note split = base64_2 [OF assms(1,2), of "k * 64 + z"]
  show "(k * 262144 + z * 4096 + y * 64 + x) div 64 mod 64 = y" "(k * 262144 + z * 4096 + y * 64 + x) mod 64 = x"
    unfolding eq by (rule split)+
  show "(k * 262144 + z * 4096 + y * 64 + x) div 4096 mod 64 = z"
    unfolding eq split(1) using assms(3) by (rule base64_1)
  show "(k * 262144 + z * 4096 + y * 64 + x) div 262144 = k" using assms by simp
qed

lemma digits64:
  "c = c div 64 * 64 + c mod 64"
  "c = c div 4096 * 4096 + c div 64 mod 64 * 64 + c mod (64 :: nat)"
  "c = c div 262144 * 262144 + c div 4096 mod 64 * 4096 + c div 64 mod 64 * 64 + c mod (64 :: nat)"
proof -
  show 1: "c = c div 64 * 64 + c mod 64" by simp
  have e: "c div 4096 = c div 64 div 64" "c div 262144 = c div 64 div 64 div 64"
    using div_mult2_eq [of c 64 64] div_mult2_eq [of c 64 4096] div_mult2_eq [of "c div 64" 64 64] by simp_all
  have 2: "c div 64 = c div 64 div 64 * 64 + c div 64 mod 64" by simp
  have 3: "c div 64 div 64 = c div 64 div 64 div 64 * 64 + c div 64 div 64 mod 64" by simp
  show 4: "c = c div 4096 * 4096 + c div 64 mod 64 * 64 + c mod 64" unfolding e using 1 2 by linarith
  show "c = c div 262144 * 262144 + c div 4096 mod 64 * 4096 + c div 64 mod 64 * 64 + c mod 64"
    unfolding e using 1 2 3 by linarith
qed

lemma utf8_read_write:
  assumes "utf8_write c = Some bs"
  shows "utf8_read (bs @ rest) = Some (c, rest)"
proof -
  consider (one) "c < 0x80" | (two) "0x80 \<le> c" "c < 0x800"
    | (three) "0x800 \<le> c" "c < 0x10000" "\<not> (0xD800 \<le> c \<and> c \<le> 0xDFFF)" | (four) "0x10000 \<le> c" "c \<le> 0x10FFFF"
    using assms by (fastforce simp: utf8_write_def split: if_splits)
  then show ?thesis
  proof cases
    case one
    then show ?thesis using assms by (auto simp: utf8_write_def)
  next
    case two
    then have bs: "bs = [0xC0 + c div 64, 0x80 + c mod 64]" using assms by (simp add: utf8_write_def)
    have "2 \<le> c div 64" "c div 64 < 32" using two by simp_all
    then show ?thesis using digits64(1) [of c] by (simp add: bs tail_byte_def)
  next
    case three
    then have bs: "bs = [0xE0 + c div 4096, 0x80 + c div 64 mod 64, 0x80 + c mod 64]" using assms by (auto simp: utf8_write_def)
    define z y where "z = c div 4096" and "y = c div 64 mod 64"
    have c: "c = z * 4096 + y * 64 + c mod 64" unfolding z_def y_def by (rule digits64(2))
    have "z < 16" "y < 64" using three by (simp_all add: z_def y_def)
    moreover have "z = 0 \<Longrightarrow> 32 \<le> y" using c three(1) by simp
    moreover have "c mod 64 < 64" by simp
    then have "z = 13 \<Longrightarrow> y < 32" using c three(3) \<open>y < 64\<close> by linarith
    ultimately show ?thesis using c by (auto simp: bs tail_byte_def z_def [symmetric] y_def [symmetric])
  next
    case four
    then have bs: "bs = [0xF0 + c div 262144, 0x80 + c div 4096 mod 64, 0x80 + c div 64 mod 64, 0x80 + c mod 64]"
      using assms by (simp add: utf8_write_def)
    define z y x where "z = c div 262144" and "y = c div 4096 mod 64" and "x = c div 64 mod 64"
    have c: "c = z * 262144 + y * 4096 + x * 64 + c mod 64" unfolding z_def y_def x_def by (rule digits64(3))
    have "z < 5" "y < 64" "x < 64" using four by (simp_all add: z_def y_def x_def)
    moreover have "z = 0 \<Longrightarrow> 16 \<le> y" using c four(1) \<open>x < 64\<close> by simp
    moreover have "z = 4 \<Longrightarrow> y < 16" using c four(2) by simp
    ultimately show ?thesis using c
      by (auto simp: bs tail_byte_def z_def [symmetric] y_def [symmetric] x_def [symmetric])
  qed
qed

lemma utf8_write_nonempty: "utf8_write c = Some bs \<Longrightarrow> bs \<noteq> []"
  by (auto simp: utf8_write_def split: if_splits)

lemma utf8_decode_encode: "utf8_encode cs = Some bs \<Longrightarrow> utf8_decode bs = Some cs"
proof (induction cs arbitrary: bs)
  case (Cons c cs)
  then obtain b bs' where b: "utf8_write c = Some b" "utf8_encode cs = Some bs'" "bs = b @ bs'"
    by (auto split: option.splits)
  then show ?case
    using Cons.IH [OF b(2)] utf8_read_write [OF b(1), of bs'] utf8_write_nonempty [OF b(1)]
    by (subst utf8_decode.simps) (simp add: b(3))
qed simp

lemma utf8_write_read:
  assumes "utf8_read bs = Some (c, rest)"
  shows "\<exists>p. utf8_write c = Some p \<and> bs = p @ rest"
proof (cases bs)
  case (Cons a as)
  consider (one) "a < 0x80" | (two) "0xC2 \<le> a" "a < 0xE0" | (three) "0xE0 \<le> a" "a < 0xF0" | (four) "0xF0 \<le> a" "a < 0xF5"
    using assms Cons by (fastforce split: if_splits)
  then show ?thesis
  proof cases
    case one
    then show ?thesis using assms Cons by (auto simp: utf8_write_def)
  next
    case two
    then obtain b where b: "as = b # rest" "tail_byte b" "c = (a - 0xC0) * 64 + (b - 0x80)"
      using assms Cons by (auto split: list.splits if_splits)
    define x y where "x = b - 0x80" and "y = a - 0xC0"
    have bytes: "b = 0x80 + x" "a = 0xC0 + y" "x < 64" "2 \<le> y" "y < 32"
      using b two by (auto simp: tail_byte_def x_def y_def)
    have c: "c = y * 64 + x" using b(3) bytes by simp
    then show ?thesis using base64_1 [OF bytes(3), of y] bytes b(1) Cons by (auto simp: utf8_write_def)
  next
    case three
    then obtain b d where b: "as = b # d # rest" "tail_byte b" "tail_byte d" "\<not> (a = 0xE0 \<and> b < 0xA0)"
        "\<not> (a = 0xED \<and> 0xA0 \<le> b)" "c = (a - 0xE0) * 4096 + (b - 0x80) * 64 + (d - 0x80)"
      using assms Cons by (auto split: list.splits if_splits)
    define x y z where "x = d - 0x80" and "y = b - 0x80" and "z = a - 0xE0"
    have bytes: "d = 0x80 + x" "b = 0x80 + y" "a = 0xE0 + z" "x < 64" "y < 64" "z < 16"
      using b three by (auto simp: tail_byte_def x_def y_def z_def)
    have c: "c = z * 4096 + y * 64 + x" using b(6) bytes by simp
    have edge: "z = 0 \<Longrightarrow> 32 \<le> y" "z = 13 \<Longrightarrow> y < 32" using b(4,5) bytes by auto
    then have "0x800 \<le> c" "c < 0x10000" using bytes c by (cases "z = 0"; simp; linarith)+
    moreover have "\<not> (0xD800 \<le> c \<and> c \<le> 0xDFFF)"
    proof (cases "z = 13")
      case False
      then have "z \<le> 12 \<or> 14 \<le> z" by linarith
      then show ?thesis using bytes c by linarith
    qed (use edge(2) c bytes(4) in linarith)
    ultimately show ?thesis using base64_2 [OF bytes(4,5), of z] bytes b(1) Cons by (auto simp: utf8_write_def c)
  next
    case four
    then obtain b d e where b: "as = b # d # e # rest" "tail_byte b" "tail_byte d" "tail_byte e" "\<not> (a = 0xF0 \<and> b < 0x90)"
        "\<not> (a = 0xF4 \<and> 0x90 \<le> b)" "c = (a - 0xF0) * 262144 + (b - 0x80) * 4096 + (d - 0x80) * 64 + (e - 0x80)"
      using assms Cons by (auto split: list.splits if_splits)
    define x y z w where "x = e - 0x80" and "y = d - 0x80" and "z = b - 0x80" and "w = a - 0xF0"
    have bytes: "e = 0x80 + x" "d = 0x80 + y" "b = 0x80 + z" "a = 0xF0 + w" "x < 64" "y < 64" "z < 64" "w < 5"
      using b four by (auto simp: tail_byte_def x_def y_def z_def w_def)
    have c: "c = w * 262144 + z * 4096 + y * 64 + x" using b(7) bytes by simp
    have "w = 0 \<Longrightarrow> 16 \<le> z" "w = 4 \<Longrightarrow> z < 16" using b(5,6) bytes by auto
    then have "0x10000 \<le> c" "c \<le> 0x10FFFF"
      using bytes c by (cases "w = 0"; cases "w = 4"; simp; linarith)+
    then show ?thesis using base64_3 [OF bytes(5-7), of w] bytes b(1) Cons by (auto simp: utf8_write_def c)
  qed
qed (use assms in simp)

lemma utf8_encode_decode: "utf8_decode bs = Some cs \<Longrightarrow> utf8_encode cs = Some bs"
proof (induction bs arbitrary: cs rule: utf8_decode.induct)
  case (1 bs)
  show ?case
  proof (cases "bs = []")
    case False
    with "1.prems" obtain c rest cs' where r: "utf8_read bs = Some (c, rest)" "utf8_decode rest = Some cs'" "cs = c # cs'"
      by (subst (asm) utf8_decode.simps) (auto split: option.splits)
    have "utf8_encode cs' = Some rest" using False r by (intro "1.IH") auto
    then show ?thesis using utf8_write_read [OF r(1)] r(3) by auto
  qed (use "1.prems" in simp)
qed

subsection \<open>Narrow and wide texts\<close>

text \<open>
  \<open>to_bytes\<close> is \<^verbatim>\<open>stringable<std::wstring>::operator()\<close>, which lets the exception through;
  \<open>convert_back_wide\<close> is \<^verbatim>\<open>stringable<std::wstring>::convert_back\<close>, which catches it and takes the
  characters one by one, by the cast \<^verbatim>\<open>wchar_t(c)\<close> of a signed character.
\<close>

definition to_bytes :: "int list \<Rightarrow> string option" where
  "to_bytes value = map_option (map char_of) (utf8_encode (map (\<lambda>c. nat (c mod 2 ^ 32)) value))"

definition from_bytes :: "string \<Rightarrow> int list option" where
  "from_bytes value = map_option (map int) (utf8_decode (map of_char value))"

definition convert_back_wide :: "string \<Rightarrow> int list" where
  "convert_back_wide value = (case from_bytes value of Some w \<Rightarrow> w | None \<Rightarrow> map char_int value)"

text \<open>\<^verbatim>\<open>stringable<std::string>\<close>: a null pointer gives the empty text.\<close>

definition stringable_cstr :: "string option \<Rightarrow> string" where
  "stringable_cstr s = (case s of None \<Rightarrow> [] | Some cs \<Rightarrow> takeWhile (\<lambda>c. c \<noteq> NUL) cs)"

text \<open>
  The conversions choose by type: integers go through a stream, texts through \<^verbatim>\<open>stringable\<close>; a wide
  text is a wide text already.
\<close>

datatype text_value = Prim int | Narrow string | CString "string option" | Wide "int list"

fun to_string :: "text_value \<Rightarrow> string option" where
  "to_string (Prim i) = Some (convert_primitive i)"
| "to_string (Narrow s) = Some s"
| "to_string (CString s) = Some (stringable_cstr s)"
| "to_string (Wide w) = to_bytes w"

definition convert_general_wide :: "string option \<Rightarrow> int list option" where
  "convert_general_wide t = map_option convert_back_wide t"

text \<open>The primitives through a \<^verbatim>\<open>std::wstringstream\<close>. Reading compares with the widened digits, signs and
  spaces, all of which are ASCII: every other character is one that ends the number.\<close>

definition convert_primitive_wide :: "int \<Rightarrow> int list" where
  "convert_primitive_wide i = map (\<lambda>c. int (of_char c)) (convert_primitive i)"

definition narrow_char :: "int \<Rightarrow> char" where
  "narrow_char c = (if 0 \<le> c \<and> c < 128 then char_of (nat c) else CHR 0xFF)"

definition convert_back_wstring :: "int \<Rightarrow> int \<Rightarrow> int list \<Rightarrow> int option" where
  "convert_back_wstring lo hi w = convert_back lo hi (map narrow_char w)"

fun to_wstring :: "text_value \<Rightarrow> int list option" where
  "to_wstring (Prim i) = Some (convert_primitive_wide i)"
| "to_wstring (Wide w) = Some w"
| "to_wstring v = convert_general_wide (to_string v)"

text \<open>\<^verbatim>\<open>lexical_cast<std::string>\<close> and \<^verbatim>\<open>lexical_cast<std::wstring>\<close> of a wide text.\<close>

definition lexical_cast_wide :: "bool \<Rightarrow> int list \<Rightarrow> text_value option" where
  "lexical_cast_wide to_wide value =
     (if to_wide then Some (Wide value) else map_option Narrow (to_bytes value))"

lemma utf8_write_bytes: "utf8_write c = Some bs \<Longrightarrow> list_all (\<lambda>b. b < 256) bs"
proof -
  have "c \<le> 0x10FFFF \<Longrightarrow> c div 262144 < 16" "c < 0x10000 \<Longrightarrow> c div 4096 < 32" "c < 0x800 \<Longrightarrow> c div 64 < 64" by simp_all
  moreover have "d mod 64 < 128" for d :: nat using mod_less_divisor [of 64 d] by linarith
  ultimately show "utf8_write c = Some bs \<Longrightarrow> list_all (\<lambda>b. b < 256) bs"
    by (auto simp: utf8_write_def split: if_splits)
qed

lemma utf8_encode_bytes: "utf8_encode cs = Some bs \<Longrightarrow> list_all (\<lambda>b. b < 256) bs"
  by (induction cs arbitrary: bs) (auto dest: utf8_write_bytes split: option.splits)

lemma of_char_of_bytes: "list_all (\<lambda>b. b < 256) bs \<Longrightarrow> map (of_char \<circ> char_of) bs = (bs :: nat list)"
  by (induction bs) auto

lemma utf8_write_bound: "utf8_write c \<noteq> None \<Longrightarrow> c \<le> 0x10FFFF"
  by (auto simp: utf8_write_def split: if_splits)

lemma utf8_encode_bound: "utf8_encode cs = Some bs \<Longrightarrow> c \<in> set cs \<Longrightarrow> c \<le> 0x10FFFF"
  by (induction cs arbitrary: bs) (auto dest: utf8_write_bound [OF option.discI] split: option.splits)

lemma utf8_encode_ascii: "list_all (\<lambda>b. b < 128) bs \<Longrightarrow> utf8_encode bs = Some bs"
  by (induction bs) (auto simp: utf8_write_def)

lemma utf8_encode_fails: "c \<in> set cs \<Longrightarrow> utf8_write c = None \<Longrightarrow> utf8_encode cs = None"
  by (induction cs) (auto split: option.splits)

lemma bytes_roundtrip:
  assumes "from_bytes s \<noteq> None"
  shows "to_bytes (convert_back_wide s) = Some s"
proof -
  obtain cs where cs: "utf8_decode (map of_char s) = Some cs" using assms by (auto simp: from_bytes_def)
  then have enc: "utf8_encode cs = Some (map of_char s)" by (rule utf8_encode_decode)
  have "map (\<lambda>c. nat (int c mod 2 ^ 32)) cs = cs"
    using utf8_encode_bound [OF enc] by (intro map_idI) (force simp: nat_mod_distrib)
  then show "to_bytes (convert_back_wide s) = Some s"
    using cs enc by (simp add: convert_back_wide_def from_bytes_def to_bytes_def comp_def)
qed

text \<open>
  Converting a wide text to UTF-8 and back gives the text, when its characters are characters of
  Unicode; bytes that are valid UTF-8 survive the way to a wide text and back.
\<close>

theorem wide_text_roundtrip:
  "(list_all (\<lambda>c. 0 \<le> c \<and> c \<le> 0x10FFFF \<and> \<not> (0xD800 \<le> c \<and> c \<le> 0xDFFF)) w \<longrightarrow>
      (\<exists>s. to_bytes w = Some s \<and> convert_back_wide s = w))
   \<and> (from_bytes s \<noteq> None \<longrightarrow> to_bytes (convert_back_wide s) = Some s)"
proof (intro conjI impI)
  assume w: "list_all (\<lambda>c. 0 \<le> c \<and> c \<le> 0x10FFFF \<and> \<not> (0xD800 \<le> c \<and> c \<le> 0xDFFF)) w"
  have codes: "map (\<lambda>c. nat (c mod 2 ^ 32)) w = map nat w" using w by (auto simp: list_all_iff)
  have "\<exists>bs. utf8_encode (map nat w) = Some bs"
    using w by (induction w) (auto simp: utf8_write_def)
  then obtain bs where bs: "utf8_encode (map nat w) = Some bs" by blast
  have "utf8_decode bs = Some (map nat w)" using bs by (rule utf8_decode_encode)
  moreover have "map int (map nat w) = w" using w by (induction w) auto
  ultimately have "convert_back_wide (map char_of bs) = w"
    using of_char_of_bytes [OF utf8_encode_bytes [OF bs]] by (simp add: convert_back_wide_def from_bytes_def)
  moreover have "to_bytes w = Some (map char_of bs)" unfolding to_bytes_def codes bs by simp
  ultimately show "\<exists>s. to_bytes w = Some s \<and> convert_back_wide s = w" by blast
qed (rule bytes_roundtrip)

theorem wide_text_roundtrip_witness:
  "(\<exists>s. to_bytes [0x41, 0xE9, 0x20AC, 0x1F600] = Some s \<and> convert_back_wide s = [0x41, 0xE9, 0x20AC, 0x1F600])
   \<and> to_bytes (convert_back_wide ''ab'') = Some ''ab''"
proof -
  have "from_bytes ''ab'' \<noteq> None" by code_simp
  then show ?thesis using wide_text_roundtrip [of "[0x41, 0xE9, 0x20AC, 0x1F600]" "''ab''"] by simp
qed

text \<open>
  Bytes that are not UTF-8 are taken one by one, and every byte above 127 becomes a negative
  \<^verbatim>\<open>wchar_t\<close>: the wide text that results can never be converted to bytes again, it raises the
  exception that was caught before.
\<close>

lemma ascii_decodes: "list_all (\<lambda>b. b < 128) bs \<Longrightarrow> utf8_decode bs = Some bs"
  by (rule utf8_decode_encode) (rule utf8_encode_ascii)

theorem fallback_not_convertible:
  assumes "from_bytes s = None"
  shows "to_bytes (convert_back_wide s) = None"
proof -
  have "\<not> list_all (\<lambda>b. b < 128) (map of_char s :: nat list)"
    using assms ascii_decodes [of "map of_char s"] by (auto simp: from_bytes_def)
  then obtain c where c: "c \<in> set s" "128 \<le> (of_char c :: nat)" by (auto simp: list_all_iff not_less)
  have "char_int c mod 2 ^ 32 = (char_int c + 2 ^ 32) mod 2 ^ 32" by simp
  also have "\<dots> = int (of_char c) + 2 ^ 32 - 256"
    using c(2) nat_of_char_less_256 [of c] by (subst mod_pos_pos_trivial) (simp_all add: char_int_def Let_def)
  finally have "nat (char_int c mod 2 ^ 32) = of_char c + 2 ^ 32 - 256" using c(2) by (simp add: nat_eq_iff)
  then have "utf8_write (nat (char_int c mod 2 ^ 32)) = None" using c(2) by (simp add: utf8_write_def)
  then have "utf8_encode (map (\<lambda>c. nat (c mod 2 ^ 32)) (map char_int s)) = None"
    using c(1) by (intro utf8_encode_fails [of "nat (char_int c mod 2 ^ 32)"]) auto
  then show ?thesis using assms by (simp add: convert_back_wide_def to_bytes_def)
qed

text \<open>A value has the same text whether it is converted to a narrow or to a wide text.\<close>

lemma digits_ascii: "list_all (\<lambda>b. b < 128) (map of_char (convert_primitive i) :: nat list)"
  using decimal_digits [of "nat (- i)"] decimal_digits [of "nat i"]
  by (auto simp: convert_primitive_def list_all_iff isdigit_def)

theorem same_text_wide:
  assumes "to_string v = Some s" and "from_bytes s \<noteq> None" and "\<And>w. v \<noteq> Wide w"
  shows "\<exists>w. to_wstring v = Some w \<and> to_bytes w = Some s"
proof (cases v)
  case (Prim i)
  let ?bs = "map of_char (convert_primitive i) :: nat list"
  have "nat (int (of_char c) mod 2 ^ 32) = of_char c" for c
    using nat_of_char_less_256 [of c] by (simp add: nat_mod_distrib del: nat_of_char_less_256)
  then have codes: "map (\<lambda>c. nat (c mod 2 ^ 32)) (map (\<lambda>c. int (of_char c)) (convert_primitive i)) = ?bs"
    by simp
  have "to_bytes (map (\<lambda>c. int (of_char c)) (convert_primitive i)) = Some (convert_primitive i)"
    unfolding to_bytes_def codes utf8_encode_ascii [OF digits_ascii] by (simp add: comp_def)
  then show ?thesis using Prim assms(1) by (simp add: convert_primitive_wide_def)
next
  case (Narrow t)
  then show ?thesis using assms bytes_roundtrip [of s] by (simp add: convert_general_wide_def)
next
  case (CString t)
  then show ?thesis using assms bytes_roundtrip [of s] by (simp add: convert_general_wide_def)
qed (use assms(3) in simp)


text \<open>An integer written to a wide text is read back from it like from a narrow one: as itself, or as the
  nearest bound of the range of the type it is read as.\<close>

lemma narrow_widen: "list_all (\<lambda>b. b < 128) (map of_char s :: nat list) \<Longrightarrow> map narrow_char (map (\<lambda>c. int (of_char c)) s) = s"
  by (induction s) (auto simp: narrow_char_def)

theorem wide_integer_roundtrip:
  "convert_back_wstring (- (2 ^ 31)) (2 ^ 31 - 1) (convert_primitive_wide i) =
   Some (max (- (2 ^ 31)) (min (2 ^ 31 - 1) i))"
  using lexical_cast_clamps [of i] narrow_widen [OF digits_ascii [of i]]
  by (simp add: convert_back_wstring_def convert_primitive_wide_def lexical_cast_int_def)

end
