(* ===== verification/String_Buffer.thy ===== *)
theory String_Buffer
  imports String_Algo
begin

text \<open>
  The text buffer of \<^verbatim>\<open>core/json/StringBuffer.h\<close>: a \<^verbatim>\<open>std::streambuf\<close> over a \<^verbatim>\<open>std::vector<char>\<close>
  with fast appends, stream reads and writes through the get and the put area, and the smart
  pointers that read a stream in and write the text out.

  Pointers are addresses in a flat memory, 0 is \<^verbatim>\<open>nullptr\<close>. The vector owns one block: the address
  of its first element, its capacity, its elements. Growing past the capacity moves the elements
  to a new block; which block, and how large, is the standard library's choice, a parameter
  \<open>grow\<close> (old address, old capacity, elements needed) of the operations that append. A pointer of
  the get or put area that is used outside the vector's elements is the fault \<open>Dangling\<close>; the cast
  of an output-only buffer to \<^verbatim>\<open>std::istream\<close>, which it is not, is \<open>Bad_Cast\<close>. \<open>syncOutput\<close> and
  \<^verbatim>\<open>operator<<\<close> call each other on an unchanged object in one state, so a run is an option: \<open>None\<close>
  means that the call does not return.

  The lemmas say that appends concatenate the texts of the values, that a read after a \<open>sync\<close>
  returns the characters in order whatever block they are in, that the areas stay inside the
  vector, and, for the states the header does not handle, exactly what goes wrong.
\<close>

subsection \<open>The object\<close>

datatype sb_fault = Dangling | Bad_Cast

datatype stream_type = IOStream | OStream

datatype seekdir = Beg | Cur | End

record istream_src =
  is_rest :: string
  is_good :: bool

record string_buffer =
  sb_data :: string
  sb_addr :: nat
  sb_cap :: nat
  sb_eback :: nat
  sb_gptr :: nat
  sb_egptr :: nat
  sb_pbase :: nat
  sb_pptr :: nat
  sb_epptr :: nat
  sb_src :: "istream_src option"
  sb_good :: bool
  inputInitialized :: bool

type_synonym allocator = "nat \<Rightarrow> nat \<Rightarrow> nat \<Rightarrow> nat \<times> nat"
type_synonym 'a run = "(sb_fault + 'a) option"

abbreviation done_with :: "'a \<Rightarrow> 'a run" where
  "done_with x \<equiv> Some (Inr x)"

definition rbind :: "'a run \<Rightarrow> ('a \<Rightarrow> 'b run) \<Rightarrow> 'b run" where
  "rbind m f = Option.bind m (\<lambda>r. case r of Inl e \<Rightarrow> Some (Inl e) | Inr x \<Rightarrow> f x)"

lemma rbind_simps [simp]:
  "rbind None f = None" "rbind (Some (Inl e)) f = Some (Inl e)" "rbind (done_with x) f = f x"
  by (simp_all add: rbind_def)

lemma rbind_assoc: "rbind (rbind m f) g = rbind m (\<lambda>x. rbind (f x) g)"
  by (cases m) (auto simp: rbind_def split: sum.splits)

lemma rbind_mono [partial_function_mono]:
  assumes m: "mono_option (\<lambda>f. B f)" and c: "\<And>y. mono_option (\<lambda>f. C y f)"
  shows "mono_option (\<lambda>f. rbind (B f) (\<lambda>y. C y f))"
  unfolding rbind_def
proof (rule bind_mono [OF m])
  fix r
  show "mono_option (\<lambda>f. case r of Inl e \<Rightarrow> Some (Inl e) | Inr y \<Rightarrow> C y f)"
    by (cases r) (auto intro: c option.const_mono)
qed

text \<open>
  The vector. Appending within the capacity keeps the block; \<open>allocates\<close> is what the standard
  promises of the allocation otherwise.
\<close>

definition allocates :: "allocator \<Rightarrow> bool" where
  "allocates grow \<longleftrightarrow> (\<forall>a c n. 0 < fst (grow a c n) \<and> n \<le> snd (grow a c n))"

definition vec_insert :: "allocator \<Rightarrow> string \<Rightarrow> string_buffer \<Rightarrow> string_buffer" where
  "vec_insert grow s sb =
     (let n = length (sb_data sb) + length s
      in if n \<le> sb_cap sb then sb\<lparr>sb_data := sb_data sb @ s\<rparr>
         else let (a, c) = grow (sb_addr sb) (sb_cap sb) n
              in sb\<lparr>sb_data := sb_data sb @ s, sb_addr := a, sb_cap := c\<rparr>)"

definition vec_assign :: "allocator \<Rightarrow> string \<Rightarrow> string_buffer \<Rightarrow> string_buffer" where
  "vec_assign grow s sb = vec_insert grow s (sb\<lparr>sb_data := []\<rparr>)"

definition vec_wf :: "string_buffer \<Rightarrow> bool" where
  "vec_wf sb \<longleftrightarrow> length (sb_data sb) \<le> sb_cap sb \<and> (0 < sb_cap sb \<longrightarrow> 0 < sb_addr sb)"

text \<open>Access through a pointer: the elements of the vector, and nothing else.\<close>

definition peek :: "nat \<Rightarrow> string_buffer \<Rightarrow> sb_fault + char" where
  "peek p sb = (if sb_addr sb \<le> p \<and> p < sb_addr sb + length (sb_data sb)
                then Inr (sb_data sb ! (p - sb_addr sb)) else Inl Dangling)"

definition poke :: "nat \<Rightarrow> char \<Rightarrow> string_buffer \<Rightarrow> sb_fault + string_buffer" where
  "poke p c sb = (if sb_addr sb \<le> p \<and> p < sb_addr sb + length (sb_data sb)
                  then Inr (sb\<lparr>sb_data := (sb_data sb)[p - sb_addr sb := c]\<rparr>) else Inl Dangling)"

text \<open>\<^verbatim>\<open>std::streambuf\<close>: \<open>setg\<close>, \<open>setp\<close>; \<^verbatim>\<open>setp\<close> puts the write position at the start of the area.\<close>

definition setg :: "nat \<Rightarrow> nat \<Rightarrow> nat \<Rightarrow> string_buffer \<Rightarrow> string_buffer" where
  "setg b n e sb = sb\<lparr>sb_eback := b, sb_gptr := n, sb_egptr := e\<rparr>"

definition setp :: "nat \<Rightarrow> nat \<Rightarrow> string_buffer \<Rightarrow> string_buffer" where
  "setp b e sb = sb\<lparr>sb_pbase := b, sb_pptr := b, sb_epptr := e\<rparr>"

subsection \<open>Construction and appends\<close>

definition new_buffer :: "string \<Rightarrow> istream_src option \<Rightarrow> string_buffer" where
  "new_buffer s src =
     \<lparr>sb_data = s, sb_addr = 0, sb_cap = 0, sb_eback = 0, sb_gptr = 0, sb_egptr = 0,
      sb_pbase = 0, sb_pptr = 0, sb_epptr = 0, sb_src = src, sb_good = True, inputInitialized = False\<rparr>"

definition BasicStringBuffer :: "allocator \<Rightarrow> string \<Rightarrow> istream_src option \<Rightarrow> string_buffer" where
  "BasicStringBuffer grow str source = vec_insert grow str (new_buffer [] source)"

text \<open>
  \<^verbatim>\<open>operator+=\<close> and \<^verbatim>\<open>operator<<\<close> for a character, an array of characters (whose last element is the
  terminator of a literal), a C string (up to its NUL) and a \<^verbatim>\<open>std::string\<close>.
\<close>

definition append_char :: "allocator \<Rightarrow> char \<Rightarrow> string_buffer \<Rightarrow> string_buffer" where
  "append_char grow c sb = vec_insert grow [c] sb"

definition append_array :: "allocator \<Rightarrow> string \<Rightarrow> string_buffer \<Rightarrow> string_buffer" where
  "append_array grow arr sb = vec_insert grow (take (length arr - 1) arr) sb"

definition strlen :: "string \<Rightarrow> nat" where
  "strlen s = length (takeWhile (\<lambda>c. c \<noteq> NUL) s)"

definition append_cstr :: "allocator \<Rightarrow> string \<Rightarrow> string_buffer \<Rightarrow> string_buffer" where
  "append_cstr grow str sb = vec_insert grow (take (strlen str) str) sb"

definition append_string :: "allocator \<Rightarrow> string \<Rightarrow> string_buffer \<Rightarrow> string_buffer" where
  "append_string grow str sb = vec_insert grow str sb"

definition shl_char :: "allocator \<Rightarrow> char \<Rightarrow> string_buffer \<Rightarrow> string_buffer" where
  "shl_char grow c sb = vec_insert grow [c] sb"

definition shl_array :: "allocator \<Rightarrow> string \<Rightarrow> string_buffer \<Rightarrow> string_buffer" where
  "shl_array grow arr sb = vec_insert grow (take (length arr - 1) arr) sb"

definition shl_cstr :: "allocator \<Rightarrow> string \<Rightarrow> string_buffer \<Rightarrow> string_buffer" where
  "shl_cstr grow str sb = vec_insert grow (take (strlen str) str) sb"

definition shl_string :: "allocator \<Rightarrow> string \<Rightarrow> string_buffer \<Rightarrow> string_buffer" where
  "shl_string grow str sb = vec_insert grow str sb"

text \<open>
  \<open>appendNumber\<close>: \<^verbatim>\<open>std::to_chars\<close> into the scratch array of 256 characters; when the text does not
  fit, nothing is appended. A \<^verbatim>\<open>bool\<close> is converted to \<^verbatim>\<open>int\<close>. Floating-point numbers go through
  \<^verbatim>\<open>std::to_string\<close>, whose text is an argument here.
\<close>

definition to_chars :: "nat \<Rightarrow> int \<Rightarrow> string option" where
  "to_chars room value = (let t = convert_primitive value in if length t \<le> room then Some t else None)"

definition appendNumber :: "allocator \<Rightarrow> int \<Rightarrow> string_buffer \<Rightarrow> string_buffer" where
  "appendNumber grow value sb =
     (case to_chars 256 value of Some t \<Rightarrow> vec_insert grow t sb | None \<Rightarrow> sb)"

definition appendNumber_bool :: "allocator \<Rightarrow> bool \<Rightarrow> string_buffer \<Rightarrow> string_buffer" where
  "appendNumber_bool grow value sb = appendNumber grow (if value then 1 else 0) sb"

definition appendNumber_float :: "allocator \<Rightarrow> string \<Rightarrow> string_buffer \<Rightarrow> string_buffer" where
  "appendNumber_float grow text1 sb = append_string grow text1 sb"

datatype piece = Chr char | Arr string | CStr string | Str string
  | Num int | Boolean bool | Float string | EndL

fun shl :: "allocator \<Rightarrow> piece \<Rightarrow> string_buffer \<Rightarrow> string_buffer" where
  "shl grow (Chr c) sb = shl_char grow c sb"
| "shl grow (Arr a) sb = shl_array grow a sb"
| "shl grow (CStr s) sb = shl_cstr grow s sb"
| "shl grow (Str s) sb = shl_string grow s sb"
| "shl grow (Num i) sb = appendNumber grow i sb"
| "shl grow (Boolean b) sb = appendNumber_bool grow b sb"
| "shl grow (Float t) sb = appendNumber_float grow t sb"
| "shl grow EndL sb = append_char grow (CHR 0x0A) sb"

definition nullTerminate :: "allocator \<Rightarrow> string_buffer \<Rightarrow> string_buffer" where
  "nullTerminate grow sb =
     (if sb_data sb = [] \<or> last (sb_data sb) \<noteq> NUL then vec_insert grow [NUL] sb else sb)"

definition unterminate :: "string_buffer \<Rightarrow> string_buffer" where
  "unterminate sb =
     (if sb_data sb \<noteq> [] \<and> last (sb_data sb) = NUL then sb\<lparr>sb_data := butlast (sb_data sb)\<rparr> else sb)"

definition sb_size :: "string_buffer \<Rightarrow> nat" where
  "sb_size sb = length (sb_data sb)"

text \<open>
  The cast of \<^verbatim>\<open>this\<close> to \<^verbatim>\<open>std::istream *\<close>: a \<^verbatim>\<open>BasicStringBuffer<std::ostream>\<close> has no such base, so
  the cast reinterprets the pointer.
\<close>

definition istream_clear :: "stream_type \<Rightarrow> string_buffer \<Rightarrow> sb_fault + string_buffer" where
  "istream_clear T sb = (case T of IOStream \<Rightarrow> Inr (sb\<lparr>sb_good := True\<rparr>) | OStream \<Rightarrow> Inl Bad_Cast)"

definition sb_clear :: "stream_type \<Rightarrow> string_buffer \<Rightarrow> sb_fault + string_buffer" where
  "sb_clear T sb = istream_clear T (sb\<lparr>sb_data := [], sb_good := True\<rparr>)"

definition sb_nth :: "string_buffer \<Rightarrow> nat \<Rightarrow> sb_fault + char" where
  "sb_nth sb pos = (if pos < length (sb_data sb) then Inr (sb_data sb ! pos) else Inl Dangling)"

text \<open>\<open>c_str\<close> returns the address of the first element; of an empty vector there is none.\<close>

definition c_str :: "allocator \<Rightarrow> bool \<Rightarrow> string_buffer \<Rightarrow> sb_fault + (nat \<times> string_buffer)" where
  "c_str grow addNulTerminator sb =
     (let sb' = (if addNulTerminator then nullTerminate grow sb else sb)
      in if sb_data sb' = [] then Inl Dangling else Inr (sb_addr sb', sb'))"

definition sb_str :: "string_buffer \<Rightarrow> string" where
  "sb_str sb = sb_data sb"

subsection \<open>Synchronising the areas with the vector\<close>

text \<open>
  \<^verbatim>\<open>std::streambuf::sputc\<close>: into the put area while there is room, else the virtual call of
  \<open>overflow\<close>, which appends when the put area has no room (\<open>sputc_overflow\<close> below). \<^verbatim>\<open>std::ostream\<close>
  writes a text as by repeated \<^verbatim>\<open>sputc\<close>, when its state is good.
\<close>

definition sputc :: "allocator \<Rightarrow> char \<Rightarrow> string_buffer \<Rightarrow> sb_fault + string_buffer" where
  "sputc grow c sb =
     (if sb_pptr sb < sb_epptr sb
      then ebind (poke (sb_pptr sb) c sb) (\<lambda>sb'. Inr (sb'\<lparr>sb_pptr := sb_pptr sb' + 1\<rparr>))
      else Inr (vec_insert grow [c] sb))"

fun sputn :: "allocator \<Rightarrow> string \<Rightarrow> string_buffer \<Rightarrow> sb_fault + string_buffer" where
  "sputn grow [] sb = Inr sb"
| "sputn grow (c # cs) sb = ebind (sputc grow c sb) (sputn grow cs)"

definition ostream_insert :: "allocator \<Rightarrow> string \<Rightarrow> string_buffer \<Rightarrow> sb_fault + string_buffer" where
  "ostream_insert grow t sb = (if sb_good sb then sputn grow t sb else Inr sb)"

text \<open>
  \<^verbatim>\<open>std::ostream::operator<<(std::streambuf *)\<close> on the source's buffer: every character that is left
  there; the state fails when there was none.
\<close>

definition ostream_rdbuf :: "allocator \<Rightarrow> string_buffer \<Rightarrow> sb_fault + string_buffer" where
  "ostream_rdbuf grow sb =
     (case sb_src sb of None \<Rightarrow> Inr sb
      | Some s \<Rightarrow>
          if sb_good sb
          then ebind (sputn grow (is_rest s) (sb\<lparr>sb_src := Some (s\<lparr>is_rest := []\<rparr>)\<rparr>))
                 (\<lambda>sb'. Inr (if is_rest s = [] then sb'\<lparr>sb_good := False\<rparr> else sb'))
          else Inr sb)"

definition source_good :: "string_buffer \<Rightarrow> bool" where
  "source_good sb = (case sb_src sb of None \<Rightarrow> False | Some s \<Rightarrow> is_good s)"

definition put_inside :: "string_buffer \<Rightarrow> bool" where
  "put_inside sb \<longleftrightarrow> sb_pbase sb \<noteq> 0 \<and> sb_pptr sb \<noteq> 0 \<and> sb_epptr sb \<noteq> 0 \<and>
     sb_pbase sb \<le> sb_pptr sb \<and> sb_pptr sb < sb_epptr sb"

definition put_apply :: "nat \<Rightarrow> string_buffer \<Rightarrow> string_buffer" where
  "put_apply offset sb =
     (let size = length (sb_data sb)
      in if size \<le> offset
         then if size = 0 then setp 0 0 sb else setp (sb_addr sb + size) (sb_addr sb + size) sb
         else setp (sb_addr sb + offset) (sb_addr sb + size) sb)"

definition put_at_end :: "string_buffer \<Rightarrow> string_buffer" where
  "put_at_end sb =
     (let size = length (sb_data sb); e = sb_addr sb + size
      in if size = 0 \<and> (sb_pbase sb \<noteq> 0 \<or> sb_pptr sb \<noteq> 0 \<or> sb_epptr sb \<noteq> 0) then setp 0 0 sb
         else if 0 < size \<and> (sb_pbase sb \<noteq> e \<or> sb_pptr sb \<noteq> e \<or> sb_epptr sb \<noteq> e) then setp e e sb
         else sb)"

text \<open>
  \<open>syncOutput\<close>, with the call \<^verbatim>\<open>*this << src->rdbuf()\<close> written out: the template \<^verbatim>\<open>operator<<\<close> calls
  \<open>syncOutput\<close> first, on the object as it is.
\<close>

partial_function (option) syncOutput :: "allocator \<Rightarrow> string_buffer \<Rightarrow> string_buffer run" where
  "syncOutput grow sb =
     (if put_inside sb
      then rbind (if length (sb_data sb) \<le> sb_pptr sb - sb_pbase sb \<and> source_good sb
                  then rbind (syncOutput grow sb) (\<lambda>sb'. Some (ostream_rdbuf grow sb'))
                  else done_with sb)
             (\<lambda>sb'. done_with (put_apply (sb_pptr sb - sb_pbase sb) sb'))
      else done_with (put_at_end sb))"

text \<open>The template \<^verbatim>\<open>operator<<(const T &)\<close>: on the source's buffer, and on a value with the text \<open>t\<close>.\<close>

definition shl_rdbuf :: "allocator \<Rightarrow> string_buffer \<Rightarrow> string_buffer run" where
  "shl_rdbuf grow sb = rbind (syncOutput grow sb) (\<lambda>sb'. Some (ostream_rdbuf grow sb'))"

definition shl_any :: "allocator \<Rightarrow> string \<Rightarrow> string_buffer \<Rightarrow> string_buffer run" where
  "shl_any grow t sb = rbind (syncOutput grow sb) (\<lambda>sb'. Some (ostream_insert grow t sb'))"

definition get_changed :: "string_buffer \<Rightarrow> bool" where
  "get_changed sb \<longleftrightarrow> sb_gptr sb = 0 \<or> sb_gptr sb = sb_egptr sb \<or>
     (sb_addr sb \<noteq> sb_eback sb \<or> sb_egptr sb < sb_addr sb + length (sb_data sb))"

definition get_valid :: "string_buffer \<Rightarrow> bool" where
  "get_valid sb \<longleftrightarrow> inputInitialized sb \<and> sb_eback sb \<noteq> 0 \<and> sb_gptr sb \<noteq> 0 \<and> sb_egptr sb \<noteq> 0 \<and>
     sb_eback sb \<le> sb_gptr sb \<and> sb_gptr sb \<le> sb_egptr sb"

definition get_apply :: "nat \<Rightarrow> string_buffer \<Rightarrow> bool \<times> string_buffer" where
  "get_apply offset sb =
     (let start = sb_addr sb; size = length (sb_data sb)
      in if offset = size then (False, setg start (start + size) (start + size) sb)
         else if size < offset then (False, setg start 0 (start + size) sb)
         else (True, setg start (start + offset) (start + size) sb))"

definition syncInput :: "stream_type \<Rightarrow> allocator \<Rightarrow> string_buffer \<Rightarrow> (bool \<times> string_buffer) run" where
  "syncInput T grow sb =
     (if length (sb_data sb) = 0
      then done_with (False, setg 0 0 0 sb\<lparr>inputInitialized := False\<rparr>)
      else if get_changed sb
      then rbind (Some (istream_clear T sb)) (\<lambda>sb.
             if get_valid sb
             then let offset = sb_gptr sb - sb_eback sb
                  in rbind (if length (sb_data sb) \<le> offset \<and> source_good sb
                            then shl_rdbuf grow sb else done_with sb)
                       (\<lambda>sb'. done_with (get_apply offset sb'))
             else done_with (True, setg (sb_addr sb) (sb_addr sb) (sb_addr sb + length (sb_data sb)) sb
                               \<lparr>inputInitialized := True\<rparr>))
      else done_with (True, sb))"

definition sync :: "stream_type \<Rightarrow> allocator \<Rightarrow> string_buffer \<Rightarrow> (int \<times> string_buffer) run" where
  "sync T grow sb =
     rbind (syncInput T grow sb) (\<lambda>(_, sb1). rbind (syncOutput grow sb1) (\<lambda>sb2. done_with (0, sb2)))"

text \<open>\<open>swap\<close> with a bare vector: the blocks change hands and the areas follow by \<open>sync\<close>.\<close>

definition swap_vec :: "stream_type \<Rightarrow> allocator \<Rightarrow> string \<times> nat \<times> nat \<Rightarrow> string_buffer
    \<Rightarrow> ((string \<times> nat \<times> nat) \<times> string_buffer) run" where
  "swap_vec T grow other sb =
     (case other of (d, a, c) \<Rightarrow>
        rbind (sync T grow (sb\<lparr>sb_data := d, sb_addr := a, sb_cap := c\<rparr>))
          (\<lambda>(_, sb'). done_with ((sb_data sb, sb_addr sb, sb_cap sb), sb')))"

definition swap_buffer :: "stream_type \<Rightarrow> allocator \<Rightarrow> string_buffer \<Rightarrow> string_buffer
    \<Rightarrow> (string_buffer \<times> string_buffer) run" where
  "swap_buffer T grow sb other =
     rbind (sync T grow (sb\<lparr>sb_data := sb_data other, sb_addr := sb_addr other, sb_cap := sb_cap other\<rparr>))
       (\<lambda>(_, sb'). rbind (sync T grow (other\<lparr>sb_data := sb_data sb, sb_addr := sb_addr sb, sb_cap := sb_cap sb\<rparr>))
          (\<lambda>(_, other'). done_with (sb', other')))"

subsection \<open>The virtual functions of the stream buffer\<close>

text \<open>The next character (\<open>None\<close> is end of file).\<close>

definition underflow :: "stream_type \<Rightarrow> allocator \<Rightarrow> string_buffer \<Rightarrow> (char option \<times> string_buffer) run" where
  "underflow T grow sb =
     rbind (syncInput T grow sb) (\<lambda>(available, sb').
       if available then rbind (Some (peek (sb_gptr sb') sb')) (\<lambda>c. done_with (Some c, sb'))
       else done_with (None, sb'))"

definition overflow :: "allocator \<Rightarrow> int \<Rightarrow> string_buffer \<Rightarrow> (int \<times> string_buffer) run" where
  "overflow grow c sb =
     (let ch = char_of (nat (c mod 256));
          room = (\<lambda>sb. sb_pptr sb < sb_epptr sb \<and> sb_pptr sb \<noteq> 0 \<and> sb_epptr sb \<noteq> 0)
      in if room sb
         then rbind (syncOutput grow sb) (\<lambda>sb'.
                if room sb'
                then rbind (Some (poke (sb_pptr sb') ch sb'))
                       (\<lambda>sb''. done_with (c, sb''\<lparr>sb_pptr := sb_pptr sb'' + 1\<rparr>))
                else done_with (c, vec_insert grow [ch] sb'))
         else done_with (c, vec_insert grow [ch] sb))"

text \<open>End of file is -1, and \<^verbatim>\<open>not_eof\<close> of it is 0.\<close>

definition pbackfail :: "stream_type \<Rightarrow> allocator \<Rightarrow> int \<Rightarrow> string_buffer \<Rightarrow> (int \<times> string_buffer) run" where
  "pbackfail T grow c sb =
     rbind (syncInput T grow sb) (\<lambda>(_, sb).
       if get_valid sb \<and> sb_eback sb < sb_gptr sb
       then let back = setg (sb_eback sb) (sb_gptr sb - 1) (sb_egptr sb) sb
            in if c = - 1 then done_with (0, back)
               else rbind (Some (peek (sb_gptr sb - 1) sb)) (\<lambda>prev.
                      if char_int prev = c then done_with (c, back)
                      else if T = OStream
                      then rbind (Some (poke (sb_gptr sb) (char_of (nat (c mod 256))) back))
                             (\<lambda>sb'. done_with (c, sb'))
                      else done_with (- 1, sb))
       else done_with (- 1, sb))"

definition setbuf :: "stream_type \<Rightarrow> allocator \<Rightarrow> string option \<Rightarrow> int \<Rightarrow> string_buffer \<Rightarrow> string_buffer run" where
  "setbuf T grow s n sb =
     (case s of None \<Rightarrow> Some (sb_clear T sb)
      | Some cs \<Rightarrow>
          if n = 0 then Some (sb_clear T sb)
          else if 0 < n
          then rbind (syncInput T grow (vec_assign grow (take (nat n) cs) sb\<lparr>inputInitialized := False\<rparr>))
                 (\<lambda>(_, sb'). done_with sb')
          else done_with sb)"

text \<open>
  Repositioning, once the areas are synchronised: the offsets the move starts from, the bounds
  checks of the read and of the write position, the new areas. The value returned is the position
  the move started from.
\<close>

definition seek_from :: "seekdir \<Rightarrow> nat \<Rightarrow> nat \<Rightarrow> string_buffer \<Rightarrow> int" where
  "seek_from dir base ptr sb =
     (case dir of Beg \<Rightarrow> 0 | Cur \<Rightarrow> int ptr - int base | End \<Rightarrow> int (length (sb_data sb)))"

definition seek_apply :: "bool \<Rightarrow> bool \<Rightarrow> int \<Rightarrow> seekdir \<Rightarrow> string_buffer \<Rightarrow> int \<times> string_buffer" where
  "seek_apply repositionRead repositionWrite off dir sb =
     (let start = int (sb_addr sb); size = int (length (sb_data sb));
          newInputOffset = seek_from dir (sb_eback sb) (sb_gptr sb) sb;
          newOutputOffset = seek_from dir (sb_pbase sb) (sb_pptr sb) sb
      in if (sb_gptr sb \<noteq> 0 \<or> \<not> repositionRead) \<and> (sb_pptr sb \<noteq> 0 \<or> \<not> repositionWrite)
         then if repositionRead \<and> (newInputOffset + off < 0 \<or> start + newInputOffset + off > start + size)
              then (- 1, sb)
              else if repositionWrite \<and>
                      (newOutputOffset + off < 0 \<or> start + newOutputOffset + off > int (sb_epptr sb))
              then (- 1, sb)
              else let sb1 = (if repositionRead
                              then setg (sb_addr sb) (nat (start + newInputOffset + off)) (nat (start + size)) sb
                              else sb);
                       sb2 = (if repositionWrite
                              then setp (nat (start + newOutputOffset + off)) (nat (start + size)) sb1
                              else sb1)
                   in (if repositionRead then newInputOffset else newOutputOffset, sb2)
         else (- 1, sb))"

definition seekoff :: "stream_type \<Rightarrow> allocator \<Rightarrow> int \<Rightarrow> seekdir \<Rightarrow> bool \<Rightarrow> bool \<Rightarrow> string_buffer
    \<Rightarrow> (int \<times> string_buffer) run" where
  "seekoff T grow off dir which_in which_out sb =
     (let repositionRead = (which_in \<and> T = IOStream); repositionWrite = which_out
      in if repositionRead \<or> repositionWrite
         then rbind (if repositionWrite then syncOutput grow sb else done_with sb) (\<lambda>sb1.
              rbind (if repositionRead then rbind (syncInput T grow sb1) (\<lambda>(_, sb2). done_with sb2)
                     else done_with sb1) (\<lambda>sb2.
              done_with (seek_apply repositionRead repositionWrite off dir sb2)))
         else done_with (- 1, sb))"

definition seekpos :: "stream_type \<Rightarrow> allocator \<Rightarrow> int \<Rightarrow> bool \<Rightarrow> bool \<Rightarrow> string_buffer
    \<Rightarrow> (int \<times> string_buffer) run" where
  "seekpos T grow sp which_in which_out sb = seekoff T grow sp Beg which_in which_out sb"

text \<open>
  What the standard library does with these functions: \<^verbatim>\<open>std::streambuf::sbumpc\<close>, and
  \<^verbatim>\<open>std::istream::get\<close>, which needs a good state and fails it at the end of the file.
\<close>

definition sbumpc :: "stream_type \<Rightarrow> allocator \<Rightarrow> string_buffer \<Rightarrow> (char option \<times> string_buffer) run" where
  "sbumpc T grow sb =
     (let bump = (\<lambda>c sb. (Some c, sb\<lparr>sb_gptr := sb_gptr sb + 1\<rparr>))
      in if sb_gptr sb < sb_egptr sb
         then rbind (Some (peek (sb_gptr sb) sb)) (\<lambda>c. done_with (bump c sb))
         else rbind (underflow T grow sb) (\<lambda>(r, sb').
                done_with (case r of None \<Rightarrow> (None, sb') | Some c \<Rightarrow> bump c sb')))"

definition istream_get :: "allocator \<Rightarrow> string_buffer \<Rightarrow> (char option \<times> string_buffer) run" where
  "istream_get grow sb =
     (if sb_good sb
      then rbind (sbumpc IOStream grow sb) (\<lambda>(r, sb').
             done_with (r, if r = None then sb'\<lparr>sb_good := False\<rparr> else sb'))
      else done_with (None, sb))"

fun read_n :: "allocator \<Rightarrow> nat \<Rightarrow> string_buffer \<Rightarrow> (char option list \<times> string_buffer) run" where
  "read_n grow 0 sb = done_with ([], sb)"
| "read_n grow (Suc n) sb =
     rbind (sbumpc IOStream grow sb) (\<lambda>(r, sb1).
     rbind (read_n grow n sb1) (\<lambda>(rs, sb2). done_with (r # rs, sb2)))"

subsection \<open>The specialisation for input streams\<close>

text \<open>
  \<^verbatim>\<open>BasicStringBuffer<std::istream>\<close> is written out again in the source. Its \<^verbatim>\<open>operator<<\<close> on a stream
  buffer writes through the private \<^verbatim>\<open>std::ostream\<close> base without \<open>syncOutput\<close>, so nothing recurs.
\<close>

definition i_BasicStringBuffer :: "allocator \<Rightarrow> string \<Rightarrow> istream_src option \<Rightarrow> string_buffer" where
  "i_BasicStringBuffer grow str source = vec_insert grow str (new_buffer [] source)"

definition i_shl_rdbuf :: "allocator \<Rightarrow> string_buffer \<Rightarrow> sb_fault + string_buffer" where
  "i_shl_rdbuf grow sb = ostream_rdbuf grow sb"

definition i_nullTerminate :: "allocator \<Rightarrow> string_buffer \<Rightarrow> string_buffer" where
  "i_nullTerminate grow sb =
     (if sb_data sb = [] \<or> last (sb_data sb) \<noteq> NUL then vec_insert grow [NUL] sb else sb)"

definition i_unterminate :: "string_buffer \<Rightarrow> string_buffer" where
  "i_unterminate sb =
     (if sb_data sb \<noteq> [] \<and> last (sb_data sb) = NUL then sb\<lparr>sb_data := butlast (sb_data sb)\<rparr> else sb)"

definition i_clear :: "string_buffer \<Rightarrow> string_buffer" where
  "i_clear sb = sb\<lparr>sb_data := [], sb_good := True\<rparr>"

definition i_c_str :: "allocator \<Rightarrow> bool \<Rightarrow> string_buffer \<Rightarrow> sb_fault + (nat \<times> string_buffer)" where
  "i_c_str grow addNulTerminator sb =
     (let sb' = (if addNulTerminator then i_nullTerminate grow sb else sb)
      in if sb_data sb' = [] then Inl Dangling else Inr (sb_addr sb', sb'))"

definition i_syncInput :: "allocator \<Rightarrow> string_buffer \<Rightarrow> sb_fault + (bool \<times> string_buffer)" where
  "i_syncInput grow sb =
     (if length (sb_data sb) = 0
      then Inr (False, setg 0 0 0 sb\<lparr>inputInitialized := False\<rparr>)
      else if get_changed sb
      then let sb1 = sb\<lparr>sb_good := True\<rparr>
           in if get_valid sb1
              then let offset = sb_gptr sb1 - sb_eback sb1
                   in ebind (if length (sb_data sb1) \<le> offset \<and> source_good sb1
                             then i_shl_rdbuf grow sb1 else Inr sb1)
                        (\<lambda>sb2. Inr (get_apply offset sb2))
              else Inr (True, setg (sb_addr sb1) (sb_addr sb1) (sb_addr sb1 + length (sb_data sb1)) sb1
                          \<lparr>inputInitialized := True\<rparr>)
      else Inr (True, sb))"

definition i_syncOutput :: "allocator \<Rightarrow> string_buffer \<Rightarrow> sb_fault + string_buffer" where
  "i_syncOutput grow sb =
     (if put_inside sb
      then ebind (if length (sb_data sb) \<le> sb_pptr sb - sb_pbase sb \<and> source_good sb
                  then i_shl_rdbuf grow sb else Inr sb)
             (\<lambda>sb'. Inr (put_apply (sb_pptr sb - sb_pbase sb) sb'))
      else Inr (put_at_end sb))"

definition i_sync :: "allocator \<Rightarrow> string_buffer \<Rightarrow> sb_fault + (int \<times> string_buffer)" where
  "i_sync grow sb =
     ebind (i_syncInput grow sb) (\<lambda>(_, sb1). ebind (i_syncOutput grow sb1) (\<lambda>sb2. Inr (0, sb2)))"

definition i_swap :: "allocator \<Rightarrow> string \<times> nat \<times> nat \<Rightarrow> string_buffer
    \<Rightarrow> sb_fault + ((string \<times> nat \<times> nat) \<times> string_buffer)" where
  "i_swap grow other sb =
     (case other of (d, a, c) \<Rightarrow>
        ebind (i_sync grow (sb\<lparr>sb_data := d, sb_addr := a, sb_cap := c\<rparr>))
          (\<lambda>(_, sb'). Inr ((sb_data sb, sb_addr sb, sb_cap sb), sb')))"

definition i_underflow :: "allocator \<Rightarrow> string_buffer \<Rightarrow> sb_fault + (char option \<times> string_buffer)" where
  "i_underflow grow sb =
     ebind (i_syncInput grow sb) (\<lambda>(available, sb').
       if available then ebind (peek (sb_gptr sb') sb') (\<lambda>c. Inr (Some c, sb'))
       else Inr (None, sb'))"

definition i_overflow :: "allocator \<Rightarrow> int \<Rightarrow> string_buffer \<Rightarrow> sb_fault + (int \<times> string_buffer)" where
  "i_overflow grow c sb =
     (let ch = char_of (nat (c mod 256));
          room = (\<lambda>sb. sb_pptr sb < sb_epptr sb \<and> sb_pptr sb \<noteq> 0 \<and> sb_epptr sb \<noteq> 0)
      in if room sb
         then ebind (i_syncOutput grow sb) (\<lambda>sb'.
                if room sb'
                then ebind (poke (sb_pptr sb') ch sb')
                       (\<lambda>sb''. Inr (c, sb''\<lparr>sb_pptr := sb_pptr sb'' + 1\<rparr>))
                else Inr (c, vec_insert grow [ch] sb'))
         else Inr (c, vec_insert grow [ch] sb))"

definition i_pbackfail :: "allocator \<Rightarrow> int \<Rightarrow> string_buffer \<Rightarrow> sb_fault + (int \<times> string_buffer)" where
  "i_pbackfail grow c sb =
     ebind (i_syncInput grow sb) (\<lambda>(_, sb).
       if get_valid sb \<and> sb_eback sb < sb_gptr sb
       then let back = setg (sb_eback sb) (sb_gptr sb - 1) (sb_egptr sb) sb
            in if c = - 1 then Inr (0, back)
               else ebind (peek (sb_gptr sb - 1) sb) (\<lambda>prev.
                      if char_int prev = c then Inr (c, back) else Inr (- 1, sb))
       else Inr (- 1, sb))"

definition i_setbuf :: "allocator \<Rightarrow> string option \<Rightarrow> int \<Rightarrow> string_buffer \<Rightarrow> sb_fault + string_buffer" where
  "i_setbuf grow s n sb =
     (case s of None \<Rightarrow> Inr (i_clear sb)
      | Some cs \<Rightarrow>
          if n = 0 then Inr (i_clear sb)
          else if 0 < n
          then ebind (i_syncInput grow (vec_assign grow (take (nat n) cs) sb\<lparr>inputInitialized := False\<rparr>))
                 (\<lambda>(_, sb'). Inr sb')
          else Inr sb)"

definition i_seekoff :: "allocator \<Rightarrow> int \<Rightarrow> seekdir \<Rightarrow> bool \<Rightarrow> bool \<Rightarrow> string_buffer
    \<Rightarrow> sb_fault + (int \<times> string_buffer)" where
  "i_seekoff grow off dir which_in which_out sb =
     (let repositionRead = which_in; repositionWrite = False
      in if repositionRead \<or> repositionWrite
         then ebind (if repositionWrite then i_syncOutput grow sb else Inr sb) (\<lambda>sb1.
              ebind (if repositionRead then ebind (i_syncInput grow sb1) (\<lambda>(_, sb2). Inr sb2)
                     else Inr sb1) (\<lambda>sb2.
              Inr (seek_apply repositionRead repositionWrite off dir sb2)))
         else Inr (- 1, sb))"

definition i_seekpos :: "allocator \<Rightarrow> int \<Rightarrow> bool \<Rightarrow> bool \<Rightarrow> string_buffer
    \<Rightarrow> sb_fault + (int \<times> string_buffer)" where
  "i_seekpos grow sp which_in which_out sb = i_seekoff grow sp Beg which_in which_out sb"

subsection \<open>Buffers that read a stream in and write the text out\<close>

text \<open>
  The stream a pointer writes to: some \<^verbatim>\<open>std::ostream\<close>, by the text it has received, or another
  \<^verbatim>\<open>StringBuffer\<close>. \<^verbatim>\<open>operator<<(std::ostream &, BasicStringBuffer &)\<close> writes the whole text, when there
  is one, as it stands in the vector.
\<close>

datatype sink = Text string | Buffer string_buffer

fun sink_write :: "allocator \<Rightarrow> string \<Rightarrow> sink \<Rightarrow> sb_fault + sink" where
  "sink_write grow t (Text s) = Inr (Text (s @ t))"
| "sink_write grow t (Buffer b) = ebind (ostream_insert grow t b) (\<lambda>b'. Inr (Buffer b'))"

definition ostream_shl_buffer :: "allocator \<Rightarrow> string_buffer \<Rightarrow> sink \<Rightarrow> sb_fault + sink" where
  "ostream_shl_buffer grow sb os =
     (if 0 < sb_size sb then sink_write grow (sb_data sb) os else Inr os)"

text \<open>A pointer: the buffer it owns or refers to, and the stream to write to, if any is left.\<close>

record buffer_ptr =
  bp_sb :: string_buffer
  bp_os :: "sink option"

definition ptr_to_buffer :: "string_buffer \<Rightarrow> buffer_ptr" where
  "ptr_to_buffer sb = \<lparr>bp_sb = sb, bp_os = None\<rparr>"

definition read_in :: "allocator \<Rightarrow> istream_src \<Rightarrow> string_buffer run" where
  "read_in grow is =
     rbind (shl_rdbuf grow (BasicStringBuffer grow [] (Some is))) (\<lambda>sb. done_with (sb\<lparr>sb_good := True\<rparr>))"

definition ptr_to_istream :: "allocator \<Rightarrow> istream_src \<Rightarrow> buffer_ptr run" where
  "ptr_to_istream grow is = rbind (read_in grow is) (\<lambda>sb. done_with \<lparr>bp_sb = sb, bp_os = None\<rparr>)"

definition ptr_to_ostream :: "allocator \<Rightarrow> sink \<Rightarrow> buffer_ptr" where
  "ptr_to_ostream grow os = \<lparr>bp_sb = BasicStringBuffer grow [] None, bp_os = Some os\<rparr>"

definition ptr_to_iostream :: "allocator \<Rightarrow> istream_src \<Rightarrow> sink \<Rightarrow> buffer_ptr run" where
  "ptr_to_iostream grow is os =
     rbind (read_in grow is) (\<lambda>sb. done_with \<lparr>bp_sb = sb, bp_os = Some os\<rparr>)"

text \<open>The destructor, with the stream it leaves behind, and \<open>flush\<close>, which gives the stream up.\<close>

definition ptr_destroy :: "allocator \<Rightarrow> buffer_ptr \<Rightarrow> sb_fault + sink option" where
  "ptr_destroy grow p =
     (case bp_os p of None \<Rightarrow> Inr None
      | Some os \<Rightarrow> ebind (ostream_shl_buffer grow (bp_sb p) os) (\<lambda>os'. Inr (Some os')))"

definition ptr_flush :: "allocator \<Rightarrow> buffer_ptr \<Rightarrow> sb_fault + (sink option \<times> buffer_ptr)" where
  "ptr_flush grow p =
     (case bp_os p of None \<Rightarrow> Inr (None, p)
      | Some os \<Rightarrow> ebind (ostream_shl_buffer grow (bp_sb p) os) (\<lambda>os'. Inr (Some os', p\<lparr>bp_os := None\<rparr>)))"

definition optr_to_buffer :: "string_buffer \<Rightarrow> buffer_ptr" where
  "optr_to_buffer sb = \<lparr>bp_sb = sb, bp_os = None\<rparr>"

definition optr_to_stream :: "allocator \<Rightarrow> sink \<Rightarrow> buffer_ptr" where
  "optr_to_stream grow os = \<lparr>bp_sb = BasicStringBuffer grow [] None, bp_os = Some os\<rparr>"

definition optr_destroy :: "allocator \<Rightarrow> buffer_ptr \<Rightarrow> sb_fault + sink option" where
  "optr_destroy grow p =
     (case bp_os p of None \<Rightarrow> Inr None
      | Some os \<Rightarrow> ebind (ostream_shl_buffer grow (bp_sb p) os) (\<lambda>os'. Inr (Some os')))"

definition optr_flush :: "allocator \<Rightarrow> buffer_ptr \<Rightarrow> sb_fault + (sink option \<times> buffer_ptr)" where
  "optr_flush grow p =
     (case bp_os p of None \<Rightarrow> Inr (None, p)
      | Some os \<Rightarrow> ebind (ostream_shl_buffer grow (bp_sb p) os) (\<lambda>os'. Inr (Some os', p\<lparr>bp_os := None\<rparr>)))"

text \<open>
  The input pointers. One made from a \<^verbatim>\<open>StringBuffer\<close> reads that buffer to its end through the
  stream interface (\<open>drain\<close>), so the buffer's read position moves.
\<close>

partial_function (option) drain :: "allocator \<Rightarrow> string_buffer \<Rightarrow> (string \<times> string_buffer) run" where
  "drain grow sb =
     rbind (sbumpc IOStream grow sb) (\<lambda>r.
       case fst r of None \<Rightarrow> done_with ([], snd r)
       | Some c \<Rightarrow> rbind (drain grow (snd r)) (\<lambda>r'. done_with (c # fst r', snd r')))"

definition iptr_to_buffer :: "string_buffer \<Rightarrow> buffer_ptr" where
  "iptr_to_buffer sb = \<lparr>bp_sb = sb, bp_os = None\<rparr>"

definition iptr_to_istream :: "allocator \<Rightarrow> istream_src \<Rightarrow> sb_fault + buffer_ptr" where
  "iptr_to_istream grow is =
     ebind (i_shl_rdbuf grow (i_BasicStringBuffer grow [] (Some is)))
       (\<lambda>sb. Inr \<lparr>bp_sb = sb\<lparr>sb_good := True\<rparr>, bp_os = None\<rparr>)"

definition iptr_to_string_buffer :: "allocator \<Rightarrow> string_buffer \<Rightarrow> (string_buffer \<times> buffer_ptr) run" where
  "iptr_to_string_buffer grow sb =
     rbind (drain grow sb) (\<lambda>(t, sb').
     rbind (Some (iptr_to_istream grow \<lparr>is_rest = t, is_good = sb_good sb\<rparr>)) (\<lambda>p. done_with (sb', p)))"

subsection \<open>Appending\<close>

lemma vec_insert_simps [simp]:
  "sb_data (vec_insert grow s sb) = sb_data sb @ s"
  "sb_eback (vec_insert grow s sb) = sb_eback sb"
  "sb_gptr (vec_insert grow s sb) = sb_gptr sb"
  "sb_egptr (vec_insert grow s sb) = sb_egptr sb"
  "sb_pbase (vec_insert grow s sb) = sb_pbase sb"
  "sb_pptr (vec_insert grow s sb) = sb_pptr sb"
  "sb_epptr (vec_insert grow s sb) = sb_epptr sb"
  "sb_src (vec_insert grow s sb) = sb_src sb"
  "sb_good (vec_insert grow s sb) = sb_good sb"
  "inputInitialized (vec_insert grow s sb) = inputInitialized sb"
  by (auto simp: vec_insert_def Let_def split: prod.splits)

lemma vec_insert_wf: "allocates grow \<Longrightarrow> vec_wf sb \<Longrightarrow> vec_wf (vec_insert grow s sb)"
  by (auto simp: vec_insert_def vec_wf_def allocates_def Let_def case_prod_beta)

lemma vec_insert_same_block:
  "sb_cap (vec_insert grow s sb) = sb_cap sb \<and> sb_addr (vec_insert grow s sb) = sb_addr sb"
  if "length (sb_data sb) + length s \<le> sb_cap sb"
  using that by (simp add: vec_insert_def)

lemma vec_insert_new_block:
  "(sb_addr (vec_insert grow s sb), sb_cap (vec_insert grow s sb)) =
     grow (sb_addr sb) (sb_cap sb) (length (sb_data sb) + length s)"
  if "sb_cap sb < length (sb_data sb) + length s"
  using that by (simp add: vec_insert_def split: prod.splits)

lemma vec_wf_addr: "vec_wf sb \<Longrightarrow> sb_data sb \<noteq> [] \<Longrightarrow> 0 < sb_addr sb"
  by (cases "sb_data sb") (auto simp: vec_wf_def)

text \<open>The text a value stands for.\<close>

fun piece_text :: "piece \<Rightarrow> string" where
  "piece_text (Chr c) = [c]"
| "piece_text (Arr a) = butlast a"
| "piece_text (CStr s) = takeWhile (\<lambda>c. c \<noteq> NUL) s"
| "piece_text (Str s) = s"
| "piece_text (Num i) = convert_primitive i"
| "piece_text (Boolean b) = (if b then ''1'' else ''0'')"
| "piece_text (Float t) = t"
| "piece_text EndL = [CHR 0x0A]"

text \<open>The integers the overloads take: up to 64 bits, signed or unsigned.\<close>

fun piece_ok :: "piece \<Rightarrow> bool" where
  "piece_ok (Num i) \<longleftrightarrow> - (2 ^ 63) \<le> i \<and> i < 2 ^ 64"
| "piece_ok p \<longleftrightarrow> True"

lemma take_strlen: "take (strlen s) s = takeWhile (\<lambda>c. c \<noteq> NUL) s"
  by (simp add: strlen_def takeWhile_eq_take [symmetric])

lemma length_decimal: "n < 10 ^ k \<Longrightarrow> 0 < k \<Longrightarrow> length (decimal n) \<le> k"
proof (induction k arbitrary: n)
  case (Suc k)
  show ?case
  proof (cases "n < 10")
    case False
    from Suc.prems(1) have "n div 10 < 10 ^ k"
      by (metis less_mult_imp_div_less power_Suc2)
    moreover from this False have "0 < k" by (cases k) auto
    ultimately have "length (decimal (n div 10)) \<le> k" by (rule Suc.IH)
    then show ?thesis by (simp add: decimal.simps [of n])
  next
    case True
    then show ?thesis by (simp add: decimal.simps [of n])
  qed
qed simp

lemma length_number:
  assumes "- (2 ^ 63) \<le> i" and "i < 2 ^ 64"
  shows "length (convert_primitive i) \<le> 20"
proof (cases "i < 0")
  case True
  with assms have "nat (- i) < 10 ^ 19" by (simp add: nat_less_iff)
  then have "length (decimal (nat (- i))) \<le> 19" by (rule length_decimal) simp
  with True show ?thesis by (simp add: convert_primitive_def)
next
  case False
  with assms have "nat i < 10 ^ 20" by (simp add: nat_less_iff)
  then have "length (decimal (nat i)) \<le> 20" by (rule length_decimal) simp
  with False show ?thesis by (simp add: convert_primitive_def)
qed

lemma appendNumber_fits:
  "- (2 ^ 63) \<le> i \<Longrightarrow> i < 2 ^ 64 \<Longrightarrow> appendNumber grow i sb = vec_insert grow (convert_primitive i) sb"
  using length_number [of i] by (simp add: appendNumber_def to_chars_def Let_def)

lemma bool_number: "convert_primitive 1 = ''1''" "convert_primitive 0 = ''0''"
  by (code_simp, code_simp)

lemma shl_vec_insert: "piece_ok p \<Longrightarrow> shl grow p sb = vec_insert grow (piece_text p) sb"
  by (cases p)
    (simp_all add: shl_char_def shl_array_def shl_cstr_def shl_string_def append_char_def take_strlen
      appendNumber_fits appendNumber_bool_def appendNumber_float_def append_string_def
      butlast_conv_take bool_number)

definition pieces_text :: "piece list \<Rightarrow> string" where
  "pieces_text ps = concat (map piece_text ps)"

definition write_all :: "allocator \<Rightarrow> piece list \<Rightarrow> string_buffer \<Rightarrow> string_buffer" where
  "write_all grow ps sb = fold (shl grow) ps sb"

lemma write_all_simps [simp]:
  "write_all grow [] sb = sb"
  "write_all grow (p # ps) sb = write_all grow ps (shl grow p sb)"
  by (simp_all add: write_all_def)

lemma write_all_data: "list_all piece_ok ps \<Longrightarrow> sb_data (write_all grow ps sb) = sb_data sb @ pieces_text ps"
  by (induction ps arbitrary: sb) (auto simp: shl_vec_insert pieces_text_def)

text \<open>What appends leave alone: the two areas, the source, the state.\<close>

definition same_streams :: "string_buffer \<Rightarrow> string_buffer \<Rightarrow> bool" where
  "same_streams a b \<longleftrightarrow>
     sb_eback a = sb_eback b \<and> sb_gptr a = sb_gptr b \<and> sb_egptr a = sb_egptr b \<and>
     sb_pbase a = sb_pbase b \<and> sb_pptr a = sb_pptr b \<and> sb_epptr a = sb_epptr b \<and>
     sb_src a = sb_src b \<and> sb_good a = sb_good b \<and> inputInitialized a = inputInitialized b"

lemma write_all_streams: "list_all piece_ok ps \<Longrightarrow> same_streams (write_all grow ps sb) sb"
  by (induction ps arbitrary: sb) (auto simp: shl_vec_insert same_streams_def)

lemma write_all_wf:
  "allocates grow \<Longrightarrow> vec_wf sb \<Longrightarrow> list_all piece_ok ps \<Longrightarrow> vec_wf (write_all grow ps sb)"
  by (induction ps arbitrary: sb) (auto simp: shl_vec_insert vec_insert_wf)

subsection \<open>Reading\<close>

text \<open>
  The read position of a buffer is the offset into its get area, wherever that area lies. \<open>get_wf\<close>
  is the invariant of the get area under reads and appends: it may lie in a block that the vector
  has left, but it never reaches past the text. \<open>get_synced\<close> adds that it lies in the vector.
\<close>

definition read_pos :: "string_buffer \<Rightarrow> nat" where
  "read_pos sb = sb_gptr sb - sb_eback sb"

definition unread :: "string_buffer \<Rightarrow> string" where
  "unread sb = drop (read_pos sb) (sb_data sb)"

definition get_wf :: "string_buffer \<Rightarrow> bool" where
  "get_wf sb \<longleftrightarrow>
     (if inputInitialized sb
      then 0 < sb_eback sb \<and> sb_eback sb \<le> sb_gptr sb \<and> sb_gptr sb \<le> sb_egptr sb \<and>
           sb_egptr sb - sb_eback sb \<le> length (sb_data sb)
      else sb_eback sb = 0 \<and> sb_gptr sb = 0 \<and> sb_egptr sb = 0)"

definition get_synced :: "string_buffer \<Rightarrow> bool" where
  "get_synced sb \<longleftrightarrow> get_wf sb \<and> (inputInitialized sb \<longrightarrow> sb_eback sb = sb_addr sb)"

lemma setg_simps [simp]:
  "sb_data (setg b n e sb) = sb_data sb" "sb_addr (setg b n e sb) = sb_addr sb"
  "sb_cap (setg b n e sb) = sb_cap sb" "sb_eback (setg b n e sb) = b" "sb_gptr (setg b n e sb) = n"
  "sb_egptr (setg b n e sb) = e" "sb_pbase (setg b n e sb) = sb_pbase sb"
  "sb_pptr (setg b n e sb) = sb_pptr sb" "sb_epptr (setg b n e sb) = sb_epptr sb"
  "sb_src (setg b n e sb) = sb_src sb" "sb_good (setg b n e sb) = sb_good sb"
  "inputInitialized (setg b n e sb) = inputInitialized sb"
  by (simp_all add: setg_def)

lemma setp_simps [simp]:
  "sb_data (setp b e sb) = sb_data sb" "sb_addr (setp b e sb) = sb_addr sb"
  "sb_cap (setp b e sb) = sb_cap sb" "sb_pbase (setp b e sb) = b" "sb_pptr (setp b e sb) = b"
  "sb_epptr (setp b e sb) = e" "sb_eback (setp b e sb) = sb_eback sb"
  "sb_gptr (setp b e sb) = sb_gptr sb" "sb_egptr (setp b e sb) = sb_egptr sb"
  "sb_src (setp b e sb) = sb_src sb" "sb_good (setp b e sb) = sb_good sb"
  "inputInitialized (setp b e sb) = inputInitialized sb"
  by (simp_all add: setp_def)

lemma get_wf_append: "get_wf sb \<Longrightarrow> get_wf (vec_insert grow s sb)"
  by (auto simp: get_wf_def)

lemma read_pos_bound: "get_wf sb \<Longrightarrow> read_pos sb \<le> length (sb_data sb)"
  by (auto simp: get_wf_def read_pos_def split: if_splits)

lemma get_valid_iff: "get_wf sb \<Longrightarrow> get_valid sb \<longleftrightarrow> inputInitialized sb"
  by (auto simp: get_wf_def get_valid_def split: if_splits)

text \<open>What \<open>syncInput\<close> makes of a buffer whose source, if it has one, is not asked.\<close>

definition input_synced :: "string_buffer \<Rightarrow> string_buffer" where
  "input_synced sb =
     (if sb_data sb = [] then setg 0 0 0 sb\<lparr>inputInitialized := False\<rparr>
      else setg (sb_addr sb) (sb_addr sb + read_pos sb) (sb_addr sb + length (sb_data sb))
             (sb\<lparr>inputInitialized := True, sb_good := (get_changed sb \<or> sb_good sb)\<rparr>))"

lemma input_synced_simps [simp]:
  "sb_data (input_synced sb) = sb_data sb" "sb_addr (input_synced sb) = sb_addr sb"
  "sb_cap (input_synced sb) = sb_cap sb" "sb_pbase (input_synced sb) = sb_pbase sb"
  "sb_pptr (input_synced sb) = sb_pptr sb" "sb_epptr (input_synced sb) = sb_epptr sb"
  "sb_src (input_synced sb) = sb_src sb" "inputInitialized (input_synced sb) \<longleftrightarrow> sb_data sb \<noteq> []"
  by (simp_all add: input_synced_def)

definition source_idle :: "string_buffer \<Rightarrow> bool" where
  "source_idle sb \<longleftrightarrow> read_pos sb < length (sb_data sb) \<or> \<not> source_good sb"

lemma record_ext:
  "a = b" if "sb_data a = sb_data b" "sb_addr a = sb_addr b" "sb_cap a = sb_cap b" "same_streams a b"
  using that by (cases a; cases b) (simp add: same_streams_def)

lemma syncInput_idle:
  assumes wf: "get_wf sb" and vec: "vec_wf sb" and src: "source_idle sb"
  shows "syncInput IOStream grow sb = done_with (read_pos sb < length (sb_data sb), input_synced sb)"
proof (cases "sb_data sb = []")
  case True
  then show ?thesis by (simp add: syncInput_def input_synced_def)
next
  case data: False
  show ?thesis
  proof (cases "get_changed sb")
    case True
    have "read_pos sb \<le> length (sb_data sb)" using wf by (rule read_pos_bound)
    moreover have "get_valid (sb\<lparr>sb_good := True\<rparr>) \<longleftrightarrow> inputInitialized sb"
      using wf by (auto simp: get_wf_def get_valid_def split: if_splits)
    moreover have "\<not> inputInitialized sb \<Longrightarrow> read_pos sb = 0"
      using wf by (simp add: get_wf_def read_pos_def)
    ultimately show ?thesis using data True src
      by (cases "inputInitialized sb")
        (auto simp: syncInput_def istream_clear_def input_synced_def get_apply_def source_idle_def
          read_pos_def source_good_def Let_def setg_def)
  next
    case False
    with wf data have area: "inputInitialized sb" "sb_eback sb = sb_addr sb"
        "sb_egptr sb = sb_addr sb + length (sb_data sb)" "sb_gptr sb < sb_egptr sb" "sb_addr sb \<le> sb_gptr sb"
      by (auto simp: get_changed_def get_wf_def split: if_splits)
    then have "input_synced sb = sb" using data False
      by (intro record_ext) (auto simp: input_synced_def read_pos_def same_streams_def)
    with area False data show ?thesis by (simp add: syncInput_def read_pos_def)
  qed
qed

lemma input_synced_get:
  assumes "get_wf sb" and "vec_wf sb"
  shows "get_synced (input_synced sb)" and "read_pos (input_synced sb) = read_pos sb"
    and "unread (input_synced sb) = unread sb"
proof -
  have "read_pos sb \<le> length (sb_data sb)" using assms(1) by (rule read_pos_bound)
  then show "get_synced (input_synced sb)" and pos: "read_pos (input_synced sb) = read_pos sb"
    using vec_wf_addr [OF assms(2)]
    by (auto simp: get_synced_def get_wf_def input_synced_def read_pos_def)
  then show "unread (input_synced sb) = unread sb" by (simp add: unread_def)
qed

text \<open>One character: the next unread one, from a get area in the vector.\<close>

lemma peek_unread:
  "peek (sb_addr sb + n) sb = Inr (sb_data sb ! n)" if "n < length (sb_data sb)"
  using that by (simp add: peek_def)

lemma sbumpc_inside:
  assumes sync: "get_synced sb" and room: "sb_gptr sb < sb_egptr sb"
  shows "sbumpc IOStream grow sb =
           done_with (Some (sb_data sb ! read_pos sb), sb\<lparr>sb_gptr := sb_gptr sb + 1\<rparr>)"
    and "read_pos sb < length (sb_data sb)"
proof -
  from sync room have init: "inputInitialized sb"
    by (auto simp: get_synced_def get_wf_def split: if_splits)
  with sync room have "sb_eback sb = sb_addr sb" "sb_addr sb \<le> sb_gptr sb"
      "sb_egptr sb - sb_addr sb \<le> length (sb_data sb)"
    by (auto simp: get_synced_def get_wf_def)
  with room have "sb_gptr sb = sb_addr sb + read_pos sb" and pos: "read_pos sb < length (sb_data sb)"
    by (auto simp: read_pos_def)
  then show "sbumpc IOStream grow sb =
      done_with (Some (sb_data sb ! read_pos sb), sb\<lparr>sb_gptr := sb_gptr sb + 1\<rparr>)"
    using room peek_unread [OF pos] by (simp add: sbumpc_def)
  from pos show "read_pos sb < length (sb_data sb)" .
qed

lemma sbumpc_refill:
  assumes wf: "get_wf sb" "vec_wf sb" "source_idle sb" and room: "\<not> sb_gptr sb < sb_egptr sb"
  shows "sbumpc IOStream grow sb =
           done_with (if read_pos sb < length (sb_data sb)
                      then (Some (sb_data sb ! read_pos sb),
                            (input_synced sb)\<lparr>sb_gptr := sb_gptr (input_synced sb) + 1\<rparr>)
                      else (None, input_synced sb))"
proof (cases "read_pos sb < length (sb_data sb)")
  case True
  then have "sb_data sb \<noteq> []" by auto
  then have "sb_gptr (input_synced sb) = sb_addr (input_synced sb) + read_pos sb"
    by (simp add: input_synced_def)
  with True have "peek (sb_gptr (input_synced sb)) (input_synced sb) = Inr (sb_data sb ! read_pos sb)"
    using peek_unread [of "read_pos sb" "input_synced sb"] by simp
  with True room show ?thesis
    by (simp add: sbumpc_def underflow_def syncInput_idle [OF wf] Let_def)
next
  case False
  with room show ?thesis by (simp add: sbumpc_def underflow_def syncInput_idle [OF wf] Let_def)
qed

text \<open>
  A buffer ready for reading: the get area in the vector, no source to fall back on. Reading
  keeps it ready, takes the unread text character by character and reports the end.
\<close>

definition reader_ok :: "string_buffer \<Rightarrow> bool" where
  "reader_ok sb \<longleftrightarrow> get_synced sb \<and> vec_wf sb \<and> \<not> source_good sb"

lemma get_synced_bump:
  "get_synced (sb\<lparr>sb_gptr := sb_gptr sb + 1\<rparr>)" "read_pos (sb\<lparr>sb_gptr := sb_gptr sb + 1\<rparr>) = read_pos sb + 1"
  if "get_synced sb" "sb_gptr sb < sb_egptr sb"
  using that by (auto simp: get_synced_def get_wf_def read_pos_def split: if_splits)

lemma source_good_streams [simp]:
  "source_good (sb\<lparr>sb_gptr := n\<rparr>) = source_good sb" "source_good (input_synced sb) = source_good sb"
  "source_good (vec_insert grow s sb) = source_good sb"
  by (simp_all add: source_good_def)

lemma vec_wf_streams [simp]:
  "vec_wf (sb\<lparr>sb_gptr := n\<rparr>) = vec_wf sb" "vec_wf (input_synced sb) = vec_wf sb"
  by (simp_all add: vec_wf_def)

lemma sbumpc_reader:
  assumes ok: "reader_ok sb"
  obtains sb' where "reader_ok sb'" and "sb_data sb' = sb_data sb"
    and "sbumpc IOStream grow sb = done_with (if unread sb = [] then None else Some (hd (unread sb)), sb')"
    and "unread sb' = tl (unread sb)"
proof (cases "sb_gptr sb < sb_egptr sb")
  case True
  from ok have "get_synced sb" by (simp add: reader_ok_def)
  note bump = sbumpc_inside [OF this True] get_synced_bump [OF this True]
  show ?thesis
    by (rule that [of "sb\<lparr>sb_gptr := sb_gptr sb + 1\<rparr>"])
      (use ok bump in \<open>auto simp: reader_ok_def unread_def hd_drop_conv_nth drop_Suc [symmetric] tl_drop\<close>)
next
  case False
  from ok have wf: "get_wf sb" "vec_wf sb" "source_idle sb"
    by (simp_all add: reader_ok_def get_synced_def source_idle_def)
  note sync = input_synced_get [OF wf(1,2)]
  show ?thesis
  proof (cases "read_pos sb < length (sb_data sb)")
    case True
    then have "sb_data sb \<noteq> []" by auto
    with True have room: "sb_gptr (input_synced sb) < sb_egptr (input_synced sb)"
      by (simp add: input_synced_def)
    show ?thesis
      by (rule that [of "(input_synced sb)\<lparr>sb_gptr := sb_gptr (input_synced sb) + 1\<rparr>"])
        (use ok True sync get_synced_bump [OF sync(1) room] sbumpc_refill [OF wf False] in
          \<open>auto simp: reader_ok_def unread_def hd_drop_conv_nth drop_Suc [symmetric] tl_drop\<close>)
  next
    case at_end: False
    show ?thesis
      by (rule that [of "input_synced sb"])
        (use ok at_end sync sbumpc_refill [OF wf False] in \<open>auto simp: reader_ok_def unread_def\<close>)
  qed
qed

lemma read_n_reader:
  assumes "reader_ok sb"
  shows "\<exists>sb'. read_n grow n sb =
           done_with (map Some (take n (unread sb)) @ replicate (n - length (unread sb)) None, sb')
         \<and> reader_ok sb' \<and> sb_data sb' = sb_data sb \<and> unread sb' = drop n (unread sb)"
  using assms
proof (induction n arbitrary: sb)
  case (Suc n)
  obtain sb1 where sb1: "reader_ok sb1" "sb_data sb1 = sb_data sb" "unread sb1 = tl (unread sb)"
      "sbumpc IOStream grow sb = done_with (if unread sb = [] then None else Some (hd (unread sb)), sb1)"
    using sbumpc_reader [OF Suc.prems] by metis
  obtain sb2 where sb2: "reader_ok sb2" "sb_data sb2 = sb_data sb1" "unread sb2 = drop n (unread sb1)"
      "read_n grow n sb1 =
         done_with (map Some (take n (unread sb1)) @ replicate (n - length (unread sb1)) None, sb2)"
    using Suc.IH [OF sb1(1)] by blast
  show ?case
    using sb1 sb2 by (cases "unread sb") (auto simp: drop_Suc)
qed auto

subsection \<open>Synchronising the put area\<close>

definition output_stuck :: "string_buffer \<Rightarrow> bool" where
  "output_stuck sb \<longleftrightarrow>
     put_inside sb \<and> length (sb_data sb) \<le> sb_pptr sb - sb_pbase sb \<and> source_good sb"

lemma syncOutput_stuck_None: "output_stuck sb \<Longrightarrow> syncOutput grow sb = None"
proof -
  have "\<not> output_stuck b" if run: "syncOutput g b = Some r" for g b r
  proof (rule syncOutput.raw_induct [where P = "\<lambda>g b r. \<not> output_stuck b", OF _ run])
    fix rec and g :: allocator and b r
    assume IH: "\<And>g b r. rec g b = Some r \<Longrightarrow> \<not> output_stuck b"
      and eq: "(if put_inside b
        then rbind (if length (sb_data b) \<le> sb_pptr b - sb_pbase b \<and> source_good b
                    then rbind (rec g b) (\<lambda>sb'. Some (ostream_rdbuf g sb')) else done_with b)
               (\<lambda>sb'. done_with (put_apply (sb_pptr b - sb_pbase b) sb'))
        else done_with (put_at_end b)) = Some r"
    show "\<not> output_stuck b"
    proof
      assume stuck: "output_stuck b"
      with eq obtain r' where "rec g b = Some r'" by (cases "rec g b") (auto simp: output_stuck_def)
      from IH [OF this] stuck show False by simp
    qed
  qed
  then show "output_stuck sb \<Longrightarrow> syncOutput grow sb = None" by (cases "syncOutput grow sb") auto
qed

definition output_synced :: "string_buffer \<Rightarrow> string_buffer" where
  "output_synced sb = (if put_inside sb then put_apply (sb_pptr sb - sb_pbase sb) sb else put_at_end sb)"

lemma syncOutput_done: "\<not> output_stuck sb \<Longrightarrow> syncOutput grow sb = done_with (output_synced sb)"
  by (subst syncOutput.simps) (auto simp: output_stuck_def output_synced_def)

lemma output_synced_simps [simp]:
  "sb_data (output_synced sb) = sb_data sb" "sb_addr (output_synced sb) = sb_addr sb"
  "sb_cap (output_synced sb) = sb_cap sb" "sb_eback (output_synced sb) = sb_eback sb"
  "sb_gptr (output_synced sb) = sb_gptr sb" "sb_egptr (output_synced sb) = sb_egptr sb"
  "sb_src (output_synced sb) = sb_src sb" "sb_good (output_synced sb) = sb_good sb"
  "inputInitialized (output_synced sb) = inputInitialized sb"
  by (simp_all add: output_synced_def put_apply_def put_at_end_def Let_def)

lemma reader_ok_output [simp]: "reader_ok (output_synced sb) = reader_ok sb"
  by (simp add: reader_ok_def get_synced_def get_wf_def vec_wf_def source_good_def)

lemma unread_output [simp]: "unread (output_synced sb) = unread sb"
  by (simp add: unread_def read_pos_def)

lemma sync_spec:
  assumes "get_wf sb" and "vec_wf sb" and "\<not> source_good sb"
  shows "sync IOStream grow sb = done_with (0, output_synced (input_synced sb))"
    and "reader_ok (output_synced (input_synced sb))"
    and "unread (output_synced (input_synced sb)) = unread sb"
proof -
  from assms(3) have src: "source_idle sb" "\<not> output_stuck (input_synced sb)"
    by (simp_all add: source_idle_def output_stuck_def)
  show "sync IOStream grow sb = done_with (0, output_synced (input_synced sb))"
    by (simp add: sync_def syncInput_idle [OF assms(1,2) src(1)] syncOutput_done [OF src(2)])
  show "reader_ok (output_synced (input_synced sb))"
    unfolding reader_ok_output
    using input_synced_get [OF assms(1,2)] assms by (simp add: reader_ok_def)
  show "unread (output_synced (input_synced sb)) = unread sb"
    using input_synced_get [OF assms(1,2)] by simp
qed

lemma get_wf_streams: "same_streams a b \<Longrightarrow> length (sb_data b) \<le> length (sb_data a) \<Longrightarrow> get_wf b \<Longrightarrow> get_wf a"
  by (auto simp: same_streams_def get_wf_def)

lemma source_good_same: "same_streams a b \<Longrightarrow> source_good a = source_good b"
  by (simp add: same_streams_def source_good_def)

lemma unread_append:
  assumes "list_all piece_ok ps" and "get_wf sb"
  shows "unread (write_all grow ps sb) = unread sb @ pieces_text ps"
proof -
  have "read_pos (write_all grow ps sb) = read_pos sb"
    using write_all_streams [OF assms(1), of grow sb] by (simp add: same_streams_def read_pos_def)
  then show ?thesis
    using write_all_data [OF assms(1)] read_pos_bound [OF assms(2)] by (simp add: unread_def)
qed

subsection \<open>Writing through the put area\<close>

text \<open>
  A put area that starts at offset \<open>k\<close> of the text and ends with it: characters that go through the
  stream replace the text from there on and then extend it.
\<close>

definition put_at :: "nat \<Rightarrow> string_buffer \<Rightarrow> bool" where
  "put_at k sb \<longleftrightarrow> k \<le> length (sb_data sb) \<and> sb_pptr sb = sb_addr sb + k \<and>
     sb_epptr sb = sb_addr sb + length (sb_data sb)"

lemma sputn_append:
  "\<not> sb_pptr sb < sb_epptr sb \<Longrightarrow>
     \<exists>sb'. sputn grow t sb = Inr sb' \<and> sb_data sb' = sb_data sb @ t \<and> same_streams sb' sb"
proof (induction t arbitrary: sb)
  case (Cons c t)
  let ?sb = "vec_insert grow [c] sb"
  from Cons.prems have "\<not> sb_pptr ?sb < sb_epptr ?sb" by simp
  from Cons.IH [OF this] obtain sb' where "sputn grow t ?sb = Inr sb'"
      "sb_data sb' = sb_data ?sb @ t" "same_streams sb' ?sb" by blast
  with Cons.prems show ?case by (auto simp: sputc_def same_streams_def)
qed (simp add: same_streams_def)

lemma sputc_inside:
  assumes "put_at k sb" and "k < length (sb_data sb)"
  shows "sputc grow c sb = Inr (sb\<lparr>sb_data := (sb_data sb)[k := c], sb_pptr := sb_pptr sb + 1\<rparr>)"
    and "put_at (Suc k) (sb\<lparr>sb_data := (sb_data sb)[k := c], sb_pptr := sb_pptr sb + 1\<rparr>)"
  using assms by (auto simp: sputc_def put_at_def poke_def)

lemma sputn_overwrite:
  "put_at k sb \<Longrightarrow>
     \<exists>sb'. sputn grow t sb = Inr sb' \<and>
           sb_data sb' = take k (sb_data sb) @ t @ drop (k + length t) (sb_data sb)"
proof (induction t arbitrary: k sb)
  case (Cons c t)
  show ?case
  proof (cases "k < length (sb_data sb)")
    case True
    let ?sb = "sb\<lparr>sb_data := (sb_data sb)[k := c], sb_pptr := sb_pptr sb + 1\<rparr>"
    note put = sputc_inside(1) [OF Cons.prems True, of grow c] sputc_inside(2) [OF Cons.prems True, of c]
    from Cons.IH [OF put(2)] obtain sb' where "sputn grow t ?sb = Inr sb'"
        "sb_data sb' = take (Suc k) (sb_data ?sb) @ t @ drop (Suc k + length t) (sb_data ?sb)" by blast
    with put(1) True show ?thesis by (simp add: take_Suc_conv_app_nth)
  next
    case False
    with Cons.prems have "\<not> sb_pptr sb < sb_epptr sb" "k = length (sb_data sb)" by (auto simp: put_at_def)
    with sputn_append [of sb grow "c # t"] show ?thesis by auto
  qed
qed (auto simp: put_at_def)

text \<open>\<open>sputc\<close> falls back on \<open>overflow\<close>, as the standard library does.\<close>

lemma char_of_mod_256: "char_of (nat (int (of_char c) mod 256)) = c"
proof -
  have "int (of_char c) mod 256 = int (of_char c)" by simp
  then show ?thesis by simp
qed

lemma sputc_overflow:
  "\<not> sb_pptr sb < sb_epptr sb \<Longrightarrow>
     rbind (overflow grow (int (of_char c)) sb) (\<lambda>(_, sb'). done_with sb') = Some (sputc grow c sb)"
  by (simp add: overflow_def sputc_def Let_def char_of_mod_256)

subsection \<open>What the buffer does\<close>

text \<open>An allocation strategy: the next block lies behind the old one and doubles the text.\<close>

definition next_block :: allocator where
  "next_block a c n = (a + c + 1, 2 * n)"

lemma next_block_allocates: "allocates next_block"
  by (simp add: allocates_def next_block_def)

text \<open>
  Appending any sequence of values leaves in the buffer its old text followed by the texts of
  the values, in order: a literal without its terminator, a C string up to its NUL, numbers in
  decimal, which always fit the scratch array; the read and write areas, the source and the
  state of the stream are untouched, and the vector stays well formed.
\<close>

theorem appended_text:
  assumes "allocates grow" and "vec_wf sb" and "list_all piece_ok ps"
  shows "sb_str (write_all grow ps sb) = sb_str sb @ pieces_text ps
    \<and> sb_size (write_all grow ps sb) = sb_size sb + length (pieces_text ps)
    \<and> same_streams (write_all grow ps sb) sb \<and> vec_wf (write_all grow ps sb)"
  using write_all_data [OF assms(3)] write_all_streams [OF assms(3)] write_all_wf [OF assms]
  by (simp add: sb_str_def sb_size_def)

theorem appended_text_witness:
  "sb_str (write_all next_block [Arr (''id='' @ [NUL]), Num (- 42), CStr (''ab'' @ [NUL] @ ''cd''), Boolean True, EndL]
             (new_buffer [] None)) = ''id=-42ab1'' @ [CHR 0x0A]"
proof -
  have "pieces_text [Arr (''id='' @ [NUL]), Num (- 42), CStr (''ab'' @ [NUL] @ ''cd''), Boolean True, EndL] =
      ''id=-42ab1'' @ [CHR 0x0A]" by code_simp
  moreover have "vec_wf (new_buffer [] None)" by code_simp
  ultimately show ?thesis
    using appended_text [OF next_block_allocates, of "new_buffer [] None"
        "[Arr (''id='' @ [NUL]), Num (- 42), CStr (''ab'' @ [NUL] @ ''cd''), Boolean True, EndL]"]
    by (simp add: sb_str_def new_buffer_def)
qed

text \<open>C34. 
  A buffer is a queue of text as long as a \<open>sync\<close> stands between writing and reading: from any
  state with a well-formed get area, even one in a block the vector has left, values are appended,
  the areas are synchronised, and reading character by character returns exactly what was unread
  before, then the new texts, then the end of the file, for every choice of the allocator.
\<close>

theorem write_sync_read:
  assumes "allocates grow" and "get_wf sb" and "vec_wf sb" and "\<not> source_good sb"
    and "list_all piece_ok ps"
  shows "\<exists>sb1 sb2 sb3. sync IOStream grow (write_all grow ps sb) = done_with (0, sb1)
    \<and> read_n grow (length (unread sb @ pieces_text ps)) sb1 = done_with (map Some (unread sb @ pieces_text ps), sb2)
    \<and> sbumpc IOStream grow sb2 = done_with (None, sb3) \<and> sb_data sb3 = sb_data sb @ pieces_text ps"
proof -
  let ?w = "write_all grow ps sb" and ?u = "unread sb @ pieces_text ps"
  note streams = write_all_streams [OF assms(5), of grow sb]
  note data = write_all_data [OF assms(5), of grow sb]
  have wf: "get_wf ?w" using get_wf_streams [OF streams] assms(2) data by simp
  have vec: "vec_wf ?w" using assms(1,3,5) by (rule write_all_wf)
  have src: "\<not> source_good ?w" using source_good_same [OF streams] assms(4) by simp
  note sync = sync_spec [OF wf vec src]
  let ?s = "output_synced (input_synced ?w)"
  have u: "unread ?s = ?u" using sync(3) unread_append [OF assms(5,2)] by simp
  obtain sb2 where sb2: "read_n grow (length ?u) ?s = done_with (map Some ?u, sb2)" "reader_ok sb2"
      "sb_data sb2 = sb_data ?s" "unread sb2 = []"
    using read_n_reader [OF sync(2), of grow "length ?u"] u by auto
  obtain sb3 where "sbumpc IOStream grow sb2 = done_with (None, sb3)" "sb_data sb3 = sb_data sb2"
    using sbumpc_reader [OF sb2(2), of grow] sb2(4) by auto
  with sync(1) sb2 data show ?thesis by auto
qed

theorem write_sync_read_witness:
  "\<exists>sb1 sb2 sb3.
     sync IOStream next_block (write_all next_block [Str ''cd'', Num 7] (vec_insert next_block ''ab'' (new_buffer [] None))) = done_with (0, sb1)
     \<and> read_n next_block (length ''abcd7'') sb1 = done_with (map Some ''abcd7'', sb2)
     \<and> sbumpc IOStream next_block sb2 = done_with (None, sb3) \<and> sb_data sb3 = ''abcd7''"
proof -
  let ?sb = "vec_insert next_block ''ab'' (new_buffer [] None)"
  have wf: "get_wf ?sb" "vec_wf ?sb" "\<not> source_good ?sb" by (code_simp, code_simp, code_simp)
  have txts: "unread ?sb @ pieces_text [Str ''cd'', Num 7] = ''abcd7''"
      "sb_data ?sb @ pieces_text [Str ''cd'', Num 7] = ''abcd7''" by (code_simp, code_simp)
  have "list_all piece_ok [Str ''cd'', Num 7]" by simp
  from write_sync_read [OF next_block_allocates wf this] show ?thesis unfolding txts .
qed

text \<open>
  Without the \<open>sync\<close>, an append that moves the text to another block leaves the get area in the
  old one: with unread characters in it, the next read goes through a dangling pointer.
\<close>

theorem stale_area_faults:
  assumes "get_synced sb" and "vec_wf sb" and "sb_gptr sb < sb_egptr sb"
    and "sb_cap sb < length (sb_data sb) + length s"
    and "grow (sb_addr sb) (sb_cap sb) (length (sb_data sb) + length s) = (a, c)"
    and "length (sb_data sb) + length s \<le> c" and "sb_addr sb + sb_cap sb \<le> a \<or> a + c \<le> sb_addr sb"
  shows "sbumpc IOStream grow (shl grow (Str s) sb) = Some (Inl Dangling)"
proof -
  let ?sb = "shl grow (Str s) sb"
  have new: "sb_addr ?sb = a" "sb_data ?sb = sb_data sb @ s"
    using vec_insert_new_block [OF assms(4), of grow] assms(5) by (simp_all add: shl_string_def)
  have area: "sb_addr sb \<le> sb_gptr sb" "sb_gptr sb < sb_addr sb + length (sb_data sb)"
    using assms(1,3) by (auto simp: get_synced_def get_wf_def split: if_splits)
  have "length (sb_data sb) \<le> sb_cap sb" using assms(2) by (simp add: vec_wf_def)
  with area new assms(6,7) have "peek (sb_gptr ?sb) ?sb = Inl Dangling"
    by (auto simp: peek_def shl_string_def)
  with assms(3) show ?thesis by (simp add: sbumpc_def shl_string_def)
qed

theorem stale_area_faults_witness:
  "\<exists>sb. read_n next_block 1 (vec_insert next_block ''ab'' (new_buffer [] None)) = done_with ([Some (CHR ''a'')], sb)
        \<and> sbumpc IOStream next_block (shl next_block (Str ''cdefg'') sb) = Some (Inl Dangling)"
proof -
  let ?sb = "(input_synced (vec_insert next_block ''ab'' (new_buffer [] None)))\<lparr>sb_gptr := 2\<rparr>"
  have "read_n next_block 1 (vec_insert next_block ''ab'' (new_buffer [] None)) = done_with ([Some (CHR ''a'')], ?sb)"
    by code_simp
  moreover have "get_synced ?sb" and "vec_wf ?sb" and "sb_gptr ?sb < sb_egptr ?sb" by (code_simp, code_simp, code_simp)
  moreover have "sb_cap ?sb < length (sb_data ?sb) + length ''cdefg''" by code_simp
  moreover have "next_block (sb_addr ?sb) (sb_cap ?sb) (length (sb_data ?sb) + length ''cdefg'') = (6, 14)" by code_simp
  moreover have "length (sb_data ?sb) + length ''cdefg'' \<le> 14" "sb_addr ?sb + sb_cap ?sb \<le> 6 \<or> 6 + 14 \<le> sb_addr ?sb"
    by (code_simp, code_simp)
  ultimately show ?thesis using stale_area_faults [of ?sb "''cdefg''" next_block 6 14] by blast
qed

text \<open>C25. 
  \<open>syncOutput\<close> returns unless the write position is inside the put area, at an offset the text no
  longer reaches, and the source is still good: then it calls itself on the same object for ever.
  Where it returns, it only moves the put area, which then lies inside the text.
\<close>

theorem syncOutput_returns_iff:
  "(syncOutput grow sb \<noteq> None) = (\<not> output_stuck sb)
   \<and> (\<not> output_stuck sb \<and> vec_wf sb \<longrightarrow>
      (\<exists>sb'. syncOutput grow sb = done_with sb' \<and> sb_data sb' = sb_data sb \<and> sb_src sb' = sb_src sb \<and>
         sb_pbase sb' = sb_pptr sb' \<and>
         (if sb_data sb = [] then sb_pptr sb' = 0 \<and> sb_epptr sb' = 0
          else sb_addr sb \<le> sb_pptr sb' \<and> sb_pptr sb' \<le> sb_epptr sb' \<and>
               sb_epptr sb' = sb_addr sb + length (sb_data sb))))"
proof -
  have "sb_pbase (output_synced sb) = sb_pptr (output_synced sb) \<and>
      (if sb_data sb = [] then sb_pptr (output_synced sb) = 0 \<and> sb_epptr (output_synced sb) = 0
       else sb_addr sb \<le> sb_pptr (output_synced sb) \<and> sb_pptr (output_synced sb) \<le> sb_epptr (output_synced sb) \<and>
            sb_epptr (output_synced sb) = sb_addr sb + length (sb_data sb))"
    by (auto simp: output_synced_def put_apply_def put_at_end_def Let_def)
  then show ?thesis
    using syncOutput_stuck_None [of sb grow] syncOutput_done [of sb grow] by (cases "output_stuck sb") auto
qed

theorem syncOutput_returns_iff_witness:
  "syncOutput next_block (setp 1 3 (new_buffer [] (Some \<lparr>is_rest = ''x'', is_good = True\<rparr>))) = None
   \<and> (\<exists>sb'. syncOutput next_block (vec_insert next_block ''ab'' (new_buffer [] None)) = done_with sb' \<and> sb_epptr sb' = 3)"
proof -
  let ?a = "setp 1 3 (new_buffer [] (Some \<lparr>is_rest = ''x'', is_good = True\<rparr>))"
  let ?b = "vec_insert next_block ''ab'' (new_buffer [] None)"
  have "output_stuck ?a" and "\<not> output_stuck ?b" and "vec_wf ?b" by (code_simp, code_simp, code_simp)
  moreover have "sb_addr ?b + length (sb_data ?b) = 3" and "sb_data ?b \<noteq> []" by (code_simp, code_simp)
  ultimately show ?thesis
    using syncOutput_returns_iff [of next_block ?a] syncOutput_returns_iff [of next_block ?b] by auto
qed

lemma output_synced_area:
  assumes "vec_wf sb" and "sb_data sb \<noteq> []"
  shows "sb_pptr (output_synced sb) \<noteq> 0" and "sb_pbase (output_synced sb) = sb_pptr (output_synced sb)"
    and "sb_epptr (output_synced sb) = sb_addr sb + length (sb_data sb)"
  using assms vec_wf_addr [OF assms] by (auto simp: output_synced_def put_apply_def put_at_end_def Let_def)

text \<open>The three ways to place the write position all start from offset 0, or from the end.\<close>

lemma seek_write:
  assumes vec: "vec_wf sb" and data: "sb_data sb \<noteq> []" and go: "\<not> output_stuck sb"
    and k0: "k0 = (if dir = End then length (sb_data sb) else 0)"
  shows "seekoff T grow off dir False True sb =
           done_with (if 0 \<le> int k0 + off \<and> int k0 + off \<le> int (length (sb_data sb))
                      then (int k0, setp (nat (int (sb_addr sb) + int k0 + off))
                                      (sb_addr sb + length (sb_data sb)) (output_synced sb))
                      else (- 1, output_synced sb))"
  using output_synced_area [OF vec data] k0
  by (cases dir) (auto simp: seekoff_def syncOutput_done [OF go] seek_apply_def seek_from_def Let_def nat_add_distrib)

lemma put_at_setp:
  "k \<le> length (sb_data sb) \<Longrightarrow> put_at k (setp (sb_addr sb + k) (sb_addr sb + length (sb_data sb)) (output_synced sb))"
  by (simp add: put_at_def)

text \<open>
  Writing at a position: after \<^verbatim>\<open>seekp(k)\<close> inside the text, what goes through the stream replaces the
  text from offset \<open>k\<close> on and extends it at the end; a position behind the end is refused and
  leaves the text alone.
\<close>

theorem seekp_overwrites:
  assumes "vec_wf sb" and "sb_data sb \<noteq> []" and "\<not> output_stuck sb" and "sb_good sb"
  shows "(k \<le> sb_size sb \<longrightarrow>
           (\<exists>sb1 sb2. seekpos IOStream grow (int k) False True sb = done_with (0, sb1)
             \<and> ostream_insert grow t sb1 = Inr sb2
             \<and> sb_str sb2 = take k (sb_str sb) @ t @ drop (k + length t) (sb_str sb)))
       \<and> (sb_size sb < k \<longrightarrow>
           (\<exists>sb1. seekpos IOStream grow (int k) False True sb = done_with (- 1, sb1) \<and> sb_str sb1 = sb_str sb))"
proof -
  note seek = seek_write [OF assms(1-3), of 0 Beg IOStream grow "int k"]
  have "nat (int (sb_addr sb) + int k) = sb_addr sb + k" by (simp add: nat_add_distrib)
  then show ?thesis
    using seek assms(4) sputn_overwrite [OF put_at_setp, of k sb grow t]
    by (auto simp: seekpos_def sb_size_def sb_str_def ostream_insert_def)
qed

theorem seekp_overwrites_witness:
  "\<exists>sb1 sb2. seekpos IOStream next_block 1 False True (vec_insert next_block ''abcd'' (new_buffer [] None)) = done_with (0, sb1)
     \<and> ostream_insert next_block ''XY'' sb1 = Inr sb2 \<and> sb_str sb2 = ''aXYd''"
proof -
  let ?b = "vec_insert next_block ''abcd'' (new_buffer [] None)"
  have "vec_wf ?b" "sb_data ?b \<noteq> []" "\<not> output_stuck ?b" "sb_good ?b"
    by (code_simp, code_simp, code_simp, code_simp)
  moreover have "sb_str ?b = ''abcd''" "1 \<le> sb_size ?b" by (code_simp, code_simp)
  ultimately show ?thesis using seekp_overwrites [of ?b 1 next_block "''XY''"] by simp
qed

text \<open>
  Asking for the write position moves it: \<^verbatim>\<open>tellp()\<close> returns 0 whatever was written, and the next
  text that goes through the stream overwrites the buffer from its first character.
\<close>

theorem tellp_rewinds:
  assumes "vec_wf sb" and "sb_data sb \<noteq> []" and "\<not> output_stuck sb" and "sb_good sb"
  shows "\<exists>sb1 sb2. seekoff IOStream grow 0 Cur False True sb = done_with (0, sb1)
    \<and> ostream_insert grow t sb1 = Inr sb2 \<and> sb_str sb2 = t @ drop (length t) (sb_str sb)"
  using seek_write [OF assms(1-3), of 0 Cur IOStream grow 0] assms(4)
    sputn_overwrite [OF put_at_setp, of 0 sb grow t]
  by (auto simp: sb_str_def ostream_insert_def)

text \<open>
  Moving the read position: \<^verbatim>\<open>seekg\<close> puts it at the requested offset when that lies in the text, and
  refuses it otherwise; the value reported is where the move started from, not where it ended.
\<close>

theorem seekg_moves:
  assumes wf: "get_wf sb" "vec_wf sb" "source_idle sb" and data: "sb_data sb \<noteq> []"
    and start: "start = (case dir of Beg \<Rightarrow> 0 | Cur \<Rightarrow> int (read_pos sb) | End \<Rightarrow> int (sb_size sb))"
  shows "\<exists>sb'. sb_str sb' = sb_str sb \<and> get_synced sb' \<and>
    (if 0 \<le> start + off \<and> start + off \<le> int (sb_size sb)
     then seekoff IOStream grow off dir True False sb = done_with (start, sb') \<and> int (read_pos sb') = start + off
     else seekoff IOStream grow off dir True False sb = done_with (- 1, sb') \<and> read_pos sb' = read_pos sb)"
proof -
  note sync = input_synced_get [OF wf(1,2)]
  have addr: "0 < sb_addr sb" using wf(2) data by (rule vec_wf_addr)
  have area: "sb_gptr (input_synced sb) = sb_addr sb + read_pos sb" "sb_eback (input_synced sb) = sb_addr sb"
    using data by (simp_all add: input_synced_def)
  have seek_start: "seek_from dir (sb_eback (input_synced sb)) (sb_gptr (input_synced sb)) (input_synced sb) = start"
    using start area by (simp add: seek_from_def sb_size_def split: seekdir.splits)
  have seek: "seekoff IOStream grow off dir True False sb =
      done_with (if 0 \<le> start + off \<and> start + off \<le> int (sb_size sb)
        then (start, setg (sb_addr sb) (nat (int (sb_addr sb) + start + off)) (sb_addr sb + sb_size sb) (input_synced sb))
        else (- 1, input_synced sb))"
    using addr area seek_start
    by (auto simp: seekoff_def syncInput_idle [OF wf] seek_apply_def Let_def sb_size_def nat_add_distrib)
  show ?thesis
  proof (cases "0 \<le> start + off \<and> start + off \<le> int (sb_size sb)")
    case True
    then show ?thesis using seek addr data
      by (intro exI [of _ "setg (sb_addr sb) (nat (int (sb_addr sb) + start + off)) (sb_addr sb + sb_size sb) (input_synced sb)"])
        (auto simp: sb_str_def get_synced_def get_wf_def read_pos_def sb_size_def nat_le_iff)
  next
    case False
    then show ?thesis using seek sync by (intro exI [of _ "input_synced sb"]) (auto simp: sb_str_def)
  qed
qed

text \<open>
  A source is consulted only by a buffer that already holds text: a buffer constructed on a
  stream reports the end of the file at once, and the stream is never read.
\<close>

theorem empty_ignores_source:
  "\<exists>sb'. sbumpc T grow (BasicStringBuffer grow [] (Some source)) = done_with (None, sb')
     \<and> sb_src sb' = Some source \<and> sb_data sb' = []"
  by (simp add: sbumpc_def underflow_def syncInput_def BasicStringBuffer_def vec_insert_def new_buffer_def)

text \<open>
  A buffer that holds text, was read to its end and writes at its end does continue with its
  source: the rest of the source is appended and read next.
\<close>

lemma syncInput_source:
  assumes wf: "get_wf sb" "vec_wf sb" and data: "sb_data sb \<noteq> []" and at_end: "read_pos sb = length (sb_data sb)"
    and src: "sb_src sb = Some \<lparr>is_rest = t, is_good = True\<rparr>" and put: "\<not> put_inside sb"
  shows "\<exists>sb'. syncInput IOStream grow sb = done_with (t \<noteq> [], sb') \<and> sb_data sb' = sb_data sb @ t \<and>
    unread sb' = t \<and> sb_src sb' = Some \<lparr>is_rest = [], is_good = True\<rparr>"
proof -
  have init: "inputInitialized sb" using wf(1) at_end data
    by (cases "inputInitialized sb") (simp_all add: get_wf_def read_pos_def)
  have gptr: "sb_gptr sb = sb_egptr sb"
    using wf(1) init at_end by (auto simp: get_wf_def read_pos_def)
  have valid: "get_valid (sb\<lparr>sb_good := True\<rparr>)" using get_valid_iff [OF wf(1)] init by (simp add: get_valid_def)
  let ?a = "sb\<lparr>sb_good := True\<rparr>"
  have put_a: "\<not> put_inside ?a" using put by (simp add: put_inside_def)
  then have "\<not> output_stuck ?a" by (simp add: output_stuck_def)
  note out = syncOutput_done [OF this, of grow]
  have area: "\<not> sb_pptr (output_synced ?a) < sb_epptr (output_synced ?a)"
    using put_a data by (simp add: output_synced_def put_at_end_def Let_def)
  let ?b = "(output_synced ?a)\<lparr>sb_src := Some \<lparr>is_rest = [], is_good = True\<rparr>\<rparr>"
  obtain c where c: "sputn grow t ?b = Inr c" "sb_data c = sb_data sb @ t" "same_streams c ?b"
    using sputn_append [of ?b grow t] area by auto
  have "syncInput IOStream grow sb = done_with (get_apply (read_pos sb) (if t = [] then c\<lparr>sb_good := False\<rparr> else c))"
    using data valid gptr at_end src c(1)
    by (simp add: syncInput_def get_changed_def istream_clear_def shl_rdbuf_def out ostream_rdbuf_def
        read_pos_def source_good_def Let_def)
  moreover have "sb_src c = Some \<lparr>is_rest = [], is_good = True\<rparr>" using c(3) by (simp add: same_streams_def)
  ultimately show ?thesis
    using c(2) at_end data by (auto simp: get_apply_def Let_def unread_def read_pos_def)
qed

text \<open>
  \<open>clear\<close> empties the vector and leaves the get area where it was: with unread characters in it,
  the next read goes outside the vector.
\<close>

theorem clear_keeps_area:
  assumes "sb_gptr sb < sb_egptr sb"
  shows "\<exists>sb'. sb_clear IOStream sb = Inr sb' \<and> sb_str sb' = [] \<and> sbumpc IOStream grow sb' = Some (Inl Dangling)"
  using assms by (simp add: sb_clear_def istream_clear_def sb_str_def sbumpc_def peek_def)

subsection \<open>The specialisation\<close>

text \<open>
  The class written out for \<^verbatim>\<open>std::istream\<close> behaves as the general one does, operation by operation,
  for every state of a buffer whose source has nothing to offer: the same results, the same
  faults, and the general one always returns.
\<close>

lemma rbind_Some_ebind: "rbind (Some m) (\<lambda>x. Some (f x)) = Some (ebind m f)"
  by (cases m) simp_all

lemma i_syncInput_eq:
  assumes "\<not> source_good sb"
  shows "syncInput IOStream grow sb = Some (i_syncInput grow sb)"
  using assms by (simp add: syncInput_def i_syncInput_def istream_clear_def Let_def source_good_def)

lemma i_syncOutput_eq:
  assumes "\<not> source_good sb"
  shows "syncOutput grow sb = Some (i_syncOutput grow sb)"
  using assms syncOutput_done [of sb grow]
  by (simp add: output_stuck_def i_syncOutput_def output_synced_def)

lemma i_syncInput_source: "i_syncInput grow sb = Inr (b, sb') \<Longrightarrow> \<not> source_good sb \<Longrightarrow> \<not> source_good sb'"
  by (auto simp: i_syncInput_def get_apply_def source_good_def Let_def split: if_splits)

lemma i_sync_eq:
  assumes "\<not> source_good sb"
  shows "sync IOStream grow sb = Some (i_sync grow sb)"
proof (cases "i_syncInput grow sb")
  case (Inr r)
  then have "\<not> source_good (snd r)" using i_syncInput_source [of grow sb "fst r" "snd r"] assms by simp
  from i_syncOutput_eq [OF this, of grow] Inr show ?thesis
    by (cases "i_syncOutput grow (snd r)")
      (simp_all add: sync_def i_sync_def i_syncInput_eq [OF assms] case_prod_beta)
qed (simp add: sync_def i_sync_def i_syncInput_eq [OF assms])

lemma i_underflow_eq:
  assumes "\<not> source_good sb"
  shows "underflow IOStream grow sb = Some (i_underflow grow sb)"
proof (cases "i_syncInput grow sb")
  case (Inr r)
  then show ?thesis
    by (cases "peek (sb_gptr (snd r)) (snd r)")
      (simp_all add: underflow_def i_underflow_def i_syncInput_eq [OF assms] case_prod_beta)
qed (simp add: underflow_def i_underflow_def i_syncInput_eq [OF assms])

lemma i_overflow_eq:
  assumes "\<not> source_good sb"
  shows "overflow grow c sb = Some (i_overflow grow c sb)"
proof (cases "i_syncOutput grow sb")
  case (Inr sb')
  then show ?thesis
    by (cases "poke (sb_pptr sb') (char_of (nat (c mod 256))) sb'")
      (simp_all add: overflow_def i_overflow_def i_syncOutput_eq [OF assms] Let_def)
qed (simp add: overflow_def i_overflow_def i_syncOutput_eq [OF assms] Let_def)

lemma i_pbackfail_eq:
  assumes "\<not> source_good sb"
  shows "pbackfail IOStream grow c sb = Some (i_pbackfail grow c sb)"
proof (cases "i_syncInput grow sb")
  case (Inr r)
  then show ?thesis
    by (cases "peek (sb_gptr (snd r) - 1) (snd r)")
      (simp_all add: pbackfail_def i_pbackfail_def i_syncInput_eq [OF assms] case_prod_beta Let_def)
qed (simp add: pbackfail_def i_pbackfail_def i_syncInput_eq [OF assms])

lemma i_seekoff_eq:
  assumes "\<not> source_good sb"
  shows "seekoff IOStream grow off dir which_in False sb = Some (i_seekoff grow off dir which_in which_out sb)"
  by (cases "i_syncInput grow sb")
    (simp_all add: seekoff_def i_seekoff_def i_syncInput_eq [OF assms] case_prod_beta)

lemma i_setbuf_eq:
  assumes "\<not> source_good sb"
  shows "setbuf IOStream grow s n sb = Some (i_setbuf grow s n sb)"
proof -
  have idle: "\<not> source_good (vec_assign grow t sb\<lparr>inputInitialized := False\<rparr>)" for t
    using assms by (simp add: vec_assign_def source_good_def)
  have "rbind (Some m) (\<lambda>(_, sb'). done_with sb') = Some (ebind m (\<lambda>(_, sb'). Inr sb'))"
    for m :: "sb_fault + (bool \<times> string_buffer)" by (cases m) (simp_all add: case_prod_beta)
  then show ?thesis
    by (simp add: setbuf_def i_setbuf_def sb_clear_def i_clear_def istream_clear_def
        i_syncInput_eq [OF idle] split: option.splits)
qed

theorem istream_specialisation:
  assumes "\<not> source_good sb"
  shows "sync IOStream grow sb = Some (i_sync grow sb)
    \<and> underflow IOStream grow sb = Some (i_underflow grow sb)
    \<and> overflow grow c sb = Some (i_overflow grow c sb)
    \<and> pbackfail IOStream grow c sb = Some (i_pbackfail grow c sb)
    \<and> setbuf IOStream grow s n sb = Some (i_setbuf grow s n sb)
    \<and> seekoff IOStream grow off dir which_in False sb = Some (i_seekoff grow off dir which_in which_out sb)"
  using i_sync_eq [OF assms] i_underflow_eq [OF assms] i_overflow_eq [OF assms] i_pbackfail_eq [OF assms]
    i_setbuf_eq [OF assms] i_seekoff_eq [OF assms] by simp

theorem istream_specialisation_witness:
  "underflow IOStream next_block (vec_insert next_block ''ab'' (new_buffer [] None)) =
     Some (i_underflow next_block (vec_insert next_block ''ab'' (new_buffer [] None)))
   \<and> \<not> source_good (vec_insert next_block ''ab'' (new_buffer [] None))"
proof -
  have "\<not> source_good (vec_insert next_block ''ab'' (new_buffer [] None))" by code_simp
  with istream_specialisation [OF this, of next_block] show ?thesis by simp
qed

subsection \<open>Reading in and writing out\<close>

lemma ostream_rdbuf_new:
  "\<exists>sb. ostream_rdbuf grow (BasicStringBuffer grow [] (Some is)) = Inr sb \<and> sb_data sb = is_rest is \<and>
     sb_src sb = Some (is\<lparr>is_rest := []\<rparr>)"
proof -
  let ?b = "(BasicStringBuffer grow [] (Some is))\<lparr>sb_src := Some (is\<lparr>is_rest := []\<rparr>)\<rparr>"
  have "sb_good (BasicStringBuffer grow [] (Some is))" "sb_src (BasicStringBuffer grow [] (Some is)) = Some is"
      "\<not> sb_pptr ?b < sb_epptr ?b" "sb_data ?b = []"
    by (simp_all add: BasicStringBuffer_def new_buffer_def)
  moreover from this(3) obtain c where "sputn grow (is_rest is) ?b = Inr c" "sb_data c = sb_data ?b @ is_rest is"
      "same_streams c ?b"
    using sputn_append by blast
  ultimately show ?thesis by (auto simp: ostream_rdbuf_def same_streams_def)
qed

lemma syncOutput_new:
  "syncOutput grow (BasicStringBuffer grow [] src) = done_with (BasicStringBuffer grow [] src)"
proof -
  have "\<not> put_inside (BasicStringBuffer grow [] src)"
      "put_at_end (BasicStringBuffer grow [] src) = BasicStringBuffer grow [] src"
    by (simp_all add: BasicStringBuffer_def new_buffer_def put_inside_def put_at_end_def)
  then show ?thesis
    using syncOutput_done [of "BasicStringBuffer grow [] src" grow] by (simp add: output_stuck_def output_synced_def)
qed

lemma read_in_spec:
  "\<exists>sb. read_in grow is = done_with sb \<and> sb_data sb = is_rest is \<and>
     sb_src sb = Some (is\<lparr>is_rest := []\<rparr>) \<and> sb_good sb"
  using ostream_rdbuf_new [of grow "is"] by (auto simp: read_in_def shl_rdbuf_def syncOutput_new)

lemma destroy_text:
  "bp_os p = Some (Text s) \<Longrightarrow> ptr_destroy grow p = Inr (Some (Text (s @ sb_data (bp_sb p))))"
  by (auto simp: ptr_destroy_def ostream_shl_buffer_def sb_size_def)

definition ptr_write :: "allocator \<Rightarrow> piece list \<Rightarrow> buffer_ptr \<Rightarrow> buffer_ptr" where
  "ptr_write grow ps p = p\<lparr>bp_sb := write_all grow ps (bp_sb p)\<rparr>"

text \<open>
  A pointer made on an input/output stream takes in all the stream has to read; what is then
  appended through it reaches the stream, after the text that was read in, when the pointer is
  destroyed, and exactly once: after a \<open>flush\<close> the destructor writes nothing, so that what is
  appended between the two never reaches the stream.
\<close>

theorem pointer_writes_once:
  assumes "list_all piece_ok ps" and "list_all piece_ok qs"
  shows "\<exists>p. ptr_to_iostream grow is (Text s) = done_with p
    \<and> ptr_destroy grow (ptr_write grow ps p) = Inr (Some (Text (s @ is_rest is @ pieces_text ps)))
    \<and> (\<exists>p'. ptr_flush grow (ptr_write grow ps p) = Inr (Some (Text (s @ is_rest is @ pieces_text ps)), p')
         \<and> ptr_destroy grow (ptr_write grow qs p') = Inr None)"
proof -
  obtain sb where sb: "read_in grow is = done_with sb" "sb_data sb = is_rest is"
    using read_in_spec by blast
  let ?p = "\<lparr>bp_sb = sb, bp_os = Some (Text s)\<rparr>"
  have data: "sb_data (bp_sb (ptr_write grow ps ?p)) = is_rest is @ pieces_text ps"
    using write_all_data [OF assms(1)] sb(2) by (simp add: ptr_write_def)
  have os: "bp_os (ptr_write grow ps ?p) = Some (Text s)" by (simp add: ptr_write_def)
  have "ptr_flush grow (ptr_write grow ps ?p) =
      Inr (Some (Text (s @ is_rest is @ pieces_text ps)), (ptr_write grow ps ?p)\<lparr>bp_os := None\<rparr>)"
    using destroy_text [OF os, of grow] data os
    by (auto simp: ptr_flush_def ptr_destroy_def ebind_eq_Inr)
  moreover have "ptr_destroy grow (ptr_write grow qs ((ptr_write grow ps ?p)\<lparr>bp_os := None\<rparr>)) = Inr None"
    by (simp add: ptr_destroy_def ptr_write_def)
  ultimately show ?thesis using sb destroy_text [OF os, of grow] data by (simp add: ptr_to_iostream_def)
qed

theorem pointer_writes_once_witness:
  "\<exists>p. ptr_to_iostream next_block \<lparr>is_rest = ''in'', is_good = True\<rparr> (Text ''>'') = done_with p
     \<and> ptr_destroy next_block (ptr_write next_block [Num 5] p) = Inr (Some (Text ''>in5''))"
proof -
  have "pieces_text [Num 5] = ''5''" by code_simp
  then show ?thesis
    using pointer_writes_once [of "[Num 5]" "[]" next_block "\<lparr>is_rest = ''in'', is_good = True\<rparr>" "''>''"] by auto
qed

text \<open>The output pointer does the same, without reading anything in.\<close>

lemma output_pointer:
  assumes "list_all piece_ok ps"
  shows "optr_destroy grow (ptr_write grow ps (optr_to_stream grow (Text s))) = Inr (Some (Text (s @ pieces_text ps)))"
proof -
  have "sb_data (write_all grow ps (BasicStringBuffer grow [] None)) = pieces_text ps"
    using write_all_data [OF assms] by (simp add: BasicStringBuffer_def new_buffer_def)
  then show ?thesis
    by (auto simp: optr_destroy_def optr_to_stream_def ptr_write_def ostream_shl_buffer_def sb_size_def)
qed

text \<open>
  An input pointer made on another buffer takes over exactly the unread text of that buffer, and
  leaves it read to its end.
\<close>

lemma drain_reader:
  "reader_ok sb \<Longrightarrow> \<exists>sb'. drain grow sb = done_with (unread sb, sb') \<and> reader_ok sb' \<and> unread sb' = []"
proof (induction "unread sb" arbitrary: sb)
  case Nil
  obtain sb1 where "reader_ok sb1" "sbumpc IOStream grow sb = done_with (None, sb1)" "unread sb1 = []"
    using sbumpc_reader [OF Nil.prems, of grow] Nil.hyps by auto
  with Nil.hyps show ?case by (subst drain.simps) simp
next
  case (Cons c cs)
  obtain sb1 where sb1: "reader_ok sb1" "sbumpc IOStream grow sb = done_with (Some c, sb1)" "unread sb1 = cs"
    using sbumpc_reader [OF Cons.prems, of grow] Cons.hyps(2) by (metis list.discI list.sel(1,3))
  from Cons.hyps(1) [OF sb1(3) [symmetric] sb1(1)] obtain sb2 where
      "drain grow sb1 = done_with (cs, sb2)" "reader_ok sb2" "unread sb2 = []"
    using sb1(3) by auto
  with sb1 Cons.hyps(2) show ?case by (subst drain.simps) simp
qed

theorem input_pointer_takes_unread:
  assumes "reader_ok sb"
  shows "\<exists>sb' p. iptr_to_string_buffer grow sb = done_with (sb', p) \<and> unread sb' = [] \<and>
    sb_str (bp_sb p) = unread sb \<and> sb_good (bp_sb p)"
proof -
  obtain sb' where sb': "drain grow sb = done_with (unread sb, sb')" "unread sb' = []"
    using drain_reader [OF assms] by blast
  obtain c where "ostream_rdbuf grow (BasicStringBuffer grow [] (Some \<lparr>is_rest = unread sb, is_good = sb_good sb\<rparr>)) = Inr c"
      "sb_data c = unread sb"
    using ostream_rdbuf_new by force
  then show ?thesis using sb'
    by (auto simp: iptr_to_string_buffer_def iptr_to_istream_def i_shl_rdbuf_def i_BasicStringBuffer_def
        BasicStringBuffer_def sb_str_def)
qed

text \<open>
  A terminator added by \<open>c_str\<close> and taken off by \<open>unterminate\<close> restores the text; left in place, it
  stays in the middle of what is appended next.
\<close>

lemma terminator_stays:
  assumes "sb_str sb = [] \<or> last (sb_str sb) \<noteq> NUL"
  shows "\<exists>a sb'. c_str grow True sb = Inr (a, sb') \<and> sb_str (unterminate sb') = sb_str sb \<and>
    (\<forall>t. sb_str (shl grow (Str t) sb') = sb_str sb @ [NUL] @ t)"
  using assms by (simp add: c_str_def nullTerminate_def unterminate_def sb_str_def shl_string_def Let_def)

end
