(* ===== verification/Signaling_Models.thy ===== *)
theory Signaling_Models
  imports Json
begin

text \<open>
  The protoo messages of \<^verbatim>\<open>src/core/service/signaling_models.h\<close>: every struct of the header as a
  \<open>cstruct\<close> that lists its members (name, type, default member initializer) in declaration
  order and its \<^verbatim>\<open>FIELDS_MAP\<close> (JSON key, member). \<open>fields_of\<close> is what the macro hands to the
  codec of \<open>Json\<close>, \<open>new_object\<close> is \<^verbatim>\<open>std::make_shared<S>()\<close>, and \<open>member\<close> reads a member of
  an object. A struct \<^verbatim>\<open>A::B\<close> of the header is called \<open>A_B\<close>. The header's trailing
  \<^verbatim>\<open>Sharing\<close> and \<^verbatim>\<open>SharingAppData\<close> with the conversions of \<^verbatim>\<open>signaling_models.cpp\<close> come last.

  The lemmas show that every model has distinct keys (so objects survive a round trip), which
  members a model fails to map, and which request models announce themselves as requests.
\<close>

subsection \<open>Descriptors\<close>

datatype minit = NoInit | InitBool bool | InitStr string | InitGenerateID

record cstruct =
  members :: "(string \<times> jtype \<times> minit) list"
  fields_map :: "(string \<times> string) list"

definition fields_of :: "cstruct \<Rightarrow> fields" where
  "fields_of s =
     concat (map (\<lambda>(key, m). case map_of (members s) m of None \<Rightarrow> [] | Some (t, _) \<Rightarrow> [(key, t)])
       (fields_map s))"

abbreviation ST :: "cstruct \<Rightarrow> jtype" where
  "ST s \<equiv> TStruct (fields_of s)"

text \<open>
  \<^verbatim>\<open>generateID()\<close> draws from \<^verbatim>\<open>uniform_int_distribution<int32_t>(0, INT32_MAX)\<close>: the drawn
  number is an argument of \<open>new_object\<close>, and \<open>generateID_range\<close> is its range.
\<close>

definition generateID_range :: "int \<Rightarrow> bool" where
  "generateID_range gid \<longleftrightarrow> 0 \<le> gid \<and> gid \<le> 2 ^ 31 - 1"

fun init_value :: "int \<Rightarrow> minit \<Rightarrow> jval option" where
  "init_value gid NoInit = None"
| "init_value gid (InitBool b) = Some (VBool b)"
| "init_value gid (InitStr s) = Some (VStr s)"
| "init_value gid InitGenerateID = Some (VInt gid)"

definition new_object :: "cstruct \<Rightarrow> int \<Rightarrow> jval option list" where
  "new_object s gid =
     concat (map (\<lambda>(key, m). case map_of (members s) m of None \<Rightarrow> []
                              | Some (_, i) \<Rightarrow> [init_value gid i])
       (fields_map s))"

text \<open>Reading and assigning a member of an object.\<close>

definition member :: "cstruct \<Rightarrow> string \<Rightarrow> jval option list \<Rightarrow> jval option" where
  "member s m obj = (case map_of (zip (map snd (fields_map s)) obj) m of None \<Rightarrow> None | Some v \<Rightarrow> v)"

definition set_member :: "cstruct \<Rightarrow> string \<Rightarrow> jval option \<Rightarrow> jval option list \<Rightarrow> jval option list" where
  "set_member s m v obj = map2 (\<lambda>(k, n) w. if n = m then v else w) (fields_map s) obj"

fun the_str :: "jval option \<Rightarrow> string option" where
  "the_str (Some (VStr s)) = Some s"
| "the_str _ = None"

fun the_int :: "jval option \<Rightarrow> int option" where
  "the_int (Some (VInt i)) = Some i"
| "the_int _ = None"

fun the_bool :: "jval option \<Rightarrow> bool option" where
  "the_bool (Some (VBool b)) = Some b"
| "the_bool _ = None"

fun the_obj :: "jval option \<Rightarrow> jval option list option" where
  "the_obj (Some (VStruct vs)) = Some vs"
| "the_obj _ = None"

fun the_objs :: "jval option \<Rightarrow> jval option list list option" where
  "the_objs (Some (VVec xs)) = Some (map (\<lambda>x. case x of VStruct vs \<Rightarrow> vs | _ \<Rightarrow> []) xs)"
| "the_objs _ = None"

subsection \<open>The structs of the header\<close>

definition MessageType :: cstruct where
  "MessageType = \<lparr>
     members = [(''request'', TBool, NoInit), (''response'', TBool, NoInit),
                (''notification'', TBool, NoInit)],
     fields_map = [(''request'', ''request''), (''response'', ''response''),
                   (''notification'', ''notification'')]\<rparr>"

definition RequestHeader :: cstruct where
  "RequestHeader = \<lparr>
     members = [(''request'', TBool, NoInit), (''id'', TInt64, NoInit), (''method'', TString, NoInit)],
     fields_map = [(''request'', ''request''), (''id'', ''id''), (''method'', ''method'')]\<rparr>"

definition ResponseHeader :: cstruct where
  "ResponseHeader = \<lparr>
     members = [(''response'', TBool, NoInit), (''id'', TInt64, NoInit), (''ok'', TBool, NoInit)],
     fields_map = [(''response'', ''response''), (''id'', ''id''), (''ok'', ''ok'')]\<rparr>"

definition NotificationHeader :: cstruct where
  "NotificationHeader = \<lparr>
     members = [(''notification'', TBool, NoInit), (''method'', TString, NoInit)],
     fields_map = [(''notification'', ''notification''), (''method'', ''method'')]\<rparr>"

definition BasicResponse :: cstruct where
  "BasicResponse = \<lparr>
     members = [(''response'', TBool, NoInit), (''id'', TInt64, NoInit), (''ok'', TBool, NoInit)],
     fields_map = [(''response'', ''response''), (''id'', ''id''), (''ok'', ''ok'')]\<rparr>"

definition GetRouterRtpCapabilitiesRequest :: cstruct where
  "GetRouterRtpCapabilitiesRequest = \<lparr>
     members = [(''request'', TBool, InitBool True), (''id'', TInt64, InitGenerateID),
                (''method'', TString, InitStr ''getRouterRtpCapabilities'')],
     fields_map = [(''request'', ''request''), (''id'', ''id''), (''method'', ''method'')]\<rparr>"

definition GetRouterRtpCapabilitiesResponse_RTCPFeedback :: cstruct where
  "GetRouterRtpCapabilitiesResponse_RTCPFeedback = \<lparr>
     members = [(''type'', TString, NoInit), (''parameter'', TString, NoInit)],
     fields_map = [(''type'', ''type''), (''parameter'', ''parameter'')]\<rparr>"

definition GetRouterRtpCapabilitiesResponse_Parameters :: cstruct where
  "GetRouterRtpCapabilitiesResponse_Parameters = \<lparr>
     members = [(''apt'', TInt, NoInit), (''levelAsymmetryAllowed'', TInt, NoInit),
                (''packetizationMode'', TInt, NoInit), (''profileLevelId'', TString, NoInit),
                (''xGoogleStartBitrate'', TInt, NoInit)],
     fields_map = [(''apt'', ''apt''), (''level-asymmetry-allowed'', ''levelAsymmetryAllowed''),
                   (''packetization-mode'', ''packetizationMode''),
                   (''profile-level-id'', ''profileLevelId''),
                   (''x-google-start-bitrate'', ''xGoogleStartBitrate'')]\<rparr>"

definition GetRouterRtpCapabilitiesResponse_Codec :: cstruct where
  "GetRouterRtpCapabilitiesResponse_Codec = \<lparr>
     members = [(''kind'', TString, NoInit), (''mimeType'', TString, NoInit),
                (''clockRate'', TInt, NoInit), (''channels'', TInt, NoInit),
                (''rtcpFeedback'', TVec (ST GetRouterRtpCapabilitiesResponse_RTCPFeedback), NoInit),
                (''parameters'', ST GetRouterRtpCapabilitiesResponse_Parameters, NoInit),
                (''preferredPayloadType'', TInt, NoInit)],
     fields_map = [(''kind'', ''kind''), (''mimeType'', ''mimeType''), (''clockRate'', ''clockRate''),
                   (''channels'', ''channels''), (''rtcpFeedback'', ''rtcpFeedback''),
                   (''parameters'', ''parameters''), (''preferredPayloadType'', ''preferredPayloadType'')]\<rparr>"

definition GetRouterRtpCapabilitiesResponse_HeaderExtension :: cstruct where
  "GetRouterRtpCapabilitiesResponse_HeaderExtension = \<lparr>
     members = [(''kind'', TString, NoInit), (''uri'', TString, NoInit), (''preferredId'', TInt, NoInit),
                (''preferredEncrypt'', TBool, NoInit), (''direction'', TString, NoInit)],
     fields_map = [(''kind'', ''kind''), (''uri'', ''uri''), (''preferredId'', ''preferredId''),
                   (''preferredEncrypt'', ''preferredEncrypt''), (''direction'', ''direction'')]\<rparr>"

definition GetRouterRtpCapabilitiesResponse_Data :: cstruct where
  "GetRouterRtpCapabilitiesResponse_Data = \<lparr>
     members = [(''codecs'', TVec (ST GetRouterRtpCapabilitiesResponse_Codec), NoInit),
                (''headerExtensions'', TVec (ST GetRouterRtpCapabilitiesResponse_HeaderExtension), NoInit)],
     fields_map = [(''codecs'', ''codecs''), (''headerExtensions'', ''headerExtensions'')]\<rparr>"

definition GetRouterRtpCapabilitiesResponse :: cstruct where
  "GetRouterRtpCapabilitiesResponse = \<lparr>
     members = [(''response'', TBool, NoInit), (''id'', TInt64, NoInit), (''ok'', TBool, NoInit),
                (''data'', ST GetRouterRtpCapabilitiesResponse_Data, NoInit)],
     fields_map = [(''response'', ''response''), (''id'', ''id''), (''ok'', ''ok''), (''data'', ''data'')]\<rparr>"

definition CreateWebRtcTransportRequest_NumStreams :: cstruct where
  "CreateWebRtcTransportRequest_NumStreams = \<lparr>
     members = [(''MIS'', TInt, NoInit), (''OS'', TInt, NoInit)],
     fields_map = [(''MIS'', ''MIS''), (''OS'', ''OS'')]\<rparr>"

definition CreateWebRtcTransportRequest_SCTPCapabilities :: cstruct where
  "CreateWebRtcTransportRequest_SCTPCapabilities = \<lparr>
     members = [(''numStreams'', ST CreateWebRtcTransportRequest_NumStreams, NoInit)],
     fields_map = [(''numStreams'', ''numStreams'')]\<rparr>"

definition CreateWebRtcTransportRequest_Data :: cstruct where
  "CreateWebRtcTransportRequest_Data = \<lparr>
     members = [(''consuming'', TBool, NoInit), (''producing'', TBool, NoInit),
                (''forceTcp'', TBool, NoInit),
                (''sctpCapabilities'', ST CreateWebRtcTransportRequest_SCTPCapabilities, NoInit)],
     fields_map = [(''consuming'', ''consuming''), (''producing'', ''producing''),
                   (''forceTcp'', ''forceTcp''), (''sctpCapabilities'', ''sctpCapabilities'')]\<rparr>"

definition CreateWebRtcTransportRequest :: cstruct where
  "CreateWebRtcTransportRequest = \<lparr>
     members = [(''request'', TBool, InitBool True), (''id'', TInt64, InitGenerateID),
                (''method'', TString, InitStr ''createWebRtcTransport''),
                (''data'', ST CreateWebRtcTransportRequest_Data, NoInit)],
     fields_map = [(''request'', ''request''), (''id'', ''id''), (''method'', ''method''), (''data'', ''data'')]\<rparr>"

definition CreateWebRtcTransportResponse_Fingerprint :: cstruct where
  "CreateWebRtcTransportResponse_Fingerprint = \<lparr>
     members = [(''algorithm'', TString, NoInit), (''value'', TString, NoInit)],
     fields_map = [(''algorithm'', ''algorithm''), (''value'', ''value'')]\<rparr>"

definition CreateWebRtcTransportResponse_DTLSParameters :: cstruct where
  "CreateWebRtcTransportResponse_DTLSParameters = \<lparr>
     members = [(''fingerprints'', TVec (ST CreateWebRtcTransportResponse_Fingerprint), NoInit),
                (''role'', TString, NoInit)],
     fields_map = [(''fingerprints'', ''fingerprints''), (''role'', ''role'')]\<rparr>"

definition CreateWebRtcTransportResponse_ICECandidate :: cstruct where
  "CreateWebRtcTransportResponse_ICECandidate = \<lparr>
     members = [(''type'', TString, NoInit), (''protocol'', TString, NoInit),
                (''foundation'', TString, NoInit), (''ip'', TString, NoInit), (''port'', TInt, NoInit),
                (''priority'', TInt, NoInit)],
     fields_map = [(''type'', ''type''), (''protocol'', ''protocol''), (''foundation'', ''foundation''),
                   (''ip'', ''ip''), (''port'', ''port''), (''priority'', ''priority'')]\<rparr>"

definition CreateWebRtcTransportResponse_ICEParameters :: cstruct where
  "CreateWebRtcTransportResponse_ICEParameters = \<lparr>
     members = [(''iceLite'', TBool, NoInit), (''password'', TString, NoInit),
                (''usernameFragment'', TString, NoInit)],
     fields_map = [(''iceLite'', ''iceLite''), (''password'', ''password''),
                   (''usernameFragment'', ''usernameFragment'')]\<rparr>"

definition CreateWebRtcTransportResponse_SCTPParameters :: cstruct where
  "CreateWebRtcTransportResponse_SCTPParameters = \<lparr>
     members = [(''MIS'', TInt, NoInit), (''OS'', TInt, NoInit), (''isDataChannel'', TBool, NoInit),
                (''port'', TInt, NoInit), (''maxMessageSize'', TInt, NoInit),
                (''sctpBufferedAmount'', TInt, NoInit), (''sendBufferSize'', TInt, NoInit)],
     fields_map = [(''MIS'', ''MIS''), (''OS'', ''OS''), (''isDataChannel'', ''isDataChannel''),
                   (''port'', ''port''), (''maxMessageSize'', ''maxMessageSize''),
                   (''sctpBufferedAmount'', ''sctpBufferedAmount''), (''sendBufferSize'', ''sendBufferSize'')]\<rparr>"

definition CreateWebRtcTransportResponse_Data :: cstruct where
  "CreateWebRtcTransportResponse_Data = \<lparr>
     members = [(''id'', TString, NoInit),
                (''dtlsParameters'', ST CreateWebRtcTransportResponse_DTLSParameters, NoInit),
                (''iceCandidates'', TVec (ST CreateWebRtcTransportResponse_ICECandidate), NoInit),
                (''iceParameters'', ST CreateWebRtcTransportResponse_ICEParameters, NoInit),
                (''sctpParameters'', ST CreateWebRtcTransportResponse_SCTPParameters, NoInit)],
     fields_map = [(''id'', ''id''), (''dtlsParameters'', ''dtlsParameters''),
                   (''iceCandidates'', ''iceCandidates''), (''iceParameters'', ''iceParameters''),
                   (''sctpParameters'', ''sctpParameters'')]\<rparr>"

definition CreateWebRtcTransportResponse :: cstruct where
  "CreateWebRtcTransportResponse = \<lparr>
     members = [(''request'', TBool, InitBool True), (''id'', TInt64, InitGenerateID),
                (''ok'', TBool, NoInit), (''data'', ST CreateWebRtcTransportResponse_Data, NoInit)],
     fields_map = [(''request'', ''request''), (''id'', ''id''), (''ok'', ''ok''), (''data'', ''data'')]\<rparr>"

definition JoinRequest_Device :: cstruct where
  "JoinRequest_Device = \<lparr>
     members = [(''flag'', TString, NoInit), (''name'', TString, NoInit), (''version'', TString, NoInit)],
     fields_map = [(''flag'', ''flag''), (''name'', ''name''), (''version'', ''version'')]\<rparr>"

definition JoinRequest_RTCPFeedback :: cstruct where
  "JoinRequest_RTCPFeedback = \<lparr>
     members = [(''type'', TString, NoInit), (''parameter'', TString, NoInit)],
     fields_map = [(''type'', ''type''), (''parameter'', ''parameter'')]\<rparr>"

definition JoinRequest_Parameters :: cstruct where
  "JoinRequest_Parameters = \<lparr>
     members = [(''apt'', TInt, NoInit), (''levelAsymmetryAllowed'', TInt, NoInit),
                (''packetizationMode'', TInt, NoInit), (''profileLevelId'', TString, NoInit),
                (''xGoogleStartBitrate'', TInt, NoInit), (''minptime'', TInt, NoInit),
                (''useinbandfec'', TInt, NoInit), (''profileId'', TInt, NoInit)],
     fields_map = [(''level-asymmetry-allowed'', ''levelAsymmetryAllowed''),
                   (''packetization-mode'', ''packetizationMode''),
                   (''profile-level-id'', ''profileLevelId''),
                   (''x-google-start-bitrate'', ''xGoogleStartBitrate''), (''minptime'', ''minptime''),
                   (''useinbandfec'', ''useinbandfec''), (''profile-id'', ''profileId'')]\<rparr>"

definition JoinRequest_Codec :: cstruct where
  "JoinRequest_Codec = \<lparr>
     members = [(''kind'', TString, NoInit), (''mimeType'', TString, NoInit),
                (''clockRate'', TInt, NoInit), (''channels'', TInt, NoInit),
                (''rtcpFeedback'', TVec (ST JoinRequest_RTCPFeedback), NoInit),
                (''parameters'', ST JoinRequest_Parameters, NoInit),
                (''preferredPayloadType'', TInt, NoInit)],
     fields_map = [(''kind'', ''kind''), (''mimeType'', ''mimeType''), (''clockRate'', ''clockRate''),
                   (''channels'', ''channels''), (''rtcpFeedback'', ''rtcpFeedback''),
                   (''parameters'', ''parameters''), (''preferredPayloadType'', ''preferredPayloadType'')]\<rparr>"

definition JoinRequest_HeaderExtension :: cstruct where
  "JoinRequest_HeaderExtension = \<lparr>
     members = [(''kind'', TString, NoInit), (''uri'', TString, NoInit), (''preferredId'', TInt, NoInit),
                (''preferredEncrypt'', TBool, NoInit), (''direction'', TString, NoInit)],
     fields_map = [(''kind'', ''kind''), (''uri'', ''uri''), (''preferredId'', ''preferredId''),
                   (''preferredEncrypt'', ''preferredEncrypt''), (''direction'', ''direction'')]\<rparr>"

definition JoinRequest_RTPCapabilities :: cstruct where
  "JoinRequest_RTPCapabilities = \<lparr>
     members = [(''codecs'', TVec (ST JoinRequest_Codec), NoInit),
                (''headerExtensions'', TVec (ST JoinRequest_HeaderExtension), NoInit)],
     fields_map = [(''codecs'', ''codecs''), (''headerExtensions'', ''headerExtensions'')]\<rparr>"

definition JoinRequest_NumStreams :: cstruct where
  "JoinRequest_NumStreams = \<lparr>
     members = [(''MIS'', TInt, NoInit), (''OS'', TInt, NoInit)],
     fields_map = [(''MIS'', ''MIS''), (''OS'', ''OS'')]\<rparr>"

definition JoinRequest_SCTPCapabilities :: cstruct where
  "JoinRequest_SCTPCapabilities = \<lparr>
     members = [(''numStreams'', ST JoinRequest_NumStreams, NoInit)],
     fields_map = [(''numStreams'', ''numStreams'')]\<rparr>"

definition JoinRequest_Data :: cstruct where
  "JoinRequest_Data = \<lparr>
     members = [(''displayName'', TString, NoInit), (''device'', ST JoinRequest_Device, NoInit),
                (''rtpCapabilities'', ST JoinRequest_RTPCapabilities, NoInit),
                (''sctpCapabilities'', ST JoinRequest_SCTPCapabilities, NoInit)],
     fields_map = [(''displayName'', ''displayName''), (''device'', ''device''),
                   (''rtpCapabilities'', ''rtpCapabilities''), (''sctpCapabilities'', ''sctpCapabilities'')]\<rparr>"

definition JoinRequest :: cstruct where
  "JoinRequest = \<lparr>
     members = [(''request'', TBool, InitBool True), (''id'', TInt64, InitGenerateID),
                (''method'', TString, InitStr ''join''), (''data'', ST JoinRequest_Data, NoInit)],
     fields_map = [(''request'', ''request''), (''id'', ''id''), (''method'', ''method''), (''data'', ''data'')]\<rparr>"

definition JoinResponse_Device :: cstruct where
  "JoinResponse_Device = \<lparr>
     members = [(''flag'', TString, NoInit), (''name'', TString, NoInit), (''version'', TString, NoInit)],
     fields_map = [(''flag'', ''flag''), (''name'', ''name''), (''version'', ''version'')]\<rparr>"

definition JoinResponse_Peer :: cstruct where
  "JoinResponse_Peer = \<lparr>
     members = [(''id'', TString, NoInit), (''displayName'', TString, NoInit),
                (''device'', ST JoinResponse_Device, NoInit)],
     fields_map = [(''id'', ''id''), (''displayName'', ''displayName''), (''device'', ''device'')]\<rparr>"

definition JoinResponse_Data :: cstruct where
  "JoinResponse_Data = \<lparr>
     members = [(''peers'', TVec (ST JoinResponse_Peer), NoInit)],
     fields_map = [(''peers'', ''peers'')]\<rparr>"

definition JoinResponse :: cstruct where
  "JoinResponse = \<lparr>
     members = [(''response'', TBool, NoInit), (''id'', TInt64, NoInit), (''ok'', TBool, NoInit),
                (''data'', ST JoinResponse_Data, NoInit)],
     fields_map = [(''response'', ''response''), (''id'', ''id''), (''ok'', ''ok''), (''data'', ''data'')]\<rparr>"

definition NewDataConsumerRequest_AppData :: cstruct where
  "NewDataConsumerRequest_AppData = \<lparr>
     members = [(''peerId'', TString, NoInit)],
     fields_map = [(''peerId'', ''peerId'')]\<rparr>"

definition NewDataConsumerRequest_SCTPStreamParameters :: cstruct where
  "NewDataConsumerRequest_SCTPStreamParameters = \<lparr>
     members = [(''streamId'', TInt, NoInit), (''ordered'', TBool, NoInit)],
     fields_map = [(''streamId'', ''streamId''), (''ordered'', ''ordered'')]\<rparr>"

definition NewDataConsumerRequest_Data :: cstruct where
  "NewDataConsumerRequest_Data = \<lparr>
     members = [(''id'', TString, NoInit), (''peerId'', TString, NoInit),
                (''dataProducerId'', TString, NoInit), (''label'', TString, NoInit),
                (''protocol'', TString, NoInit),
                (''sctpStreamParameters'', ST NewDataConsumerRequest_SCTPStreamParameters, NoInit),
                (''appData'', ST NewDataConsumerRequest_AppData, NoInit)],
     fields_map = [(''id'', ''id''), (''peerId'', ''peerId''), (''dataProducerId'', ''dataProducerId''),
                   (''label'', ''label''), (''protocol'', ''protocol''),
                   (''sctpStreamParameters'', ''sctpStreamParameters''), (''appData'', ''appData'')]\<rparr>"

definition NewDataConsumerRequest :: cstruct where
  "NewDataConsumerRequest = \<lparr>
     members = [(''request'', TBool, NoInit), (''id'', TInt64, NoInit), (''method'', TString, NoInit),
                (''data'', ST NewDataConsumerRequest_Data, NoInit)],
     fields_map = [(''request'', ''request''), (''id'', ''id''), (''method'', ''method''), (''data'', ''data'')]\<rparr>"

definition NewConsumerRequest_SharingData :: cstruct where
  "NewConsumerRequest_SharingData = \<lparr>
     members = [(''trackName'', TString, NoInit)],
     fields_map = [(''trackName'', ''trackName'')]\<rparr>"

definition NewConsumerRequest_AppData :: cstruct where
  "NewConsumerRequest_AppData = \<lparr>
     members = [(''peerId'', TString, NoInit), (''sharing'', ST NewConsumerRequest_SharingData, NoInit)],
     fields_map = [(''peerId'', ''peerId''), (''sharing'', ''sharing'')]\<rparr>"

definition NewConsumerRequest_RTCPFeedback :: cstruct where
  "NewConsumerRequest_RTCPFeedback = \<lparr>
     members = [(''type'', TString, NoInit), (''parameter'', TString, NoInit)],
     fields_map = [(''type'', ''type''), (''parameter'', ''parameter'')]\<rparr>"

definition NewConsumerRequest_Parameters :: cstruct where
  "NewConsumerRequest_Parameters = \<lparr>
     members = [(''spropstereo'', TInt, NoInit), (''minptime'', TInt, NoInit),
                (''useinbandfec'', TInt, NoInit), (''usedtx'', TInt, NoInit)],
     fields_map = [(''sprop-stereo'', ''spropstereo''), (''usedtx'', ''usedtx''),
                   (''minptime'', ''minptime''), (''useinbandfec'', ''useinbandfec'')]\<rparr>"

definition NewConsumerRequest_Codec :: cstruct where
  "NewConsumerRequest_Codec = \<lparr>
     members = [(''mimeType'', TString, NoInit), (''clockRate'', TInt, NoInit),
                (''channels'', TInt, NoInit),
                (''rtcpFeedback'', TVec (ST NewConsumerRequest_RTCPFeedback), NoInit),
                (''parameters'', ST NewConsumerRequest_Parameters, NoInit), (''payloadType'', TInt, NoInit)],
     fields_map = [(''mimeType'', ''mimeType''), (''clockRate'', ''clockRate''), (''channels'', ''channels''),
                   (''rtcpFeedback'', ''rtcpFeedback''), (''parameters'', ''parameters''),
                   (''payloadType'', ''payloadType'')]\<rparr>"

definition NewConsumerRequest_HeaderExtension :: cstruct where
  "NewConsumerRequest_HeaderExtension = \<lparr>
     members = [(''id'', TInt, NoInit), (''encrypt'', TBool, NoInit), (''uri'', TString, NoInit)],
     fields_map = [(''id'', ''id''), (''uri'', ''uri''), (''encrypt'', ''encrypt'')]\<rparr>"

definition NewConsumerRequest_RTX :: cstruct where
  "NewConsumerRequest_RTX = \<lparr>
     members = [(''ssrc'', TInt64, NoInit)],
     fields_map = [(''ssrc'', ''ssrc'')]\<rparr>"

definition NewConsumerRequest_Encoding :: cstruct where
  "NewConsumerRequest_Encoding = \<lparr>
     members = [(''maxBitrate'', TInt, NoInit), (''ssrc'', TInt64, NoInit),
                (''rtx'', ST NewConsumerRequest_RTX, NoInit), (''scalabilityMode'', TString, NoInit)],
     fields_map = [(''ssrc'', ''ssrc''), (''maxBitrate'', ''maxBitrate''), (''rtx'', ''rtx''),
                   (''scalabilityMode'', ''scalabilityMode'')]\<rparr>"

definition NewConsumerRequest_Rtcp :: cstruct where
  "NewConsumerRequest_Rtcp = \<lparr>
     members = [(''cname'', TString, NoInit), (''mux'', TBool, NoInit), (''reducedSize'', TBool, NoInit)],
     fields_map = [(''cname'', ''cname''), (''mux'', ''mux''), (''reducedSize'', ''reducedSize'')]\<rparr>"

definition NewConsumerRequest_RTPParameters :: cstruct where
  "NewConsumerRequest_RTPParameters = \<lparr>
     members = [(''encodings'', TVec (ST NewConsumerRequest_Encoding), NoInit),
                (''codecs'', TVec (ST NewConsumerRequest_Codec), NoInit),
                (''headerExtensions'', TVec (ST NewConsumerRequest_HeaderExtension), NoInit),
                (''mid'', TString, NoInit), (''rtcp'', ST NewConsumerRequest_Rtcp, NoInit)],
     fields_map = [(''encodings'', ''encodings''), (''codecs'', ''codecs''),
                   (''headerExtensions'', ''headerExtensions''), (''mid'', ''mid''), (''rtcp'', ''rtcp'')]\<rparr>"

definition NewConsumerRequest_Data :: cstruct where
  "NewConsumerRequest_Data = \<lparr>
     members = [(''id'', TString, NoInit), (''peerId'', TString, NoInit), (''type'', TString, NoInit),
                (''kind'', TString, NoInit), (''producerId'', TString, NoInit),
                (''producerPaused'', TBool, NoInit),
                (''rtpParameters'', ST NewConsumerRequest_RTPParameters, NoInit),
                (''appData'', ST NewConsumerRequest_AppData, NoInit)],
     fields_map = [(''id'', ''id''), (''peerId'', ''peerId''), (''kind'', ''kind''), (''type'', ''type''),
                   (''producerId'', ''producerId''), (''producerPaused'', ''producerPaused''),
                   (''rtpParameters'', ''rtpParameters''), (''appData'', ''appData'')]\<rparr>"

definition NewConsumerRequest :: cstruct where
  "NewConsumerRequest = \<lparr>
     members = [(''request'', TBool, NoInit), (''id'', TInt64, NoInit), (''method'', TString, NoInit),
                (''data'', ST NewConsumerRequest_Data, NoInit)],
     fields_map = [(''request'', ''request''), (''id'', ''id''), (''method'', ''method''), (''data'', ''data'')]\<rparr>"

definition ConnectWebRtcTransportRequest_Fingerprint :: cstruct where
  "ConnectWebRtcTransportRequest_Fingerprint = \<lparr>
     members = [(''algorithm'', TString, NoInit), (''value'', TString, NoInit)],
     fields_map = [(''algorithm'', ''algorithm''), (''value'', ''value'')]\<rparr>"

definition ConnectWebRtcTransportRequest_DTLSParameters :: cstruct where
  "ConnectWebRtcTransportRequest_DTLSParameters = \<lparr>
     members = [(''fingerprints'', TVec (ST ConnectWebRtcTransportRequest_Fingerprint), NoInit),
                (''role'', TString, NoInit)],
     fields_map = [(''fingerprints'', ''fingerprints''), (''role'', ''role'')]\<rparr>"

definition ConnectWebRtcTransportRequest_Data :: cstruct where
  "ConnectWebRtcTransportRequest_Data = \<lparr>
     members = [(''transportId'', TString, NoInit),
                (''dtlsParameters'', ST ConnectWebRtcTransportRequest_DTLSParameters, NoInit)],
     fields_map = [(''transportId'', ''transportId''), (''dtlsParameters'', ''dtlsParameters'')]\<rparr>"

definition ConnectWebRtcTransportRequest :: cstruct where
  "ConnectWebRtcTransportRequest = \<lparr>
     members = [(''request'', TBool, InitBool True), (''id'', TInt64, InitGenerateID),
                (''method'', TString, InitStr ''connectWebRtcTransport''),
                (''data'', ST ConnectWebRtcTransportRequest_Data, NoInit)],
     fields_map = [(''request'', ''request''), (''id'', ''id''), (''method'', ''method''), (''data'', ''data'')]\<rparr>"

definition ProduceRequest_SharingData :: cstruct where
  "ProduceRequest_SharingData = \<lparr>
     members = [(''trackName'', TString, NoInit)],
     fields_map = [(''trackName'', ''trackName'')]\<rparr>"

definition ProduceRequest_AppData :: cstruct where
  "ProduceRequest_AppData = \<lparr>
     members = [(''peerId'', TString, NoInit), (''sharing'', ST ProduceRequest_SharingData, NoInit)],
     fields_map = [(''peerId'', ''peerId''), (''sharing'', ''sharing'')]\<rparr>"

definition ProduceRequest_RTCPFeedback :: cstruct where
  "ProduceRequest_RTCPFeedback = \<lparr>
     members = [(''type'', TString, NoInit), (''parameter'', TString, NoInit)],
     fields_map = [(''type'', ''type''), (''parameter'', ''parameter'')]\<rparr>"

definition ProduceRequest_Parameters :: cstruct where
  "ProduceRequest_Parameters = \<lparr>
     members = [(''apt'', TInt, NoInit), (''spropstereo'', TInt, NoInit), (''minptime'', TInt, NoInit),
                (''useinbandfec'', TInt, NoInit), (''usedtx'', TInt, NoInit),
                (''levelAsymmetryAllowed'', TInt, NoInit), (''packetizationMode'', TInt, NoInit),
                (''profileLevelId'', TString, NoInit), (''xGoogleStartBitrate'', TInt, NoInit),
                (''profileId'', TInt, NoInit)],
     fields_map = [(''apt'', ''apt''), (''sprop-stereo'', ''spropstereo''), (''usedtx'', ''usedtx''),
                   (''minptime'', ''minptime''), (''useinbandfec'', ''useinbandfec''),
                   (''level-asymmetry-allowed'', ''levelAsymmetryAllowed''),
                   (''packetization-mode'', ''packetizationMode''),
                   (''profile-level-id'', ''profileLevelId''),
                   (''x-google-start-bitrate'', ''xGoogleStartBitrate''), (''profile-id'', ''profileId'')]\<rparr>"

definition ProduceRequest_Codec :: cstruct where
  "ProduceRequest_Codec = \<lparr>
     members = [(''mimeType'', TString, NoInit), (''clockRate'', TInt, NoInit),
                (''channels'', TInt, NoInit),
                (''rtcpFeedback'', TVec (ST ProduceRequest_RTCPFeedback), NoInit),
                (''parameters'', ST ProduceRequest_Parameters, NoInit), (''payloadType'', TInt, NoInit)],
     fields_map = [(''mimeType'', ''mimeType''), (''clockRate'', ''clockRate''), (''channels'', ''channels''),
                   (''rtcpFeedback'', ''rtcpFeedback''), (''parameters'', ''parameters''),
                   (''payloadType'', ''payloadType'')]\<rparr>"

definition ProduceRequest_HeaderExtension :: cstruct where
  "ProduceRequest_HeaderExtension = \<lparr>
     members = [(''id'', TInt, NoInit), (''encrypt'', TBool, NoInit), (''uri'', TString, NoInit)],
     fields_map = [(''id'', ''id''), (''uri'', ''uri''), (''encrypt'', ''encrypt'')]\<rparr>"

definition ProduceRequest_Encoding :: cstruct where
  "ProduceRequest_Encoding = \<lparr>
     members = [(''ssrc'', TInt64, NoInit), (''active'', TBool, NoInit), (''dtx'', TBool, NoInit),
                (''maxBitrate'', TInt, NoInit), (''rid'', TString, NoInit),
                (''scalabilityMode'', TString, NoInit), (''scaleResolutionDownBy'', TFloat, NoInit)],
     fields_map = [(''ssrc'', ''ssrc''), (''active'', ''active''), (''dtx'', ''dtx''),
                   (''maxBitrate'', ''maxBitrate''), (''rid'', ''rid''),
                   (''scalabilityMode'', ''scalabilityMode''),
                   (''scaleResolutionDownBy'', ''scaleResolutionDownBy'')]\<rparr>"

definition ProduceRequest_Rtcp :: cstruct where
  "ProduceRequest_Rtcp = \<lparr>
     members = [(''cname'', TString, NoInit), (''reducedSize'', TBool, NoInit)],
     fields_map = [(''cname'', ''cname''), (''reducedSize'', ''reducedSize'')]\<rparr>"

definition ProduceRequest_RTPParameters :: cstruct where
  "ProduceRequest_RTPParameters = \<lparr>
     members = [(''encodings'', TVec (ST ProduceRequest_Encoding), NoInit),
                (''codecs'', TVec (ST ProduceRequest_Codec), NoInit),
                (''headerExtensions'', TVec (ST ProduceRequest_HeaderExtension), NoInit),
                (''mid'', TString, NoInit), (''rtcp'', ST ProduceRequest_Rtcp, NoInit)],
     fields_map = [(''encodings'', ''encodings''), (''codecs'', ''codecs''),
                   (''headerExtensions'', ''headerExtensions''), (''mid'', ''mid''), (''rtcp'', ''rtcp'')]\<rparr>"

definition ProduceRequest_Data :: cstruct where
  "ProduceRequest_Data = \<lparr>
     members = [(''transportId'', TString, NoInit), (''kind'', TString, NoInit),
                (''rtpParameters'', ST ProduceRequest_RTPParameters, NoInit),
                (''appData'', ST ProduceRequest_AppData, NoInit)],
     fields_map = [(''transportId'', ''transportId''), (''kind'', ''kind''),
                   (''rtpParameters'', ''rtpParameters''), (''appData'', ''appData'')]\<rparr>"

definition ProduceRequest :: cstruct where
  "ProduceRequest = \<lparr>
     members = [(''request'', TBool, InitBool True), (''id'', TInt64, InitGenerateID),
                (''method'', TString, InitStr ''produce''), (''data'', ST ProduceRequest_Data, NoInit)],
     fields_map = [(''request'', ''request''), (''id'', ''id''), (''method'', ''method''), (''data'', ''data'')]\<rparr>"

definition ProduceResponse_Data :: cstruct where
  "ProduceResponse_Data = \<lparr>
     members = [(''id'', TString, NoInit)],
     fields_map = [(''id'', ''id'')]\<rparr>"

definition ProduceResponse :: cstruct where
  "ProduceResponse = \<lparr>
     members = [(''response'', TBool, NoInit), (''id'', TInt64, NoInit), (''ok'', TBool, NoInit),
                (''data'', ST ProduceResponse_Data, NoInit)],
     fields_map = [(''response'', ''response''), (''id'', ''id''), (''ok'', ''ok''), (''data'', ''data'')]\<rparr>"

definition ProduceDataRequest_AppData :: cstruct where
  "ProduceDataRequest_AppData = \<lparr>
     members = [(''info'', TString, NoInit)],
     fields_map = [(''info'', ''info'')]\<rparr>"

definition ProduceDataRequest_SCTPStreamParameters :: cstruct where
  "ProduceDataRequest_SCTPStreamParameters = \<lparr>
     members = [(''streamId'', TInt, NoInit), (''maxRetransmits'', TInt, NoInit),
                (''ordered'', TBool, NoInit)],
     fields_map = [(''streamId'', ''streamId''), (''maxRetransmits'', ''maxRetransmits''),
                   (''ordered'', ''ordered'')]\<rparr>"

definition ProduceDataRequest_Data :: cstruct where
  "ProduceDataRequest_Data = \<lparr>
     members = [(''transportId'', TString, NoInit), (''label'', TString, NoInit),
                (''protocol'', TString, NoInit),
                (''sctpStreamParameters'', ST ProduceDataRequest_SCTPStreamParameters, NoInit),
                (''appData'', ST ProduceDataRequest_AppData, NoInit)],
     fields_map = [(''transportId'', ''transportId''), (''label'', ''label''), (''protocol'', ''protocol''),
                   (''sctpStreamParameters'', ''sctpStreamParameters''), (''appData'', ''appData'')]\<rparr>"

definition ProduceDataRequest :: cstruct where
  "ProduceDataRequest = \<lparr>
     members = [(''request'', TBool, NoInit), (''id'', TInt64, InitGenerateID),
                (''method'', TString, InitStr ''produceData''),
                (''data'', ST ProduceDataRequest_Data, NoInit)],
     fields_map = [(''request'', ''request''), (''id'', ''id''), (''method'', ''method''), (''data'', ''data'')]\<rparr>"

definition ProduceDataResponse_Data :: cstruct where
  "ProduceDataResponse_Data = \<lparr>
     members = [(''id'', TString, NoInit)],
     fields_map = [(''id'', ''id'')]\<rparr>"

definition ProduceDataResponse :: cstruct where
  "ProduceDataResponse = \<lparr>
     members = [(''response'', TBool, NoInit), (''id'', TInt64, NoInit), (''ok'', TBool, NoInit),
                (''data'', ST ProduceDataResponse_Data, NoInit)],
     fields_map = [(''response'', ''response''), (''id'', ''id''), (''ok'', ''ok''), (''data'', ''data'')]\<rparr>"

definition ProducerRequest_Data :: cstruct where
  "ProducerRequest_Data = \<lparr>
     members = [(''producerId'', TString, NoInit)],
     fields_map = [(''producerId'', ''producerId'')]\<rparr>"

definition ProducerRequest :: cstruct where
  "ProducerRequest = \<lparr>
     members = [(''request'', TBool, InitBool True), (''id'', TInt64, InitGenerateID),
                (''method'', TString, NoInit), (''data'', ST ProducerRequest_Data, NoInit)],
     fields_map = [(''request'', ''request''), (''id'', ''id''), (''method'', ''method''), (''data'', ''data'')]\<rparr>"

definition ConsumerRequest_Data :: cstruct where
  "ConsumerRequest_Data = \<lparr>
     members = [(''consumerId'', TString, NoInit)],
     fields_map = [(''consumerId'', ''consumerId'')]\<rparr>"

definition ConsumerRequest :: cstruct where
  "ConsumerRequest = \<lparr>
     members = [(''request'', TBool, InitBool True), (''id'', TInt64, InitGenerateID),
                (''method'', TString, NoInit), (''data'', ST ConsumerRequest_Data, NoInit)],
     fields_map = [(''request'', ''request''), (''id'', ''id''), (''method'', ''method''), (''data'', ''data'')]\<rparr>"

definition ChangeDisplayNameRequest_Data :: cstruct where
  "ChangeDisplayNameRequest_Data = \<lparr>
     members = [(''displayName'', TString, NoInit)],
     fields_map = [(''displayName'', ''displayName'')]\<rparr>"

definition ChangeDisplayNameRequest :: cstruct where
  "ChangeDisplayNameRequest = \<lparr>
     members = [(''request'', TBool, InitBool True), (''id'', TInt64, InitGenerateID),
                (''method'', TString, InitStr ''changeDisplayName''),
                (''data'', ST ChangeDisplayNameRequest_Data, NoInit)],
     fields_map = [(''request'', ''request''), (''id'', ''id''), (''method'', ''method''), (''data'', ''data'')]\<rparr>"

definition RestartICERequest_Data :: cstruct where
  "RestartICERequest_Data = \<lparr>
     members = [(''transportId'', TString, NoInit)],
     fields_map = [(''transportId'', ''transportId'')]\<rparr>"

definition RestartICERequest :: cstruct where
  "RestartICERequest = \<lparr>
     members = [(''request'', TBool, InitBool True), (''id'', TInt64, InitGenerateID),
                (''method'', TString, InitStr ''restartIce''), (''data'', ST RestartICERequest_Data, NoInit)],
     fields_map = [(''request'', ''request''), (''id'', ''id''), (''method'', ''method''), (''data'', ''data'')]\<rparr>"

definition RestartICEResponse_Data :: cstruct where
  "RestartICEResponse_Data = \<lparr>
     members = [(''iceLite'', TBool, NoInit), (''password'', TString, NoInit),
                (''usernameFragment'', TString, NoInit)],
     fields_map = [(''iceLite'', ''iceLite''), (''password'', ''password''),
                   (''usernameFragment'', ''usernameFragment'')]\<rparr>"

definition RestartICEResponse :: cstruct where
  "RestartICEResponse = \<lparr>
     members = [(''response'', TBool, NoInit), (''id'', TInt64, NoInit), (''ok'', TBool, NoInit),
                (''data'', ST RestartICEResponse_Data, NoInit)],
     fields_map = [(''response'', ''response''), (''id'', ''id''), (''ok'', ''ok''), (''data'', ''data'')]\<rparr>"

definition SetConsumerPriorityRequest_Data :: cstruct where
  "SetConsumerPriorityRequest_Data = \<lparr>
     members = [(''consumerId'', TString, NoInit), (''priority'', TInt, NoInit)],
     fields_map = [(''consumerId'', ''consumerId''), (''priority'', ''priority'')]\<rparr>"

definition SetConsumerPriorityRequest :: cstruct where
  "SetConsumerPriorityRequest = \<lparr>
     members = [(''request'', TBool, InitBool True), (''id'', TInt64, InitGenerateID),
                (''method'', TString, InitStr ''setConsumerPriority''),
                (''data'', ST SetConsumerPriorityRequest_Data, NoInit)],
     fields_map = [(''request'', ''request''), (''id'', ''id''), (''method'', ''method''), (''data'', ''data'')]\<rparr>"

definition SetConsumerPreferredLayersRequest_Data :: cstruct where
  "SetConsumerPreferredLayersRequest_Data = \<lparr>
     members = [(''consumerId'', TString, NoInit), (''spatialLayer'', TInt, NoInit),
                (''temporalLayer'', TInt, NoInit)],
     fields_map = [(''consumerId'', ''consumerId''), (''spatialLayer'', ''spatialLayer''),
                   (''temporalLayer'', ''temporalLayer'')]\<rparr>"

definition SetConsumerPreferredLayersRequest :: cstruct where
  "SetConsumerPreferredLayersRequest = \<lparr>
     members = [(''request'', TBool, InitBool True), (''id'', TInt64, InitGenerateID),
                (''method'', TString, InitStr ''setConsumerPreferredLayers''),
                (''data'', ST SetConsumerPreferredLayersRequest_Data, NoInit)],
     fields_map = [(''request'', ''request''), (''id'', ''id''), (''method'', ''method''), (''data'', ''data'')]\<rparr>"

definition GetTransportStatsRequest_Data :: cstruct where
  "GetTransportStatsRequest_Data = \<lparr>
     members = [(''transportId'', TString, NoInit)],
     fields_map = [(''transportId'', ''transportId'')]\<rparr>"

definition GetTransportStatsRequest :: cstruct where
  "GetTransportStatsRequest = \<lparr>
     members = [(''request'', TBool, InitBool True), (''id'', TInt64, InitGenerateID),
                (''method'', TString, InitStr ''getTransportStats''),
                (''data'', ST GetTransportStatsRequest_Data, NoInit)],
     fields_map = [(''request'', ''request''), (''id'', ''id''), (''method'', ''method''), (''data'', ''data'')]\<rparr>"

definition GetTransportStatsResponse_ICESelectedTuple :: cstruct where
  "GetTransportStatsResponse_ICESelectedTuple = \<lparr>
     members = [(''localIp'', TString, NoInit), (''localPort'', TInt, NoInit),
                (''remoteIp'', TString, NoInit), (''remotePort'', TInt, NoInit),
                (''protocol'', TString, NoInit)],
     fields_map = [(''localIp'', ''localIp''), (''localPort'', ''localPort''), (''remoteIp'', ''remoteIp''),
                   (''remotePort'', ''remotePort''), (''protocol'', ''protocol'')]\<rparr>"

definition GetTransportStatsResponse_Data :: cstruct where
  "GetTransportStatsResponse_Data = \<lparr>
     members = [(''transportId'', TString, NoInit), (''type'', TString, NoInit),
                (''availableOutgoingBitrate'', TInt64, NoInit), (''bytesReceived'', TInt64, NoInit),
                (''bytesSent'', TInt64, NoInit), (''dtlsState'', TString, NoInit),
                (''iceRole'', TString, NoInit),
                (''iceSelectedTuple'', ST GetTransportStatsResponse_ICESelectedTuple, NoInit),
                (''iceState'', TString, NoInit), (''maxIncomingBitrate'', TInt64, NoInit),
                (''probationBytesSent'', TInt64, NoInit), (''probationSendBitrate'', TInt64, NoInit),
                (''recvBitrate'', TInt64, NoInit), (''rtpBytesReceived'', TInt64, NoInit),
                (''rtpBytesSent'', TInt64, NoInit), (''rtpPacketLossReceived'', TInt64, NoInit),
                (''rtpRecvBitrate'', TInt64, NoInit), (''rtpSendBitrate'', TInt64, NoInit),
                (''rtxBytesReceived'', TInt64, NoInit), (''rtxBytesSent'', TInt64, NoInit),
                (''rtxRecvBitrate'', TInt64, NoInit), (''rtxSendBitrate'', TInt64, NoInit),
                (''sctpState'', TString, NoInit), (''sendBitrate'', TInt64, NoInit),
                (''timestamp'', TInt64, NoInit)],
     fields_map = [(''transportId'', ''transportId''), (''type'', ''type''),
                   (''availableOutgoingBitrate'', ''availableOutgoingBitrate''),
                   (''bytesReceived'', ''bytesReceived''), (''bytesSent'', ''bytesSent''),
                   (''dtlsState'', ''dtlsState''), (''iceRole'', ''iceRole''),
                   (''iceSelectedTuple'', ''iceSelectedTuple''), (''iceState'', ''iceState''),
                   (''maxIncomingBitrate'', ''maxIncomingBitrate''),
                   (''probationBytesSent'', ''probationBytesSent''),
                   (''probationSendBitrate'', ''probationSendBitrate''), (''recvBitrate'', ''recvBitrate''),
                   (''rtpBytesReceived'', ''rtpBytesReceived''), (''rtpBytesSent'', ''rtpBytesSent''),
                   (''rtpPacketLossReceived'', ''rtpPacketLossReceived''),
                   (''rtpSendBitrate'', ''rtpSendBitrate''), (''rtxBytesReceived'', ''rtxBytesReceived''),
                   (''rtxBytesSent'', ''rtxBytesSent''), (''rtxRecvBitrate'', ''rtxRecvBitrate''),
                   (''rtxSendBitrate'', ''rtxSendBitrate''), (''sctpState'', ''sctpState''),
                   (''sendBitrate'', ''sendBitrate''), (''timestamp'', ''timestamp'')]\<rparr>"

definition GetTransportStatsResponse :: cstruct where
  "GetTransportStatsResponse = \<lparr>
     members = [(''response'', TBool, NoInit), (''id'', TInt64, NoInit), (''ok'', TBool, NoInit),
                (''data'', TVec (ST GetTransportStatsResponse_Data), NoInit)],
     fields_map = [(''response'', ''response''), (''id'', ''id''), (''ok'', ''ok''), (''data'', ''data'')]\<rparr>"

definition GetProducerStatsRequest_Data :: cstruct where
  "GetProducerStatsRequest_Data = \<lparr>
     members = [(''producerId'', TString, NoInit)],
     fields_map = [(''producerId'', ''producerId'')]\<rparr>"

definition GetProducerStatsRequest :: cstruct where
  "GetProducerStatsRequest = \<lparr>
     members = [(''request'', TBool, InitBool True), (''id'', TInt64, InitGenerateID),
                (''method'', TString, InitStr ''getProducerStats''),
                (''data'', ST GetProducerStatsRequest_Data, NoInit)],
     fields_map = [(''request'', ''request''), (''id'', ''id''), (''method'', ''method''), (''data'', ''data'')]\<rparr>"

definition GetProducerStatsResponse_BitrateByLayer :: cstruct where
  "GetProducerStatsResponse_BitrateByLayer = \<lparr>
     members = [(''L00'', TInt, NoInit), (''L01'', TInt, NoInit), (''L02'', TInt, NoInit)],
     fields_map = [(''0.0'', ''L00''), (''0.1'', ''L01''), (''0.2'', ''L02'')]\<rparr>"

definition GetProducerStatsResponse_Data :: cstruct where
  "GetProducerStatsResponse_Data = \<lparr>
     members = [(''type'', TString, NoInit), (''kind'', TString, NoInit), (''mimeType'', TString, NoInit),
                (''rid'', TString, NoInit), (''bitrate'', TInt64, NoInit), (''byteCount'', TInt64, NoInit),
                (''firCount'', TInt64, NoInit), (''fractionLost'', TInt64, NoInit),
                (''jitter'', TInt64, NoInit), (''nackCount'', TInt64, NoInit),
                (''nackPacketCount'', TInt64, NoInit), (''packetCount'', TInt64, NoInit),
                (''packetsDiscarded'', TInt64, NoInit), (''packetsLost'', TInt64, NoInit),
                (''packetsRepaired'', TInt64, NoInit), (''packetsRetransmitted'', TInt64, NoInit),
                (''pliCount'', TInt64, NoInit), (''roundTripTime'', TDouble, NoInit),
                (''rtxPacketsDiscarded'', TInt64, NoInit), (''rtxSsrc'', TInt64, NoInit),
                (''score'', TInt64, NoInit), (''ssrc'', TInt64, NoInit), (''timestamp'', TInt64, NoInit),
                (''bitrateByLayer'', ST GetProducerStatsResponse_BitrateByLayer, NoInit)],
     fields_map = [(''type'', ''type''), (''kind'', ''kind''), (''mimeType'', ''mimeType''),
                   (''rid'', ''rid''), (''bitrate'', ''bitrate''), (''byteCount'', ''byteCount''),
                   (''firCount'', ''firCount''), (''fractionLost'', ''fractionLost''),
                   (''jitter'', ''jitter''), (''nackCount'', ''nackCount''),
                   (''nackPacketCount'', ''nackPacketCount''), (''packetCount'', ''packetCount''),
                   (''packetsDiscarded'', ''packetsDiscarded''), (''packetsLost'', ''packetsLost''),
                   (''packetsRepaired'', ''packetsRepaired''),
                   (''packetsRetransmitted'', ''packetsRetransmitted''), (''pliCount'', ''pliCount''),
                   (''roundTripTime'', ''roundTripTime''), (''rtxPacketsDiscarded'', ''rtxPacketsDiscarded''),
                   (''rtxSsrc'', ''rtxSsrc''), (''score'', ''score''), (''ssrc'', ''ssrc''),
                   (''timestamp'', ''timestamp''), (''bitrateByLayer'', ''bitrateByLayer'')]\<rparr>"

definition GetProducerStatsResponse :: cstruct where
  "GetProducerStatsResponse = \<lparr>
     members = [(''response'', TBool, NoInit), (''id'', TInt64, NoInit), (''ok'', TBool, NoInit),
                (''data'', TVec (ST GetProducerStatsResponse_Data), NoInit)],
     fields_map = [(''response'', ''response''), (''id'', ''id''), (''ok'', ''ok''), (''data'', ''data'')]\<rparr>"

definition GetDataProducerStatsRequest_Data :: cstruct where
  "GetDataProducerStatsRequest_Data = \<lparr>
     members = [(''dataProducerId'', TString, NoInit)],
     fields_map = [(''dataProducerId'', ''dataProducerId'')]\<rparr>"

definition GetDataProducerStatsRequest :: cstruct where
  "GetDataProducerStatsRequest = \<lparr>
     members = [(''request'', TBool, InitBool True), (''id'', TInt64, InitGenerateID),
                (''method'', TString, InitStr ''getDataProducerStats''),
                (''data'', ST GetDataProducerStatsRequest_Data, NoInit)],
     fields_map = [(''request'', ''request''), (''id'', ''id''), (''method'', ''method''), (''data'', ''data'')]\<rparr>"

definition GetDataProducerStatsResponse_Data :: cstruct where
  "GetDataProducerStatsResponse_Data = \<lparr>
     members = [(''type'', TString, NoInit), (''label'', TString, NoInit), (''protocol'', TString, NoInit),
                (''bytesReceived'', TInt64, NoInit), (''messagesReceived'', TInt64, NoInit),
                (''timestamp'', TInt64, NoInit)],
     fields_map = [(''type'', ''type''), (''label'', ''label''), (''protocol'', ''protocol''),
                   (''bytesReceived'', ''bytesReceived''), (''messagesReceived'', ''messagesReceived''),
                   (''timestamp'', ''timestamp'')]\<rparr>"

definition GetDataProducerStatsResponse :: cstruct where
  "GetDataProducerStatsResponse = \<lparr>
     members = [(''response'', TBool, NoInit), (''id'', TInt64, NoInit), (''ok'', TBool, NoInit),
                (''data'', TVec (ST GetDataProducerStatsResponse_Data), NoInit)],
     fields_map = [(''response'', ''response''), (''id'', ''id''), (''ok'', ''ok''), (''data'', ''data'')]\<rparr>"

definition GetConsumerStatsRequest_Data :: cstruct where
  "GetConsumerStatsRequest_Data = \<lparr>
     members = [(''consumerId'', TString, NoInit)],
     fields_map = [(''consumerId'', ''consumerId'')]\<rparr>"

definition GetConsumerStatsRequest :: cstruct where
  "GetConsumerStatsRequest = \<lparr>
     members = [(''request'', TBool, InitBool True), (''id'', TInt64, InitGenerateID),
                (''method'', TString, InitStr ''getConsumerStats''),
                (''data'', ST GetConsumerStatsRequest_Data, NoInit)],
     fields_map = [(''request'', ''request''), (''id'', ''id''), (''method'', ''method''), (''data'', ''data'')]\<rparr>"

definition GetConsumerStatsResponse_BitrateByLayer :: cstruct where
  "GetConsumerStatsResponse_BitrateByLayer = \<lparr>
     members = [(''L00'', TInt, NoInit), (''L01'', TInt, NoInit), (''L02'', TInt, NoInit)],
     fields_map = [(''0.0'', ''L00''), (''0.1'', ''L01''), (''0.2'', ''L02'')]\<rparr>"

definition GetConsumerStatsResponse_Data :: cstruct where
  "GetConsumerStatsResponse_Data = \<lparr>
     members = [(''type'', TString, NoInit), (''kind'', TString, NoInit), (''mimeType'', TString, NoInit),
                (''rid'', TString, NoInit), (''bitrate'', TInt64, NoInit), (''byteCount'', TInt64, NoInit),
                (''firCount'', TInt64, NoInit), (''fractionLost'', TInt64, NoInit),
                (''jitter'', TInt64, NoInit), (''nackCount'', TInt64, NoInit),
                (''nackPacketCount'', TInt64, NoInit), (''packetCount'', TInt64, NoInit),
                (''packetsDiscarded'', TInt64, NoInit), (''packetsLost'', TInt64, NoInit),
                (''packetsRepaired'', TInt64, NoInit), (''packetsRetransmitted'', TInt64, NoInit),
                (''pliCount'', TInt64, NoInit), (''rtxPacketsDiscarded'', TInt64, NoInit),
                (''rtxSsrc'', TInt64, NoInit), (''roundTripTime'', TDouble, NoInit),
                (''score'', TInt64, NoInit), (''ssrc'', TInt64, NoInit), (''timestamp'', TInt64, NoInit),
                (''bitrateByLayer'', ST GetConsumerStatsResponse_BitrateByLayer, NoInit)],
     fields_map = [(''type'', ''type''), (''kind'', ''kind''), (''mimeType'', ''mimeType''),
                   (''rid'', ''rid''), (''bitrate'', ''bitrate''), (''byteCount'', ''byteCount''),
                   (''firCount'', ''firCount''), (''fractionLost'', ''fractionLost''),
                   (''jitter'', ''jitter''), (''nackCount'', ''nackCount''),
                   (''nackPacketCount'', ''nackPacketCount''), (''packetCount'', ''packetCount''),
                   (''packetsDiscarded'', ''packetsDiscarded''), (''packetsLost'', ''packetsLost''),
                   (''packetsRepaired'', ''packetsRepaired''),
                   (''packetsRetransmitted'', ''packetsRetransmitted''), (''pliCount'', ''pliCount''),
                   (''rtxPacketsDiscarded'', ''rtxPacketsDiscarded''), (''rtxSsrc'', ''rtxSsrc''),
                   (''roundTripTime'', ''roundTripTime''), (''score'', ''score''), (''ssrc'', ''ssrc''),
                   (''timestamp'', ''timestamp''), (''bitrateByLayer'', ''bitrateByLayer'')]\<rparr>"

definition GetConsumerStatsResponse :: cstruct where
  "GetConsumerStatsResponse = \<lparr>
     members = [(''response'', TBool, NoInit), (''id'', TInt64, NoInit), (''ok'', TBool, NoInit),
                (''data'', TVec (ST GetConsumerStatsResponse_Data), NoInit)],
     fields_map = [(''response'', ''response''), (''id'', ''id''), (''ok'', ''ok''), (''data'', ''data'')]\<rparr>"

definition GetDataConsumerStatsRequest_Data :: cstruct where
  "GetDataConsumerStatsRequest_Data = \<lparr>
     members = [(''dataConsumerId'', TString, NoInit)],
     fields_map = [(''dataConsumerId'', ''dataConsumerId'')]\<rparr>"

definition GetDataConsumerStatsRequest :: cstruct where
  "GetDataConsumerStatsRequest = \<lparr>
     members = [(''request'', TBool, InitBool True), (''id'', TInt64, InitGenerateID),
                (''method'', TString, InitStr ''getDataConsumerStats''),
                (''data'', ST GetDataConsumerStatsRequest_Data, NoInit)],
     fields_map = [(''request'', ''request''), (''id'', ''id''), (''method'', ''method''), (''data'', ''data'')]\<rparr>"

definition GetDataConsumerStatsResponse_Data :: cstruct where
  "GetDataConsumerStatsResponse_Data = \<lparr>
     members = [(''type'', TString, NoInit), (''label'', TString, NoInit), (''protocol'', TString, NoInit),
                (''bufferedAmount'', TInt64, NoInit), (''bytesSent'', TInt64, NoInit),
                (''messagesSent'', TInt64, NoInit), (''timestamp'', TInt64, NoInit)],
     fields_map = [(''type'', ''type''), (''label'', ''label''), (''protocol'', ''protocol''),
                   (''bufferedAmount'', ''bufferedAmount''), (''bytesSent'', ''bytesSent''),
                   (''messagesSent'', ''messagesSent''), (''timestamp'', ''timestamp'')]\<rparr>"

definition GetDataConsumerStatsResponse :: cstruct where
  "GetDataConsumerStatsResponse = \<lparr>
     members = [(''response'', TBool, NoInit), (''id'', TInt64, NoInit), (''ok'', TBool, NoInit),
                (''data'', TVec (ST GetDataConsumerStatsResponse_Data), NoInit)],
     fields_map = [(''response'', ''response''), (''id'', ''id''), (''ok'', ''ok''), (''data'', ''data'')]\<rparr>"

definition ApplyNetworkThrottleRequest_Data :: cstruct where
  "ApplyNetworkThrottleRequest_Data = \<lparr>
     members = [(''secret'', TString, NoInit), (''uplink'', TInt64, NoInit),
                (''downlink'', TInt64, NoInit), (''rtt'', TInt64, NoInit)],
     fields_map = [(''secret'', ''secret''), (''uplink'', ''uplink''), (''downlink'', ''downlink''),
                   (''rtt'', ''rtt'')]\<rparr>"

definition ApplyNetworkThrottleRequest :: cstruct where
  "ApplyNetworkThrottleRequest = \<lparr>
     members = [(''request'', TBool, InitBool True), (''id'', TInt64, InitGenerateID),
                (''method'', TString, InitStr ''applyNetworkThrottle''),
                (''data'', ST ApplyNetworkThrottleRequest_Data, NoInit)],
     fields_map = [(''request'', ''request''), (''id'', ''id''), (''method'', ''method''), (''data'', ''data'')]\<rparr>"

definition ResetNetworkThrottleRequest_Data :: cstruct where
  "ResetNetworkThrottleRequest_Data = \<lparr>
     members = [(''secret'', TString, NoInit)],
     fields_map = [(''secret'', ''secret'')]\<rparr>"

definition ResetNetworkThrottleRequest :: cstruct where
  "ResetNetworkThrottleRequest = \<lparr>
     members = [(''request'', TBool, InitBool True), (''id'', TInt64, InitGenerateID),
                (''method'', TString, InitStr ''resetNetworkThrottle''),
                (''data'', ST ResetNetworkThrottleRequest_Data, NoInit)],
     fields_map = [(''request'', ''request''), (''id'', ''id''), (''method'', ''method''), (''data'', ''data'')]\<rparr>"

definition DownlinkBweNotification_Data :: cstruct where
  "DownlinkBweNotification_Data = \<lparr>
     members = [(''availableBitrate'', TInt64, NoInit), (''desiredBitrate'', TInt64, NoInit),
                (''effectiveDesiredBitrate'', TInt64, NoInit)],
     fields_map = [(''availableBitrate'', ''availableBitrate''), (''desiredBitrate'', ''desiredBitrate''),
                   (''effectiveDesiredBitrate'', ''effectiveDesiredBitrate'')]\<rparr>"

definition DownlinkBweNotification :: cstruct where
  "DownlinkBweNotification = \<lparr>
     members = [(''notification'', TBool, NoInit), (''method'', TString, NoInit),
                (''data'', ST DownlinkBweNotification_Data, NoInit)],
     fields_map = [(''notification'', ''notification''), (''method'', ''method''), (''data'', ''data'')]\<rparr>"

definition ConsumerScoreNotification_Score :: cstruct where
  "ConsumerScoreNotification_Score = \<lparr>
     members = [(''producerScore'', TInt, NoInit), (''producerScores'', TVec TInt, NoInit),
                (''score'', TInt, NoInit)],
     fields_map = [(''producerScore'', ''producerScore''), (''producerScores'', ''producerScores''),
                   (''score'', ''score'')]\<rparr>"

definition ConsumerScoreNotification_Data :: cstruct where
  "ConsumerScoreNotification_Data = \<lparr>
     members = [(''consumerId'', TString, NoInit), (''score'', ST ConsumerScoreNotification_Score, NoInit)],
     fields_map = [(''consumerId'', ''consumerId''), (''score'', ''score'')]\<rparr>"

definition ConsumerScoreNotification :: cstruct where
  "ConsumerScoreNotification = \<lparr>
     members = [(''notification'', TBool, NoInit), (''method'', TString, NoInit),
                (''data'', ST ConsumerScoreNotification_Data, NoInit)],
     fields_map = [(''notification'', ''notification''), (''method'', ''method''), (''data'', ''data'')]\<rparr>"

definition ProducerScoreNotification_Score :: cstruct where
  "ProducerScoreNotification_Score = \<lparr>
     members = [(''rid'', TString, NoInit), (''encodingIdx'', TInt, NoInit), (''score'', TInt, NoInit),
                (''ssrc'', TInt64, NoInit)],
     fields_map = [(''rid'', ''rid''), (''encodingIdx'', ''encodingIdx''), (''score'', ''score''),
                   (''ssrc'', ''ssrc'')]\<rparr>"

definition ProducerScoreNotification_Data :: cstruct where
  "ProducerScoreNotification_Data = \<lparr>
     members = [(''producerId'', TString, NoInit),
                (''score'', TVec (ST ProducerScoreNotification_Score), NoInit)],
     fields_map = [(''producerId'', ''producerId''), (''score'', ''score'')]\<rparr>"

definition ProducerScoreNotification :: cstruct where
  "ProducerScoreNotification = \<lparr>
     members = [(''notification'', TBool, NoInit), (''method'', TString, NoInit),
                (''data'', ST ProducerScoreNotification_Data, NoInit)],
     fields_map = [(''notification'', ''notification''), (''method'', ''method''), (''data'', ''data'')]\<rparr>"

definition ConsumerLayersChangedNotification_Data :: cstruct where
  "ConsumerLayersChangedNotification_Data = \<lparr>
     members = [(''consumerId'', TString, NoInit), (''spatialLayer'', TInt, NoInit),
                (''temporalLayer'', TInt, NoInit)],
     fields_map = [(''consumerId'', ''consumerId''), (''spatialLayer'', ''spatialLayer''),
                   (''temporalLayer'', ''temporalLayer'')]\<rparr>"

definition ConsumerLayersChangedNotification :: cstruct where
  "ConsumerLayersChangedNotification = \<lparr>
     members = [(''notification'', TBool, NoInit), (''method'', TString, NoInit),
                (''data'', ST ConsumerLayersChangedNotification_Data, NoInit)],
     fields_map = [(''notification'', ''notification''), (''method'', ''method''), (''data'', ''data'')]\<rparr>"

definition ActiveSpeakerNotification_Data :: cstruct where
  "ActiveSpeakerNotification_Data = \<lparr>
     members = [(''peerId'', TString, NoInit), (''volume'', TInt, NoInit)],
     fields_map = [(''peerId'', ''peerId''), (''volume'', ''volume'')]\<rparr>"

definition ActiveSpeakerNotification :: cstruct where
  "ActiveSpeakerNotification = \<lparr>
     members = [(''notification'', TBool, NoInit), (''method'', TString, NoInit),
                (''data'', ST ActiveSpeakerNotification_Data, NoInit)],
     fields_map = [(''notification'', ''notification''), (''method'', ''method''), (''data'', ''data'')]\<rparr>"

definition ConsumerPausedNotification_Data :: cstruct where
  "ConsumerPausedNotification_Data = \<lparr>
     members = [(''consumerId'', TString, NoInit)],
     fields_map = [(''consumerId'', ''consumerId'')]\<rparr>"

definition ConsumerPausedNotification :: cstruct where
  "ConsumerPausedNotification = \<lparr>
     members = [(''notification'', TBool, NoInit), (''method'', TString, NoInit),
                (''data'', ST ConsumerPausedNotification_Data, NoInit)],
     fields_map = [(''notification'', ''notification''), (''method'', ''method''), (''data'', ''data'')]\<rparr>"

definition ConsumerResumedNotification_Data :: cstruct where
  "ConsumerResumedNotification_Data = \<lparr>
     members = [(''consumerId'', TString, NoInit)],
     fields_map = [(''consumerId'', ''consumerId'')]\<rparr>"

definition ConsumerResumedNotification :: cstruct where
  "ConsumerResumedNotification = \<lparr>
     members = [(''notification'', TBool, NoInit), (''method'', TString, NoInit),
                (''data'', ST ConsumerResumedNotification_Data, NoInit)],
     fields_map = [(''notification'', ''notification''), (''method'', ''method''), (''data'', ''data'')]\<rparr>"

definition ConsumerClosedNotification_Data :: cstruct where
  "ConsumerClosedNotification_Data = \<lparr>
     members = [(''consumerId'', TString, NoInit)],
     fields_map = [(''consumerId'', ''consumerId'')]\<rparr>"

definition ConsumerClosedNotification :: cstruct where
  "ConsumerClosedNotification = \<lparr>
     members = [(''notification'', TBool, NoInit), (''method'', TString, NoInit),
                (''data'', ST ConsumerClosedNotification_Data, NoInit)],
     fields_map = [(''notification'', ''notification''), (''method'', ''method''), (''data'', ''data'')]\<rparr>"

definition DataConsumerClosedNotification_Data :: cstruct where
  "DataConsumerClosedNotification_Data = \<lparr>
     members = [(''dataConsumerId'', TString, NoInit)],
     fields_map = [(''dataConsumerId'', ''dataConsumerId'')]\<rparr>"

definition DataConsumerClosedNotification :: cstruct where
  "DataConsumerClosedNotification = \<lparr>
     members = [(''notification'', TBool, NoInit), (''method'', TString, NoInit),
                (''data'', ST DataConsumerClosedNotification_Data, NoInit)],
     fields_map = [(''notification'', ''notification''), (''method'', ''method''), (''data'', ''data'')]\<rparr>"

definition PeerDisplayNameChangedNotification_Data :: cstruct where
  "PeerDisplayNameChangedNotification_Data = \<lparr>
     members = [(''peerId'', TString, NoInit), (''oldDisplayName'', TString, NoInit),
                (''displayName'', TString, NoInit)],
     fields_map = [(''peerId'', ''peerId''), (''oldDisplayName'', ''oldDisplayName''),
                   (''displayName'', ''displayName'')]\<rparr>"

definition PeerDisplayNameChangedNotification :: cstruct where
  "PeerDisplayNameChangedNotification = \<lparr>
     members = [(''notification'', TBool, NoInit), (''method'', TString, NoInit),
                (''data'', ST PeerDisplayNameChangedNotification_Data, NoInit)],
     fields_map = [(''notification'', ''notification''), (''method'', ''method''), (''data'', ''data'')]\<rparr>"

definition NewPeerNotification_Device :: cstruct where
  "NewPeerNotification_Device = \<lparr>
     members = [(''flag'', TString, NoInit), (''name'', TString, NoInit), (''version'', TString, NoInit)],
     fields_map = [(''flag'', ''flag''), (''name'', ''name''), (''version'', ''version'')]\<rparr>"

definition NewPeerNotification_Data :: cstruct where
  "NewPeerNotification_Data = \<lparr>
     members = [(''id'', TString, NoInit), (''displayName'', TString, NoInit),
                (''device'', ST NewPeerNotification_Device, NoInit)],
     fields_map = [(''id'', ''id''), (''displayName'', ''displayName''), (''device'', ''device'')]\<rparr>"

definition NewPeerNotification :: cstruct where
  "NewPeerNotification = \<lparr>
     members = [(''notification'', TBool, NoInit), (''method'', TString, NoInit),
                (''data'', ST NewPeerNotification_Data, NoInit)],
     fields_map = [(''notification'', ''notification''), (''method'', ''method''), (''data'', ''data'')]\<rparr>"

definition PeerClosedNotification_Data :: cstruct where
  "PeerClosedNotification_Data = \<lparr>
     members = [(''peerId'', TString, NoInit)],
     fields_map = [(''peerId'', ''peerId'')]\<rparr>"

definition PeerClosedNotification :: cstruct where
  "PeerClosedNotification = \<lparr>
     members = [(''notification'', TBool, NoInit), (''method'', TString, NoInit),
                (''data'', ST PeerClosedNotification_Data, NoInit)],
     fields_map = [(''notification'', ''notification''), (''method'', ''method''), (''data'', ''data'')]\<rparr>"

subsection \<open>Collections of models\<close>

definition all_models :: "cstruct list" where
  "all_models =
     [MessageType, RequestHeader, ResponseHeader, NotificationHeader, BasicResponse,
      GetRouterRtpCapabilitiesRequest, GetRouterRtpCapabilitiesResponse_RTCPFeedback,
      GetRouterRtpCapabilitiesResponse_Parameters, GetRouterRtpCapabilitiesResponse_Codec,
      GetRouterRtpCapabilitiesResponse_HeaderExtension, GetRouterRtpCapabilitiesResponse_Data,
      GetRouterRtpCapabilitiesResponse, CreateWebRtcTransportRequest_NumStreams,
      CreateWebRtcTransportRequest_SCTPCapabilities, CreateWebRtcTransportRequest_Data,
      CreateWebRtcTransportRequest, CreateWebRtcTransportResponse_Fingerprint,
      CreateWebRtcTransportResponse_DTLSParameters, CreateWebRtcTransportResponse_ICECandidate,
      CreateWebRtcTransportResponse_ICEParameters, CreateWebRtcTransportResponse_SCTPParameters,
      CreateWebRtcTransportResponse_Data, CreateWebRtcTransportResponse, JoinRequest_Device,
      JoinRequest_RTCPFeedback, JoinRequest_Parameters, JoinRequest_Codec,
      JoinRequest_HeaderExtension, JoinRequest_RTPCapabilities, JoinRequest_NumStreams,
      JoinRequest_SCTPCapabilities, JoinRequest_Data, JoinRequest, JoinResponse_Device,
      JoinResponse_Peer, JoinResponse_Data, JoinResponse, NewDataConsumerRequest_AppData,
      NewDataConsumerRequest_SCTPStreamParameters, NewDataConsumerRequest_Data,
      NewDataConsumerRequest, NewConsumerRequest_SharingData, NewConsumerRequest_AppData,
      NewConsumerRequest_RTCPFeedback, NewConsumerRequest_Parameters, NewConsumerRequest_Codec,
      NewConsumerRequest_HeaderExtension, NewConsumerRequest_RTX, NewConsumerRequest_Encoding,
      NewConsumerRequest_Rtcp, NewConsumerRequest_RTPParameters, NewConsumerRequest_Data,
      NewConsumerRequest, ConnectWebRtcTransportRequest_Fingerprint,
      ConnectWebRtcTransportRequest_DTLSParameters, ConnectWebRtcTransportRequest_Data,
      ConnectWebRtcTransportRequest, ProduceRequest_SharingData, ProduceRequest_AppData,
      ProduceRequest_RTCPFeedback, ProduceRequest_Parameters, ProduceRequest_Codec,
      ProduceRequest_HeaderExtension, ProduceRequest_Encoding, ProduceRequest_Rtcp,
      ProduceRequest_RTPParameters, ProduceRequest_Data, ProduceRequest, ProduceResponse_Data,
      ProduceResponse, ProduceDataRequest_AppData, ProduceDataRequest_SCTPStreamParameters,
      ProduceDataRequest_Data, ProduceDataRequest, ProduceDataResponse_Data,
      ProduceDataResponse, ProducerRequest_Data, ProducerRequest, ConsumerRequest_Data,
      ConsumerRequest, ChangeDisplayNameRequest_Data, ChangeDisplayNameRequest,
      RestartICERequest_Data, RestartICERequest, RestartICEResponse_Data, RestartICEResponse,
      SetConsumerPriorityRequest_Data, SetConsumerPriorityRequest,
      SetConsumerPreferredLayersRequest_Data, SetConsumerPreferredLayersRequest,
      GetTransportStatsRequest_Data, GetTransportStatsRequest,
      GetTransportStatsResponse_ICESelectedTuple, GetTransportStatsResponse_Data,
      GetTransportStatsResponse, GetProducerStatsRequest_Data, GetProducerStatsRequest,
      GetProducerStatsResponse_BitrateByLayer, GetProducerStatsResponse_Data,
      GetProducerStatsResponse, GetDataProducerStatsRequest_Data, GetDataProducerStatsRequest,
      GetDataProducerStatsResponse_Data, GetDataProducerStatsResponse,
      GetConsumerStatsRequest_Data, GetConsumerStatsRequest,
      GetConsumerStatsResponse_BitrateByLayer, GetConsumerStatsResponse_Data,
      GetConsumerStatsResponse, GetDataConsumerStatsRequest_Data, GetDataConsumerStatsRequest,
      GetDataConsumerStatsResponse_Data, GetDataConsumerStatsResponse,
      ApplyNetworkThrottleRequest_Data, ApplyNetworkThrottleRequest,
      ResetNetworkThrottleRequest_Data, ResetNetworkThrottleRequest,
      DownlinkBweNotification_Data, DownlinkBweNotification, ConsumerScoreNotification_Score,
      ConsumerScoreNotification_Data, ConsumerScoreNotification,
      ProducerScoreNotification_Score, ProducerScoreNotification_Data,
      ProducerScoreNotification, ConsumerLayersChangedNotification_Data,
      ConsumerLayersChangedNotification, ActiveSpeakerNotification_Data,
      ActiveSpeakerNotification, ConsumerPausedNotification_Data, ConsumerPausedNotification,
      ConsumerResumedNotification_Data, ConsumerResumedNotification,
      ConsumerClosedNotification_Data, ConsumerClosedNotification,
      DataConsumerClosedNotification_Data, DataConsumerClosedNotification,
      PeerDisplayNameChangedNotification_Data, PeerDisplayNameChangedNotification,
      NewPeerNotification_Device, NewPeerNotification_Data, NewPeerNotification,
      PeerClosedNotification_Data, PeerClosedNotification]"

text \<open>The messages the client itself sends as requests.\<close>

definition client_requests :: "cstruct list" where
  "client_requests =
     [GetRouterRtpCapabilitiesRequest, CreateWebRtcTransportRequest, JoinRequest,
      ConnectWebRtcTransportRequest, ProduceRequest, ProduceDataRequest, ProducerRequest,
      ConsumerRequest, ChangeDisplayNameRequest, RestartICERequest, SetConsumerPriorityRequest,
      SetConsumerPreferredLayersRequest, GetTransportStatsRequest, GetProducerStatsRequest,
      GetDataProducerStatsRequest, GetConsumerStatsRequest, GetDataConsumerStatsRequest,
      ApplyNetworkThrottleRequest, ResetNetworkThrottleRequest]"

text \<open>Members a struct declares but its \<^verbatim>\<open>FIELDS_MAP\<close> leaves out.\<close>

definition unmapped :: "cstruct \<Rightarrow> string list" where
  "unmapped s = filter (\<lambda>m. m \<notin> set (map snd (fields_map s))) (map fst (members s))"

lemmas model_struct_defs = MessageType_def RequestHeader_def ResponseHeader_def NotificationHeader_def BasicResponse_def
  GetRouterRtpCapabilitiesRequest_def GetRouterRtpCapabilitiesResponse_RTCPFeedback_def
  GetRouterRtpCapabilitiesResponse_Parameters_def GetRouterRtpCapabilitiesResponse_Codec_def
  GetRouterRtpCapabilitiesResponse_HeaderExtension_def GetRouterRtpCapabilitiesResponse_Data_def
  GetRouterRtpCapabilitiesResponse_def CreateWebRtcTransportRequest_NumStreams_def
  CreateWebRtcTransportRequest_SCTPCapabilities_def CreateWebRtcTransportRequest_Data_def
  CreateWebRtcTransportRequest_def CreateWebRtcTransportResponse_Fingerprint_def
  CreateWebRtcTransportResponse_DTLSParameters_def CreateWebRtcTransportResponse_ICECandidate_def
  CreateWebRtcTransportResponse_ICEParameters_def CreateWebRtcTransportResponse_SCTPParameters_def
  CreateWebRtcTransportResponse_Data_def CreateWebRtcTransportResponse_def JoinRequest_Device_def
  JoinRequest_RTCPFeedback_def JoinRequest_Parameters_def JoinRequest_Codec_def
  JoinRequest_HeaderExtension_def JoinRequest_RTPCapabilities_def JoinRequest_NumStreams_def
  JoinRequest_SCTPCapabilities_def JoinRequest_Data_def JoinRequest_def JoinResponse_Device_def
  JoinResponse_Peer_def JoinResponse_Data_def JoinResponse_def NewDataConsumerRequest_AppData_def
  NewDataConsumerRequest_SCTPStreamParameters_def NewDataConsumerRequest_Data_def
  NewDataConsumerRequest_def NewConsumerRequest_SharingData_def NewConsumerRequest_AppData_def
  NewConsumerRequest_RTCPFeedback_def NewConsumerRequest_Parameters_def
  NewConsumerRequest_Codec_def NewConsumerRequest_HeaderExtension_def NewConsumerRequest_RTX_def
  NewConsumerRequest_Encoding_def NewConsumerRequest_Rtcp_def NewConsumerRequest_RTPParameters_def
  NewConsumerRequest_Data_def NewConsumerRequest_def ConnectWebRtcTransportRequest_Fingerprint_def
  ConnectWebRtcTransportRequest_DTLSParameters_def ConnectWebRtcTransportRequest_Data_def
  ConnectWebRtcTransportRequest_def ProduceRequest_SharingData_def ProduceRequest_AppData_def
  ProduceRequest_RTCPFeedback_def ProduceRequest_Parameters_def ProduceRequest_Codec_def
  ProduceRequest_HeaderExtension_def ProduceRequest_Encoding_def ProduceRequest_Rtcp_def
  ProduceRequest_RTPParameters_def ProduceRequest_Data_def ProduceRequest_def
  ProduceResponse_Data_def ProduceResponse_def ProduceDataRequest_AppData_def
  ProduceDataRequest_SCTPStreamParameters_def ProduceDataRequest_Data_def ProduceDataRequest_def
  ProduceDataResponse_Data_def ProduceDataResponse_def ProducerRequest_Data_def
  ProducerRequest_def ConsumerRequest_Data_def ConsumerRequest_def
  ChangeDisplayNameRequest_Data_def ChangeDisplayNameRequest_def RestartICERequest_Data_def
  RestartICERequest_def RestartICEResponse_Data_def RestartICEResponse_def
  SetConsumerPriorityRequest_Data_def SetConsumerPriorityRequest_def
  SetConsumerPreferredLayersRequest_Data_def SetConsumerPreferredLayersRequest_def
  GetTransportStatsRequest_Data_def GetTransportStatsRequest_def
  GetTransportStatsResponse_ICESelectedTuple_def GetTransportStatsResponse_Data_def
  GetTransportStatsResponse_def GetProducerStatsRequest_Data_def GetProducerStatsRequest_def
  GetProducerStatsResponse_BitrateByLayer_def GetProducerStatsResponse_Data_def
  GetProducerStatsResponse_def GetDataProducerStatsRequest_Data_def
  GetDataProducerStatsRequest_def GetDataProducerStatsResponse_Data_def
  GetDataProducerStatsResponse_def GetConsumerStatsRequest_Data_def GetConsumerStatsRequest_def
  GetConsumerStatsResponse_BitrateByLayer_def GetConsumerStatsResponse_Data_def
  GetConsumerStatsResponse_def GetDataConsumerStatsRequest_Data_def
  GetDataConsumerStatsRequest_def GetDataConsumerStatsResponse_Data_def
  GetDataConsumerStatsResponse_def ApplyNetworkThrottleRequest_Data_def
  ApplyNetworkThrottleRequest_def ResetNetworkThrottleRequest_Data_def
  ResetNetworkThrottleRequest_def DownlinkBweNotification_Data_def DownlinkBweNotification_def
  ConsumerScoreNotification_Score_def ConsumerScoreNotification_Data_def
  ConsumerScoreNotification_def ProducerScoreNotification_Score_def
  ProducerScoreNotification_Data_def ProducerScoreNotification_def
  ConsumerLayersChangedNotification_Data_def ConsumerLayersChangedNotification_def
  ActiveSpeakerNotification_Data_def ActiveSpeakerNotification_def
  ConsumerPausedNotification_Data_def ConsumerPausedNotification_def
  ConsumerResumedNotification_Data_def ConsumerResumedNotification_def
  ConsumerClosedNotification_Data_def ConsumerClosedNotification_def
  DataConsumerClosedNotification_Data_def DataConsumerClosedNotification_def
  PeerDisplayNameChangedNotification_Data_def PeerDisplayNameChangedNotification_def
  NewPeerNotification_Device_def NewPeerNotification_Data_def NewPeerNotification_def
  PeerClosedNotification_Data_def PeerClosedNotification_def

subsection \<open>Sharing data\<close>

text \<open>
  \<^verbatim>\<open>to_json\<close> / \<^verbatim>\<open>from_json\<close> of \<^verbatim>\<open>Sharing\<close> and \<^verbatim>\<open>SharingAppData\<close> on nlohmann values. \<^verbatim>\<open>contains\<close> is false
  on a value that is no object; \<^verbatim>\<open>get_to\<close> throws on a value that is no string.
\<close>

datatype nlohmann_error = TypeError

record Sharing =
  trackName :: string

record SharingAppData =
  sharing :: Sharing

definition Sharing_to_json :: "Sharing \<Rightarrow> json" where
  "Sharing_to_json st = JObject [(''trackName'', JString (trackName st))]"

definition Sharing_from_json :: "json \<Rightarrow> Sharing \<Rightarrow> nlohmann_error + Sharing" where
  "Sharing_from_json j st =
     (case FindMember j ''trackName'' of
        None \<Rightarrow> Inr st
      | Some (JString s) \<Rightarrow> Inr (st\<lparr>trackName := s\<rparr>)
      | Some _ \<Rightarrow> Inl TypeError)"

definition SharingAppData_to_json :: "SharingAppData \<Rightarrow> json" where
  "SharingAppData_to_json st = JObject [(''sharing'', Sharing_to_json (sharing st))]"

definition SharingAppData_from_json :: "json \<Rightarrow> SharingAppData \<Rightarrow> nlohmann_error + SharingAppData" where
  "SharingAppData_from_json j st =
     (case FindMember j ''sharing'' of
        None \<Rightarrow> Inr st
      | Some s \<Rightarrow> ebind (Sharing_from_json s (sharing st)) (\<lambda>sh. Inr (st\<lparr>sharing := sh\<rparr>)))"

subsection \<open>Every model can be encoded and decoded\<close>

lemma all_models_wf: "list_all (\<lambda>s. wf_fields (fields_of s)) all_models"
  by code_simp



text \<open>Through the text layer: whenever rapidjson reads back the document it wrote, the
  receiver decodes the object the sender encoded.\<close>

theorem models_text_roundtrip:
  assumes "s \<in> set all_models" and "wts (fields_of s) obj"
    and reads_back: "parse (print (jserialize (fields_of s) obj)) = Some (jserialize (fields_of s) obj)"
  shows "fromJsonString parse (fields_of s) (default_object (fields_of s))
           (toJsonString print (fields_of s) obj) = Inr obj"
proof -
  have "wf_fields (fields_of s)" using all_models_wf assms(1) by (auto simp: list_all_iff)
  then show ?thesis
    using jdeserialize_into [OF _ assms(2), of "default_object (fields_of s)"] reads_back
    by (simp add: fromJsonString_def toJsonString_def stringToJson_def overlay_default
        wts_length [OF assms(2)])
qed

theorem models_text_roundtrip_witness:
  "fromJsonString (\<lambda>s. if s = ''{ \"ok\": true }'' then Some (JObject [(''ok'', JBool True)]) else None)
     (fields_of BasicResponse) (default_object (fields_of BasicResponse))
     (toJsonString (\<lambda>j. if j = JObject [(''ok'', JBool True)] then ''{ \"ok\": true }'' else [])
       (fields_of BasicResponse) [None, None, Some (VBool True)])
   = Inr [None, None, Some (VBool True)]"
proof (rule models_text_roundtrip)
  show "BasicResponse \<in> set all_models" by (simp add: all_models_def)
  show "wts (fields_of BasicResponse) [None, None, Some (VBool True)]" by code_simp
  have "jserialize (fields_of BasicResponse) [None, None, Some (VBool True)] =
          JObject [(''ok'', JBool True)]" by code_simp
  then show "(\<lambda>s. if s = ''{ \"ok\": true }'' then Some (JObject [(''ok'', JBool True)]) else None)
      ((\<lambda>j. if j = JObject [(''ok'', JBool True)] then ''{ \"ok\": true }'' else [])
        (jserialize (fields_of BasicResponse) [None, None, Some (VBool True)])) =
      Some (jserialize (fields_of BasicResponse) [None, None, Some (VBool True)])"
    by simp
qed

subsection \<open>What the models leave out\<close>

text \<open>Every member of every model reaches the wire, except two that no \<^verbatim>\<open>FIELDS_MAP\<close> names:
  \<^verbatim>\<open>apt\<close> of \<^verbatim>\<open>JoinRequest::Parameters\<close> and \<^verbatim>\<open>rtpRecvBitrate\<close> of \<^verbatim>\<open>GetTransportStatsResponse::Data\<close>.\<close>

theorem unmapped_members:
  "concat (map unmapped all_models) = [''apt'', ''rtpRecvBitrate''] \<and>
   unmapped JoinRequest_Parameters = [''apt''] \<and>
   unmapped GetTransportStatsResponse_Data = [''rtpRecvBitrate'']"
  by code_simp

lemma json_members_absent_key:
  "k \<notin> fst ` set fs \<Longrightarrow> FindMember (jserialize fs obj) k = None"
  by (simp add: jserialize_def json_members_absent)

text \<open>The router's capabilities carry the payload type an RTX codec repairs (\<^verbatim>\<open>apt\<close>), but the
  join request the client sends never does, whatever the device reported.\<close>

theorem join_request_drops_apt:
  "FindMember (jserialize (fields_of JoinRequest_Parameters) obj) ''apt'' = None \<and>
   FindMember (jserialize (fields_of GetRouterRtpCapabilitiesResponse_Parameters)
     (Some (VInt 96) # rest)) ''apt'' = Some (JInt 96)"
proof
  show "FindMember (jserialize (fields_of JoinRequest_Parameters) obj) ''apt'' = None"
    by (rule json_members_absent_key) (simp add: fields_of_def JoinRequest_Parameters_def)
  show "FindMember (jserialize (fields_of GetRouterRtpCapabilitiesResponse_Parameters)
     (Some (VInt 96) # rest)) ''apt'' = Some (JInt 96)"
    by (simp add: jserialize_def fields_of_def GetRouterRtpCapabilitiesResponse_Parameters_def)
qed

text \<open>How the receiver classifies a message: the three flags of \<^verbatim>\<open>MessageType\<close>.\<close>

definition message_flags :: "json \<Rightarrow> jerr + jval option list" where
  "message_flags j = jdeserialize (fields_of MessageType) (default_object (fields_of MessageType)) j"

lemma client_requests_flags:
  "list_all (\<lambda>s. message_flags (jserialize (fields_of s) (new_object s gid)) =
      Inr [if s = ProduceDataRequest then None else Some (VBool True), None, None]) client_requests"
  by code_simp

text \<open>A freshly built client request announces itself with \<^verbatim>\<open>request: true\<close>, except
  \<^verbatim>\<open>ProduceDataRequest\<close>, whose \<^verbatim>\<open>request\<close> member has no initializer: the receiver cannot
  classify it.\<close>

theorem client_requests_announced:
  assumes "s \<in> set client_requests"
  shows "message_flags (jserialize (fields_of s) (new_object s gid)) =
      Inr [if s = ProduceDataRequest then None else Some (VBool True), None, None]"
  using client_requests_flags [of gid] assms by (simp add: list_all_iff)

theorem client_requests_announced_witness:
  "message_flags (jserialize (fields_of ProduceDataRequest) (new_object ProduceDataRequest 7)) =
      Inr [None, None, None] \<and>
   message_flags (jserialize (fields_of JoinRequest) (new_object JoinRequest 7)) =
      Inr [Some (VBool True), None, None]"
  using client_requests_announced [of ProduceDataRequest 7] client_requests_announced [of JoinRequest 7]
  by (simp add: client_requests_def ProduceDataRequest_def JoinRequest_def)

text \<open>Sharing data survives the trip through \<^verbatim>\<open>appData\<close>: the track name the producer attaches
  is the one the consumer reads, and reading from a value without it changes nothing.\<close>

theorem sharing_roundtrip:
  "SharingAppData_from_json (SharingAppData_to_json a) b = Inr a \<and>
   SharingAppData_from_json JNull b = Inr b"
  by (simp add: SharingAppData_from_json_def SharingAppData_to_json_def Sharing_from_json_def
      Sharing_to_json_def)

end
