(* ===== verification/Websocket.thy ===== *)
theory Websocket
  imports Prelude
begin

text \<open>
  The websocket layer of \<^verbatim>\<open>src/core/websocket\<close>: connection metadata, the two endpoint classes
  (plain and TLS, the same code over different websocketpp clients), the transport that owns
  an endpoint, the TLS context and the certificate check.

  What websocketpp answers is a parameter: \<open>get_connection\<close> (None: it reports an error) and
  \<open>add_subprotocol\<close> (whether it succeeds). What the code asks of websocketpp is the list of
  \<open>wire\<close> requests an operation returns. A pointer that is dereferenced while null is the
  fault \<open>NullDeref\<close>. OpenSSL's view of a certificate is the record \<open>x509\<close>.
\<close>

subsection \<open>Connection metadata\<close>

record 'o metadata =
  cm_id :: int
  cm_hdl :: nat
  cm_status :: string
  cm_uri :: string
  cm_server :: string
  cm_errorReason :: string
  cm_observer :: 'o

definition new_metadata :: "int \<Rightarrow> nat \<Rightarrow> string \<Rightarrow> 'o \<Rightarrow> 'o metadata" where
  "new_metadata i hdl uri observer =
     \<lparr>cm_id = i, cm_hdl = hdl, cm_status = ''Connecting'', cm_uri = uri, cm_server = ''N/A'',
      cm_errorReason = [], cm_observer = observer\<rparr>"

datatype opcode = Text | Binary | Ping | Pong | OtherOpcode

datatype conn_event =
    EvOpen
  | EvFail int string
  | EvClose int string
  | EvValidate
  | EvText string
  | EvBinary string
  | EvPing string
  | EvPong string
  | EvPongTimeout string

text \<open>The observer is held weakly: \<open>alive\<close> says whether \<^verbatim>\<open>_observer.lock()\<close> succeeds.\<close>

definition to_observer :: "bool \<Rightarrow> 'o metadata \<Rightarrow> conn_event \<Rightarrow> ('o \<times> conn_event) list" where
  "to_observer alive m ev = (if alive then [(cm_observer m, ev)] else [])"

definition Metadata_onOpen :: "bool \<Rightarrow> string \<Rightarrow> 'o metadata \<Rightarrow> 'o metadata \<times> ('o \<times> conn_event) list" where
  "Metadata_onOpen alive server m =
     (let m' = m\<lparr>cm_status := ''Open'', cm_server := server\<rparr> in (m', to_observer alive m' EvOpen))"

definition Metadata_onFail ::
  "bool \<Rightarrow> string \<Rightarrow> int \<Rightarrow> string \<Rightarrow> 'o metadata \<Rightarrow> 'o metadata \<times> ('o \<times> conn_event) list" where
  "Metadata_onFail alive server errorCode msg m =
     (let m' = m\<lparr>cm_status := ''Failed'', cm_server := server, cm_errorReason := msg\<rparr>
      in (m', to_observer alive m' (EvFail errorCode msg)))"

text \<open>\<open>describe\<close> builds the text "close code: c (name), close reason: r" from websocketpp's answers.\<close>

definition Metadata_onClose ::
  "bool \<Rightarrow> int \<Rightarrow> (int \<Rightarrow> string) \<Rightarrow> 'o metadata \<Rightarrow> 'o metadata \<times> ('o \<times> conn_event) list" where
  "Metadata_onClose alive closeCode describe m =
     (let m' = m\<lparr>cm_status := ''Closed'', cm_errorReason := describe closeCode\<rparr>
      in (m', to_observer alive m' (EvClose closeCode (cm_errorReason m'))))"

definition Metadata_onValidate :: "bool \<Rightarrow> 'o metadata \<Rightarrow> bool \<times> ('o \<times> conn_event) list" where
  "Metadata_onValidate alive m = (True, to_observer alive m EvValidate)"

definition Metadata_onMessage ::
  "bool \<Rightarrow> opcode \<Rightarrow> string \<Rightarrow> 'o metadata \<Rightarrow> ('o \<times> conn_event) list" where
  "Metadata_onMessage alive oc payload m =
     (case oc of
        Text \<Rightarrow> to_observer alive m (EvText payload)
      | Binary \<Rightarrow> to_observer alive m (EvBinary payload)
      | _ \<Rightarrow> [])"

definition Metadata_onPing :: "bool \<Rightarrow> string \<Rightarrow> 'o metadata \<Rightarrow> bool \<times> ('o \<times> conn_event) list" where
  "Metadata_onPing alive msg m = (True, to_observer alive m (EvPing msg))"

definition Metadata_onPong :: "bool \<Rightarrow> string \<Rightarrow> 'o metadata \<Rightarrow> ('o \<times> conn_event) list" where
  "Metadata_onPong alive msg m = to_observer alive m (EvPong msg)"

definition Metadata_onPongTimeout :: "bool \<Rightarrow> string \<Rightarrow> 'o metadata \<Rightarrow> ('o \<times> conn_event) list" where
  "Metadata_onPongTimeout alive msg m = to_observer alive m (EvPongTimeout msg)"

definition Metadata_print :: "'o metadata \<Rightarrow> string" where
  "Metadata_print d =
     ''> URI: '' @ cm_uri d @ ''\<newline>'' @
     ''> Status: '' @ cm_status d @ ''\<newline>'' @
     ''> Remote Server: '' @ (if cm_server d = [] then ''None Specified'' else cm_server d) @ ''\<newline>'' @
     ''> Error/close reason: '' @ (if cm_errorReason d = [] then ''N/A'' else cm_errorReason d) @ ''\<newline>''"

subsection \<open>Endpoints\<close>

datatype close_code = Normal | GoingAway

datatype wire =
    WireConnect nat
  | WireClose nat close_code string
  | WireSend nat opcode string

record 'o endpoint =
  connectionList :: "(int, 'o metadata) umap"
  nextId :: int

definition new_endpoint :: "'o endpoint" where
  "new_endpoint = \<lparr>connectionList = [], nextId = 0\<rparr>"

definition TLSEndpoint_destruct :: "'o endpoint \<Rightarrow> wire list" where
  "TLSEndpoint_destruct ep =
     concat (map (\<lambda>(_, m). if cm_status m \<noteq> ''Open'' then [] else [WireClose (cm_hdl m) GoingAway []])
       (connectionList ep))"

definition TLSEndpoint_connect ::
  "(string \<Rightarrow> nat option) \<Rightarrow> (nat \<Rightarrow> string \<Rightarrow> bool) \<Rightarrow> string \<Rightarrow> 'o \<Rightarrow> string \<Rightarrow>
     'o endpoint \<Rightarrow> int \<times> 'o endpoint \<times> wire list" where
  "TLSEndpoint_connect get_connection add_subprotocol uri observer subprotocol ep =
     (case get_connection uri of
        None \<Rightarrow> (-1, ep, [])
      | Some con \<Rightarrow>
          if subprotocol \<noteq> [] \<and> \<not> add_subprotocol con subprotocol then (-1, ep, [])
          else
            let newId = nextId ep;
                ep' = ep\<lparr>nextId := newId + 1,
                         connectionList := um_put newId (new_metadata newId con uri observer)
                                             (connectionList ep)\<rparr>
            in (newId, ep', [WireConnect con]))"

definition TLSEndpoint_close :: "int \<Rightarrow> close_code \<Rightarrow> string \<Rightarrow> 'o endpoint \<Rightarrow> wire list" where
  "TLSEndpoint_close i code reason ep =
     (case um_find (connectionList ep) i of
        None \<Rightarrow> []
      | Some m \<Rightarrow> [WireClose (cm_hdl m) code reason])"

definition TLSEndpoint_sendText :: "int \<Rightarrow> string \<Rightarrow> 'o endpoint \<Rightarrow> wire list" where
  "TLSEndpoint_sendText i data ep =
     (case um_find (connectionList ep) i of
        None \<Rightarrow> []
      | Some m \<Rightarrow> [WireSend (cm_hdl m) Text data])"

definition TLSEndpoint_sendBinary :: "int \<Rightarrow> string \<Rightarrow> 'o endpoint \<Rightarrow> wire list" where
  "TLSEndpoint_sendBinary i data ep =
     (case um_find (connectionList ep) i of
        None \<Rightarrow> []
      | Some m \<Rightarrow> [WireSend (cm_hdl m) Binary data])"

definition TLSEndpoint_sendPing :: "int \<Rightarrow> string \<Rightarrow> 'o endpoint \<Rightarrow> wire list" where
  "TLSEndpoint_sendPing i data ep =
     (case um_find (connectionList ep) i of
        None \<Rightarrow> []
      | Some m \<Rightarrow> [WireSend (cm_hdl m) Ping data])"

definition TLSEndpoint_sendPong :: "int \<Rightarrow> string \<Rightarrow> 'o endpoint \<Rightarrow> wire list" where
  "TLSEndpoint_sendPong i data ep =
     (case um_find (connectionList ep) i of
        None \<Rightarrow> []
      | Some m \<Rightarrow> [WireSend (cm_hdl m) Pong data])"

definition TLSEndpoint_getMetadata :: "int \<Rightarrow> 'o endpoint \<Rightarrow> 'o metadata option" where
  "TLSEndpoint_getMetadata i ep =
     (case um_find (connectionList ep) i of None \<Rightarrow> None | Some m \<Rightarrow> Some m)"

text \<open>A handler bound to the metadata of connection \<open>i\<close> updates it in place.\<close>

definition on_metadata ::
  "('o metadata \<Rightarrow> 'o metadata \<times> ('o \<times> conn_event) list) \<Rightarrow> int \<Rightarrow> 'o endpoint \<Rightarrow>
     'o endpoint \<times> ('o \<times> conn_event) list" where
  "on_metadata h i ep =
     (case um_find (connectionList ep) i of
        None \<Rightarrow> (ep, [])
      | Some m \<Rightarrow> let (m', evs) = h m
                  in (ep\<lparr>connectionList := um_put i m' (connectionList ep)\<rparr>, evs))"

text \<open>The plain endpoint is the same code.\<close>

definition Endpoint_connect ::
  "(string \<Rightarrow> nat option) \<Rightarrow> (nat \<Rightarrow> string \<Rightarrow> bool) \<Rightarrow> string \<Rightarrow> 'o \<Rightarrow> string \<Rightarrow>
     'o endpoint \<Rightarrow> int \<times> 'o endpoint \<times> wire list" where
  "Endpoint_connect = TLSEndpoint_connect"

definition Endpoint_close :: "int \<Rightarrow> close_code \<Rightarrow> string \<Rightarrow> 'o endpoint \<Rightarrow> wire list" where
  "Endpoint_close = TLSEndpoint_close"

definition Endpoint_sendText :: "int \<Rightarrow> string \<Rightarrow> 'o endpoint \<Rightarrow> wire list" where
  "Endpoint_sendText = TLSEndpoint_sendText"

definition Endpoint_sendBinary :: "int \<Rightarrow> string \<Rightarrow> 'o endpoint \<Rightarrow> wire list" where
  "Endpoint_sendBinary = TLSEndpoint_sendBinary"

definition Endpoint_sendPing :: "int \<Rightarrow> string \<Rightarrow> 'o endpoint \<Rightarrow> wire list" where
  "Endpoint_sendPing = TLSEndpoint_sendPing"

definition Endpoint_sendPong :: "int \<Rightarrow> string \<Rightarrow> 'o endpoint \<Rightarrow> wire list" where
  "Endpoint_sendPong = TLSEndpoint_sendPong"

definition Endpoint_getMetadata :: "int \<Rightarrow> 'o endpoint \<Rightarrow> 'o metadata option" where
  "Endpoint_getMetadata = TLSEndpoint_getMetadata"

definition Endpoint_destruct :: "'o endpoint \<Rightarrow> wire list" where
  "Endpoint_destruct = TLSEndpoint_destruct"

subsection \<open>The transport\<close>

record 'o transport =
  tp_url :: string
  tp_connectionId :: int
  tp_websocket :: "'o endpoint option"

definition new_transport :: "'o transport" where
  "new_transport = \<lparr>tp_url = [], tp_connectionId = -1, tp_websocket = None\<rparr>"

definition Transport_isValid :: "'o transport \<Rightarrow> bool" where
  "Transport_isValid tp \<longleftrightarrow> tp_websocket tp \<noteq> None \<and> tp_connectionId tp \<noteq> -1"

text \<open>Assigning a fresh endpoint destroys the one held before.\<close>

definition Transport_connect ::
  "(string \<Rightarrow> nat option) \<Rightarrow> (nat \<Rightarrow> string \<Rightarrow> bool) \<Rightarrow> 'o \<Rightarrow> string \<Rightarrow> string \<Rightarrow>
     'o transport \<Rightarrow> 'o transport \<times> wire list" where
  "Transport_connect get_connection add_subprotocol self url subprotocol tp =
     (let closing = (case tp_websocket tp of None \<Rightarrow> [] | Some old \<Rightarrow> TLSEndpoint_destruct old);
          (newId, ep, ws) = TLSEndpoint_connect get_connection add_subprotocol url self subprotocol
                              new_endpoint
      in (tp\<lparr>tp_url := url, tp_websocket := Some ep, tp_connectionId := newId\<rparr>, closing @ ws))"

definition Transport_disconnect :: "'o transport \<Rightarrow> 'o transport \<times> wire list" where
  "Transport_disconnect tp =
     (case tp_websocket tp of
        Some ep \<Rightarrow>
          if tp_connectionId tp \<noteq> -1
          then (tp\<lparr>tp_connectionId := -1, tp_websocket := None\<rparr>,
                TLSEndpoint_close (tp_connectionId tp) Normal [] ep @ TLSEndpoint_destruct ep)
          else (tp, [])
      | None \<Rightarrow> (tp, []))"

definition Transport_send :: "string \<Rightarrow> 'o transport \<Rightarrow> fault + wire list" where
  "Transport_send text tp =
     (if text = [] then Inr []
      else case tp_websocket tp of
        None \<Rightarrow> Inl (NullDeref ''_websocket'')
      | Some ep \<Rightarrow> Inr (TLSEndpoint_sendText (tp_connectionId tp) text ep))"

definition Transport_sendBinary :: "string \<Rightarrow> 'o transport \<Rightarrow> fault + wire list" where
  "Transport_sendBinary data tp =
     (if data = [] then Inr []
      else case tp_websocket tp of
        None \<Rightarrow> Inl (NullDeref ''_websocket'')
      | Some ep \<Rightarrow> Inr (TLSEndpoint_sendBinary (tp_connectionId tp) data ep))"

text \<open>What the transport tells its own observers for each connection event.\<close>

datatype transport_event = TOpened | TClosed | TFailed int string | TMessage string

fun Transport_on :: "conn_event \<Rightarrow> transport_event list" where
  "Transport_on EvOpen = [TOpened]"
| "Transport_on (EvFail c r) = [TFailed c r]"
| "Transport_on (EvClose c r) = [TClosed]"
| "Transport_on (EvText json) = [TMessage json]"
| "Transport_on _ = []"

subsection \<open>Certificate verification\<close>

datatype general_name = GEN_DNS string | GEN_OTHER

record x509 =
  san_names :: "general_name list option"
  cn_index :: int
  cn_entry :: bool
  cn_data :: "string option"

definition tolower :: "char \<Rightarrow> char" where
  "tolower c = (if 65 \<le> (of_char c :: int) \<and> (of_char c :: int) \<le> 90
                then char_of ((of_char c :: int) + 32) else c)"

text \<open>\<^verbatim>\<open>strcasecmp(a, b) == 0\<close> on C strings.\<close>

definition strcaseeq :: "string \<Rightarrow> string \<Rightarrow> bool" where
  "strcaseeq a b \<longleftrightarrow> map tolower a = map tolower b"

definition has_nul :: "string \<Rightarrow> bool" where
  "has_nul s \<longleftrightarrow> CHR 0x00 \<in> set s"

text \<open>The loop over the alternative names with its accumulator \<open>result\<close>.\<close>

fun san_loop :: "string \<Rightarrow> general_name list \<Rightarrow> bool \<Rightarrow> bool" where
  "san_loop hostname [] result = result"
| "san_loop hostname (GEN_OTHER # ns) result = san_loop hostname ns result"
| "san_loop hostname (GEN_DNS dns_name # ns) result =
     (if has_nul dns_name then result
      else san_loop hostname ns (strcaseeq hostname dns_name))"

definition verify_subject_alternative_name :: "string \<Rightarrow> x509 \<Rightarrow> bool" where
  "verify_subject_alternative_name hostname cert =
     (case san_names cert of None \<Rightarrow> False | Some ns \<Rightarrow> san_loop hostname ns False)"

definition verify_common_name :: "string \<Rightarrow> x509 \<Rightarrow> bool" where
  "verify_common_name hostname cert =
     (if cn_index cert < 0 then False
      else if \<not> cn_entry cert then False
      else case cn_data cert of
        None \<Rightarrow> False
      | Some name \<Rightarrow> if has_nul name then False else strcaseeq hostname name)"

definition verify_certificate :: "string \<Rightarrow> bool \<Rightarrow> int \<Rightarrow> x509 \<Rightarrow> bool" where
  "verify_certificate hostname preverified depth cert =
     (if depth = 0 \<and> preverified
      then if verify_subject_alternative_name hostname cert then True
           else if verify_common_name hostname cert then True else False
      else preverified)"

subsection \<open>The connection table\<close>

text \<open>
  The invariant of an endpoint: the table is a map, its keys are ids that were handed out and
  each entry knows its own id.
\<close>

definition endpoint_inv :: "'o endpoint \<Rightarrow> bool" where
  "endpoint_inv ep \<longleftrightarrow>
     0 \<le> nextId ep \<and> um_wf (connectionList ep) \<and>
     list_all (\<lambda>(i, m). 0 \<le> i \<and> i < nextId ep \<and> cm_id m = i) (connectionList ep)"

lemma endpoint_inv_new: "endpoint_inv new_endpoint"
  by (simp add: endpoint_inv_def new_endpoint_def)

lemma endpoint_inv_find:
  "endpoint_inv ep \<Longrightarrow> um_find (connectionList ep) i = Some m \<Longrightarrow>
     0 \<le> i \<and> i < nextId ep \<and> cm_id m = i"
  by (fastforce simp: endpoint_inv_def list_all_iff um_find_def dest: map_of_SomeD)

lemma endpoint_inv_fresh: "endpoint_inv ep \<Longrightarrow> um_find (connectionList ep) (nextId ep) = None"
  using endpoint_inv_find [of ep "nextId ep"] by (cases "um_find (connectionList ep) (nextId ep)") auto

lemma endpoint_inv_intro:
  assumes "0 \<le> nextId ep" and "um_wf (connectionList ep)"
    and "\<And>i m. um_find (connectionList ep) i = Some m \<Longrightarrow> 0 \<le> i \<and> i < nextId ep \<and> cm_id m = i"
  shows "endpoint_inv ep"
  using assms by (auto simp: endpoint_inv_def list_all_iff um_find_in_set)

lemma endpoint_inv_wf: "endpoint_inv ep \<Longrightarrow> um_wf (connectionList ep)"
  by (simp add: endpoint_inv_def)

lemma endpoint_inv_nonneg: "endpoint_inv ep \<Longrightarrow> 0 \<le> nextId ep"
  by (simp add: endpoint_inv_def)

lemma TLSEndpoint_connect_cases:
  obtains (failed) "TLSEndpoint_connect gc asp uri ob sp ep = (-1, ep, [])"
  | (accepted) con where "gc uri = Some con"
      "TLSEndpoint_connect gc asp uri ob sp ep =
         (nextId ep,
          ep\<lparr>nextId := nextId ep + 1,
             connectionList := um_put (nextId ep) (new_metadata (nextId ep) con uri ob) (connectionList ep)\<rparr>,
          [WireConnect con])"
proof (cases "gc uri")
  case (Some con)
  then show ?thesis
    using failed accepted by (cases "sp \<noteq> [] \<and> \<not> asp con sp") (auto simp: TLSEndpoint_connect_def Let_def)
qed (use failed in \<open>simp add: TLSEndpoint_connect_def\<close>)

lemma TLSEndpoint_connect_inv:
  assumes "endpoint_inv ep"
  shows "endpoint_inv (fst (snd (TLSEndpoint_connect gc asp uri ob sp ep)))"
proof (cases rule: TLSEndpoint_connect_cases [of gc asp uri ob sp ep])
  case (accepted con)
  note known = endpoint_inv_find [OF assms]
  show ?thesis
    unfolding accepted(2)
    by (rule endpoint_inv_intro)
      (use known endpoint_inv_nonneg [OF assms] endpoint_inv_wf [OF assms] in
        \<open>auto simp: new_metadata_def split: if_splits dest!: known\<close>)
qed (simp add: assms)

lemma on_metadata_inv:
  assumes "endpoint_inv ep" and "\<And>m. cm_id (fst (h m)) = cm_id m"
  shows "endpoint_inv (fst (on_metadata h i ep))"
proof (cases "um_find (connectionList ep) i")
  case (Some m)
  note known = endpoint_inv_find [OF assms(1)]
  obtain m' evs where h: "h m = (m', evs)" by (cases "h m")
  with assms(2) [of m] have "cm_id m' = cm_id m" by simp
  with Some h known show ?thesis
    by (auto intro!: endpoint_inv_intro simp: on_metadata_def endpoint_inv_nonneg [OF assms(1)]
        endpoint_inv_wf [OF assms(1)] split: if_splits dest!: known)
qed (simp add: on_metadata_def assms(1))

text \<open>
  What a user of an endpoint relies on, whichever client type it wraps: a refused connect does
  nothing at all, an accepted one opens exactly one connection under an id not in use, and
  text sent under an id goes to the connection that id was given for.
\<close>

locale ws_endpoint =
  fixes inv :: "'e \<Rightarrow> bool"
    and lookup :: "int \<Rightarrow> 'e \<Rightarrow> nat option"
    and connect :: "string \<Rightarrow> 'o \<Rightarrow> string \<Rightarrow> 'e \<Rightarrow> int \<times> 'e \<times> wire list"
    and send_text :: "int \<Rightarrow> string \<Rightarrow> 'e \<Rightarrow> wire list"
  assumes connect_inv: "inv e \<Longrightarrow> connect uri ob sp e = (i, e', ws) \<Longrightarrow> inv e'"
    and connect_refused: "inv e \<Longrightarrow> connect uri ob sp e = (-1, e', ws) \<Longrightarrow> e' = e \<and> ws = []"
    and connect_accepted: "inv e \<Longrightarrow> connect uri ob sp e = (i, e', ws) \<Longrightarrow> i \<noteq> -1 \<Longrightarrow>
      lookup i e = None \<and>
      (\<exists>con. ws = [WireConnect con] \<and> lookup i e' = Some con) \<and>
      (\<forall>j. j \<noteq> i \<longrightarrow> lookup j e' = lookup j e)"
    and send_text: "send_text i d e =
      (case lookup i e of None \<Rightarrow> [] | Some con \<Rightarrow> [WireSend con Text d])"
begin

lemma send_after_connect:
  assumes "inv e" and "connect uri ob sp e = (i, e', ws)" and "i \<noteq> -1"
  shows "\<exists>con. ws = [WireConnect con] \<and> send_text i d e' = [WireSend con Text d]"
  using connect_accepted [OF assms] by (auto simp: send_text)

lemma connect_keeps_other_sends:
  assumes "inv e" and "connect uri ob sp e = (i, e', ws)" and "j \<noteq> i"
  shows "send_text j d e' = send_text j d e"
proof (cases "i = -1")
  case True
  with assms(2) show ?thesis using connect_refused [OF assms(1)] by blast
next
  case False
  with connect_accepted [OF assms(1,2)] assms(3) show ?thesis by (simp add: send_text)
qed

lemma fresh_id_was_silent:
  assumes "inv e" and "connect uri ob sp e = (i, e', ws)" and "i \<noteq> -1"
  shows "send_text i d e = []"
  using connect_accepted [OF assms] by (simp add: send_text)

end

definition endpoint_lookup :: "int \<Rightarrow> 'o endpoint \<Rightarrow> nat option" where
  "endpoint_lookup i ep = map_option cm_hdl (um_find (connectionList ep) i)"

lemma TLSEndpoint_ws: "ws_endpoint endpoint_inv endpoint_lookup (TLSEndpoint_connect gc asp) TLSEndpoint_sendText"
proof
  fix e e' :: "'a endpoint" and uri ob sp i ws
  assume inv: "endpoint_inv e"
  { assume *: "TLSEndpoint_connect gc asp uri ob sp e = (i, e', ws)"
    then show "endpoint_inv e'"
      using TLSEndpoint_connect_inv [OF inv, of gc asp uri ob sp] by simp
    assume "i \<noteq> -1"
    with * show "endpoint_lookup i e = None \<and>
      (\<exists>con. ws = [WireConnect con] \<and> endpoint_lookup i e' = Some con) \<and>
      (\<forall>j. j \<noteq> i \<longrightarrow> endpoint_lookup j e' = endpoint_lookup j e)"
      by (cases rule: TLSEndpoint_connect_cases [of gc asp uri ob sp e])
        (auto simp: endpoint_lookup_def endpoint_inv_fresh [OF inv] new_metadata_def)
  }
  assume "TLSEndpoint_connect gc asp uri ob sp e = (-1, e', ws)"
  then show "e' = e \<and> ws = []"
    using endpoint_inv_nonneg [OF inv]
    by (cases rule: TLSEndpoint_connect_cases [of gc asp uri ob sp e]) auto
qed (auto simp: TLSEndpoint_sendText_def endpoint_lookup_def split: option.splits)

interpretation tls: ws_endpoint endpoint_inv endpoint_lookup "TLSEndpoint_connect gc asp" TLSEndpoint_sendText
  for gc asp
  by (rule TLSEndpoint_ws)

interpretation plain: ws_endpoint endpoint_inv endpoint_lookup "Endpoint_connect gc asp" Endpoint_sendText
  for gc asp
  unfolding Endpoint_connect_def Endpoint_sendText_def by (rule TLSEndpoint_ws)



subsection \<open>Sessions of the transport\<close>

lemma Transport_connect_valid:
  assumes "Transport_connect gc asp self url sp tp = (tp', ws)"
  shows "Transport_isValid tp' \<longleftrightarrow> (\<exists>con. gc url = Some con \<and> (sp \<noteq> [] \<longrightarrow> asp con sp))"
  using assms
  by (auto simp: Transport_connect_def Transport_isValid_def TLSEndpoint_connect_def new_endpoint_def
      Let_def split: option.splits if_splits)

lemma Transport_connect_sends:
  assumes "Transport_connect gc asp self url sp tp = (tp', ws)" and "gc url = Some con"
    and "sp \<noteq> [] \<longrightarrow> asp con sp" and "text \<noteq> []"
  shows "Transport_send text tp' = Inr [WireSend con Text text]"
  using assms
  by (auto simp: Transport_connect_def Transport_send_def TLSEndpoint_connect_def new_endpoint_def
      TLSEndpoint_sendText_def new_metadata_def Let_def)

lemma Transport_disconnect_invalid: "\<not> Transport_isValid (fst (Transport_disconnect tp))"
  by (auto simp: Transport_disconnect_def Transport_isValid_def split: option.splits)

lemma Transport_disconnect_again:
  "Transport_disconnect (fst (Transport_disconnect tp)) = (fst (Transport_disconnect tp), [])"
  by (auto simp: Transport_disconnect_def split: option.splits)

text \<open>A session of the transport: a connect that websocketpp accepts makes the transport valid
  and later text reaches that connection and nothing else; disconnecting closes that connection
  with code \<^verbatim>\<open>normal\<close> first, a second disconnect does nothing, and any further non-empty send
  dereferences the null endpoint pointer.\<close>

theorem transport_session:
  assumes "Transport_connect gc asp self url sp tp = (tp1, ws)"
    and "gc url = Some con" and "sp \<noteq> [] \<longrightarrow> asp con sp" and "text \<noteq> []"
    and "Transport_disconnect tp1 = (tp2, ws2)"
  shows "Transport_isValid tp1 \<and> Transport_send text tp1 = Inr [WireSend con Text text] \<and>
    ws2 \<noteq> [] \<and> hd ws2 = WireClose con Normal [] \<and>
    \<not> Transport_isValid tp2 \<and> Transport_disconnect tp2 = (tp2, []) \<and>
    Transport_send text tp2 = Inl (NullDeref ''_websocket'')"
proof -
  have "ws2 \<noteq> [] \<and> hd ws2 = WireClose con Normal []"
    and "Transport_send text tp2 = Inl (NullDeref ''_websocket'')"
    using assms
    by (auto simp: Transport_connect_def Transport_disconnect_def Transport_send_def
        TLSEndpoint_connect_def TLSEndpoint_close_def new_endpoint_def new_metadata_def Let_def)
  then show ?thesis
    using assms Transport_connect_valid [OF assms(1)] Transport_connect_sends [OF assms(1-4)]
      Transport_disconnect_invalid [of tp1] Transport_disconnect_again [of tp1]
    by simp
qed

theorem transport_session_witness:
  "Transport_send ''{}'' (fst (Transport_disconnect (fst
      (Transport_connect (\<lambda>_. Some 3) (\<lambda>_ _. True) () ''wss://h'' ''protoo'' new_transport))))
   = Inl (NullDeref ''_websocket'')"
  using transport_session [of "\<lambda>_. Some 3" "\<lambda>_ _. True" "()" "''wss://h''" "''protoo''" new_transport
      _ _ 3 "''{}''"]
  by (metis prod.collapse list.distinct(1))

text \<open>A connect that websocketpp refuses leaves a transport that is not valid, starts no
  connection, and on which a later send is silently dropped.\<close>

theorem transport_refused:
  assumes "Transport_connect gc asp self url sp new_transport = (tp1, ws)"
    and "gc url = None \<or> (\<exists>con. gc url = Some con \<and> sp \<noteq> [] \<and> \<not> asp con sp)"
  shows "\<not> Transport_isValid tp1 \<and> ws = [] \<and> Transport_send text tp1 = Inr []"
  using assms
  by (auto simp: Transport_connect_def Transport_isValid_def Transport_send_def new_transport_def
      TLSEndpoint_connect_def TLSEndpoint_sendText_def new_endpoint_def Let_def)

theorem transport_refused_witness:
  "Transport_send ''x'' (fst (Transport_connect (\<lambda>_. None) (\<lambda>_ _. True) () ''?'' [] new_transport)) = Inr []"
  using transport_refused [of "\<lambda>_. None" "\<lambda>_ _. True" "()" "''?''" "[]" _ _ "''x''"]
  by (metis prod.collapse)

subsection \<open>What the certificate check accepts\<close>

text \<open>The DNS names the loop looks at: those in front of the first one with an embedded NUL.\<close>

fun dns_names :: "general_name list \<Rightarrow> string list" where
  "dns_names [] = []"
| "dns_names (GEN_OTHER # ns) = dns_names ns"
| "dns_names (GEN_DNS d # ns) = d # dns_names ns"

definition seen_names :: "general_name list \<Rightarrow> string list" where
  "seen_names ns = takeWhile (\<lambda>d. \<not> has_nul d) (dns_names ns)"

lemma seen_names_simps [simp]:
  "seen_names [] = []" "seen_names (GEN_OTHER # ns) = seen_names ns"
  "seen_names (GEN_DNS d # ns) = (if has_nul d then [] else d # seen_names ns)"
  by (simp_all add: seen_names_def)

lemma san_loop_last:
  "san_loop h ns r = (if seen_names ns = [] then r else strcaseeq h (last (seen_names ns)))"
  by (induction h ns r rule: san_loop.induct) auto

text \<open>The alternative-name check does not accept a certificate because one of its names matches:
  the verdict is that of the last DNS name in front of the first name with an embedded NUL.\<close>

theorem san_last_name_decides:
  "verify_subject_alternative_name h cert \<longleftrightarrow>
     (\<exists>ns. san_names cert = Some ns \<and> seen_names ns \<noteq> [] \<and> strcaseeq h (last (seen_names ns)))"
  by (auto simp: verify_subject_alternative_name_def san_loop_last split: option.splits)

lemma san_sound:
  assumes "verify_subject_alternative_name h cert"
  shows "\<exists>ns d. san_names cert = Some ns \<and> GEN_DNS d \<in> set ns \<and> \<not> has_nul d \<and> strcaseeq h d"
proof -
  have dns: "d \<in> set (dns_names ns) \<Longrightarrow> GEN_DNS d \<in> set ns" for d ns
    by (induction ns rule: dns_names.induct) auto
  from assms obtain ns where ns: "san_names cert = Some ns" "seen_names ns \<noteq> []"
    "strcaseeq h (last (seen_names ns))"
    by (auto simp: verify_subject_alternative_name_def san_loop_last split: option.splits if_splits)
  let ?d = "last (seen_names ns)"
  from ns have "?d \<in> set (seen_names ns)" by simp
  then have "?d \<in> set (dns_names ns)" and "\<not> has_nul ?d"
    by (auto simp: seen_names_def dest: set_takeWhileD)
  with ns dns [of ?d ns] show ?thesis by blast
qed

text \<open>The check is sound for the server certificate: when it accepts, the chain was preverified
  and the host name equals, up to case, some DNS alternative name or the common name, and that
  name has no embedded NUL.\<close>

lemma certificate_sound:
  assumes "verify_certificate h preverified 0 cert"
  shows "preverified \<and>
    ((\<exists>ns d. san_names cert = Some ns \<and> GEN_DNS d \<in> set ns \<and> \<not> has_nul d \<and> strcaseeq h d) \<or>
     (\<exists>d. cn_data cert = Some d \<and> \<not> has_nul d \<and> strcaseeq h d))"
  using assms san_sound [of h cert]
  by (auto simp: verify_certificate_def verify_common_name_def split: if_splits option.splits)

text \<open>It is not complete: with two alternative names and no common name a certificate that names
  the host first and another host second is refused, although the same names in the other order
  are accepted.\<close>

theorem san_order_matters:
  "\<not> verify_certificate ''a'' True 0
     \<lparr>san_names = Some [GEN_DNS ''a'', GEN_DNS ''b''], cn_index = -1, cn_entry = False, cn_data = None\<rparr> \<and>
   verify_certificate ''a'' True 0
     \<lparr>san_names = Some [GEN_DNS ''b'', GEN_DNS ''a''], cn_index = -1, cn_entry = False, cn_data = None\<rparr>"
  by code_simp

subsection \<open>The TLS context of an endpoint\<close>

text \<open>
  \<^verbatim>\<open>on_tls_init\<close> fills in the context of a new connection. Each of its three calls may throw, which ends
  the \<^verbatim>\<open>try\<close> block: \<open>ok i\<close> says whether call \<open>i\<close> returns. A fresh context verifies nothing and has no
  callback. The constructor of the endpoint binds the empty text as the host name.
\<close>

datatype verify_mode = VerifyNone | VerifyPeer

record tls_context =
  tc_default_workarounds :: bool
  tc_no_sslv2 :: bool
  tc_no_sslv3 :: bool
  tc_single_dh_use :: bool
  tc_verify_mode :: verify_mode
  tc_verify_hostname :: "string option"

definition new_tls_context :: tls_context where
  "new_tls_context = \<lparr>tc_default_workarounds = False, tc_no_sslv2 = False, tc_no_sslv3 = False, tc_single_dh_use = False,
     tc_verify_mode = VerifyNone, tc_verify_hostname = None\<rparr>"

definition on_tls_init :: "(nat \<Rightarrow> bool) \<Rightarrow> string \<Rightarrow> tls_context" where
  "on_tls_init ok hostname =
     (let ctx = new_tls_context in
      if \<not> ok 0 then ctx
      else
        let ctx1 = ctx\<lparr>tc_default_workarounds := True, tc_no_sslv2 := True, tc_no_sslv3 := True, tc_single_dh_use := True\<rparr> in
        if \<not> ok 1 then ctx1
        else
          let ctx2 = ctx1\<lparr>tc_verify_mode := VerifyNone\<rparr> in
          if \<not> ok 2 then ctx2 else ctx2\<lparr>tc_verify_hostname := Some hostname\<rparr>)"

definition TLSEndpoint_tls_init :: "(nat \<Rightarrow> bool) \<Rightarrow> tls_context" where
  "TLSEndpoint_tls_init ok = on_tls_init ok []"

text \<open>
  The callback runs once per certificate of the chain, from the root to the server's; without one
  the verdicts are those of the library. \<open>handshake mode verdicts\<close> is whether OpenSSL continues a client's handshake.
\<close>

definition verdicts :: "tls_context \<Rightarrow> (int \<times> bool \<times> x509) list \<Rightarrow> bool list" where
  "verdicts ctx chain =
     map (\<lambda>(depth, preverified, cert).
       case tc_verify_hostname ctx of None \<Rightarrow> preverified | Some h \<Rightarrow> verify_certificate h preverified depth cert) chain"

definition TLSEndpoint_accepts :: "(verify_mode \<Rightarrow> bool list \<Rightarrow> bool) \<Rightarrow> (nat \<Rightarrow> bool) \<Rightarrow> (int \<times> bool \<times> x509) list \<Rightarrow> bool" where
  "TLSEndpoint_accepts handshake ok chain =
     (let ctx = TLSEndpoint_tls_init ok in handshake (tc_verify_mode ctx) (verdicts ctx chain))"

text \<open>
  What OpenSSL documents of \<^verbatim>\<open>SSL_CTX_set_verify\<close> for clients: with \<^verbatim>\<open>SSL_VERIFY_NONE\<close> the handshake continues
  whatever the verification says, with \<^verbatim>\<open>SSL_VERIFY_PEER\<close> a failed verification ends it.
\<close>

definition openssl_verifies :: "(verify_mode \<Rightarrow> bool list \<Rightarrow> bool) \<Rightarrow> bool" where
  "openssl_verifies handshake \<longleftrightarrow> (\<forall>vs. handshake VerifyNone vs) \<and> (\<forall>vs. handshake VerifyPeer vs \<longleftrightarrow> list_all id vs)"

text \<open>C40. The certificate of the server does not matter. An endpoint accepts every chain of certificates,
  trusted or not and for whatever host, because its context is set not to verify, also when part of the set-up
  throws. The check of the host name it installs is sound as far as it goes, for any host name: for the server
  certificate it accepts only a preverified chain with an alternative or common name equal to the host name
  up to case and without NUL. But it is installed for the empty host name, so that a client which did
  verify would refuse every certificate whose names are not empty.\<close>

theorem server_not_authenticated:
  assumes "openssl_verifies handshake"
  shows "TLSEndpoint_accepts handshake ok chain \<and>
    (verify_certificate h preverified 0 cert \<longrightarrow> preverified \<and>
      ((\<exists>ns d. san_names cert = Some ns \<and> GEN_DNS d \<in> set ns \<and> \<not> has_nul d \<and> strcaseeq h d) \<or>
       (\<exists>d. cn_data cert = Some d \<and> \<not> has_nul d \<and> strcaseeq h d))) \<and>
    (tc_verify_hostname (TLSEndpoint_tls_init ok) \<noteq> None \<and> (0, True, cert) \<in> set chain \<and>
     (\<forall>ns. san_names cert = Some ns \<longrightarrow> GEN_DNS [] \<notin> set ns) \<and> cn_data cert \<noteq> Some [] \<longrightarrow>
       \<not> handshake VerifyPeer (verdicts (TLSEndpoint_tls_init ok) chain))"
proof (intro conjI impI)
  have ctx: "tc_verify_mode (TLSEndpoint_tls_init ok) = VerifyNone"
    "tc_verify_hostname (TLSEndpoint_tls_init ok) \<in> {None, Some []}"
    by (simp_all add: TLSEndpoint_tls_init_def on_tls_init_def new_tls_context_def Let_def)
  show "TLSEndpoint_accepts handshake ok chain"
    using assms ctx by (simp add: TLSEndpoint_accepts_def openssl_verifies_def Let_def)
  show sound: "(\<exists>ns d. san_names cert = Some ns \<and> GEN_DNS d \<in> set ns \<and> \<not> has_nul d \<and> strcaseeq h d) \<or>
      (\<exists>d. cn_data cert = Some d \<and> \<not> has_nul d \<and> strcaseeq h d)" and "preverified"
    if "verify_certificate h preverified 0 cert"
    using certificate_sound [OF that] by blast+
  assume "tc_verify_hostname (TLSEndpoint_tls_init ok) \<noteq> None \<and> (0, True, cert) \<in> set chain \<and>
     (\<forall>ns. san_names cert = Some ns \<longrightarrow> GEN_DNS [] \<notin> set ns) \<and> cn_data cert \<noteq> Some []"
  then have host: "tc_verify_hostname (TLSEndpoint_tls_init ok) = Some []" and cert: "(0, True, cert) \<in> set chain"
    and "\<not> verify_certificate [] True 0 cert"
    using ctx(2) certificate_sound [of "[]" True cert] by (auto simp: strcaseeq_def)
  then have "False \<in> set (verdicts (TLSEndpoint_tls_init ok) chain)"
    by (force simp: verdicts_def)
  then show "\<not> handshake VerifyPeer (verdicts (TLSEndpoint_tls_init ok) chain)"
    using assms by (auto simp: openssl_verifies_def list_all_iff)
qed

text \<open>A self-signed certificate for another host, on a connection that was set up without an exception.\<close>

theorem server_not_authenticated_witness:
  "TLSEndpoint_accepts (\<lambda>m vs. m = VerifyNone \<or> list_all id vs) (\<lambda>_. True)
     [(0, False, \<lparr>san_names = Some [GEN_DNS ''evil''], cn_index = -1, cn_entry = False, cn_data = None\<rparr>)]"
proof -
  have "openssl_verifies (\<lambda>m vs. m = VerifyNone \<or> list_all id vs)" by (simp add: openssl_verifies_def)
  from server_not_authenticated [OF this] show ?thesis by blast
qed

subsection \<open>The rest of the interface\<close>

definition Metadata_getHdl :: "'o metadata \<Rightarrow> nat" where
  "Metadata_getHdl m = cm_hdl m"

definition Metadata_getId :: "'o metadata \<Rightarrow> int" where
  "Metadata_getId m = cm_id m"

definition Metadata_getStatus :: "'o metadata \<Rightarrow> string" where
  "Metadata_getStatus m = cm_status m"

text \<open>The constructor of the plain endpoint, which has no TLS context.\<close>

definition Endpoint_new :: "'o endpoint" where
  "Endpoint_new = new_endpoint"

text \<open>
  The handlers of one connection, as the library calls them. A connection is closed by the destructor of its
  endpoint exactly when the last of its handlers to run was the one for its opening.
\<close>

datatype handler_call =
    OnOpen string
  | OnFail string int string
  | OnClose int "int \<Rightarrow> string"

fun run_handler :: "handler_call \<Rightarrow> 'o metadata \<Rightarrow> 'o metadata" where
  "run_handler (OnOpen server) m = fst (Metadata_onOpen True server m)"
| "run_handler (OnFail server code msg) m = fst (Metadata_onFail True server code msg m)"
| "run_handler (OnClose code describe) m = fst (Metadata_onClose True code describe m)"

lemma handlers_keep: "cm_hdl (fold run_handler hs m) = cm_hdl m \<and> Metadata_getId (fold run_handler hs m) = Metadata_getId m"
proof (induction hs arbitrary: m)
  case (Cons h hs)
  then show ?case
    by (cases h) (simp_all add: Metadata_onOpen_def Metadata_onFail_def Metadata_onClose_def Metadata_getId_def Let_def)
qed simp

lemma status_of_last:
  "Metadata_getStatus (fold run_handler hs m) =
     (if hs = [] then Metadata_getStatus m
      else case last hs of OnOpen _ \<Rightarrow> ''Open'' | OnFail _ _ _ \<Rightarrow> ''Failed'' | OnClose _ _ \<Rightarrow> ''Closed'')"
proof (induction hs arbitrary: m)
  case (Cons h hs)
  then show ?case
    by (cases h) (simp_all add: Metadata_getStatus_def Metadata_onOpen_def Metadata_onFail_def Metadata_onClose_def Let_def)
qed simp

theorem destructor_closes_open:
  assumes "TLSEndpoint_connect gc asp uri ob sp new_endpoint = (i, ep, ws)" and "gc uri = Some con" and "sp = []"
  shows "TLSEndpoint_destruct (ep\<lparr>connectionList := map (\<lambda>(j, m). (j, fold run_handler hs m)) (connectionList ep)\<rparr>) =
    (if \<exists>hs' server. hs = hs' @ [OnOpen server] then [WireClose con GoingAway []] else [])"
proof -
  have ep: "connectionList ep = [(0, new_metadata 0 con uri ob)]"
    using assms by (auto simp: TLSEndpoint_connect_def new_endpoint_def um_put_def Let_def)
  have "(\<exists>hs' server. hs = hs' @ [OnOpen server]) \<longleftrightarrow> hs \<noteq> [] \<and> (\<exists>server. last hs = OnOpen server)"
    by (metis append_butlast_last_id last_snoc snoc_eq_iff_butlast)
  then show ?thesis
    using status_of_last [of hs "new_metadata 0 con uri ob"] handlers_keep [of hs "new_metadata 0 con uri ob"]
    by (auto simp: TLSEndpoint_destruct_def ep Metadata_getStatus_def new_metadata_def split: handler_call.splits if_splits)
qed

end
