(* ===== verification/Signaling_Client.thy ===== *)
theory Signaling_Client
  imports Signaling_Models Websocket "HOL-Library.Multiset"
begin

text \<open>
  \<^verbatim>\<open>src/core/service/signaling_client.cpp\<close>, \<^verbatim>\<open>src/core/websocket/websocket_request.h\<close> and
  \<^verbatim>\<open>src/core/service/mediasoup_api.{h,cpp}\<close>: pending requests, the dispatch of incoming
  messages, and the typed calls on top of them.

  A callback is known by a token (\<open>'cb\<close>); calling it is an output of the operation. The task
  \<^verbatim>\<open>handleResponse\<close> posts to the signaling thread is an entry of \<open>sc_posted\<close>, run by
  \<open>run_response\<close>. An event for the observers is a \<open>sig_event\<close>; its delivery is that of
  \<open>Observables\<close>. \<open>parse\<close> and \<open>print\<close> are rapidjson's reader and writer. The duration of the
  request timer is not modelled, only whether the timer runs: its handler does nothing.
\<close>

type_synonym obj = "jval option list"

text \<open>\<^verbatim>\<open>fromJsonString<S>(json, err)\<close> starts from \<^verbatim>\<open>std::make_shared<S>()\<close>.\<close>

definition decode :: "(string \<Rightarrow> json option) \<Rightarrow> int \<Rightarrow> cstruct \<Rightarrow> string \<Rightarrow> jerr + obj" where
  "decode parse gid s json = fromJsonString parse (fields_of s) (new_object s gid) json"

subsection \<open>Requests\<close>

text \<open>\<^verbatim>\<open>int32_t id() { return _id; }\<close> on a 64-bit \<^verbatim>\<open>_id\<close>.\<close>

definition narrow32 :: "int \<Rightarrow> int" where
  "narrow32 i = (i + 2 ^ 31) mod 2 ^ 32 - 2 ^ 31"

record 'cb request =
  rq_id :: int
  rq_text :: string
  rq_data :: string
  rq_resolve :: "'cb option"
  rq_reject :: "'cb option"
  rq_timer :: bool

datatype 'cb call = CallResolve 'cb string | CallReject 'cb int string

definition new_request :: "int \<Rightarrow> 'cb request" where
  "new_request i = \<lparr>rq_id = i, rq_text = [], rq_data = [], rq_resolve = None, rq_reject = None,
                     rq_timer = False\<rparr>"

definition Request_id :: "'cb request \<Rightarrow> int" where
  "Request_id rq = narrow32 (rq_id rq)"

definition Request_ticktock :: "'cb request \<Rightarrow> 'cb request" where
  "Request_ticktock rq = rq\<lparr>rq_timer := True\<rparr>"

definition Request_resolve :: "string \<Rightarrow> 'cb request \<Rightarrow> 'cb call list" where
  "Request_resolve json rq = (case rq_resolve rq of None \<Rightarrow> [] | Some f \<Rightarrow> [CallResolve f json])"

definition Request_reject :: "int \<Rightarrow> string \<Rightarrow> 'cb request \<Rightarrow> 'cb call list" where
  "Request_reject errorCode errorInfo rq =
     (case rq_reject rq of None \<Rightarrow> [] | Some f \<Rightarrow> [CallReject f errorCode errorInfo])"

text \<open>The handler of an expired timer: the call of \<^verbatim>\<open>_reject\<close> is commented out in the source.\<close>

definition Request_timeout :: "'cb request \<Rightarrow> 'cb request \<times> 'cb call list" where
  "Request_timeout rq = (rq\<lparr>rq_timer := False\<rparr>, [])"

definition Request_close :: "'cb request \<Rightarrow> 'cb call list" where
  "Request_close rq =
     (case rq_reject rq of None \<Rightarrow> [] | Some f \<Rightarrow> [CallReject f 2 ''connection closed''])"

subsection \<open>The signaling client\<close>

record 'cb signaling =
  sc_thread :: bool
  sc_transport :: "unit transport"
  sc_requestMap :: "(int, 'cb request) umap"
  sc_posted :: "string list"

definition new_signaling :: "bool \<Rightarrow> 'cb signaling" where
  "new_signaling thread = \<lparr>sc_thread = thread, sc_transport = new_transport, sc_requestMap = [],
                            sc_posted = []\<rparr>"

definition SignalingClient_clearRequests :: "'cb signaling \<Rightarrow> 'cb signaling" where
  "SignalingClient_clearRequests sc = sc\<lparr>sc_requestMap := []\<rparr>"

definition SignalingClient_connect ::
  "(string \<Rightarrow> nat option) \<Rightarrow> (nat \<Rightarrow> string \<Rightarrow> bool) \<Rightarrow> string \<Rightarrow> string \<Rightarrow>
     'cb signaling \<Rightarrow> 'cb signaling \<times> wire list" where
  "SignalingClient_connect get_connection add_subprotocol url subprotocol sc =
     (let (tp, ws) = Transport_connect get_connection add_subprotocol () url subprotocol (sc_transport sc)
      in (sc\<lparr>sc_transport := tp\<rparr>, ws))"

definition SignalingClient_disconnect :: "'cb signaling \<Rightarrow> 'cb signaling \<times> wire list" where
  "SignalingClient_disconnect sc =
     (let (tp, ws) = Transport_disconnect (sc_transport sc) in (sc\<lparr>sc_transport := tp\<rparr>, ws))"

definition SignalingClient_send ::
  "string \<Rightarrow> int \<Rightarrow> 'cb option \<Rightarrow> 'cb option \<Rightarrow> 'cb signaling \<Rightarrow> fault + 'cb signaling \<times> wire list" where
  "SignalingClient_send text transcation scb fcb sc =
     (if text = [] then Inr (sc, [])
      else
        let rq = (new_request transcation)\<lparr>rq_text := text, rq_resolve := scb, rq_reject := fcb\<rparr>
        in ebind (Transport_send (rq_text rq) (sc_transport sc))
             (\<lambda>ws. let rq' = Request_ticktock rq
                   in Inr (sc\<lparr>sc_requestMap := um_put (Request_id rq') rq' (sc_requestMap sc)\<rparr>, ws)))"

definition SignalingClient_sendBinary ::
  "string \<Rightarrow> int \<Rightarrow> 'cb option \<Rightarrow> 'cb option \<Rightarrow> 'cb signaling \<Rightarrow> fault + 'cb signaling \<times> wire list" where
  "SignalingClient_sendBinary data transcation scb fcb sc =
     (if data = [] then Inr (sc, [])
      else
        let rq = (new_request transcation)\<lparr>rq_data := data, rq_resolve := scb, rq_reject := fcb\<rparr>
        in ebind (Transport_sendBinary (rq_data rq) (sc_transport sc))
             (\<lambda>ws. let rq' = Request_ticktock rq
                   in Inr (sc\<lparr>sc_requestMap := um_put (Request_id rq') rq' (sc_requestMap sc)\<rparr>, ws)))"

text \<open>What the observers are told.\<close>

datatype sig_event =
    SigOpened
  | SigClosed
  | SigNewConsumer obj
  | SigNewDataConsumer obj
  | SigProducerScore obj
  | SigNewPeer obj
  | SigPeerClosed obj
  | SigPeerDisplayNameChanged obj
  | SigDownlinkBwe obj
  | SigConsumerClosed obj
  | SigConsumerPaused obj
  | SigConsumerResumed obj
  | SigConsumerLayersChanged obj
  | SigConsumerScore obj
  | SigDataConsumerClosed obj
  | SigActiveSpeaker obj

definition SignalingClient_onOpened :: "sig_event list" where
  "SignalingClient_onOpened = [SigOpened]"

definition SignalingClient_onClosed :: "'cb signaling \<Rightarrow> 'cb signaling \<times> 'cb call list \<times> sig_event list" where
  "SignalingClient_onClosed sc =
     (sc\<lparr>sc_requestMap := []\<rparr>,
      concat (map (\<lambda>(_, rq). Request_close rq) (sc_requestMap sc)),
      [SigClosed])"

definition SignalingClient_onFailed :: "int \<Rightarrow> string \<Rightarrow> sig_event list" where
  "SignalingClient_onFailed errorCode reason = [SigClosed]"

text \<open>The task every observer runs: parse the whole message, then call the handler.\<close>

definition parsed_event ::
  "(string \<Rightarrow> json option) \<Rightarrow> string \<Rightarrow> cstruct \<Rightarrow> (obj \<Rightarrow> sig_event) \<Rightarrow> sig_event list" where
  "parsed_event parse json s ev =
     (case decode parse 0 s json of Inl _ \<Rightarrow> [] | Inr r \<Rightarrow> [ev r])"

definition handleRequest :: "(string \<Rightarrow> json option) \<Rightarrow> string \<Rightarrow> sig_event list" where
  "handleRequest parse json =
     (if json = [] then []
      else case decode parse 0 RequestHeader json of
        Inl _ \<Rightarrow> []
      | Inr header \<Rightarrow>
          let method = value_or (the_str (member RequestHeader ''method'' header)) [] in
          if method = ''newConsumer'' then parsed_event parse json NewConsumerRequest SigNewConsumer
          else if method = ''newDataConsumer''
          then parsed_event parse json NewDataConsumerRequest SigNewDataConsumer
          else [])"

definition handleResponse :: "string \<Rightarrow> 'cb signaling \<Rightarrow> 'cb signaling" where
  "handleResponse json sc =
     (if sc_thread sc then sc\<lparr>sc_posted := sc_posted sc @ [json]\<rparr> else sc)"

text \<open>The posted task, run while the client is alive.\<close>

definition run_response ::
  "(string \<Rightarrow> json option) \<Rightarrow> string \<Rightarrow> 'cb signaling \<Rightarrow> 'cb signaling \<times> 'cb call list" where
  "run_response parse json sc =
     (case decode parse 0 ResponseHeader json of
        Inl _ \<Rightarrow> (sc, [])
      | Inr header \<Rightarrow>
          let hid = the_int (member ResponseHeader ''id'' header) in
          if value_or hid (-1) \<noteq> -1 then
            let i = the hid in
            case um_find (sc_requestMap sc) i of
              None \<Rightarrow> (sc, [])
            | Some rq \<Rightarrow> (sc\<lparr>sc_requestMap := um_erase i (sc_requestMap sc)\<rparr>, Request_resolve json rq)
          else (sc, []))"

definition handleNotification :: "(string \<Rightarrow> json option) \<Rightarrow> string \<Rightarrow> sig_event list" where
  "handleNotification parse json =
     (if json = [] then []
      else case decode parse 0 NotificationHeader json of
        Inl _ \<Rightarrow> []
      | Inr header \<Rightarrow>
          let method = value_or (the_str (member NotificationHeader ''method'' header)) [] in
          if method = ''producerScore'' then parsed_event parse json ProducerScoreNotification SigProducerScore
          else if method = ''newPeer'' then parsed_event parse json NewPeerNotification SigNewPeer
          else if method = ''peerClosed'' then parsed_event parse json PeerClosedNotification SigPeerClosed
          else if method = ''peerDisplayNameChanged''
          then parsed_event parse json PeerDisplayNameChangedNotification SigPeerDisplayNameChanged
          else if method = ''downlinkBwe'' then parsed_event parse json DownlinkBweNotification SigDownlinkBwe
          else if method = ''consumerClosed''
          then parsed_event parse json ConsumerClosedNotification SigConsumerClosed
          else if method = ''consumerPaused''
          then parsed_event parse json ConsumerPausedNotification SigConsumerPaused
          else if method = ''consumerResumed''
          then parsed_event parse json ConsumerResumedNotification SigConsumerResumed
          else if method = ''consumerLayersChanged''
          then parsed_event parse json ConsumerLayersChangedNotification SigConsumerLayersChanged
          else if method = ''consumerScore''
          then parsed_event parse json ConsumerScoreNotification SigConsumerScore
          else if method = ''dataConsumerClosed''
          then parsed_event parse json DataConsumerClosedNotification SigDataConsumerClosed
          else if method = ''activeSpeaker''
          then parsed_event parse json ActiveSpeakerNotification SigActiveSpeaker
          else [])"

definition SignalingClient_onMessage ::
  "(string \<Rightarrow> json option) \<Rightarrow> string \<Rightarrow> 'cb signaling \<Rightarrow> 'cb signaling \<times> sig_event list" where
  "SignalingClient_onMessage parse json sc =
     (case decode parse 0 MessageType json of
        Inl _ \<Rightarrow> (sc, [])
      | Inr model \<Rightarrow>
          if value_or (the_bool (member MessageType ''notification'' model)) False
          then (sc, handleNotification parse json)
          else if value_or (the_bool (member MessageType ''response'' model)) False
          then (handleResponse json sc, [])
          else if value_or (the_bool (member MessageType ''request'' model)) False
          then (sc, handleRequest parse json)
          else (sc, []))"

text \<open>\<^verbatim>\<open>init\<close>, \<^verbatim>\<open>destroy\<close> and the destructor, apart from the observer lists.\<close>

definition SignalingClient_init :: "'cb signaling \<Rightarrow> 'cb signaling" where
  "SignalingClient_init sc = SignalingClient_clearRequests sc"

definition SignalingClient_destroy :: "'cb signaling \<Rightarrow> 'cb signaling" where
  "SignalingClient_destroy sc = SignalingClient_clearRequests sc"

subsection \<open>The typed calls\<close>

text \<open>
  \<^verbatim>\<open>MediasoupApi::send<Request, Response>\<close> hands the client two closures over the caller's
  callback and the response type: the token \<open>(Response, callback)\<close>. An \<open>api_call\<close> is one
  invocation \<^verbatim>\<open>callback(errorCode, errorInfo, response)\<close>.
\<close>

type_synonym 'k api_token = "cstruct \<times> 'k option"

datatype 'k api_call = ApiCall 'k int string "obj option"

definition on_resolve :: "(string \<Rightarrow> json option) \<Rightarrow> 'k api_token \<Rightarrow> string \<Rightarrow> 'k api_call list" where
  "on_resolve parse token json =
     (if json = [] then []
      else case decode parse 0 (fst token) json of
        Inl _ \<Rightarrow> []
      | Inr response \<Rightarrow> (case snd token of None \<Rightarrow> [] | Some k \<Rightarrow> [ApiCall k 0 [] (Some response)]))"

definition on_reject :: "'k api_token \<Rightarrow> int \<Rightarrow> string \<Rightarrow> 'k api_call list" where
  "on_reject token errorCode errorInfo =
     (case snd token of None \<Rightarrow> [] | Some k \<Rightarrow> [ApiCall k errorCode errorInfo None])"

fun api_calls :: "(string \<Rightarrow> json option) \<Rightarrow> 'k api_token call \<Rightarrow> 'k api_call list" where
  "api_calls parse (CallResolve token json) = on_resolve parse token json"
| "api_calls parse (CallReject token errorCode errorInfo) = on_reject token errorCode errorInfo"

text \<open>\<open>wsc\<close>: whether the weakly held signaling client is still alive.\<close>

definition MediasoupApi_send ::
  "(json \<Rightarrow> string) \<Rightarrow> cstruct \<Rightarrow> cstruct \<Rightarrow> bool \<Rightarrow> obj option \<Rightarrow> 'k option \<Rightarrow>
     'k api_token signaling \<Rightarrow> fault + 'k api_token signaling \<times> wire list" where
  "MediasoupApi_send print Request Response wsc request callback sc =
     (case request of
        None \<Rightarrow> Inr (sc, [])
      | Some rq \<Rightarrow>
          if \<not> wsc then Inr (sc, [])
          else SignalingClient_send (toJsonString print (fields_of Request) rq)
                 (value_or (the_int (member Request ''id'' rq)) (-1))
                 (Some (Response, callback)) (Some (Response, callback)) sc)"

definition MediasoupApi_response ::
  "(json \<Rightarrow> string) \<Rightarrow> bool \<Rightarrow> obj option \<Rightarrow>
     'k api_token signaling \<Rightarrow> fault + 'k api_token signaling \<times> wire list" where
  "MediasoupApi_response print wsc response sc =
     (case response of
        None \<Rightarrow> Inr (sc, [])
      | Some r \<Rightarrow>
          if \<not> wsc then Inr (sc, [])
          else SignalingClient_send (toJsonString print (fields_of BasicResponse) r)
                 (value_or (the_int (member BasicResponse ''id'' r)) (-1)) None None sc)"

text \<open>
  \<^verbatim>\<open>make_shared<S>()\<close>, then \<^verbatim>\<open>request->data = S::Data()\<close> and one assignment per argument.
  \<open>gid\<close> is the number \<^verbatim>\<open>generateID()\<close> draws.
\<close>

definition with_data :: "cstruct \<Rightarrow> cstruct \<Rightarrow> (string \<times> jval) list \<Rightarrow> obj \<Rightarrow> obj" where
  "with_data s d args request =
     set_member s ''data''
       (Some (VStruct (fold (\<lambda>(m, v). set_member d m (Some v)) args (new_object d 0)))) request"

definition MediasoupApi_createWebRtcTransport ::
  "(json \<Rightarrow> string) \<Rightarrow> bool \<Rightarrow> obj option \<Rightarrow> 'k option \<Rightarrow>
     'k api_token signaling \<Rightarrow> fault + 'k api_token signaling \<times> wire list" where
  "MediasoupApi_createWebRtcTransport print wsc request callback sc =
     MediasoupApi_send print CreateWebRtcTransportRequest CreateWebRtcTransportResponse wsc request callback sc"

definition MediasoupApi_join ::
  "(json \<Rightarrow> string) \<Rightarrow> bool \<Rightarrow> obj option \<Rightarrow> 'k option \<Rightarrow>
     'k api_token signaling \<Rightarrow> fault + 'k api_token signaling \<times> wire list" where
  "MediasoupApi_join print wsc request callback sc =
     MediasoupApi_send print JoinRequest JoinResponse wsc request callback sc"

definition MediasoupApi_connectWebRtcTransport ::
  "(json \<Rightarrow> string) \<Rightarrow> bool \<Rightarrow> obj option \<Rightarrow> 'k option \<Rightarrow>
     'k api_token signaling \<Rightarrow> fault + 'k api_token signaling \<times> wire list" where
  "MediasoupApi_connectWebRtcTransport print wsc request callback sc =
     MediasoupApi_send print ConnectWebRtcTransportRequest BasicResponse wsc request callback sc"

definition MediasoupApi_produce ::
  "(json \<Rightarrow> string) \<Rightarrow> bool \<Rightarrow> obj option \<Rightarrow> 'k option \<Rightarrow>
     'k api_token signaling \<Rightarrow> fault + 'k api_token signaling \<times> wire list" where
  "MediasoupApi_produce print wsc request callback sc =
     MediasoupApi_send print ProduceRequest ProduceResponse wsc request callback sc"

definition MediasoupApi_produceData ::
  "(json \<Rightarrow> string) \<Rightarrow> bool \<Rightarrow> obj option \<Rightarrow> 'k option \<Rightarrow>
     'k api_token signaling \<Rightarrow> fault + 'k api_token signaling \<times> wire list" where
  "MediasoupApi_produceData print wsc request callback sc =
     MediasoupApi_send print ProduceDataRequest ProduceDataResponse wsc request callback sc"

definition MediasoupApi_applyNetworkThrottle ::
  "(json \<Rightarrow> string) \<Rightarrow> bool \<Rightarrow> obj option \<Rightarrow> 'k option \<Rightarrow>
     'k api_token signaling \<Rightarrow> fault + 'k api_token signaling \<times> wire list" where
  "MediasoupApi_applyNetworkThrottle print wsc request callback sc =
     MediasoupApi_send print ApplyNetworkThrottleRequest BasicResponse wsc request callback sc"

definition MediasoupApi_getRouterRtpCapabilities ::
  "(json \<Rightarrow> string) \<Rightarrow> int \<Rightarrow> bool \<Rightarrow> 'k option \<Rightarrow>
     'k api_token signaling \<Rightarrow> fault + 'k api_token signaling \<times> wire list" where
  "MediasoupApi_getRouterRtpCapabilities print gid wsc callback sc =
     MediasoupApi_send print GetRouterRtpCapabilitiesRequest GetRouterRtpCapabilitiesResponse wsc
       (Some (new_object GetRouterRtpCapabilitiesRequest gid)) callback sc"

definition MediasoupApi_pauseProducer ::
  "(json \<Rightarrow> string) \<Rightarrow> int \<Rightarrow> bool \<Rightarrow> string \<Rightarrow> 'k option \<Rightarrow>
     'k api_token signaling \<Rightarrow> fault + 'k api_token signaling \<times> wire list" where
  "MediasoupApi_pauseProducer print gid wsc producerId callback sc =
     MediasoupApi_send print ProducerRequest BasicResponse wsc
       (Some (with_data ProducerRequest ProducerRequest_Data
               [(''producerId'', VStr producerId)]
               (set_member ProducerRequest ''method'' (Some (VStr ''pauseProducer'')) (new_object ProducerRequest gid))))
       callback sc"

definition MediasoupApi_resumeProducer ::
  "(json \<Rightarrow> string) \<Rightarrow> int \<Rightarrow> bool \<Rightarrow> string \<Rightarrow> 'k option \<Rightarrow>
     'k api_token signaling \<Rightarrow> fault + 'k api_token signaling \<times> wire list" where
  "MediasoupApi_resumeProducer print gid wsc producerId callback sc =
     MediasoupApi_send print ProducerRequest BasicResponse wsc
       (Some (with_data ProducerRequest ProducerRequest_Data
               [(''producerId'', VStr producerId)]
               (set_member ProducerRequest ''method'' (Some (VStr ''resumeProducer'')) (new_object ProducerRequest gid))))
       callback sc"

definition MediasoupApi_closeProducer ::
  "(json \<Rightarrow> string) \<Rightarrow> int \<Rightarrow> bool \<Rightarrow> string \<Rightarrow> 'k option \<Rightarrow>
     'k api_token signaling \<Rightarrow> fault + 'k api_token signaling \<times> wire list" where
  "MediasoupApi_closeProducer print gid wsc producerId callback sc =
     MediasoupApi_send print ProducerRequest BasicResponse wsc
       (Some (with_data ProducerRequest ProducerRequest_Data
               [(''producerId'', VStr producerId)]
               (set_member ProducerRequest ''method'' (Some (VStr ''closeProducer'')) (new_object ProducerRequest gid))))
       callback sc"

definition MediasoupApi_pauseConsumer ::
  "(json \<Rightarrow> string) \<Rightarrow> int \<Rightarrow> bool \<Rightarrow> string \<Rightarrow> 'k option \<Rightarrow>
     'k api_token signaling \<Rightarrow> fault + 'k api_token signaling \<times> wire list" where
  "MediasoupApi_pauseConsumer print gid wsc consumerId callback sc =
     MediasoupApi_send print ConsumerRequest BasicResponse wsc
       (Some (with_data ConsumerRequest ConsumerRequest_Data
               [(''consumerId'', VStr consumerId)]
               (set_member ConsumerRequest ''method'' (Some (VStr ''pauseConsumer'')) (new_object ConsumerRequest gid))))
       callback sc"

definition MediasoupApi_resumeConsumer ::
  "(json \<Rightarrow> string) \<Rightarrow> int \<Rightarrow> bool \<Rightarrow> string \<Rightarrow> 'k option \<Rightarrow>
     'k api_token signaling \<Rightarrow> fault + 'k api_token signaling \<times> wire list" where
  "MediasoupApi_resumeConsumer print gid wsc consumerId callback sc =
     MediasoupApi_send print ConsumerRequest BasicResponse wsc
       (Some (with_data ConsumerRequest ConsumerRequest_Data
               [(''consumerId'', VStr consumerId)]
               (set_member ConsumerRequest ''method'' (Some (VStr ''resumeConsumer'')) (new_object ConsumerRequest gid))))
       callback sc"

definition MediasoupApi_changeDisplayName ::
  "(json \<Rightarrow> string) \<Rightarrow> int \<Rightarrow> bool \<Rightarrow> string \<Rightarrow> 'k option \<Rightarrow>
     'k api_token signaling \<Rightarrow> fault + 'k api_token signaling \<times> wire list" where
  "MediasoupApi_changeDisplayName print gid wsc displayName callback sc =
     MediasoupApi_send print ChangeDisplayNameRequest BasicResponse wsc
       (Some (with_data ChangeDisplayNameRequest ChangeDisplayNameRequest_Data
               [(''displayName'', VStr displayName)]
               (new_object ChangeDisplayNameRequest gid)))
       callback sc"

definition MediasoupApi_restartICE ::
  "(json \<Rightarrow> string) \<Rightarrow> int \<Rightarrow> bool \<Rightarrow> string \<Rightarrow> 'k option \<Rightarrow>
     'k api_token signaling \<Rightarrow> fault + 'k api_token signaling \<times> wire list" where
  "MediasoupApi_restartICE print gid wsc transportId callback sc =
     MediasoupApi_send print RestartICERequest RestartICEResponse wsc
       (Some (with_data RestartICERequest RestartICERequest_Data
               [(''transportId'', VStr transportId)]
               (new_object RestartICERequest gid)))
       callback sc"

definition MediasoupApi_requestConsumerKeyFrame ::
  "(json \<Rightarrow> string) \<Rightarrow> int \<Rightarrow> bool \<Rightarrow> string \<Rightarrow> 'k option \<Rightarrow>
     'k api_token signaling \<Rightarrow> fault + 'k api_token signaling \<times> wire list" where
  "MediasoupApi_requestConsumerKeyFrame print gid wsc consumerId callback sc =
     MediasoupApi_send print ConsumerRequest BasicResponse wsc
       (Some (with_data ConsumerRequest ConsumerRequest_Data
               [(''consumerId'', VStr consumerId)]
               (set_member ConsumerRequest ''method'' (Some (VStr ''requestConsumerKeyFrame'')) (new_object ConsumerRequest gid))))
       callback sc"

definition MediasoupApi_setConsumerPriority ::
  "(json \<Rightarrow> string) \<Rightarrow> int \<Rightarrow> bool \<Rightarrow> string \<Rightarrow> int \<Rightarrow> 'k option \<Rightarrow>
     'k api_token signaling \<Rightarrow> fault + 'k api_token signaling \<times> wire list" where
  "MediasoupApi_setConsumerPriority print gid wsc consumerId priority callback sc =
     MediasoupApi_send print SetConsumerPriorityRequest BasicResponse wsc
       (Some (with_data SetConsumerPriorityRequest SetConsumerPriorityRequest_Data
               [(''consumerId'', VStr consumerId), (''priority'', VInt priority)]
               (new_object SetConsumerPriorityRequest gid)))
       callback sc"

definition MediasoupApi_setConsumerPreferredLayers ::
  "(json \<Rightarrow> string) \<Rightarrow> int \<Rightarrow> bool \<Rightarrow> string \<Rightarrow> int \<Rightarrow> int \<Rightarrow> 'k option \<Rightarrow>
     'k api_token signaling \<Rightarrow> fault + 'k api_token signaling \<times> wire list" where
  "MediasoupApi_setConsumerPreferredLayers print gid wsc consumerId spatialLayer temporalLayer callback sc =
     MediasoupApi_send print SetConsumerPreferredLayersRequest BasicResponse wsc
       (Some (with_data SetConsumerPreferredLayersRequest SetConsumerPreferredLayersRequest_Data
               [(''consumerId'', VStr consumerId), (''spatialLayer'', VInt spatialLayer), (''temporalLayer'', VInt temporalLayer)]
               (new_object SetConsumerPreferredLayersRequest gid)))
       callback sc"

definition MediasoupApi_getTransportStats ::
  "(json \<Rightarrow> string) \<Rightarrow> int \<Rightarrow> bool \<Rightarrow> string \<Rightarrow> 'k option \<Rightarrow>
     'k api_token signaling \<Rightarrow> fault + 'k api_token signaling \<times> wire list" where
  "MediasoupApi_getTransportStats print gid wsc transportId callback sc =
     MediasoupApi_send print GetTransportStatsRequest GetTransportStatsResponse wsc
       (Some (with_data GetTransportStatsRequest GetTransportStatsRequest_Data
               [(''transportId'', VStr transportId)]
               (new_object GetTransportStatsRequest gid)))
       callback sc"

definition MediasoupApi_getProducerStats ::
  "(json \<Rightarrow> string) \<Rightarrow> int \<Rightarrow> bool \<Rightarrow> string \<Rightarrow> 'k option \<Rightarrow>
     'k api_token signaling \<Rightarrow> fault + 'k api_token signaling \<times> wire list" where
  "MediasoupApi_getProducerStats print gid wsc producerId callback sc =
     MediasoupApi_send print GetProducerStatsRequest GetProducerStatsResponse wsc
       (Some (with_data GetProducerStatsRequest GetProducerStatsRequest_Data
               [(''producerId'', VStr producerId)]
               (new_object GetProducerStatsRequest gid)))
       callback sc"

definition MediasoupApi_getDataProducerStats ::
  "(json \<Rightarrow> string) \<Rightarrow> int \<Rightarrow> bool \<Rightarrow> string \<Rightarrow> 'k option \<Rightarrow>
     'k api_token signaling \<Rightarrow> fault + 'k api_token signaling \<times> wire list" where
  "MediasoupApi_getDataProducerStats print gid wsc dataProducerId callback sc =
     MediasoupApi_send print GetDataProducerStatsRequest GetDataProducerStatsResponse wsc
       (Some (with_data GetDataProducerStatsRequest GetDataProducerStatsRequest_Data
               [(''dataProducerId'', VStr dataProducerId)]
               (new_object GetDataProducerStatsRequest gid)))
       callback sc"

definition MediasoupApi_getConsumerStats ::
  "(json \<Rightarrow> string) \<Rightarrow> int \<Rightarrow> bool \<Rightarrow> string \<Rightarrow> 'k option \<Rightarrow>
     'k api_token signaling \<Rightarrow> fault + 'k api_token signaling \<times> wire list" where
  "MediasoupApi_getConsumerStats print gid wsc consumerId callback sc =
     MediasoupApi_send print GetConsumerStatsRequest GetConsumerStatsResponse wsc
       (Some (with_data GetConsumerStatsRequest GetConsumerStatsRequest_Data
               [(''consumerId'', VStr consumerId)]
               (new_object GetConsumerStatsRequest gid)))
       callback sc"

definition MediasoupApi_getDataConsumerStats ::
  "(json \<Rightarrow> string) \<Rightarrow> int \<Rightarrow> bool \<Rightarrow> string \<Rightarrow> 'k option \<Rightarrow>
     'k api_token signaling \<Rightarrow> fault + 'k api_token signaling \<times> wire list" where
  "MediasoupApi_getDataConsumerStats print gid wsc dataConsumerId callback sc =
     MediasoupApi_send print GetDataConsumerStatsRequest GetDataConsumerStatsResponse wsc
       (Some (with_data GetDataConsumerStatsRequest GetDataConsumerStatsRequest_Data
               [(''dataConsumerId'', VStr dataConsumerId)]
               (new_object GetDataConsumerStatsRequest gid)))
       callback sc"

definition MediasoupApi_resetNetworkThrottle ::
  "(json \<Rightarrow> string) \<Rightarrow> int \<Rightarrow> bool \<Rightarrow> string \<Rightarrow> 'k option \<Rightarrow>
     'k api_token signaling \<Rightarrow> fault + 'k api_token signaling \<times> wire list" where
  "MediasoupApi_resetNetworkThrottle print gid wsc secret callback sc =
     MediasoupApi_send print ResetNetworkThrottleRequest BasicResponse wsc
       (Some (with_data ResetNetworkThrottleRequest ResetNetworkThrottleRequest_Data
               [(''secret'', VStr secret)]
               (new_object ResetNetworkThrottleRequest gid)))
       callback sc"

subsection \<open>Request identifiers\<close>

lemma narrow32_id: "is_int32 i \<Longrightarrow> narrow32 i = i"
  by (simp add: narrow32_def is_int32_def)

lemma generateID_is_int32: "generateID_range i \<Longrightarrow> is_int32 i"
  by (simp add: generateID_range_def is_int32_def)

lemma SignalingClient_send_cases:
  assumes "SignalingClient_send text tr scb fcb sc = Inr (sc', ws)"
  obtains (empty) "text = []" "sc' = sc" "ws = []"
  | (sent) "text \<noteq> []" "Transport_send text (sc_transport sc) = Inr ws"
      "sc' = sc\<lparr>sc_requestMap := um_put (narrow32 tr)
         \<lparr>rq_id = tr, rq_text = text, rq_data = [], rq_resolve = scb, rq_reject = fcb, rq_timer = True\<rparr>
         (sc_requestMap sc)\<rparr>"
  using assms
  by (auto simp: SignalingClient_send_def ebind_eq_Inr Let_def new_request_def Request_ticktock_def
      Request_id_def split: if_splits)

lemma SignalingClient_sendBinary_cases:
  assumes "SignalingClient_sendBinary data tr scb fcb sc = Inr (sc', ws)"
  obtains (empty) "data = []" "sc' = sc" "ws = []"
  | (sent) "data \<noteq> []" "Transport_sendBinary data (sc_transport sc) = Inr ws"
      "sc' = sc\<lparr>sc_requestMap := um_put (narrow32 tr)
         \<lparr>rq_id = tr, rq_text = [], rq_data = data, rq_resolve = scb, rq_reject = fcb, rq_timer = True\<rparr>
         (sc_requestMap sc)\<rparr>"
  using assms
  by (auto simp: SignalingClient_sendBinary_def ebind_eq_Inr Let_def new_request_def Request_ticktock_def
      Request_id_def split: if_splits)

subsection \<open>A response reaches the caller that waits for it\<close>

text \<open>The id a response carries, when it carries one.\<close>

definition response_id :: "(string \<Rightarrow> json option) \<Rightarrow> string \<Rightarrow> int option" where
  "response_id parse json =
     (case decode parse 0 ResponseHeader json of
        Inl _ \<Rightarrow> None
      | Inr h \<Rightarrow> (case the_int (member ResponseHeader ''id'' h) of
                   None \<Rightarrow> None | Some i \<Rightarrow> if i = -1 then None else Some i))"

lemma run_response_unfold:
  "run_response parse json sc =
     (case response_id parse json of
        None \<Rightarrow> (sc, [])
      | Some i \<Rightarrow>
          (case um_find (sc_requestMap sc) i of
             None \<Rightarrow> (sc, [])
           | Some rq \<Rightarrow> (sc\<lparr>sc_requestMap := um_erase i (sc_requestMap sc)\<rparr>, Request_resolve json rq)))"
  by (auto simp: run_response_def response_id_def Let_def split: sum.splits option.splits if_splits)

lemma typed_exchange:
  assumes "MediasoupApi_send print Request Response True (Some rq) (Some k) sc = Inr (sc', ws)"
    and "toJsonString print (fields_of Request) rq \<noteq> []"
    and "the_int (member Request ''id'' rq) = Some i" and "generateID_range i"
    and "json \<noteq> []" and "response_id parse json = Some i"
    and "decode parse 0 Response json = Inr r"
    and "run_response parse json sc' = (sc'', calls)"
  shows "concat (map (api_calls parse) calls) = [ApiCall k 0 [] (Some r)] \<and>
    um_find (sc_requestMap sc'') i = None \<and>
    (\<forall>j. j \<noteq> i \<longrightarrow> um_find (sc_requestMap sc'') j = um_find (sc_requestMap sc) j) \<and>
    run_response parse json sc'' = (sc'', [])"
proof -
  from assms(1) have sent: "SignalingClient_send (toJsonString print (fields_of Request) rq) i
      (Some (Response, Some k)) (Some (Response, Some k)) sc = Inr (sc', ws)"
    by (simp add: MediasoupApi_send_def assms(3))
  have "narrow32 i = i" using assms(4) by (intro narrow32_id generateID_is_int32)
  with sent assms(2,5-8) show ?thesis
    by (cases rule: SignalingClient_send_cases)
      (auto simp: run_response_unfold Request_resolve_def on_resolve_def)
qed

text \<open>C4. The answer to a typed request reaches its caller: after a request with a 31-bit id is
  sent, a response with that id that decodes as the expected model calls the caller's callback
  once, with error code 0 and the decoded response, retires exactly that request, and a repeated
  response calls nothing.\<close>

theorem request_response:
  assumes "MediasoupApi_send print Request Response True (Some rq) (Some k) sc = Inr (sc', ws)"
    and "toJsonString print (fields_of Request) rq \<noteq> []"
    and "the_int (member Request ''id'' rq) = Some i" and "generateID_range i"
    and "json \<noteq> []" and "response_id parse json = Some i"
    and "decode parse 0 Response json = Inr r"
    and "run_response parse json sc' = (sc'', calls)"
  shows "concat (map (api_calls parse) calls) = [ApiCall k 0 [] (Some r)] \<and>
    um_find (sc_requestMap sc'') i = None \<and>
    (\<forall>j. j \<noteq> i \<longrightarrow> um_find (sc_requestMap sc'') j = um_find (sc_requestMap sc) j) \<and>
    run_response parse json sc'' = (sc'', [])"
  by (rule typed_exchange [OF assms])

text \<open>A concrete exchange: rapidjson on the two documents involved.\<close>

definition demo_response :: json where
  "demo_response = JObject [(''response'', JBool True), (''id'', JInt 5), (''ok'', JBool True)]"

definition demo_parse :: "string \<Rightarrow> json option" where
  "demo_parse s = (if s = ''R5'' then Some demo_response else None)"

definition connected :: "'cb signaling" where
  "connected = fst (SignalingClient_connect (\<lambda>_. Some 1) (\<lambda>_ _. True) ''wss://h'' ''protoo'' (new_signaling True))"

lemma connected_send:
  "text \<noteq> [] \<Longrightarrow> Transport_send text (sc_transport (connected :: 'cb signaling)) = Inr [WireSend 1 Text text]"
  by (simp add: connected_def SignalingClient_connect_def Transport_connect_def TLSEndpoint_connect_def
      new_signaling_def new_transport_def new_endpoint_def new_metadata_def Transport_send_def
      TLSEndpoint_sendText_def Let_def)

lemma demo_decode: "decode demo_parse 0 BasicResponse ''R5'' = Inr [Some (VBool True), Some (VInt 5), Some (VBool True)]"
  by code_simp

lemma demo_response_id: "response_id demo_parse ''R5'' = Some 5"
  by code_simp

theorem request_response_witness:
  "\<exists>sc' ws sc'' calls.
     MediasoupApi_pauseProducer (\<lambda>_. ''P'') 5 True ''p1'' (Some ''cb'') connected = Inr (sc', ws) \<and>
     run_response demo_parse ''R5'' sc' = (sc'', calls) \<and>
     concat (map (api_calls demo_parse) calls) =
       [ApiCall ''cb'' 0 [] (Some [Some (VBool True), Some (VInt 5), Some (VBool True)])]"
proof -
  let ?rq = "with_data ProducerRequest ProducerRequest_Data [(''producerId'', VStr ''p1'')]
     (set_member ProducerRequest ''method'' (Some (VStr ''pauseProducer'')) (new_object ProducerRequest 5))"
  have i: "the_int (member ProducerRequest ''id'' ?rq) = Some 5" by code_simp
  obtain sc' ws where sent: "MediasoupApi_pauseProducer (\<lambda>_. ''P'') 5 True ''p1'' (Some ''cb'') connected = Inr (sc', ws)"
    by (auto simp: MediasoupApi_pauseProducer_def MediasoupApi_send_def SignalingClient_send_def
        toJsonString_def new_request_def connected_send Let_def)
  obtain sc'' calls where run: "run_response demo_parse ''R5'' sc' = (sc'', calls)"
    by (cases "run_response demo_parse ''R5'' sc'")
  have "concat (map (api_calls demo_parse) calls) =
       [ApiCall ''cb'' 0 [] (Some [Some (VBool True), Some (VInt 5), Some (VBool True)])]"
    using request_response [OF sent [unfolded MediasoupApi_pauseProducer_def] _ i _ _ demo_response_id
        demo_decode run]
    by (simp add: toJsonString_def generateID_range_def)
  with sent run show ?thesis by blast
qed

subsection \<open>Losing the connection\<close>


subsection \<open>Every callback is called at most once\<close>

text \<open>
  The steps of a signaling client: its operations, the messages and connection events it
  receives, the posted response tasks, and timers that expire. The label of a step is the
  multiset of callbacks handed over and the list of calls made. The callers hand over the same
  token for both outcomes, or none at all.
\<close>

inductive sc_step ::
  "(string \<Rightarrow> json option) \<Rightarrow> 'cb signaling \<Rightarrow> 'cb multiset \<Rightarrow> 'cb call list \<Rightarrow> 'cb signaling \<Rightarrow> bool"
  for parse where
  step_send: "SignalingClient_send text tr cb cb sc = Inr (sc', ws) \<Longrightarrow>
    sc_step parse sc (mset_set (set_option cb)) [] sc'"
| step_sendBinary: "SignalingClient_sendBinary data tr cb cb sc = Inr (sc', ws) \<Longrightarrow>
    sc_step parse sc (mset_set (set_option cb)) [] sc'"
| step_connect: "SignalingClient_connect gc asp url sp sc = (sc', ws) \<Longrightarrow> sc_step parse sc {#} [] sc'"
| step_disconnect: "SignalingClient_disconnect sc = (sc', ws) \<Longrightarrow> sc_step parse sc {#} [] sc'"
| step_init: "sc_step parse sc {#} [] (SignalingClient_init sc)"
| step_destroy: "sc_step parse sc {#} [] (SignalingClient_destroy sc)"
| step_message: "SignalingClient_onMessage parse json sc = (sc', evs) \<Longrightarrow> sc_step parse sc {#} [] sc'"
| step_posted: "sc_posted sc = json # rest \<Longrightarrow>
    run_response parse json (sc\<lparr>sc_posted := rest\<rparr>) = (sc', calls) \<Longrightarrow> sc_step parse sc {#} calls sc'"
| step_closed: "SignalingClient_onClosed sc = (sc', calls, evs) \<Longrightarrow> sc_step parse sc {#} calls sc'"
| step_timeout: "um_find (sc_requestMap sc) i = Some rq \<Longrightarrow> Request_timeout rq = (rq', calls) \<Longrightarrow>
    sc_step parse sc {#} calls (sc\<lparr>sc_requestMap := um_put i rq' (sc_requestMap sc)\<rparr>)"

inductive sc_run ::
  "(string \<Rightarrow> json option) \<Rightarrow> 'cb signaling \<Rightarrow> 'cb multiset \<Rightarrow> 'cb call list \<Rightarrow> 'cb signaling \<Rightarrow> bool"
  for parse sc where
  run_start: "sc_run parse sc {#} [] sc"
| run_step: "sc_run parse sc given calls sc' \<Longrightarrow> sc_step parse sc' given' calls' sc'' \<Longrightarrow>
    sc_run parse sc (given + given') (calls @ calls') sc''"

fun token_of :: "'cb call \<Rightarrow> 'cb" where
  "token_of (CallResolve t _) = t"
| "token_of (CallReject t _ _) = t"

text \<open>The callbacks of the pending requests.\<close>

definition pending_in :: "(int, 'cb request) umap \<Rightarrow> 'cb multiset" where
  "pending_in m = mset (List.map_filter (\<lambda>(_, rq). rq_resolve rq) m)"

definition requests_ok :: "(int, 'cb request) umap \<Rightarrow> bool" where
  "requests_ok m \<longleftrightarrow> um_wf m \<and> list_all (\<lambda>(_, rq). rq_reject rq = rq_resolve rq) m"

lemma pending_in_simps [simp]:
  "pending_in [] = {#}"
  "pending_in ((i, rq) # m) = mset_set (set_option (rq_resolve rq)) + pending_in m"
  by (auto simp: pending_in_def map_filter_def split: option.splits)

lemma um_put_Cons: "um_put i v ((j, w) # m) = (if j = i then (j, v) # m else (j, w) # um_put i v m)"
  by (auto simp: um_put_def)

lemma um_put_Nil: "um_put i v [] = [(i, v)]"
  by (simp add: um_put_def)

lemma um_erase_Cons: "um_erase i ((j, w) # m) = (if j = i then um_erase i m else (j, w) # um_erase i m)"
  by (auto simp: um_erase_def)

lemma um_erase_Nil: "um_erase i [] = []"
  by (simp add: um_erase_def)

lemma pending_in_put: "pending_in (um_put i rq m) \<subseteq># mset_set (set_option (rq_resolve rq)) + pending_in m"
  by (induction m) (auto simp: um_put_Cons um_put_Nil add.left_commute)

lemma pending_in_erase_le: "pending_in (um_erase i m) \<subseteq># pending_in m"
  by (induction m)
    (auto simp: um_erase_Cons um_erase_Nil intro: subset_mset.order_trans [OF _ mset_subset_eq_add_right])

lemma pending_in_erase:
  "um_find m i = Some rq \<Longrightarrow> mset_set (set_option (rq_resolve rq)) + pending_in (um_erase i m) \<subseteq># pending_in m"
  by (induction m)
    (auto simp: um_erase_Cons pending_in_erase_le add.left_commute split: if_splits)

lemma requests_ok_put:
  "requests_ok m \<Longrightarrow> rq_reject rq = rq_resolve rq \<Longrightarrow> requests_ok (um_put i rq m)"
  unfolding requests_ok_def
  by (rule conjI, simp) (induction m, auto simp: um_put_Cons um_put_Nil um_wf_def)

lemma requests_ok_erase: "requests_ok m \<Longrightarrow> requests_ok (um_erase i m)"
  unfolding requests_ok_def
  by (rule conjI, simp) (induction m, auto simp: um_erase_Cons um_erase_Nil um_wf_def)

lemma requests_ok_find:
  "requests_ok m \<Longrightarrow> um_find m i = Some rq \<Longrightarrow> rq_reject rq = rq_resolve rq"
  by (auto simp: requests_ok_def list_all_iff um_find_def dest!: map_of_SomeD)

lemma tokens_closed:
  "requests_ok m \<Longrightarrow> image_mset token_of (mset (concat (map (\<lambda>(_, rq). Request_close rq) m))) = pending_in m"
  by (induction m) (auto simp: requests_ok_def um_wf_def Request_close_def split: option.splits)

lemma tokens_resolve: "image_mset token_of (mset (Request_resolve json rq)) = mset_set (set_option (rq_resolve rq))"
  by (auto simp: Request_resolve_def split: option.splits)

text \<open>One step neither invents nor duplicates a callback.\<close>

lemma pending_in_replace:
  "um_find m i = Some rq \<Longrightarrow> rq_resolve rq' = rq_resolve rq \<Longrightarrow> pending_in (um_put i rq' m) = pending_in m"
  by (induction m) (auto simp: um_put_Cons split: if_splits)

lemma onMessage_keeps_requests:
  "sc_requestMap (fst (SignalingClient_onMessage parse json sc)) = sc_requestMap sc"
  by (simp add: SignalingClient_onMessage_def handleResponse_def split: sum.splits)

lemma sc_step_tokens:
  assumes "sc_step parse sc given calls sc'" and "requests_ok (sc_requestMap sc)"
  shows "requests_ok (sc_requestMap sc') \<and>
    image_mset token_of (mset calls) + pending_in (sc_requestMap sc') \<subseteq>#
      given + pending_in (sc_requestMap sc)"
  using assms
proof (cases rule: sc_step.cases)
  case (step_send payload tr cb ws)
  from step_send(3) show ?thesis
    by (cases rule: SignalingClient_send_cases)
      (use step_send(1,2) assms(2) in \<open>auto simp: requests_ok_put intro: subset_mset.order_trans [OF pending_in_put]\<close>)
next
  case (step_sendBinary payload tr cb ws)
  from step_sendBinary(3) show ?thesis
    by (cases rule: SignalingClient_sendBinary_cases)
      (use step_sendBinary(1,2) assms(2) in \<open>auto simp: requests_ok_put intro: subset_mset.order_trans [OF pending_in_put]\<close>)
next
  case (step_message json evs)
  then show ?thesis
    using assms(2) onMessage_keeps_requests [of parse json sc] by simp
next
  case (step_posted json rest)
  then show ?thesis using assms(2)
    by (auto simp: run_response_unfold requests_ok_erase tokens_resolve pending_in_erase
        split: option.splits)
next
  case (step_closed evs)
  then show ?thesis
    using tokens_closed [OF assms(2)] by (auto simp: SignalingClient_onClosed_def requests_ok_def)
next
  case (step_timeout i rq rq')
  then show ?thesis
    using assms(2) requests_ok_find [OF assms(2), of i rq] pending_in_replace [of "sc_requestMap sc" i rq rq']
    by (auto simp: Request_timeout_def requests_ok_put)
qed (auto simp: SignalingClient_connect_def SignalingClient_disconnect_def SignalingClient_init_def
      SignalingClient_destroy_def SignalingClient_clearRequests_def requests_ok_def split: prod.splits)

text \<open>C5. Whatever the server sends, whatever connects, closes or times out, and whatever the server
  answers twice: over any run from a fresh client the calls made, together with the callbacks
  still pending, are at most the callbacks handed over. So each callback is called at most once,
  and none is called while its request is pending.\<close>

theorem callbacks_at_most_once:
  assumes "sc_run parse (new_signaling thread) given calls sc'"
  shows "image_mset token_of (mset calls) + pending_in (sc_requestMap sc') \<subseteq># given"
proof -
  from assms have "requests_ok (sc_requestMap sc') \<and>
      image_mset token_of (mset calls) + pending_in (sc_requestMap sc') \<subseteq># given"
  proof induction
    case run_start
    then show ?case by (simp add: new_signaling_def requests_ok_def)
  next
    case (run_step given calls sc' given' calls' sc'')
    let ?t = "\<lambda>cs. image_mset token_of (mset cs)"
    have "?t calls' + pending_in (sc_requestMap sc'') \<subseteq># given' + pending_in (sc_requestMap sc')"
      and ok: "requests_ok (sc_requestMap sc'')"
      using sc_step_tokens [OF run_step.hyps(2)] run_step.IH by auto
    from this(1) have "?t calls + (?t calls' + pending_in (sc_requestMap sc''))
        \<subseteq># ?t calls + (given' + pending_in (sc_requestMap sc'))"
      by (rule subset_mset.add_left_mono)
    also have "\<dots> = (?t calls + pending_in (sc_requestMap sc')) + given'" by (simp add: ac_simps)
    also have "\<dots> \<subseteq># given + given'" using run_step.IH by (simp add: subset_mset.add_right_mono)
    finally show ?case using ok by (simp add: ac_simps)
  qed
  then show ?thesis by simp
qed

text \<open>A run in which a request is sent and answered.\<close>

lemma demo_run:
  "\<exists>sc'. sc_run demo_parse (new_signaling True) {#''cb''#} [CallResolve ''cb'' ''R5''] sc'"
proof -
  let ?rq = "\<lparr>rq_id = 5, rq_text = ''P'', rq_data = [], rq_resolve = Some ''cb'',
               rq_reject = Some ''cb'', rq_timer = True\<rparr>"
  let ?c = "connected :: string signaling"
  let ?c1 = "?c\<lparr>sc_requestMap := um_put 5 ?rq (sc_requestMap ?c)\<rparr>"
  have c: "sc_thread ?c" "sc_posted ?c = []"
    by (simp_all add: connected_def SignalingClient_connect_def new_signaling_def split: prod.splits)
  have flags: "decode demo_parse 0 MessageType ''R5'' = Inr [None, Some (VBool True), None]" by code_simp
  have mt: "member MessageType ''notification'' [None, Some (VBool True), None] = None"
    "member MessageType ''response'' [None, Some (VBool True), None] = Some (VBool True)"
    by code_simp+
  have 1: "sc_step demo_parse (new_signaling True) {#} [] ?c"
    by (rule step_connect [of "\<lambda>_. Some 1" "\<lambda>_ _. True" "''wss://h''" "''protoo''"])
      (simp add: connected_def prod_eq_iff)
  have 2: "sc_step demo_parse ?c {#''cb''#} [] ?c1"
    using step_send [of "''P''" 5 "Some ''cb''" ?c ?c1 "[WireSend 1 Text ''P'']" demo_parse]
    by (simp add: SignalingClient_send_def new_request_def Request_ticktock_def Request_id_def
        connected_send Let_def narrow32_def)
  have 3: "sc_step demo_parse ?c1 {#} [] (?c1\<lparr>sc_posted := [''R5'']\<rparr>)"
    by (rule step_message [of _ "''R5''" _ _ "[]"])
      (simp add: SignalingClient_onMessage_def flags mt handleResponse_def c)
  have 4: "sc_step demo_parse (?c1\<lparr>sc_posted := [''R5'']\<rparr>) {#} [CallResolve ''cb'' ''R5'']
      (?c1\<lparr>sc_posted := [], sc_requestMap := um_erase 5 (sc_requestMap ?c1)\<rparr>)"
    by (rule step_posted [of _ "''R5''" "[]"])
      (simp_all add: run_response_unfold demo_response_id Request_resolve_def)
  show ?thesis
    using run_step [OF run_step [OF run_step [OF run_step [OF run_start 1] 2] 3] 4] by auto
qed

theorem callbacks_at_most_once_witness:
  "\<exists>sc'. sc_run demo_parse (new_signaling True) {#''cb''#} [CallResolve ''cb'' ''R5''] sc' \<and>
     {#''cb''#} + pending_in (sc_requestMap sc') \<subseteq># {#''cb''#}"
proof -
  obtain sc' where run: "sc_run demo_parse (new_signaling True) {#''cb''#} [CallResolve ''cb'' ''R5''] sc'"
    using demo_run by blast
  from run callbacks_at_most_once [OF run] show ?thesis by auto
qed

subsection \<open>The client's own answers share the table of its requests\<close>

text \<open>Answering a server request registers the server's id among the client's pending requests:
  when a request of the client with that id is still waiting, it is dropped without any call, and
  the response it waited for calls nothing when it arrives.\<close>

theorem answer_overwrites_pending:
  assumes "MediasoupApi_response print True (Some r) sc = Inr (sc', ws)"
    and "toJsonString print (fields_of BasicResponse) r \<noteq> []"
    and "the_int (member BasicResponse ''id'' r) = Some i" and "is_int32 i"
    and "um_find (sc_requestMap sc) i = Some waiting"
    and "response_id parse json = Some i"
  shows "snd (run_response parse json sc') = [] \<and>
    um_find (sc_requestMap (fst (run_response parse json sc'))) i = None"
proof -
  have "SignalingClient_send (toJsonString print (fields_of BasicResponse) r) i None None sc = Inr (sc', ws)"
    using assms(1) by (simp add: MediasoupApi_response_def assms(3))
  then show ?thesis
    by (cases rule: SignalingClient_send_cases)
      (use assms(2,6) narrow32_id [OF assms(4)] in
        \<open>auto simp: run_response_unfold Request_resolve_def\<close>)
qed

theorem answer_overwrites_pending_witness:
  "\<exists>sc' ws. MediasoupApi_response (\<lambda>_. ''A'') True (Some [Some (VBool True), Some (VInt 5), Some (VBool True)])
     (connected\<lparr>sc_requestMap := [(5, (new_request 5)\<lparr>rq_resolve := Some (JoinResponse, Some ''cb'')\<rparr>)]\<rparr>)
       = Inr (sc', ws) \<and>
     snd (run_response demo_parse ''R5'' sc') = []"
proof -
  let ?r = "[Some (VBool True), Some (VInt 5), Some (VBool True)]"
  let ?sc = "connected\<lparr>sc_requestMap := [(5, (new_request 5)\<lparr>rq_resolve := Some (JoinResponse, Some ''cb'')\<rparr>)]\<rparr>"
  have i: "the_int (member BasicResponse ''id'' ?r) = Some 5" by code_simp
  obtain sc' ws where sent: "MediasoupApi_response (\<lambda>_. ''A'') True (Some ?r) ?sc = Inr (sc', ws)"
    by (auto simp: MediasoupApi_response_def SignalingClient_send_def toJsonString_def new_request_def
        connected_send Let_def)
  with answer_overwrites_pending [OF sent _ i _ _ demo_response_id] show ?thesis
    by (auto simp: toJsonString_def is_int32_def)
qed

subsection \<open>Notifications and server requests reach the observers\<close>

text \<open>The notifications the client understands, with their model and observer call.\<close>

definition notifications :: "(string \<times> cstruct \<times> (obj \<Rightarrow> sig_event)) list" where
  "notifications =
     [(''producerScore'', ProducerScoreNotification, SigProducerScore),
      (''newPeer'', NewPeerNotification, SigNewPeer),
      (''peerClosed'', PeerClosedNotification, SigPeerClosed),
      (''peerDisplayNameChanged'', PeerDisplayNameChangedNotification, SigPeerDisplayNameChanged),
      (''downlinkBwe'', DownlinkBweNotification, SigDownlinkBwe),
      (''consumerClosed'', ConsumerClosedNotification, SigConsumerClosed),
      (''consumerPaused'', ConsumerPausedNotification, SigConsumerPaused),
      (''consumerResumed'', ConsumerResumedNotification, SigConsumerResumed),
      (''consumerLayersChanged'', ConsumerLayersChangedNotification, SigConsumerLayersChanged),
      (''consumerScore'', ConsumerScoreNotification, SigConsumerScore),
      (''dataConsumerClosed'', DataConsumerClosedNotification, SigDataConsumerClosed),
      (''activeSpeaker'', ActiveSpeakerNotification, SigActiveSpeaker)]"

definition server_requests :: "(string \<times> cstruct \<times> (obj \<Rightarrow> sig_event)) list" where
  "server_requests =
     [(''newConsumer'', NewConsumerRequest, SigNewConsumer),
      (''newDataConsumer'', NewDataConsumerRequest, SigNewDataConsumer)]"

text \<open>A model starts empty, has distinct keys and declares the header members with their types.\<close>

definition readable :: "cstruct list \<Rightarrow> cstruct \<Rightarrow> bool" where
  "readable hs s \<longleftrightarrow> wf_fields (fields_of s) \<and> new_object s 0 = default_object (fields_of s) \<and>
     list_all (\<lambda>h. wf_fields (fields_of h) \<and> new_object h 0 = default_object (fields_of h) \<and>
                    header_of (fields_of h) (fields_of s)) hs"

lemma notifications_readable:
  "list_all (\<lambda>s. readable [MessageType, NotificationHeader] s) (map (\<lambda>(_, s, _). s) notifications)"
  by code_simp

lemma server_requests_readable:
  "list_all (\<lambda>s. readable [MessageType, RequestHeader] s) (map (\<lambda>(_, s, _). s) server_requests)"
  by code_simp

lemma decode_self:
  assumes "readable hs s" and "wts (fields_of s) obj" and "parse (print (jserialize (fields_of s) obj)) = Some (jserialize (fields_of s) obj)"
  shows "decode parse 0 s (toJsonString print (fields_of s) obj) = Inr obj"
  using assms jdeserialize_into [of "fields_of s" obj "default_object (fields_of s)"]
  by (simp add: decode_def fromJsonString_def toJsonString_def stringToJson_def readable_def
      overlay_default wts_length [OF assms(2)])

lemma decode_its_header:
  assumes "readable hs s" and "h \<in> set hs" and "wts (fields_of s) obj"
    and "parse (print (jserialize (fields_of s) obj)) = Some (jserialize (fields_of s) obj)"
  shows "decode parse 0 h (toJsonString print (fields_of s) obj) =
    Inr (map (\<lambda>(n, t). value_at (fields_of s) obj n) (fields_of h))"
  using assms decode_header [of "fields_of s" obj "fields_of h"]
  by (auto simp: decode_def fromJsonString_def toJsonString_def stringToJson_def readable_def list_all_iff)

lemma header_members:
  "member MessageType ''notification'' (map (\<lambda>(n, t). f n) (fields_of MessageType)) = f ''notification''"
  "member MessageType ''response'' (map (\<lambda>(n, t). f n) (fields_of MessageType)) = f ''response''"
  "member MessageType ''request'' (map (\<lambda>(n, t). f n) (fields_of MessageType)) = f ''request''"
  "member NotificationHeader ''method'' (map (\<lambda>(n, t). f n) (fields_of NotificationHeader)) = f ''method''"
  "member RequestHeader ''method'' (map (\<lambda>(n, t). f n) (fields_of RequestHeader)) = f ''method''"
  by (simp_all add: member_def fields_of_def MessageType_def NotificationHeader_def RequestHeader_def)

text \<open>The dispatch of the method name is the lookup in the table.\<close>

lemma handleNotification_table:
  assumes "(m, s, ev) \<in> set notifications" and "json \<noteq> []"
    and "decode parse 0 NotificationHeader json = Inr h"
    and "the_str (member NotificationHeader ''method'' h) = Some m"
  shows "handleNotification parse json = parsed_event parse json s ev"
  using assms(1,2) unfolding handleNotification_def assms(3) sum.case Let_def assms(4) value_or_simps
  by (simp add: notifications_def) (elim disjE conjE; simp)

lemma handleRequest_table:
  assumes "(m, s, ev) \<in> set server_requests" and "json \<noteq> []"
    and "decode parse 0 RequestHeader json = Inr h"
    and "the_str (member RequestHeader ''method'' h) = Some m"
  shows "handleRequest parse json = parsed_event parse json s ev"
  using assms(1) by (auto simp: server_requests_def handleRequest_def assms(2-4))

lemma onMessage_notification:
  assumes "(m, s, ev) \<in> set notifications" and "wts (fields_of s) obj"
    and "value_at (fields_of s) obj ''notification'' = Some (VBool True)"
    and "value_at (fields_of s) obj ''method'' = Some (VStr m)"
    and reads_back: "parse (print (jserialize (fields_of s) obj)) = Some (jserialize (fields_of s) obj)"
    and "print (jserialize (fields_of s) obj) \<noteq> []"
  shows "SignalingClient_onMessage parse (toJsonString print (fields_of s) obj) sc = (sc, [ev obj])"
proof -
  let ?json = "toJsonString print (fields_of s) obj"
  have r: "readable [MessageType, NotificationHeader] s" (is "readable ?hs s")
    using notifications_readable assms(1) by (auto simp: list_all_iff)
  note header = decode_its_header [of ?hs s _ obj parse print, OF r _ assms(2) reads_back]
  have "?json \<noteq> []" using assms(6) by (simp add: toJsonString_def)
  then have "handleNotification parse ?json = parsed_event parse ?json s ev"
    using handleNotification_table [OF assms(1) _ header [of NotificationHeader]]
    by (simp add: header_members assms(4))
  then show ?thesis
    using header [of MessageType]
    by (simp add: SignalingClient_onMessage_def header_members assms(3) parsed_event_def
        decode_self [of ?hs s obj parse print, OF r assms(2) reads_back])
qed

text \<open>C21. Every notification the server can encode is delivered: for each of the twelve notification
  methods, a well-typed message with \<^verbatim>\<open>notification: true\<close> and that method, printed and read back,
  produces exactly the observer call of that method with the same content, and touches no pending
  request.\<close>

theorem notification_delivered:
  assumes "(m, s, ev) \<in> set notifications" and "wts (fields_of s) obj"
    and "value_at (fields_of s) obj ''notification'' = Some (VBool True)"
    and "value_at (fields_of s) obj ''method'' = Some (VStr m)"
    and reads_back: "parse (print (jserialize (fields_of s) obj)) = Some (jserialize (fields_of s) obj)"
    and "print (jserialize (fields_of s) obj) \<noteq> []"
  shows "SignalingClient_onMessage parse (toJsonString print (fields_of s) obj) sc = (sc, [ev obj])"
  using assms by (rule onMessage_notification)

definition demo_notification :: json where
  "demo_notification = JObject [(''notification'', JBool True), (''method'', JString ''peerClosed''),
     (''data'', JObject [(''peerId'', JString ''p1'')])]"

theorem notification_delivered_witness:
  "SignalingClient_onMessage (\<lambda>_. Some demo_notification)
     (toJsonString (\<lambda>_. ''N'') (fields_of PeerClosedNotification)
        [Some (VBool True), Some (VStr ''peerClosed''), Some (VStruct [Some (VStr ''p1'')])])
     (new_signaling True :: unit signaling)
   = (new_signaling True, [SigPeerClosed [Some (VBool True), Some (VStr ''peerClosed''), Some (VStruct [Some (VStr ''p1'')])]])"
proof (rule notification_delivered)
  show "(''peerClosed'', PeerClosedNotification, SigPeerClosed) \<in> set notifications"
    by (simp add: notifications_def)
qed code_simp+

text \<open>The same for the two requests the server sends, when the message is not flagged as a
  notification or a response as well.\<close>

theorem server_request_delivered:
  assumes "(m, s, ev) \<in> set server_requests" and "wts (fields_of s) obj"
    and "value_at (fields_of s) obj ''request'' = Some (VBool True)"
    and "value_at (fields_of s) obj ''method'' = Some (VStr m)"
    and reads_back: "parse (print (jserialize (fields_of s) obj)) = Some (jserialize (fields_of s) obj)"
    and "print (jserialize (fields_of s) obj) \<noteq> []"
  shows "SignalingClient_onMessage parse (toJsonString print (fields_of s) obj) sc = (sc, [ev obj])"
proof -
  let ?json = "toJsonString print (fields_of s) obj"
  have r: "readable [MessageType, RequestHeader] s" (is "readable ?hs s")
    using server_requests_readable assms(1) by (auto simp: list_all_iff)
  note header = decode_its_header [of ?hs s _ obj parse print, OF r _ assms(2) reads_back]
  have absent: "list_all (\<lambda>s. ''notification'' \<notin> fst ` set (fields_of s) \<and> ''response'' \<notin> fst ` set (fields_of s))
      (map (\<lambda>(_, s, _). s) server_requests)" by code_simp
  then have off: "value_at (fields_of s) obj ''notification'' = None" "value_at (fields_of s) obj ''response'' = None"
    using assms(1) by (auto simp: list_all_iff intro!: value_at_absent)
  have "?json \<noteq> []" using assms(6) by (simp add: toJsonString_def)
  then have "handleRequest parse ?json = parsed_event parse ?json s ev"
    using handleRequest_table [OF assms(1) _ header [of RequestHeader]]
    by (simp add: header_members assms(4))
  then show ?thesis
    using header [of MessageType]
    by (simp add: SignalingClient_onMessage_def header_members assms(3) off parsed_event_def
        decode_self [of ?hs s obj parse print, OF r assms(2) reads_back])
qed

theorem server_request_delivered_witness:
  "SignalingClient_onMessage
     (\<lambda>_. Some (JObject [(''request'', JBool True), (''id'', JInt 9), (''method'', JString ''newDataConsumer'')]))
     (toJsonString (\<lambda>_. ''Q'') (fields_of NewDataConsumerRequest)
        [Some (VBool True), Some (VInt 9), Some (VStr ''newDataConsumer''), None])
     (new_signaling True :: unit signaling)
   = (new_signaling True, [SigNewDataConsumer [Some (VBool True), Some (VInt 9), Some (VStr ''newDataConsumer''), None]])"
proof (rule server_request_delivered)
  show "(''newDataConsumer'', NewDataConsumerRequest, SigNewDataConsumer) \<in> set server_requests"
    by (simp add: server_requests_def)
qed code_simp+

end
