(* ===== verification/Typed_Api.thy ===== *)
theory Typed_Api
  imports Signaling_Client
begin

text \<open>
  The interface \<^verbatim>\<open>IMediasoupApi\<close> (\<^verbatim>\<open>core/service/i_mediasoup_api.h\<close>) as a whole: its methods with their
  arguments and the response each callback takes are a datatype, a call of a method is a call of
  the operation of \<^verbatim>\<open>MediasoupApi\<close> that overrides it. The lemmas say of every method what goes over
  the wire and what comes back to the caller.
\<close>

subsection \<open>The interface\<close>

datatype api_method =
    GetRouterRtpCapabilities
  | CreateWebRtcTransport "obj option"
  | JoinRoom "obj option"
  | ConnectWebRtcTransport "obj option"
  | ProduceMedia "obj option"
  | ProduceData "obj option"
  | PauseProducer string
  | ResumeProducer string
  | CloseProducer string
  | PauseConsumer string
  | ResumeConsumer string
  | ChangeDisplayName string
  | RestartICE string
  | RequestConsumerKeyFrame string
  | SetConsumerPriority string int
  | SetConsumerPreferredLayers string int int
  | GetTransportStats string
  | GetProducerStats string
  | GetDataProducerStats string
  | GetConsumerStats string
  | GetDataConsumerStats string
  | ApplyNetworkThrottle "obj option"
  | ResetNetworkThrottle string

text \<open>The class of the response the callback of a method takes, and the class of its request.\<close>

primrec api_response_class :: "api_method \<Rightarrow> cstruct" where
  "api_response_class GetRouterRtpCapabilities = GetRouterRtpCapabilitiesResponse"
| "api_response_class (CreateWebRtcTransport request) = CreateWebRtcTransportResponse"
| "api_response_class (JoinRoom request) = JoinResponse"
| "api_response_class (ConnectWebRtcTransport request) = BasicResponse"
| "api_response_class (ProduceMedia request) = ProduceResponse"
| "api_response_class (ProduceData request) = ProduceDataResponse"
| "api_response_class (PauseProducer s) = BasicResponse"
| "api_response_class (ResumeProducer s) = BasicResponse"
| "api_response_class (CloseProducer s) = BasicResponse"
| "api_response_class (PauseConsumer s) = BasicResponse"
| "api_response_class (ResumeConsumer s) = BasicResponse"
| "api_response_class (ChangeDisplayName s) = BasicResponse"
| "api_response_class (RestartICE s) = RestartICEResponse"
| "api_response_class (RequestConsumerKeyFrame s) = BasicResponse"
| "api_response_class (SetConsumerPriority s i1) = BasicResponse"
| "api_response_class (SetConsumerPreferredLayers s i1 i2) = BasicResponse"
| "api_response_class (GetTransportStats s) = GetTransportStatsResponse"
| "api_response_class (GetProducerStats s) = GetProducerStatsResponse"
| "api_response_class (GetDataProducerStats s) = GetDataProducerStatsResponse"
| "api_response_class (GetConsumerStats s) = GetConsumerStatsResponse"
| "api_response_class (GetDataConsumerStats s) = GetDataConsumerStatsResponse"
| "api_response_class (ApplyNetworkThrottle request) = BasicResponse"
| "api_response_class (ResetNetworkThrottle s) = BasicResponse"

primrec api_request_class :: "api_method \<Rightarrow> cstruct" where
  "api_request_class GetRouterRtpCapabilities = GetRouterRtpCapabilitiesRequest"
| "api_request_class (CreateWebRtcTransport request) = CreateWebRtcTransportRequest"
| "api_request_class (JoinRoom request) = JoinRequest"
| "api_request_class (ConnectWebRtcTransport request) = ConnectWebRtcTransportRequest"
| "api_request_class (ProduceMedia request) = ProduceRequest"
| "api_request_class (ProduceData request) = ProduceDataRequest"
| "api_request_class (PauseProducer s) = ProducerRequest"
| "api_request_class (ResumeProducer s) = ProducerRequest"
| "api_request_class (CloseProducer s) = ProducerRequest"
| "api_request_class (PauseConsumer s) = ConsumerRequest"
| "api_request_class (ResumeConsumer s) = ConsumerRequest"
| "api_request_class (ChangeDisplayName s) = ChangeDisplayNameRequest"
| "api_request_class (RestartICE s) = RestartICERequest"
| "api_request_class (RequestConsumerKeyFrame s) = ConsumerRequest"
| "api_request_class (SetConsumerPriority s i1) = SetConsumerPriorityRequest"
| "api_request_class (SetConsumerPreferredLayers s i1 i2) = SetConsumerPreferredLayersRequest"
| "api_request_class (GetTransportStats s) = GetTransportStatsRequest"
| "api_request_class (GetProducerStats s) = GetProducerStatsRequest"
| "api_request_class (GetDataProducerStats s) = GetDataProducerStatsRequest"
| "api_request_class (GetConsumerStats s) = GetConsumerStatsRequest"
| "api_request_class (GetDataConsumerStats s) = GetDataConsumerStatsRequest"
| "api_request_class (ApplyNetworkThrottle request) = ApplyNetworkThrottleRequest"
| "api_request_class (ResetNetworkThrottle s) = ResetNetworkThrottleRequest"

text \<open>A method of the interface on the implementation.\<close>

primrec api_invoke :: "(json \<Rightarrow> string) \<Rightarrow> int \<Rightarrow> bool \<Rightarrow> api_method \<Rightarrow> 'k option \<Rightarrow>
     'k api_token signaling \<Rightarrow> fault + 'k api_token signaling \<times> wire list" where
  "api_invoke print gid wsc GetRouterRtpCapabilities callback sc = MediasoupApi_getRouterRtpCapabilities print gid wsc callback sc"
| "api_invoke print gid wsc (CreateWebRtcTransport request) callback sc = MediasoupApi_createWebRtcTransport print wsc request callback sc"
| "api_invoke print gid wsc (JoinRoom request) callback sc = MediasoupApi_join print wsc request callback sc"
| "api_invoke print gid wsc (ConnectWebRtcTransport request) callback sc = MediasoupApi_connectWebRtcTransport print wsc request callback sc"
| "api_invoke print gid wsc (ProduceMedia request) callback sc = MediasoupApi_produce print wsc request callback sc"
| "api_invoke print gid wsc (ProduceData request) callback sc = MediasoupApi_produceData print wsc request callback sc"
| "api_invoke print gid wsc (PauseProducer s) callback sc = MediasoupApi_pauseProducer print gid wsc s callback sc"
| "api_invoke print gid wsc (ResumeProducer s) callback sc = MediasoupApi_resumeProducer print gid wsc s callback sc"
| "api_invoke print gid wsc (CloseProducer s) callback sc = MediasoupApi_closeProducer print gid wsc s callback sc"
| "api_invoke print gid wsc (PauseConsumer s) callback sc = MediasoupApi_pauseConsumer print gid wsc s callback sc"
| "api_invoke print gid wsc (ResumeConsumer s) callback sc = MediasoupApi_resumeConsumer print gid wsc s callback sc"
| "api_invoke print gid wsc (ChangeDisplayName s) callback sc = MediasoupApi_changeDisplayName print gid wsc s callback sc"
| "api_invoke print gid wsc (RestartICE s) callback sc = MediasoupApi_restartICE print gid wsc s callback sc"
| "api_invoke print gid wsc (RequestConsumerKeyFrame s) callback sc = MediasoupApi_requestConsumerKeyFrame print gid wsc s callback sc"
| "api_invoke print gid wsc (SetConsumerPriority s i1) callback sc = MediasoupApi_setConsumerPriority print gid wsc s i1 callback sc"
| "api_invoke print gid wsc (SetConsumerPreferredLayers s i1 i2) callback sc = MediasoupApi_setConsumerPreferredLayers print gid wsc s i1 i2 callback sc"
| "api_invoke print gid wsc (GetTransportStats s) callback sc = MediasoupApi_getTransportStats print gid wsc s callback sc"
| "api_invoke print gid wsc (GetProducerStats s) callback sc = MediasoupApi_getProducerStats print gid wsc s callback sc"
| "api_invoke print gid wsc (GetDataProducerStats s) callback sc = MediasoupApi_getDataProducerStats print gid wsc s callback sc"
| "api_invoke print gid wsc (GetConsumerStats s) callback sc = MediasoupApi_getConsumerStats print gid wsc s callback sc"
| "api_invoke print gid wsc (GetDataConsumerStats s) callback sc = MediasoupApi_getDataConsumerStats print gid wsc s callback sc"
| "api_invoke print gid wsc (ApplyNetworkThrottle request) callback sc = MediasoupApi_applyNetworkThrottle print wsc request callback sc"
| "api_invoke print gid wsc (ResetNetworkThrottle s) callback sc = MediasoupApi_resetNetworkThrottle print gid wsc s callback sc"

text \<open>The request a method sends: the caller's, or one the method makes with a new id and the arguments.\<close>

primrec api_request :: "int \<Rightarrow> api_method \<Rightarrow> obj option" where
  "api_request gid GetRouterRtpCapabilities = Some (new_object GetRouterRtpCapabilitiesRequest gid)"
| "api_request gid (CreateWebRtcTransport request) = request"
| "api_request gid (JoinRoom request) = request"
| "api_request gid (ConnectWebRtcTransport request) = request"
| "api_request gid (ProduceMedia request) = request"
| "api_request gid (ProduceData request) = request"
| "api_request gid (PauseProducer s) = Some (with_data ProducerRequest ProducerRequest_Data [(''producerId'', VStr s)] (set_member ProducerRequest ''method'' (Some (VStr ''pauseProducer'')) (new_object ProducerRequest gid)))"
| "api_request gid (ResumeProducer s) = Some (with_data ProducerRequest ProducerRequest_Data [(''producerId'', VStr s)] (set_member ProducerRequest ''method'' (Some (VStr ''resumeProducer'')) (new_object ProducerRequest gid)))"
| "api_request gid (CloseProducer s) = Some (with_data ProducerRequest ProducerRequest_Data [(''producerId'', VStr s)] (set_member ProducerRequest ''method'' (Some (VStr ''closeProducer'')) (new_object ProducerRequest gid)))"
| "api_request gid (PauseConsumer s) = Some (with_data ConsumerRequest ConsumerRequest_Data [(''consumerId'', VStr s)] (set_member ConsumerRequest ''method'' (Some (VStr ''pauseConsumer'')) (new_object ConsumerRequest gid)))"
| "api_request gid (ResumeConsumer s) = Some (with_data ConsumerRequest ConsumerRequest_Data [(''consumerId'', VStr s)] (set_member ConsumerRequest ''method'' (Some (VStr ''resumeConsumer'')) (new_object ConsumerRequest gid)))"
| "api_request gid (ChangeDisplayName s) = Some (with_data ChangeDisplayNameRequest ChangeDisplayNameRequest_Data [(''displayName'', VStr s)] (new_object ChangeDisplayNameRequest gid))"
| "api_request gid (RestartICE s) = Some (with_data RestartICERequest RestartICERequest_Data [(''transportId'', VStr s)] (new_object RestartICERequest gid))"
| "api_request gid (RequestConsumerKeyFrame s) = Some (with_data ConsumerRequest ConsumerRequest_Data [(''consumerId'', VStr s)] (set_member ConsumerRequest ''method'' (Some (VStr ''requestConsumerKeyFrame'')) (new_object ConsumerRequest gid)))"
| "api_request gid (SetConsumerPriority s i1) = Some (with_data SetConsumerPriorityRequest SetConsumerPriorityRequest_Data [(''consumerId'', VStr s), (''priority'', VInt i1)] (new_object SetConsumerPriorityRequest gid))"
| "api_request gid (SetConsumerPreferredLayers s i1 i2) = Some (with_data SetConsumerPreferredLayersRequest SetConsumerPreferredLayersRequest_Data [(''consumerId'', VStr s), (''spatialLayer'', VInt i1), (''temporalLayer'', VInt i2)] (new_object SetConsumerPreferredLayersRequest gid))"
| "api_request gid (GetTransportStats s) = Some (with_data GetTransportStatsRequest GetTransportStatsRequest_Data [(''transportId'', VStr s)] (new_object GetTransportStatsRequest gid))"
| "api_request gid (GetProducerStats s) = Some (with_data GetProducerStatsRequest GetProducerStatsRequest_Data [(''producerId'', VStr s)] (new_object GetProducerStatsRequest gid))"
| "api_request gid (GetDataProducerStats s) = Some (with_data GetDataProducerStatsRequest GetDataProducerStatsRequest_Data [(''dataProducerId'', VStr s)] (new_object GetDataProducerStatsRequest gid))"
| "api_request gid (GetConsumerStats s) = Some (with_data GetConsumerStatsRequest GetConsumerStatsRequest_Data [(''consumerId'', VStr s)] (new_object GetConsumerStatsRequest gid))"
| "api_request gid (GetDataConsumerStats s) = Some (with_data GetDataConsumerStatsRequest GetDataConsumerStatsRequest_Data [(''dataConsumerId'', VStr s)] (new_object GetDataConsumerStatsRequest gid))"
| "api_request gid (ApplyNetworkThrottle request) = request"
| "api_request gid (ResetNetworkThrottle s) = Some (with_data ResetNetworkThrottleRequest ResetNetworkThrottleRequest_Data [(''secret'', VStr s)] (new_object ResetNetworkThrottleRequest gid))"

text \<open>The name a method's request carries, as the server expects it.\<close>

primrec api_name :: "api_method \<Rightarrow> string" where
  "api_name GetRouterRtpCapabilities = ''getRouterRtpCapabilities''"
| "api_name (CreateWebRtcTransport request) = ''createWebRtcTransport''"
| "api_name (JoinRoom request) = ''join''"
| "api_name (ConnectWebRtcTransport request) = ''connectWebRtcTransport''"
| "api_name (ProduceMedia request) = ''produce''"
| "api_name (ProduceData request) = ''produceData''"
| "api_name (PauseProducer s) = ''pauseProducer''"
| "api_name (ResumeProducer s) = ''resumeProducer''"
| "api_name (CloseProducer s) = ''closeProducer''"
| "api_name (PauseConsumer s) = ''pauseConsumer''"
| "api_name (ResumeConsumer s) = ''resumeConsumer''"
| "api_name (ChangeDisplayName s) = ''changeDisplayName''"
| "api_name (RestartICE s) = ''restartIce''"
| "api_name (RequestConsumerKeyFrame s) = ''requestConsumerKeyFrame''"
| "api_name (SetConsumerPriority s i1) = ''setConsumerPriority''"
| "api_name (SetConsumerPreferredLayers s i1 i2) = ''setConsumerPreferredLayers''"
| "api_name (GetTransportStats s) = ''getTransportStats''"
| "api_name (GetProducerStats s) = ''getProducerStats''"
| "api_name (GetDataProducerStats s) = ''getDataProducerStats''"
| "api_name (GetConsumerStats s) = ''getConsumerStats''"
| "api_name (GetDataConsumerStats s) = ''getDataConsumerStats''"
| "api_name (ApplyNetworkThrottle request) = ''applyNetworkThrottle''"
| "api_name (ResetNetworkThrottle s) = ''resetNetworkThrottle''"

text \<open>The arguments of the methods that make their request.\<close>

primrec api_args :: "api_method \<Rightarrow> (string \<times> jval) list" where
  "api_args GetRouterRtpCapabilities = []"
| "api_args (CreateWebRtcTransport request) = []"
| "api_args (JoinRoom request) = []"
| "api_args (ConnectWebRtcTransport request) = []"
| "api_args (ProduceMedia request) = []"
| "api_args (ProduceData request) = []"
| "api_args (PauseProducer s) = [(''producerId'', VStr s)]"
| "api_args (ResumeProducer s) = [(''producerId'', VStr s)]"
| "api_args (CloseProducer s) = [(''producerId'', VStr s)]"
| "api_args (PauseConsumer s) = [(''consumerId'', VStr s)]"
| "api_args (ResumeConsumer s) = [(''consumerId'', VStr s)]"
| "api_args (ChangeDisplayName s) = [(''displayName'', VStr s)]"
| "api_args (RestartICE s) = [(''transportId'', VStr s)]"
| "api_args (RequestConsumerKeyFrame s) = [(''consumerId'', VStr s)]"
| "api_args (SetConsumerPriority s i1) = [(''consumerId'', VStr s), (''priority'', VInt i1)]"
| "api_args (SetConsumerPreferredLayers s i1 i2) = [(''consumerId'', VStr s), (''spatialLayer'', VInt i1), (''temporalLayer'', VInt i2)]"
| "api_args (GetTransportStats s) = [(''transportId'', VStr s)]"
| "api_args (GetProducerStats s) = [(''producerId'', VStr s)]"
| "api_args (GetDataProducerStats s) = [(''dataProducerId'', VStr s)]"
| "api_args (GetConsumerStats s) = [(''consumerId'', VStr s)]"
| "api_args (GetDataConsumerStats s) = [(''dataConsumerId'', VStr s)]"
| "api_args (ApplyNetworkThrottle request) = []"
| "api_args (ResetNetworkThrottle s) = [(''secret'', VStr s)]"

primrec api_makes_request :: "api_method \<Rightarrow> bool" where
  "api_makes_request GetRouterRtpCapabilities \<longleftrightarrow> True"
| "api_makes_request (CreateWebRtcTransport request) \<longleftrightarrow> False"
| "api_makes_request (JoinRoom request) \<longleftrightarrow> False"
| "api_makes_request (ConnectWebRtcTransport request) \<longleftrightarrow> False"
| "api_makes_request (ProduceMedia request) \<longleftrightarrow> False"
| "api_makes_request (ProduceData request) \<longleftrightarrow> False"
| "api_makes_request (PauseProducer s) \<longleftrightarrow> True"
| "api_makes_request (ResumeProducer s) \<longleftrightarrow> True"
| "api_makes_request (CloseProducer s) \<longleftrightarrow> True"
| "api_makes_request (PauseConsumer s) \<longleftrightarrow> True"
| "api_makes_request (ResumeConsumer s) \<longleftrightarrow> True"
| "api_makes_request (ChangeDisplayName s) \<longleftrightarrow> True"
| "api_makes_request (RestartICE s) \<longleftrightarrow> True"
| "api_makes_request (RequestConsumerKeyFrame s) \<longleftrightarrow> True"
| "api_makes_request (SetConsumerPriority s i1) \<longleftrightarrow> True"
| "api_makes_request (SetConsumerPreferredLayers s i1 i2) \<longleftrightarrow> True"
| "api_makes_request (GetTransportStats s) \<longleftrightarrow> True"
| "api_makes_request (GetProducerStats s) \<longleftrightarrow> True"
| "api_makes_request (GetDataProducerStats s) \<longleftrightarrow> True"
| "api_makes_request (GetConsumerStats s) \<longleftrightarrow> True"
| "api_makes_request (GetDataConsumerStats s) \<longleftrightarrow> True"
| "api_makes_request (ApplyNetworkThrottle request) \<longleftrightarrow> False"
| "api_makes_request (ResetNetworkThrottle s) \<longleftrightarrow> True"


subsection \<open>What a method sends\<close>

lemmas api_method_defs = MediasoupApi_getRouterRtpCapabilities_def MediasoupApi_createWebRtcTransport_def
  MediasoupApi_join_def MediasoupApi_connectWebRtcTransport_def MediasoupApi_produce_def
  MediasoupApi_produceData_def MediasoupApi_pauseProducer_def MediasoupApi_resumeProducer_def
  MediasoupApi_closeProducer_def MediasoupApi_pauseConsumer_def MediasoupApi_resumeConsumer_def
  MediasoupApi_changeDisplayName_def MediasoupApi_restartICE_def
  MediasoupApi_requestConsumerKeyFrame_def MediasoupApi_setConsumerPriority_def
  MediasoupApi_setConsumerPreferredLayers_def MediasoupApi_getTransportStats_def
  MediasoupApi_getProducerStats_def MediasoupApi_getDataProducerStats_def
  MediasoupApi_getConsumerStats_def MediasoupApi_getDataConsumerStats_def
  MediasoupApi_applyNetworkThrottle_def MediasoupApi_resetNetworkThrottle_def

lemma api_invoke_send:
  "api_invoke print gid wsc m callback sc =
     MediasoupApi_send print (api_request_class m) (api_response_class m) wsc (api_request gid m) callback sc"
  by (cases m) (simp_all add: api_method_defs)

text \<open>The JSON text of the arguments.\<close>

fun arg_json :: "jval \<Rightarrow> json" where
  "arg_json (VStr s) = JString s"
| "arg_json (VInt i) = JInt i"
| "arg_json v = JNull"

definition args_json :: "(string \<times> jval) list \<Rightarrow> (string \<times> json) list" where
  "args_json args = map (\<lambda>(a, v). (a, arg_json v)) args"

definition wire_request :: "int \<Rightarrow> api_method \<Rightarrow> json" where
  "wire_request gid m =
     JObject ([(''request'', JBool True), (''id'', JInt gid), (''method'', JString (api_name m))] @
       (if api_args m = [] then [] else [(''data'', JObject (args_json (api_args m)))]))"

lemma api_request_made:
  assumes "api_makes_request m"
  shows "\<exists>rq. api_request gid m = Some rq \<and> the_int (member (api_request_class m) ''id'' rq) = Some gid \<and>
    jserialize (fields_of (api_request_class m)) rq = wire_request gid m"
  using assms
  by (cases m) (simp_all add: wire_request_def args_json_def member_def set_member_def with_data_def new_object_def
      fields_of_def model_struct_defs jserialize_def)

text \<open>C6. 
  Every method of the interface that makes its own request sends exactly one message, in which
  its name, a fresh id and its arguments stand as the protocol has them; the response with that
  id, decoded as the class the callback of that method takes, is passed to the callback, once,
  and the request is no longer pending. Once the signaling client is gone a method sends
  nothing, and its callback is never called.
\<close>

theorem api_method_answered:
  assumes "api_makes_request m" and "api_invoke print gid True m (Some k) sc = Inr (sc', ws)"
    and "generateID_range gid" and "print (wire_request gid m) \<noteq> []"
    and "json \<noteq> []" and "response_id parse json = Some gid"
    and "decode parse 0 (api_response_class m) json = Inr r"
    and "run_response parse json sc' = (sc'', calls)"
  shows "Transport_send (print (wire_request gid m)) (sc_transport sc) = Inr ws \<and>
    concat (map (api_calls parse) calls) = [ApiCall k 0 [] (Some r)] \<and>
    um_find (sc_requestMap sc'') gid = None \<and>
    api_invoke print gid False m (Some k) sc = Inr (sc, [])"
proof -
  obtain rq where rq: "api_request gid m = Some rq" "the_int (member (api_request_class m) ''id'' rq) = Some gid"
      "jserialize (fields_of (api_request_class m)) rq = wire_request gid m"
    using api_request_made [OF assms(1)] by blast
  have sent: "MediasoupApi_send print (api_request_class m) (api_response_class m) True (Some rq) (Some k) sc = Inr (sc', ws)"
    using assms(2) rq(1) by (simp add: api_invoke_send)
  have text1: "toJsonString print (fields_of (api_request_class m)) rq = print (wire_request gid m)"
    by (simp add: toJsonString_def rq(3))
  have "SignalingClient_send (print (wire_request gid m)) gid (Some (api_response_class m, Some k))
      (Some (api_response_class m, Some k)) sc = Inr (sc', ws)"
    using sent rq(2) text1 by (simp add: MediasoupApi_send_def)
  then have "Transport_send (print (wire_request gid m)) (sc_transport sc) = Inr ws"
    using assms(4) by (cases rule: SignalingClient_send_cases) auto
  moreover have "api_invoke print gid False m (Some k) sc = Inr (sc, [])"
    by (simp add: api_invoke_send MediasoupApi_send_def rq(1))
  ultimately show ?thesis
    using typed_exchange [OF sent _ rq(2) assms(3) assms(5-8)] assms(4) text1 by simp
qed

theorem api_method_answered_witness:
  "\<exists>sc' ws sc'' calls. api_invoke (\<lambda>_. ''P'') 5 True (SetConsumerPriority ''c1'' 3) (Some ''cb'') connected = Inr (sc', ws) \<and>
     run_response demo_parse ''R5'' sc' = (sc'', calls) \<and>
     concat (map (api_calls demo_parse) calls) =
       [ApiCall ''cb'' 0 [] (Some [Some (VBool True), Some (VInt 5), Some (VBool True)])]"
proof -
  let ?m = "SetConsumerPriority ''c1'' 3"
  obtain sc' ws where sent: "api_invoke (\<lambda>_. ''P'') 5 True ?m (Some ''cb'') connected = Inr (sc', ws)"
    by (auto simp: MediasoupApi_setConsumerPriority_def MediasoupApi_send_def SignalingClient_send_def
        toJsonString_def new_request_def connected_send Let_def)
  obtain sc'' calls where run: "run_response demo_parse ''R5'' sc' = (sc'', calls)"
    by (cases "run_response demo_parse ''R5'' sc'")
  have "decode demo_parse 0 (api_response_class ?m) ''R5'' = Inr [Some (VBool True), Some (VInt 5), Some (VBool True)]"
    using demo_decode by simp
  from api_method_answered [OF _ sent _ _ _ demo_response_id this run] sent run show ?thesis
    by (simp add: generateID_range_def)
qed

end
