(* ===== verification/Media_Controller.thy ===== *)
theory Media_Controller
  imports Signaling_Models
begin

text \<open>
  \<^verbatim>\<open>src/core/service/media_controller.cpp\<close>: the local producers and the remote consumers of a
  room, on top of the producer and consumer objects of libmediasoupclient
  (\<^verbatim>\<open>src/third_party/libmediasoupclient/src/{Producer,Consumer}.cpp\<close>).

  A call of the signaling API and a notification of the observers are outputs (\<open>mc_out\<close>), in the
  order the code makes them. What \<^verbatim>\<open>SendTransport::Produce\<close>, \<^verbatim>\<open>RecvTransport::Consume\<close> and
  \<^verbatim>\<open>ConsumeData\<close> answer depends on WebRTC: they are the parameters \<open>Produce\<close>, \<open>Consume\<close> and
  \<open>ConsumeData\<close>, where \<open>Inl\<close> is an exception (the code catches none). A map entry holding
  a null pointer is \<open>None\<close>. The callbacks the controller passes to the API only write log lines.
\<close>

subsection \<open>Producers and consumers\<close>

record producer =
  pr_id :: string
  pr_kind :: string
  pr_enabled :: bool
  pr_closed :: bool

definition Producer_Close :: "producer \<Rightarrow> producer" where
  "Producer_Close p = (if pr_closed p then p else p\<lparr>pr_closed := True\<rparr>)"

definition Producer_Pause :: "producer \<Rightarrow> producer" where
  "Producer_Pause p = (if pr_closed p then p else p\<lparr>pr_enabled := False\<rparr>)"

definition Producer_Resume :: "producer \<Rightarrow> producer" where
  "Producer_Resume p = (if pr_closed p then p else p\<lparr>pr_enabled := True\<rparr>)"

definition Producer_IsPaused :: "producer \<Rightarrow> bool" where
  "Producer_IsPaused p \<longleftrightarrow> \<not> pr_enabled p"

record consumer =
  co_id :: string
  co_kind :: string
  co_track :: string
  co_enabled :: bool
  co_closed :: bool

definition Consumer_Close :: "consumer \<Rightarrow> consumer" where
  "Consumer_Close c = (if co_closed c then c else c\<lparr>co_closed := True\<rparr>)"

definition Consumer_Pause :: "consumer \<Rightarrow> consumer" where
  "Consumer_Pause c = (if co_closed c then c else c\<lparr>co_enabled := False\<rparr>)"

definition Consumer_Resume :: "consumer \<Rightarrow> consumer" where
  "Consumer_Resume c = (if co_closed c then c else c\<lparr>co_enabled := True\<rparr>)"

definition Consumer_IsPaused :: "consumer \<Rightarrow> bool" where
  "Consumer_IsPaused c \<longleftrightarrow> \<not> co_enabled c"

subsection \<open>The controller's state\<close>

record options =
  opt_useSimulcast :: "bool option"
  opt_useSharingSimulcast :: "bool option"
  opt_forceTcp :: "bool option"
  opt_produce :: "bool option"
  opt_consume :: "bool option"
  opt_forceH264 :: "bool option"
  opt_forceVP9 :: "bool option"
  opt_svc :: "string option"
  opt_datachannel :: "bool option"
  opt_throttleSecret :: "string option"
  opt_e2eKey :: "string option"

definition default_options :: options where
  "default_options = \<lparr>opt_useSimulcast = Some False, opt_useSharingSimulcast = Some False,
     opt_forceTcp = None, opt_produce = Some True, opt_consume = Some True, opt_forceH264 = None,
     opt_forceVP9 = None, opt_svc = None, opt_datachannel = Some True, opt_throttleSecret = None,
     opt_e2eKey = None\<rparr>"

record encoding =
  rid :: string
  active :: bool
  max_bitrate_bps :: nat
  scale_resolution_down_by :: nat

text \<open>
  \<open>mc_device\<close> holds the kinds \<^verbatim>\<open>CanProduce\<close> answers true for; the transports matter to the
  controller only as present or absent.
\<close>

record media =
  mc_options :: options
  mc_api :: bool
  mc_device :: "string list option"
  mc_sendTransport :: bool
  mc_recvTransport :: bool
  mc_encodings :: "encoding list"
  mc_micProducer :: "producer option"
  mc_producerMap :: "(string, producer option) umap"
  mc_sourceMap :: "(string, (nat \<times> nat) option) umap"
  mc_consumerMap :: "(string, consumer option) umap"
  mc_dataConsumerMap :: "(string, string) umap"
  mc_consumerIdToPeerId :: "(string, string) umap"

definition new_media :: "options \<Rightarrow> bool \<Rightarrow> media" where
  "new_media opts api = \<lparr>mc_options = opts, mc_api = api, mc_device = None, mc_sendTransport = False,
     mc_recvTransport = False, mc_encodings = [], mc_micProducer = None, mc_producerMap = [],
     mc_sourceMap = [], mc_consumerMap = [], mc_dataConsumerMap = [], mc_consumerIdToPeerId = []\<rparr>"

text \<open>What the observers hear; the track of a removal is always the null pointer.\<close>

datatype media_event =
    EvAudioState string bool
  | EvVideoState string bool
  | EvCreateAudioTrack string string string
  | EvRemoveAudioTrack string string
  | EvCreateVideoTrack string string string "jval option list"
  | EvRemoveVideoTrack string string
  | EvUncaught fault

datatype mc_out =
    ApiCloseProducer string
  | ApiPauseProducer string
  | ApiResumeProducer string
  | ApiPauseConsumer string
  | ApiResumeConsumer string
  | ApiResponse "int option"
  | ApiSetConsumerPreferredLayers string int int
  | Media media_event

type_synonym mc_result = "fault + media \<times> mc_out list"

subsection \<open>Setup and tear-down\<close>

definition configVideoEncodings :: "media \<Rightarrow> media" where
  "configVideoEncodings mc = mc\<lparr>mc_encodings :=
     [\<lparr>rid = ''h'', active = True, max_bitrate_bps = 5000000, scale_resolution_down_by = 1\<rparr>,
      \<lparr>rid = ''m'', active = True, max_bitrate_bps = 1000000, scale_resolution_down_by = 2\<rparr>,
      \<lparr>rid = ''m'', active = True, max_bitrate_bps = 500000, scale_resolution_down_by = 4\<rparr>]\<rparr>"

definition MediaController_init :: "media \<Rightarrow> media" where
  "MediaController_init mc = configVideoEncodings mc"

text \<open>The two loops that close through a pointer without looking at it.\<close>

fun close_producers :: "(string, producer option) umap \<Rightarrow> fault + (string, producer option) umap" where
  "close_producers [] = Inr []"
| "close_producers ((n, None) # ps) = Inl (NullDeref ''_producerMap'')"
| "close_producers ((n, Some p) # ps) = ebind (close_producers ps) (\<lambda>qs. Inr ((n, None) # qs))"

fun close_consumers :: "(string, consumer option) umap \<Rightarrow> fault + unit" where
  "close_consumers [] = Inr ()"
| "close_consumers ((n, None) # cs) = Inl (NullDeref ''_consumerMap'')"
| "close_consumers ((n, Some c) # cs) = close_consumers cs"

definition MediaController_destroy :: "media \<Rightarrow> fault + media" where
  "MediaController_destroy mc =
     ebind (close_producers (mc_producerMap mc))
       (\<lambda>ps. ebind (close_consumers (mc_consumerMap mc))
         (\<lambda>_. Inr (mc\<lparr>mc_micProducer := None, mc_producerMap := ps, mc_dataConsumerMap := [],
                      mc_consumerMap := [],
                      mc_sourceMap := map (\<lambda>(n, _). (n, None)) (mc_sourceMap mc)\<rparr>)))"

definition setMediasoupDevice :: "string list option \<Rightarrow> media \<Rightarrow> media" where
  "setMediasoupDevice device mc = mc\<lparr>mc_device := device\<rparr>"

definition setSendTransport :: "bool \<Rightarrow> media \<Rightarrow> media" where
  "setSendTransport t mc = mc\<lparr>mc_sendTransport := t\<rparr>"

definition setRecvTransport :: "bool \<Rightarrow> media \<Rightarrow> media" where
  "setRecvTransport t mc = mc\<lparr>mc_recvTransport := t\<rparr>"

subsection \<open>Local media\<close>

text \<open>\<open>Produce kind track encodings appData\<close>.\<close>

type_synonym produce_fun =
  "string \<Rightarrow> string \<Rightarrow> encoding list option \<Rightarrow> json \<Rightarrow> string + producer"

definition MediaController_enableAudio :: "produce_fun \<Rightarrow> bool \<Rightarrow> media \<Rightarrow> mc_result" where
  "MediaController_enableAudio Produce enabled mc =
     (case mc_device mc of
        None \<Rightarrow> Inr (mc, [])
      | Some kinds \<Rightarrow>
          if ''audio'' \<notin> set kinds then Inr (mc, [])
          else if \<not> mc_sendTransport mc then Inr (mc, [])
          else if enabled then
            (case mc_micProducer mc of
               Some _ \<Rightarrow> Inr (mc, [])
             | None \<Rightarrow>
                 ebind (lib_call (Produce ''audio'' ''mic-track'' None JNull))
                   (\<lambda>p. Inr (mc\<lparr>mc_micProducer := Some p\<rparr>, [])))
          else if \<not> mc_api mc then Inr (mc, [])
          else (case mc_micProducer mc of
                  None \<Rightarrow> Inr (mc, [])
                | Some p \<Rightarrow> Inr (mc\<lparr>mc_micProducer := None\<rparr>, [ApiCloseProducer (pr_id p)])))"

definition MediaController_muteMic :: "bool \<Rightarrow> media \<Rightarrow> media \<times> mc_out list" where
  "MediaController_muteMic muted mc =
     (if \<not> mc_api mc then (mc, [])
      else case mc_micProducer mc of
        None \<Rightarrow> (mc, [])
      | Some p \<Rightarrow>
          if muted then (mc\<lparr>mc_micProducer := Some (Producer_Pause p)\<rparr>, [ApiPauseProducer (pr_id p)])
          else (mc\<lparr>mc_micProducer := Some (Producer_Resume p)\<rparr>, [ApiResumeProducer (pr_id p)]))"

definition MediaController_isMicMuted :: "media \<Rightarrow> bool" where
  "MediaController_isMicMuted mc =
     (case mc_micProducer mc of None \<Rightarrow> True | Some p \<Rightarrow> Producer_IsPaused p)"

definition MediaController_enableVideo ::
  "produce_fun \<Rightarrow> bool \<Rightarrow> string \<Rightarrow> nat \<Rightarrow> nat \<Rightarrow> media \<Rightarrow> mc_result" where
  "MediaController_enableVideo Produce enabled name width height mc =
     (case mc_device mc of
        None \<Rightarrow> Inr (mc, [])
      | Some kinds \<Rightarrow>
          if ''video'' \<notin> set kinds then Inr (mc, [])
          else if \<not> mc_sendTransport mc then Inr (mc, [])
          else
            let (videoProducer, pm) = um_index None name (mc_producerMap mc);
                (videoSource, sm) = um_index None name (mc_sourceMap mc);
                mc1 = mc\<lparr>mc_producerMap := pm, mc_sourceMap := sm\<rparr>
            in if enabled then
                 if videoProducer \<noteq> None then Inr (mc1, [])
                 else if videoSource \<noteq> None then Inr (mc1, [])
                 else
                   ebind (lib_call (Produce ''video'' name
                           (if value_or (opt_useSimulcast (mc_options mc)) False then Some (mc_encodings mc) else None)
                           (SharingAppData_to_json \<lparr>sharing = \<lparr>trackName = name\<rparr>\<rparr>)))
                     (\<lambda>p. Inr (mc1\<lparr>mc_sourceMap := um_put name (Some (width, height)) sm,
                                 mc_producerMap := um_put name (Some p) pm\<rparr>, []))
               else
                 let mc2 = mc1\<lparr>mc_sourceMap := um_put name None sm\<rparr>
                 in if \<not> mc_api mc then Inr (mc2, [])
                    else (case videoProducer of
                            None \<Rightarrow> Inr (mc2, [])
                          | Some p \<Rightarrow>
                              Inr (mc2\<lparr>mc_producerMap := um_put name None pm\<rparr>, [ApiCloseProducer (pr_id p)])))"

text \<open>\<open>inputFrame\<close> hands the frame to the source of that track, if there is one.\<close>

definition MediaController_inputFrame ::
  "string \<Rightarrow> string \<Rightarrow> media \<Rightarrow> media \<times> (string \<times> string) list" where
  "MediaController_inputFrame name data mc =
     (let (ref, sm) = um_index None name (mc_sourceMap mc)
      in (mc\<lparr>mc_sourceMap := sm\<rparr>, case ref of None \<Rightarrow> [] | Some _ \<Rightarrow> [(name, data)]))"

subsection \<open>Remote media\<close>

text \<open>The loop of \<open>muteAudio(pid, muted)\<close> and \<open>muteVideo(pid, muted)\<close> over \<open>_consumerIdToPeerId\<close>.\<close>

fun mute_loop :: "string \<Rightarrow> string \<Rightarrow> bool \<Rightarrow> (string, string) umap \<Rightarrow> media \<Rightarrow> mc_result" where
  "mute_loop kind pid muted [] mc = Inr (mc, [])"
| "mute_loop kind pid muted ((tid, p) # ps) mc =
     (if p = pid then
        (case um_find (mc_consumerMap mc) tid of
           None \<Rightarrow> Inr (mc, [])
         | Some None \<Rightarrow> Inl (NullDeref ''consumer'')
         | Some (Some c) \<Rightarrow>
             if co_kind c = kind then
               let c' = (if muted then Consumer_Pause c else Consumer_Resume c);
                   out = (if muted then ApiPauseConsumer (co_id c) else ApiResumeConsumer (co_id c))
               in ebind (mute_loop kind pid muted ps (mc\<lparr>mc_consumerMap := um_put tid (Some c') (mc_consumerMap mc)\<rparr>))
                    (\<lambda>(mc', outs). Inr (mc', out # outs))
             else mute_loop kind pid muted ps mc)
      else mute_loop kind pid muted ps mc)"

definition MediaController_muteAudio :: "string \<Rightarrow> bool \<Rightarrow> media \<Rightarrow> mc_result" where
  "MediaController_muteAudio pid muted mc =
     (if \<not> mc_api mc then Inr (mc, [])
      else mute_loop ''audio'' pid muted (mc_consumerIdToPeerId mc) mc)"

definition MediaController_muteVideo :: "string \<Rightarrow> bool \<Rightarrow> media \<Rightarrow> mc_result" where
  "MediaController_muteVideo pid muted mc =
     (if \<not> mc_api mc then Inr (mc, [])
      else mute_loop ''video'' pid muted (mc_consumerIdToPeerId mc) mc)"

text \<open>
  The loop of \<open>isAudioMuted(pid)\<close> and \<open>isVideoMuted(pid)\<close>: \<^verbatim>\<open>_consumerMap[tid]\<close> yields a null
  pointer when the id is not a consumer, and the pointer is dereferenced at once.
\<close>

fun muted_loop :: "string \<Rightarrow> string \<Rightarrow> (string, string) umap \<Rightarrow> (string, consumer option) umap \<Rightarrow> fault + bool" where
  "muted_loop kind pid [] cm = Inr True"
| "muted_loop kind pid ((tid, p) # ps) cm =
     (if p = pid then
        (case fst (um_index None tid cm) of
           None \<Rightarrow> Inl (NullDeref ''consumer'')
         | Some c \<Rightarrow>
             if co_kind c = kind \<and> \<not> Consumer_IsPaused c then Inr False
             else muted_loop kind pid ps cm)
      else muted_loop kind pid ps cm)"

definition MediaController_isAudioMuted :: "string \<Rightarrow> media \<Rightarrow> fault + bool" where
  "MediaController_isAudioMuted pid mc =
     muted_loop ''audio'' pid (mc_consumerIdToPeerId mc) (mc_consumerMap mc)"

definition MediaController_isVideoMuted :: "string \<Rightarrow> media \<Rightarrow> fault + bool" where
  "MediaController_isVideoMuted pid mc =
     muted_loop ''video'' pid (mc_consumerIdToPeerId mc) (mc_consumerMap mc)"

text \<open>\<open>getRemoteAudioTracks\<close> does not look at its argument.\<close>

fun audio_tracks :: "(string, consumer option) umap \<Rightarrow> (string, string) umap \<Rightarrow> fault + (string, string) umap" where
  "audio_tracks [] tracks = Inr tracks"
| "audio_tracks ((tid, None) # cs) tracks = Inl (NullDeref ''consumer'')"
| "audio_tracks ((tid, Some c) # cs) tracks =
     audio_tracks cs (if co_kind c = ''audio'' then um_put tid (co_track c) tracks else tracks)"

definition getRemoteAudioTracks :: "string \<Rightarrow> media \<Rightarrow> fault + (string, string) umap" where
  "getRemoteAudioTracks pid mc = audio_tracks (mc_consumerMap mc) []"

fun video_tracks ::
  "string \<Rightarrow> (string, consumer option) umap \<Rightarrow> (string, string) umap \<Rightarrow> (string, string) umap \<Rightarrow>
     fault + (string, string) umap \<times> (string, string) umap" where
  "video_tracks pid [] peers tracks = Inr (peers, tracks)"
| "video_tracks pid ((tid, None) # cs) peers tracks = Inl (NullDeref ''consumer'')"
| "video_tracks pid ((tid, Some c) # cs) peers tracks =
     (let (peerId, peers') = um_index [] tid peers
      in video_tracks pid cs peers'
           (if co_kind c = ''video'' \<and> peerId = pid then um_put tid (co_track c) tracks else tracks))"

definition getRemoteVideoTracks :: "string \<Rightarrow> media \<Rightarrow> fault + media \<times> (string, string) umap" where
  "getRemoteVideoTracks pid mc =
     ebind (video_tracks pid (mc_consumerMap mc) (mc_consumerIdToPeerId mc) [])
       (\<lambda>(peers, tracks). Inr (mc\<lparr>mc_consumerIdToPeerId := peers\<rparr>, tracks))"

text \<open>The loop of \<open>updateConsumer\<close> over \<open>_consumerMap\<close>.\<close>

fun update_loop :: "string \<Rightarrow> bool \<Rightarrow> (string, consumer option) umap \<Rightarrow> media \<Rightarrow> mc_result" where
  "update_loop tid paused [] mc = Inr (mc, [])"
| "update_loop tid paused ((k, None) # cs) mc = Inl (NullDeref ''consumer'')"
| "update_loop tid paused ((k, Some c) # cs) mc =
     (if co_id c = tid then
        let (peerId, peers) = um_index [] (co_id c) (mc_consumerIdToPeerId mc);
            c' = (if paused then Consumer_Pause c else Consumer_Resume c);
            paused' = Consumer_IsPaused c';
            evs = (if co_kind c = ''audio'' then [Media (EvAudioState peerId paused')]
                   else if co_kind c = ''video'' then [Media (EvVideoState peerId paused')] else [])
        in ebind (update_loop tid paused cs
                    (mc\<lparr>mc_consumerIdToPeerId := peers,
                        mc_consumerMap := um_put k (Some c') (mc_consumerMap mc)\<rparr>))
             (\<lambda>(mc', outs). Inr (mc', evs @ outs))
      else update_loop tid paused cs mc)"

definition updateConsumer :: "string \<Rightarrow> bool \<Rightarrow> media \<Rightarrow> mc_result" where
  "updateConsumer tid paused mc = update_loop tid paused (mc_consumerMap mc) mc"

subsection \<open>Consumers announced by the server\<close>

text \<open>\<open>Consume id producerId kind rtpParameters appData\<close>.\<close>

type_synonym consume_fun = "string \<Rightarrow> string \<Rightarrow> string \<Rightarrow> json \<Rightarrow> json \<Rightarrow> string + consumer"

text \<open>The task each observer runs for a new consumer; \<open>peerId\<close> is read there with \<^verbatim>\<open>value()\<close>.\<close>

definition new_consumer_events ::
  "consumer \<Rightarrow> string option \<Rightarrow> bool \<Rightarrow> jval option list \<Rightarrow> media_event list" where
  "new_consumer_events c peerId producerPaused appData =
     (if co_kind c = ''audio'' then
        (case peerId of
           None \<Rightarrow> [EvUncaught (BadOptionalAccess ''peerId'')]
         | Some p \<Rightarrow> [EvCreateAudioTrack p (co_id c) (co_track c), EvAudioState p producerPaused])
      else if co_kind c = ''video'' then
        (case peerId of
           None \<Rightarrow> [EvUncaught (BadOptionalAccess ''peerId'')]
         | Some p \<Rightarrow> [EvCreateVideoTrack p (co_id c) (co_track c) appData, EvVideoState p producerPaused])
      else [])"

definition createNewConsumer :: "consume_fun \<Rightarrow> jval option list option \<Rightarrow> media \<Rightarrow> mc_result" where
  "createNewConsumer Consume request mc =
     (case request of
        None \<Rightarrow> Inr (mc, [])
      | Some rq \<Rightarrow>
          if \<not> value_or (opt_consume (mc_options mc)) False then Inr (mc, [])
          else if \<not> mc_recvTransport mc then Inr (mc, [])
          else
            ebind (deref ''data'' (the_obj (member NewConsumerRequest ''data'' rq))) (\<lambda>d.
            let field = (\<lambda>n. member NewConsumerRequest_Data n d) in
            ebind (deref ''rtpParameters'' (the_obj (field ''rtpParameters''))) (\<lambda>rtp.
            ebind (deref ''appData'' (the_obj (field ''appData''))) (\<lambda>appData.
            ebind (deref ''id'' (the_str (field ''id''))) (\<lambda>i.
            ebind (deref ''producerId'' (the_str (field ''producerId''))) (\<lambda>producerId.
            ebind (deref ''kind'' (the_str (field ''kind''))) (\<lambda>kind.
            ebind (lib_call (Consume i producerId kind
                     (jserialize (fields_of NewConsumerRequest_RTPParameters) rtp)
                     (jserialize (fields_of NewConsumerRequest_AppData) appData))) (\<lambda>c.
                let mc' = mc\<lparr>mc_consumerMap := um_put i (Some c) (mc_consumerMap mc),
                             mc_consumerIdToPeerId :=
                               um_put i (value_or (the_str (field ''peerId'')) []) (mc_consumerIdToPeerId mc)\<rparr>
                in ebind (deref ''producerPaused'' (the_bool (field ''producerPaused''))) (\<lambda>producerPaused.
                   let evs = map Media (new_consumer_events c (the_str (field ''peerId'')) producerPaused appData)
                   in if \<not> mc_api mc then Inr (mc', evs)
                      else Inr (mc', evs @
                             [ApiResponse (the_int (member NewConsumerRequest ''id'' rq)),
                              ApiSetConsumerPreferredLayers i 1 1]))))))))))"

text \<open>\<open>ConsumeData id dataProducerId streamId label protocol appData\<close>: the id of the data consumer.\<close>

type_synonym consume_data_fun =
  "string \<Rightarrow> string \<Rightarrow> int \<Rightarrow> string \<Rightarrow> string \<Rightarrow> json \<Rightarrow> string + string"

definition createNewDataConsumer :: "consume_data_fun \<Rightarrow> jval option list option \<Rightarrow> media \<Rightarrow> mc_result" where
  "createNewDataConsumer ConsumeData request mc =
     (case request of
        None \<Rightarrow> Inr (mc, [])
      | Some rq \<Rightarrow>
          if \<not> value_or (opt_consume (mc_options mc)) False then Inr (mc, [])
          else if \<not> value_or (opt_datachannel (mc_options mc)) False then Inr (mc, [])
          else if \<not> mc_recvTransport mc then Inr (mc, [])
          else
            ebind (deref ''data'' (the_obj (member NewDataConsumerRequest ''data'' rq))) (\<lambda>d.
            let field = (\<lambda>n. member NewDataConsumerRequest_Data n d) in
            ebind (deref ''appData'' (the_obj (field ''appData''))) (\<lambda>appData.
            ebind (deref ''id'' (the_str (field ''id''))) (\<lambda>i.
            ebind (deref ''dataProducerId'' (the_str (field ''dataProducerId''))) (\<lambda>dataProducerId.
            ebind (deref ''sctpStreamParameters'' (the_obj (field ''sctpStreamParameters''))) (\<lambda>sctp.
            ebind (deref ''streamId'' (the_int (member NewDataConsumerRequest_SCTPStreamParameters ''streamId'' sctp)))
              (\<lambda>streamId.
            ebind (deref ''label'' (the_str (field ''label''))) (\<lambda>label.
            ebind (deref ''protocol'' (the_str (field ''protocol''))) (\<lambda>protocol.
            ebind (lib_call (ConsumeData i dataProducerId streamId label protocol
                     (jserialize (fields_of NewDataConsumerRequest_AppData) appData))) (\<lambda>dc.
                let mc' = mc\<lparr>mc_dataConsumerMap := um_put i dc (mc_dataConsumerMap mc),
                             mc_consumerIdToPeerId :=
                               um_put i (value_or (the_str (field ''peerId'')) []) (mc_consumerIdToPeerId mc)\<rparr>
                in if \<not> mc_api mc then Inr (mc', [])
                   else Inr (mc', [ApiResponse (the_int (member NewDataConsumerRequest ''id'' rq))])))))))))))"

subsection \<open>Signaling events\<close>

text \<open>A handler posts a task to the mediasoup thread; \<open>run_media_task\<close> runs it.\<close>

datatype media_task =
    TaskNewConsumer "jval option list option"
  | TaskNewDataConsumer "jval option list option"
  | TaskUpdateConsumer string bool
  | TaskConsumerClosed "jval option list option"

definition MediaController_onNewConsumer :: "jval option list option \<Rightarrow> media_task list" where
  "MediaController_onNewConsumer request = [TaskNewConsumer request]"

definition MediaController_onNewDataConsumer :: "jval option list option \<Rightarrow> media_task list" where
  "MediaController_onNewDataConsumer request = [TaskNewDataConsumer request]"

definition MediaController_onConsumerPaused :: "jval option list option \<Rightarrow> fault + media_task list" where
  "MediaController_onConsumerPaused notification =
     (case notification of
        None \<Rightarrow> Inr []
      | Some n \<Rightarrow>
          ebind (deref ''data'' (the_obj (member ConsumerPausedNotification ''data'' n))) (\<lambda>d.
          let tid = value_or (the_str (member ConsumerPausedNotification_Data ''consumerId'' d)) [] in
          if tid = [] then Inr [] else Inr [TaskUpdateConsumer tid True]))"

definition MediaController_onConsumerResumed :: "jval option list option \<Rightarrow> fault + media_task list" where
  "MediaController_onConsumerResumed notification =
     (case notification of
        None \<Rightarrow> Inr []
      | Some n \<Rightarrow>
          ebind (deref ''data'' (the_obj (member ConsumerResumedNotification ''data'' n))) (\<lambda>d.
          let tid = value_or (the_str (member ConsumerResumedNotification_Data ''consumerId'' d)) [] in
          if tid = [] then Inr [] else Inr [TaskUpdateConsumer tid False]))"

definition MediaController_onConsumerClosed :: "jval option list option \<Rightarrow> media_task list" where
  "MediaController_onConsumerClosed notification = [TaskConsumerClosed notification]"

text \<open>
  The task of \<open>onConsumerClosed\<close>: the notification is only looked at when there is a consumer.
  The comparison reads the id inside the loop; \<open>closed_id\<close> is that reading.
\<close>

definition closed_id :: "jval option list option \<Rightarrow> fault + string" where
  "closed_id notification =
     (case notification of
        None \<Rightarrow> Inl (NullDeref ''notification'')
      | Some n \<Rightarrow>
          ebind (deref ''data'' (the_obj (member ConsumerClosedNotification ''data'' n))) (\<lambda>d.
          Inr (value_or (the_str (member ConsumerClosedNotification_Data ''consumerId'' d)) [])))"

fun closed_loop :: "jval option list option \<Rightarrow> (string, consumer option) umap \<Rightarrow> media \<Rightarrow> mc_result" where
  "closed_loop notification [] mc = Inr (mc, [])"
| "closed_loop notification ((k, None) # cs) mc = Inl (NullDeref ''consumer'')"
| "closed_loop notification ((k, Some c) # cs) mc =
     ebind (closed_id notification) (\<lambda>cid.
       if co_id c = cid then
         let tid = co_id c;
             (peerId, peers) = um_index [] tid (mc_consumerIdToPeerId mc);
             evs = (if co_kind c = ''audio''
                    then [Media (EvAudioState peerId True), Media (EvRemoveAudioTrack peerId tid)]
                    else if co_kind c = ''video''
                    then [Media (EvVideoState peerId True), Media (EvRemoveVideoTrack peerId tid)]
                    else [])
         in Inr (mc\<lparr>mc_consumerIdToPeerId := um_erase tid peers,
                    mc_consumerMap := um_erase tid (mc_consumerMap mc)\<rparr>, evs)
       else closed_loop notification cs mc)"

fun run_media_task :: "consume_fun \<Rightarrow> consume_data_fun \<Rightarrow> media_task \<Rightarrow> media \<Rightarrow> mc_result" where
  "run_media_task Consume ConsumeData (TaskNewConsumer rq) mc = createNewConsumer Consume rq mc"
| "run_media_task Consume ConsumeData (TaskNewDataConsumer rq) mc = createNewDataConsumer ConsumeData rq mc"
| "run_media_task Consume ConsumeData (TaskUpdateConsumer tid paused) mc = updateConsumer tid paused mc"
| "run_media_task Consume ConsumeData (TaskConsumerClosed n) mc = closed_loop n (mc_consumerMap mc) mc"

subsection \<open>The invariant of the consumer tables\<close>

text \<open>
  Every entry of \<open>_consumerMap\<close> points to an open consumer with that id, and every consumer has
  a peer.
\<close>

definition consumer_ok :: "(string, string) umap \<Rightarrow> string \<times> consumer option \<Rightarrow> bool" where
  "consumer_ok peers e =
     (case snd e of None \<Rightarrow> False
      | Some c \<Rightarrow> co_id c = fst e \<and> \<not> co_closed c \<and> um_find peers (fst e) \<noteq> None)"

definition media_inv :: "media \<Rightarrow> bool" where
  "media_inv mc \<longleftrightarrow> um_wf (mc_consumerMap mc) \<and> um_wf (mc_consumerIdToPeerId mc) \<and>
     list_all (consumer_ok (mc_consumerIdToPeerId mc)) (mc_consumerMap mc)"

lemma media_inv_new: "media_inv (new_media opts api)"
  by (simp add: media_inv_def new_media_def)

lemma media_inv_find:
  assumes "media_inv mc" and "um_find (mc_consumerMap mc) tid = Some x"
  shows "\<exists>c. x = Some c \<and> co_id c = tid \<and> \<not> co_closed c \<and> um_find (mc_consumerIdToPeerId mc) tid \<noteq> None"
proof -
  from assms have "(tid, x) \<in> set (mc_consumerMap mc)"
    by (auto simp: um_find_def dest: map_of_SomeD)
  with assms(1) have "consumer_ok (mc_consumerIdToPeerId mc) (tid, x)"
    by (auto simp: media_inv_def list_all_iff)
  then show ?thesis by (cases x) (auto simp: consumer_ok_def)
qed

lemma media_inv_intro:
  assumes "um_wf (mc_consumerMap mc)" and "um_wf (mc_consumerIdToPeerId mc)"
    and "\<And>tid x. um_find (mc_consumerMap mc) tid = Some x \<Longrightarrow>
      \<exists>c. x = Some c \<and> co_id c = tid \<and> \<not> co_closed c \<and> um_find (mc_consumerIdToPeerId mc) tid \<noteq> None"
  shows "media_inv mc"
  using assms by (fastforce simp: media_inv_def list_all_iff um_find_in_set consumer_ok_def)

lemma media_inv_wf:
  assumes "media_inv mc"
  shows "um_wf (mc_consumerMap mc)" and "um_wf (mc_consumerIdToPeerId mc)"
  using assms by (simp_all add: media_inv_def)

lemma media_inv_cong:
  "mc_consumerMap mc' = mc_consumerMap mc \<Longrightarrow> mc_consumerIdToPeerId mc' = mc_consumerIdToPeerId mc \<Longrightarrow>
     media_inv mc \<Longrightarrow> media_inv mc'"
  by (simp add: media_inv_def)

text \<open>Replacing a consumer by itself in another pause state keeps the tables well formed.\<close>

lemma media_inv_replace:
  assumes "media_inv mc" and "um_find (mc_consumerMap mc) tid \<noteq> None"
    and "co_id c = tid" and "\<not> co_closed c"
  shows "media_inv (mc\<lparr>mc_consumerMap := um_put tid (Some c) (mc_consumerMap mc)\<rparr>)"
proof (rule media_inv_intro)
  fix t x
  assume "um_find (mc_consumerMap (mc\<lparr>mc_consumerMap := um_put tid (Some c) (mc_consumerMap mc)\<rparr>)) t = Some x"
  then show "\<exists>d. x = Some d \<and> co_id d = t \<and> \<not> co_closed d \<and>
      um_find (mc_consumerIdToPeerId (mc\<lparr>mc_consumerMap := um_put tid (Some c) (mc_consumerMap mc)\<rparr>)) t \<noteq> None"
    using assms(2-4) media_inv_find [OF assms(1), of t] by (auto split: if_splits)
qed (simp_all add: media_inv_wf [OF assms(1)])

lemma pause_keeps [simp]:
  "co_id (Consumer_Pause c) = co_id c" "co_kind (Consumer_Pause c) = co_kind c"
  "co_closed (Consumer_Pause c) = co_closed c" "co_track (Consumer_Pause c) = co_track c"
  "co_id (Consumer_Resume c) = co_id c" "co_kind (Consumer_Resume c) = co_kind c"
  "co_closed (Consumer_Resume c) = co_closed c" "co_track (Consumer_Resume c) = co_track c"
  by (simp_all add: Consumer_Pause_def Consumer_Resume_def)

lemma pause_effect [simp]:
  "\<not> co_closed c \<Longrightarrow> Consumer_IsPaused (Consumer_Pause c)"
  "\<not> co_closed c \<Longrightarrow> \<not> Consumer_IsPaused (Consumer_Resume c)"
  by (simp_all add: Consumer_Pause_def Consumer_Resume_def Consumer_IsPaused_def)

subsection \<open>Muting a remote peer\<close>

definition mute_consumer :: "string \<Rightarrow> bool \<Rightarrow> consumer \<Rightarrow> consumer" where
  "mute_consumer kind muted c =
     (if co_kind c = kind then if muted then Consumer_Pause c else Consumer_Resume c else c)"

abbreviation mute_one :: "string \<Rightarrow> bool \<Rightarrow> consumer option \<Rightarrow> consumer option" where
  "mute_one kind muted \<equiv> map_option (mute_consumer kind muted)"

lemma mute_consumer_simps [simp]:
  "co_kind (mute_consumer k m c) = co_kind c" "co_closed (mute_consumer k m c) = co_closed c"
  "co_kind c \<noteq> k \<Longrightarrow> mute_consumer k m c = c"
  "co_kind c = k \<Longrightarrow> \<not> co_closed c \<Longrightarrow> Consumer_IsPaused (mute_consumer k m c) = m"
  by (simp_all add: mute_consumer_def)

definition mute_outs :: "string \<Rightarrow> string \<Rightarrow> bool \<Rightarrow> (string, string) umap \<Rightarrow> (string, consumer option) umap \<Rightarrow> mc_out list" where
  "mute_outs kind pid muted ps cm =
     concat (map (\<lambda>(tid, p). case um_find cm tid of
         Some (Some c) \<Rightarrow> if p = pid \<and> co_kind c = kind
                          then [if muted then ApiPauseConsumer tid else ApiResumeConsumer tid] else []
       | _ \<Rightarrow> []) ps)"

text \<open>All ids registered for the peer are consumers (none of them is a data consumer).\<close>

definition all_consumers :: "string \<Rightarrow> (string, string) umap \<Rightarrow> (string, consumer option) umap \<Rightarrow> bool" where
  "all_consumers pid ps cm \<longleftrightarrow> list_all (\<lambda>(tid, p). p = pid \<longrightarrow> um_find cm tid \<noteq> None) ps"

lemma mute_outs_frame:
  "tid \<notin> fst ` set ps \<Longrightarrow> mute_outs kind pid muted ps (um_put tid x cm) = mute_outs kind pid muted ps cm"
  by (induction ps) (auto simp: mute_outs_def)

lemma all_consumers_put:
  "all_consumers pid ps cm \<Longrightarrow> all_consumers pid ps (um_put tid x cm)"
  by (auto simp: all_consumers_def list_all_iff)

lemma mute_loop_spec:
  assumes "media_inv mc" and "distinct (map fst ps)" and "all_consumers pid ps (mc_consumerMap mc)"
  shows "\<exists>cm'. mute_loop kind pid muted ps mc =
      Inr (mc\<lparr>mc_consumerMap := cm'\<rparr>, mute_outs kind pid muted ps (mc_consumerMap mc)) \<and>
    media_inv (mc\<lparr>mc_consumerMap := cm'\<rparr>) \<and>
    (\<forall>tid. um_find cm' tid =
       (if (tid, pid) \<in> set ps then map_option (mute_one kind muted) (um_find (mc_consumerMap mc) tid)
        else um_find (mc_consumerMap mc) tid))"
  using assms
proof (induction ps arbitrary: mc)
  case Nil
  have "mc\<lparr>mc_consumerMap := mc_consumerMap mc\<rparr> = mc" by simp
  with Nil show ?case by (intro exI [of _ "mc_consumerMap mc"]) (simp add: mute_outs_def)
next
  case (Cons e ps)
  obtain tid p where e: "e = (tid, p)" by (cases e)
  have new: "tid \<notin> fst ` set ps" and dist: "distinct (map fst ps)" using Cons.prems(2) e by auto
  have all: "all_consumers pid ps (mc_consumerMap mc)" using Cons.prems(3) by (simp add: all_consumers_def)
  show ?case
  proof (cases "p = pid \<and> (\<exists>c. um_find (mc_consumerMap mc) tid = Some (Some c) \<and> co_kind c = kind)")
    case True
    then obtain c where c: "um_find (mc_consumerMap mc) tid = Some (Some c)" "co_kind c = kind" and p: "p = pid"
      by blast
    let ?c = "if muted then Consumer_Pause c else Consumer_Resume c"
    let ?cm = "um_put tid (Some ?c) (mc_consumerMap mc)"
    have c': "co_id c = tid" "\<not> co_closed c" using media_inv_find [OF Cons.prems(1) c(1)] by auto
    have "media_inv (mc\<lparr>mc_consumerMap := ?cm\<rparr>)"
      by (rule media_inv_replace [OF Cons.prems(1)]) (use c c' in auto)
    from Cons.IH [OF this dist] obtain cm' where
      cm': "mute_loop kind pid muted ps (mc\<lparr>mc_consumerMap := ?cm\<rparr>) =
          Inr (mc\<lparr>mc_consumerMap := cm'\<rparr>, mute_outs kind pid muted ps ?cm)"
      "media_inv (mc\<lparr>mc_consumerMap := cm'\<rparr>)"
      "\<forall>t. um_find cm' t = (if (t, pid) \<in> set ps then map_option (mute_one kind muted) (um_find ?cm t)
         else um_find ?cm t)"
      using all_consumers_put [OF all] by auto
    have "mute_loop kind pid muted (e # ps) mc =
        Inr (mc\<lparr>mc_consumerMap := cm'\<rparr>, mute_outs kind pid muted (e # ps) (mc_consumerMap mc))"
      using cm'(1) c c' p new
      by (simp add: e Let_def mute_outs_frame) (simp add: mute_outs_def)
    moreover have "um_find cm' t =
       (if (t, pid) \<in> set (e # ps) then map_option (mute_one kind muted) (um_find (mc_consumerMap mc) t)
        else um_find (mc_consumerMap mc) t)" for t
      using cm'(3) c p new by (force simp: e mute_consumer_def)
    ultimately show ?thesis using cm'(2) by blast
  next
    case False
    obtain cm' where
      cm': "mute_loop kind pid muted ps mc =
          Inr (mc\<lparr>mc_consumerMap := cm'\<rparr>, mute_outs kind pid muted ps (mc_consumerMap mc))"
      "media_inv (mc\<lparr>mc_consumerMap := cm'\<rparr>)"
      "\<forall>t. um_find cm' t = (if (t, pid) \<in> set ps then map_option (mute_one kind muted) (um_find (mc_consumerMap mc) t)
         else um_find (mc_consumerMap mc) t)"
      using Cons.IH [OF Cons.prems(1) dist all] by blast
    show ?thesis
    proof (cases "p = pid")
      case True
      with Cons.prems(3) obtain x where x: "um_find (mc_consumerMap mc) tid = Some x"
        by (auto simp: e all_consumers_def)
      then obtain c where c: "x = Some c" using media_inv_find [OF Cons.prems(1)] by blast
      with False x True have k: "co_kind c \<noteq> kind" by auto
      have "(tid, pid) \<notin> set ps" using new by force
      with cm' x c k True show ?thesis
        by (intro exI [of _ cm']) (auto simp: e mute_outs_def)
    next
      case False
      with cm' show ?thesis
        by (intro exI [of _ cm']) (auto simp: e mute_outs_def split: option.splits)
    qed
  qed
qed

lemma muted_loop_spec:
  assumes "\<And>tid. (tid, pid) \<in> set ps \<Longrightarrow> \<exists>c. um_find cm tid = Some (Some c)"
  shows "muted_loop kind pid ps cm =
    Inr (list_all (\<lambda>(tid, p). p = pid \<longrightarrow> (case um_find cm tid of
        Some (Some c) \<Rightarrow> co_kind c = kind \<longrightarrow> Consumer_IsPaused c | _ \<Rightarrow> True)) ps)"
  using assms
proof (induction ps)
  case (Cons e ps)
  obtain tid p where e: "e = (tid, p)" by (cases e)
  have IH: "muted_loop kind pid ps cm =
    Inr (list_all (\<lambda>(tid, p). p = pid \<longrightarrow> (case um_find cm tid of
        Some (Some c) \<Rightarrow> co_kind c = kind \<longrightarrow> Consumer_IsPaused c | _ \<Rightarrow> True)) ps)"
    using Cons by auto
  show ?case
  proof (cases "p = pid")
    case True
    with Cons.prems [of tid] e obtain c where "um_find cm tid = Some (Some c)" by auto
    with IH True show ?thesis by (auto simp: e um_index_def)
  qed (use IH in \<open>simp add: e\<close>)
qed simp

text \<open>
  The contract both kinds of remote media share, for the peers whose ids are all consumers:
  muting cannot fail, and what \<open>is_muted\<close> answers is decided by the last call.
\<close>

locale remote_mute =
  fixes mute :: "string \<Rightarrow> bool \<Rightarrow> 's \<Rightarrow> fault + 's \<times> mc_out list"
    and is_muted :: "string \<Rightarrow> 's \<Rightarrow> fault + bool"
    and good :: "string \<Rightarrow> 's \<Rightarrow> bool"
    and has :: "string \<Rightarrow> 's \<Rightarrow> bool"
  assumes mute_total: "good pid s \<Longrightarrow> \<exists>s' outs. mute pid m s = Inr (s', outs) \<and> good pid s' \<and> has pid s' = has pid s"
    and muted_after: "good pid s \<Longrightarrow> mute pid m s = Inr (s', outs) \<Longrightarrow>
      is_muted pid s' = Inr (m \<or> \<not> has pid s)"
begin

fun mutes :: "string \<Rightarrow> bool list \<Rightarrow> 's \<Rightarrow> fault + 's" where
  "mutes pid [] s = Inr s"
| "mutes pid (m # ms) s = ebind (mute pid m s) (\<lambda>(s', outs). mutes pid ms s')"

lemma mutes_total: "good pid s \<Longrightarrow> \<exists>s'. mutes pid ms s = Inr s' \<and> good pid s' \<and> has pid s' = has pid s"
proof (induction ms arbitrary: s)
  case (Cons m ms)
  obtain s1 outs where "mute pid m s = Inr (s1, outs)" "good pid s1" "has pid s1 = has pid s"
    using mute_total [OF Cons.prems, of m] by blast
  with Cons.IH [of s1] show ?case by auto
qed simp

lemma last_mute_decides:
  assumes "good pid s"
  shows "\<exists>s'. mutes pid (ms @ [m]) s = Inr s' \<and> is_muted pid s' = Inr (m \<or> \<not> has pid s)"
  using assms
proof (induction ms arbitrary: s)
  case Nil
  obtain s1 outs where "mute pid m s = Inr (s1, outs)" using mute_total [OF Nil, of m] by blast
  with muted_after [OF Nil] show ?case by auto
next
  case (Cons n ms)
  obtain s1 outs where "mute pid n s = Inr (s1, outs)" "good pid s1" "has pid s1 = has pid s"
    using mute_total [OF Cons.prems, of n] by blast
  with Cons.IH [of s1] show ?case by auto
qed

end

definition peer_ok :: "string \<Rightarrow> media \<Rightarrow> bool" where
  "peer_ok pid mc \<longleftrightarrow> media_inv mc \<and> mc_api mc \<and>
     all_consumers pid (mc_consumerIdToPeerId mc) (mc_consumerMap mc)"

definition peer_has :: "string \<Rightarrow> string \<Rightarrow> media \<Rightarrow> bool" where
  "peer_has kind pid mc = list_ex (\<lambda>(tid, p). p = pid \<and>
     (case um_find (mc_consumerMap mc) tid of Some (Some c) \<Rightarrow> co_kind c = kind | _ \<Rightarrow> False))
     (mc_consumerIdToPeerId mc)"

lemma mute_loop_peer:
  assumes "peer_ok pid mc" and "mute_loop kind pid m (mc_consumerIdToPeerId mc) mc = Inr (mc', outs)"
  shows "peer_ok pid mc'" and "peer_has kind pid mc' = peer_has kind pid mc"
    and "muted_loop kind pid (mc_consumerIdToPeerId mc') (mc_consumerMap mc') = Inr (m \<or> \<not> peer_has kind pid mc)"
proof -
  let ?ps = "mc_consumerIdToPeerId mc"
  have inv: "media_inv mc" and all: "all_consumers pid ?ps (mc_consumerMap mc)"
    using assms(1) by (simp_all add: peer_ok_def)
  from mute_loop_spec [OF inv _ all, of kind m] media_inv_wf(2) [OF inv] assms(2)
  obtain cm' where mc': "mc' = mc\<lparr>mc_consumerMap := cm'\<rparr>" and inv': "media_inv (mc\<lparr>mc_consumerMap := cm'\<rparr>)"
    and cm': "\<And>tid. um_find cm' tid =
       (if (tid, pid) \<in> set ?ps then map_option (mute_one kind m) (um_find (mc_consumerMap mc) tid)
        else um_find (mc_consumerMap mc) tid)"
    by (auto simp: um_wf_def)
  have here: "\<exists>c. um_find (mc_consumerMap mc) tid = Some (Some c) \<and> \<not> co_closed c" if "(tid, pid) \<in> set ?ps" for tid
    using all that media_inv_find [OF inv, of tid] by (fastforce simp: all_consumers_def list_all_iff)
  show "peer_ok pid mc'"
    using assms(1) inv' cm' by (auto simp: peer_ok_def mc' all_consumers_def list_all_iff)
  show "peer_has kind pid mc' = peer_has kind pid mc"
  proof -
    have "(case um_find cm' tid of Some (Some c) \<Rightarrow> co_kind c = kind | _ \<Rightarrow> False) =
        (case um_find (mc_consumerMap mc) tid of Some (Some c) \<Rightarrow> co_kind c = kind | _ \<Rightarrow> False)"
      if "(tid, pid) \<in> set ?ps" for tid
      using here [OF that] that by (auto simp: cm')
    then show ?thesis by (auto simp: peer_has_def mc' list_ex_iff)
  qed
  have "muted_loop kind pid ?ps cm' =
    Inr (list_all (\<lambda>(tid, p). p = pid \<longrightarrow> (case um_find cm' tid of
        Some (Some c) \<Rightarrow> co_kind c = kind \<longrightarrow> Consumer_IsPaused c | _ \<Rightarrow> True)) ?ps)"
    by (rule muted_loop_spec) (use here cm' in fastforce)
  also have "list_all (\<lambda>(tid, p). p = pid \<longrightarrow> (case um_find cm' tid of
        Some (Some c) \<Rightarrow> co_kind c = kind \<longrightarrow> Consumer_IsPaused c | _ \<Rightarrow> True)) ?ps \<longleftrightarrow>
      m \<or> \<not> peer_has kind pid mc"
  proof -
    have "(case um_find cm' tid of Some (Some c) \<Rightarrow> co_kind c = kind \<longrightarrow> Consumer_IsPaused c | _ \<Rightarrow> True) =
        (m \<or> \<not> (case um_find (mc_consumerMap mc) tid of Some (Some c) \<Rightarrow> co_kind c = kind | _ \<Rightarrow> False))"
      if "(tid, pid) \<in> set ?ps" for tid
      using here [OF that] that by (auto simp: cm')
    then show ?thesis by (auto simp: peer_has_def list_all_iff list_ex_iff)
  qed
  finally show "muted_loop kind pid (mc_consumerIdToPeerId mc') (mc_consumerMap mc') =
      Inr (m \<or> \<not> peer_has kind pid mc)"
    by (simp add: mc')
qed

lemma mute_loop_total:
  assumes "peer_ok pid mc"
  shows "\<exists>mc' outs. mute_loop kind pid m (mc_consumerIdToPeerId mc) mc = Inr (mc', outs)"
  using mute_loop_spec [of mc "mc_consumerIdToPeerId mc" pid kind m] assms
  by (auto simp: peer_ok_def media_inv_def um_wf_def)

lemma remote_mute_kind:
  assumes "\<And>pid m mc. mc_api mc \<Longrightarrow> mute pid m mc = mute_loop kind pid m (mc_consumerIdToPeerId mc) mc"
    and "\<And>pid mc. is_muted pid mc = muted_loop kind pid (mc_consumerIdToPeerId mc) (mc_consumerMap mc)"
  shows "remote_mute mute is_muted peer_ok (peer_has kind)"
proof
  fix pid m mc
  assume ok: "peer_ok pid mc"
  then have api: "mc_api mc" by (simp add: peer_ok_def)
  show "\<exists>s' outs. mute pid m mc = Inr (s', outs) \<and> peer_ok pid s' \<and> peer_has kind pid s' = peer_has kind pid mc"
    using mute_loop_total [OF ok] mute_loop_peer(1,2) [OF ok] by (metis assms(1) [OF api])
  fix s' outs
  assume "mute pid m mc = Inr (s', outs)"
  then show "is_muted pid s' = Inr (m \<or> \<not> peer_has kind pid mc)"
    using mute_loop_peer(3) [OF ok] by (simp add: assms(1) [OF api] assms(2))
qed

interpretation audio: remote_mute MediaController_muteAudio MediaController_isAudioMuted peer_ok "peer_has ''audio''"
  by (rule remote_mute_kind)
    (simp_all add: MediaController_muteAudio_def MediaController_isAudioMuted_def)

interpretation video: remote_mute MediaController_muteVideo MediaController_isVideoMuted peer_ok "peer_has ''video''"
  by (rule remote_mute_kind)
    (simp_all add: MediaController_muteVideo_def MediaController_isVideoMuted_def)

text \<open>C27. For a peer all of whose ids are media consumers, muting its audio cannot fail, and
  afterwards \<open>isAudioMuted\<close> answers exactly what was asked for: true after muting, false after
  unmuting a peer that has an audio consumer; the peer's video answers as before.\<close>

theorem mute_then_is_muted:
  assumes "peer_ok pid mc"
  shows "\<exists>mc' outs. MediaController_muteAudio pid m mc = Inr (mc', outs) \<and>
    MediaController_isAudioMuted pid mc' = Inr (m \<or> \<not> peer_has ''audio'' pid mc) \<and>
    MediaController_isVideoMuted pid mc' = MediaController_isVideoMuted pid mc \<and> peer_ok pid mc'"
proof -
  let ?ps = "mc_consumerIdToPeerId mc"
  have inv: "media_inv mc" and api: "mc_api mc" and all: "all_consumers pid ?ps (mc_consumerMap mc)"
    using assms by (simp_all add: peer_ok_def)
  obtain cm' where run: "MediaController_muteAudio pid m mc =
      Inr (mc\<lparr>mc_consumerMap := cm'\<rparr>, mute_outs ''audio'' pid m ?ps (mc_consumerMap mc))"
    and cm': "\<And>tid. um_find cm' tid =
       (if (tid, pid) \<in> set ?ps then map_option (mute_one ''audio'' m) (um_find (mc_consumerMap mc) tid)
        else um_find (mc_consumerMap mc) tid)"
    using mute_loop_spec [OF inv _ all, of "''audio''" m] media_inv_wf(2) [OF inv] api
    by (auto simp: um_wf_def MediaController_muteAudio_def)
  have here: "\<exists>c. um_find (mc_consumerMap mc) tid = Some (Some c)" if "(tid, pid) \<in> set ?ps" for tid
    using all that media_inv_find [OF inv, of tid] by (fastforce simp: all_consumers_def list_all_iff)
  have "muted_loop ''video'' pid ?ps cm' = muted_loop ''video'' pid ?ps (mc_consumerMap mc)"
  proof -
    have there: "\<exists>c. um_find cm' tid = Some (Some c)" if "(tid, pid) \<in> set ?ps" for tid
      using here [OF that] that by (auto simp: cm')
    have same: "(case um_find cm' tid of Some (Some c) \<Rightarrow> co_kind c = ''video'' \<longrightarrow> Consumer_IsPaused c | _ \<Rightarrow> True) =
        (case um_find (mc_consumerMap mc) tid of Some (Some c) \<Rightarrow> co_kind c = ''video'' \<longrightarrow> Consumer_IsPaused c | _ \<Rightarrow> True)"
      if "(tid, pid) \<in> set ?ps" for tid
    proof -
      from here [OF that] obtain c where "um_find (mc_consumerMap mc) tid = Some (Some c)" by blast
      then show ?thesis using that by (cases "co_kind c = ''audio''") (simp_all add: cm')
    qed
    show ?thesis
      by (simp add: muted_loop_spec there here) (auto simp: list_all_iff same)
  qed
  with run audio.muted_after [OF assms run] audio.mute_total [OF assms, of m] show ?thesis
    by (simp add: MediaController_isVideoMuted_def)
qed

definition demo_media :: media where
  "demo_media = (new_media default_options True)\<lparr>
     mc_consumerMap :=
       [(''a1'', Some \<lparr>co_id = ''a1'', co_kind = ''audio'', co_track = ''t'', co_enabled = True, co_closed = False\<rparr>)],
     mc_consumerIdToPeerId := [(''a1'', ''p'')]\<rparr>"

lemma demo_media_ok: "peer_ok ''p'' demo_media" "peer_has ''audio'' ''p'' demo_media"
  by code_simp+

theorem mute_then_is_muted_witness:
  "\<exists>mc' outs. MediaController_muteAudio ''p'' False demo_media = Inr (mc', outs) \<and>
    MediaController_isAudioMuted ''p'' mc' = Inr False"
  using mute_then_is_muted [OF demo_media_ok(1), of False] demo_media_ok(2) by auto

text \<open>As soon as a peer also has a data consumer, asking whether it is muted crashes: the id is
  looked up among the media consumers with \<^verbatim>\<open>operator[]\<close> and the null pointer that yields is
  dereferenced, unless an unpaused consumer of that kind was met before it.\<close>

theorem is_muted_data_consumer:
  assumes "(tid, pid) \<in> set (mc_consumerIdToPeerId mc)" and "um_find (mc_consumerMap mc) tid = None"
  shows "MediaController_isAudioMuted pid mc \<in> {Inl (NullDeref ''consumer''), Inr False}"
proof -
  have "muted_loop k pid ps cm \<in> {Inl (NullDeref ''consumer''), Inr False}"
    if "(tid, pid) \<in> set ps" "um_find cm tid = None" for k ps cm
    using that
  proof (induction ps)
    case (Cons e ps)
    then show ?case
      by (cases e; cases "um_find cm (fst e)"; cases "the (um_find cm (fst e))") (auto simp: um_index_def)
  qed simp
  then show ?thesis using assms by (simp add: MediaController_isAudioMuted_def)
qed

theorem is_muted_data_consumer_witness:
  "MediaController_isAudioMuted ''p'' ((new_media default_options True)\<lparr>
      mc_dataConsumerMap := [(''d1'', ''d1'')], mc_consumerIdToPeerId := [(''d1'', ''p'')]\<rparr>)
   \<in> {Inl (NullDeref ''consumer''), Inr False}"
  by (rule is_muted_data_consumer [of "''d1''"]) (simp_all add: new_media_def)

subsection \<open>Consumers paused, resumed and closed by the server\<close>

definition entries_ok :: "(string, consumer option) umap \<Rightarrow> bool" where
  "entries_ok cs \<longleftrightarrow> distinct (map fst cs) \<and>
     list_all (\<lambda>(k, x). case x of None \<Rightarrow> False | Some c \<Rightarrow> co_id c = k) cs"

lemma media_inv_entries: "media_inv mc \<Longrightarrow> entries_ok (mc_consumerMap mc)"
  by (auto simp: media_inv_def entries_ok_def um_wf_def list_all_iff consumer_ok_def split: option.splits)

lemma entries_ok_Cons:
  "entries_ok ((k, x) # cs) \<longleftrightarrow> entries_ok cs \<and> k \<notin> fst ` set cs \<and> (\<exists>c. x = Some c \<and> co_id c = k)"
  by (auto simp: entries_ok_def split: option.splits)

text \<open>What the observers hear when the consumer of a peer changes its pause state.\<close>

definition state_events :: "consumer \<Rightarrow> string \<Rightarrow> bool \<Rightarrow> mc_out list" where
  "state_events c peerId paused =
     (if co_kind c = ''audio'' then [Media (EvAudioState peerId paused)]
      else if co_kind c = ''video'' then [Media (EvVideoState peerId paused)] else [])"

lemma update_loop_absent: "entries_ok cs \<Longrightarrow> tid \<notin> fst ` set cs \<Longrightarrow> update_loop tid b cs mc = Inr (mc, [])"
proof (induction cs)
  case (Cons e cs)
  then show ?case by (cases e) (auto simp: entries_ok_Cons)
qed simp

lemma update_loop_present:
  "entries_ok cs \<Longrightarrow> um_find cs tid = Some (Some c) \<Longrightarrow>
   update_loop tid b cs mc =
     (let (peerId, peers) = um_index [] tid (mc_consumerIdToPeerId mc);
          c' = (if b then Consumer_Pause c else Consumer_Resume c)
      in Inr (mc\<lparr>mc_consumerIdToPeerId := peers, mc_consumerMap := um_put tid (Some c') (mc_consumerMap mc)\<rparr>,
              state_events c peerId (Consumer_IsPaused c')))"
proof (induction cs)
  case (Cons e cs)
  obtain k d where e: "e = (k, Some d)" and d: "co_id d = k" and cs: "entries_ok cs" "k \<notin> fst ` set cs"
    using Cons.prems(1) by (cases e) (auto simp: entries_ok_Cons)
  show ?case
  proof (cases "k = tid")
    case True
    then have "c = d" using Cons.prems(2) e by simp
    with True d cs show ?thesis
      by (simp add: e Let_def update_loop_absent state_events_def split: prod.splits)
  next
    case False
    with Cons.IH [OF cs(1)] Cons.prems(2) e d show ?thesis by (simp split: prod.splits)
  qed
qed simp

lemma closed_loop_absent:
  "closed_id n = Inr tid \<Longrightarrow> entries_ok cs \<Longrightarrow> tid \<notin> fst ` set cs \<Longrightarrow> closed_loop n cs mc = Inr (mc, [])"
proof (induction cs)
  case (Cons e cs)
  then show ?case by (cases e) (auto simp: entries_ok_Cons)
qed simp

lemma closed_loop_present:
  "closed_id n = Inr tid \<Longrightarrow> entries_ok cs \<Longrightarrow> um_find cs tid = Some (Some c) \<Longrightarrow>
   closed_loop n cs mc =
     (let (peerId, peers) = um_index [] tid (mc_consumerIdToPeerId mc)
      in Inr (mc\<lparr>mc_consumerIdToPeerId := um_erase tid peers, mc_consumerMap := um_erase tid (mc_consumerMap mc)\<rparr>,
              state_events c peerId True @
              (if co_kind c = ''audio'' then [Media (EvRemoveAudioTrack peerId tid)]
               else if co_kind c = ''video'' then [Media (EvRemoveVideoTrack peerId tid)] else [])))"
proof (induction cs)
  case (Cons e cs)
  obtain k d where e: "e = (k, Some d)" and d: "co_id d = k" and cs: "entries_ok cs"
    using Cons.prems(2) by (cases e) (auto simp: entries_ok_Cons)
  show ?case
  proof (cases "k = tid")
    case True
    then have "c = d" using Cons.prems(3) e by simp
    with True d Cons.prems(1) show ?thesis
      by (simp add: e Let_def state_events_def split: prod.splits)
  next
    case False
    with Cons.IH [OF Cons.prems(1) cs] Cons.prems e d show ?thesis by (simp split: prod.splits)
  qed
qed simp

lemma media_find_cases:
  assumes "media_inv mc"
  obtains (absent) "um_find (mc_consumerMap mc) tid = None" "tid \<notin> fst ` set (mc_consumerMap mc)"
  | (present) c peerId where "um_find (mc_consumerMap mc) tid = Some (Some c)" "co_id c = tid" "\<not> co_closed c"
      "um_find (mc_consumerIdToPeerId mc) tid = Some peerId"
proof (cases "um_find (mc_consumerMap mc) tid")
  case None
  then show ?thesis using absent um_find_None_iff [of "mc_consumerMap mc" tid] by blast
next
  case (Some x)
  from media_inv_find [OF assms Some] obtain c where c: "x = Some c" "co_id c = tid" "\<not> co_closed c"
    "um_find (mc_consumerIdToPeerId mc) tid \<noteq> None" by blast
  then obtain peerId where "um_find (mc_consumerIdToPeerId mc) tid = Some peerId" by blast
  with Some c present show ?thesis by blast
qed

text \<open>\<open>updateConsumer\<close> on well-formed tables changes exactly the pause state of that consumer
  and tells the observers once, with the peer it belongs to and the state asked for; an unknown id
  changes nothing. It never fails.\<close>

theorem update_consumer_spec:
  assumes "media_inv mc"
  shows "updateConsumer tid paused mc =
    (case um_find (mc_consumerMap mc) tid of
       Some (Some c) \<Rightarrow>
         Inr (mc\<lparr>mc_consumerMap := um_put tid (Some (if paused then Consumer_Pause c else Consumer_Resume c))
                   (mc_consumerMap mc)\<rparr>,
              state_events c (the (um_find (mc_consumerIdToPeerId mc) tid)) paused)
     | _ \<Rightarrow> Inr (mc, []))"
proof (cases rule: media_find_cases [OF assms, of tid])
  case 1
  then show ?thesis
    using update_loop_absent [OF media_inv_entries [OF assms]] by (simp add: updateConsumer_def)
next
  case (2 c peerId)
  then show ?thesis
    using update_loop_present [OF media_inv_entries [OF assms] 2(1), of paused mc]
    by (simp add: updateConsumer_def um_index_def Let_def)
qed

theorem update_consumer_spec_witness:
  "updateConsumer ''a1'' True demo_media =
     Inr (demo_media\<lparr>mc_consumerMap := [(''a1'', Some \<lparr>co_id = ''a1'', co_kind = ''audio'', co_track = ''t'',
                                          co_enabled = False, co_closed = False\<rparr>)]\<rparr>,
          [Media (EvAudioState ''p'' True)])"
proof -
  have "media_inv demo_media" by code_simp
  from update_consumer_spec [OF this, of "''a1''" True] show ?thesis
    by (simp add: demo_media_def new_media_def state_events_def um_put_def Consumer_Pause_def)
qed

text \<open>When the server closes a consumer, it disappears from both tables and no other entry
  changes; the observers first hear that the peer's media is muted and then that the track with
  that id is gone.\<close>

theorem consumer_closed_spec:
  assumes "media_inv mc" and "closed_id n = Inr tid" and "um_find (mc_consumerMap mc) tid = Some (Some c)"
    and "um_find (mc_consumerIdToPeerId mc) tid = Some peerId"
  shows "\<exists>mc'. run_media_task Consume ConsumeData (TaskConsumerClosed n) mc =
      Inr (mc', if co_kind c = ''audio''
                then [Media (EvAudioState peerId True), Media (EvRemoveAudioTrack peerId tid)]
                else if co_kind c = ''video''
                then [Media (EvVideoState peerId True), Media (EvRemoveVideoTrack peerId tid)] else []) \<and>
    um_find (mc_consumerMap mc') tid = None \<and> um_find (mc_consumerIdToPeerId mc') tid = None \<and>
    (\<forall>t. t \<noteq> tid \<longrightarrow> um_find (mc_consumerMap mc') t = um_find (mc_consumerMap mc) t \<and>
                     um_find (mc_consumerIdToPeerId mc') t = um_find (mc_consumerIdToPeerId mc) t)"
  using closed_loop_present [OF assms(2) media_inv_entries [OF assms(1)] assms(3), of mc] assms(4)
  by (simp add: um_index_def state_events_def)

definition demo_closed :: "jval option list option" where
  "demo_closed = Some [Some (VBool True), Some (VStr ''consumerClosed''), Some (VStruct [Some (VStr ''v1'')])]"

definition demo_video :: media where
  "demo_video = (new_media default_options True)\<lparr>
     mc_consumerMap :=
       [(''v1'', Some \<lparr>co_id = ''v1'', co_kind = ''video'', co_track = ''t'', co_enabled = True, co_closed = False\<rparr>)],
     mc_consumerIdToPeerId := [(''v1'', ''p'')]\<rparr>"

theorem consumer_closed_spec_witness:
  "\<exists>mc'. run_media_task (\<lambda>_ _ _ _ _. Inl ''x'') (\<lambda>_ _ _ _ _ _. Inl ''x'') (TaskConsumerClosed demo_closed) demo_video =
     Inr (mc', [Media (EvVideoState ''p'' True), Media (EvRemoveVideoTrack ''p'' ''v1'')])"
proof -
  have 1: "media_inv demo_video" "closed_id demo_closed = Inr ''v1''" by code_simp+
  have 2: "um_find (mc_consumerMap demo_video) ''v1'' =
      Some (Some \<lparr>co_id = ''v1'', co_kind = ''video'', co_track = ''t'', co_enabled = True, co_closed = False\<rparr>)"
    "um_find (mc_consumerIdToPeerId demo_video) ''v1'' = Some ''p''" by code_simp+
  from consumer_closed_spec [OF 1 2] show ?thesis by auto
qed

subsection \<open>Local video\<close>

text \<open>Switching a video track on and off: enabling creates one source and one producer under the
  track's name, enabling again changes nothing and produces nothing, disabling closes exactly that
  producer on the server and drops both, so that the track can be enabled again.\<close>

theorem video_toggle:
  assumes "mc_device mc = Some kinds" and "''video'' \<in> set kinds" and "mc_sendTransport mc" and "mc_api mc"
    and "um_find (mc_producerMap mc) name \<in> {None, Some None}" and "um_find (mc_sourceMap mc) name \<in> {None, Some None}"
    and "\<And>enc app. Produce ''video'' name enc app = Inr p"
  shows "\<exists>mc1 mc2. MediaController_enableVideo Produce True name w h mc = Inr (mc1, []) \<and>
    um_find (mc_producerMap mc1) name = Some (Some p) \<and> um_find (mc_sourceMap mc1) name = Some (Some (w, h)) \<and>
    MediaController_enableVideo Produce True name w' h' mc1 = Inr (mc1, []) \<and>
    MediaController_enableVideo Produce False name w' h' mc1 = Inr (mc2, [ApiCloseProducer (pr_id p)]) \<and>
    um_find (mc_producerMap mc2) name = Some None \<and> um_find (mc_sourceMap mc2) name = Some None \<and>
    (\<forall>n. n \<noteq> name \<longrightarrow> um_find (mc_producerMap mc2) n = um_find (mc_producerMap mc) n)"
proof -
  let ?pm = "snd (um_index None name (mc_producerMap mc))" and ?sm = "snd (um_index None name (mc_sourceMap mc))"
  have null: "fst (um_index None name (mc_producerMap mc)) = None" "fst (um_index None name (mc_sourceMap mc)) = None"
    using assms(5,6) by (auto simp: um_index_def)
  define mc1 where "mc1 = mc\<lparr>mc_sourceMap := um_put name (Some (w, h)) ?sm, mc_producerMap := um_put name (Some p) ?pm\<rparr>"
  have on: "MediaController_enableVideo Produce True name w h mc = Inr (mc1, [])"
    using assms(1-3,7) null by (simp add: MediaController_enableVideo_def mc1_def Let_def split_beta)
  have again: "MediaController_enableVideo Produce True name w' h' mc1 = Inr (mc1, [])"
    using assms(1-3) by (simp add: MediaController_enableVideo_def mc1_def Let_def split_beta um_index_def)
  show ?thesis
    using assms(1-4) on again
    by (auto simp: MediaController_enableVideo_def [where enabled = False] mc1_def Let_def split_beta
        um_index_def split: option.splits)
qed

theorem video_toggle_witness:
  "\<exists>mc1 mc2. MediaController_enableVideo
       (\<lambda>k n _ _. Inr \<lparr>pr_id = ''id1'', pr_kind = k, pr_enabled = True, pr_closed = False\<rparr>) True ''cam'' 640 480
       ((new_media default_options True)\<lparr>mc_device := Some [''video''], mc_sendTransport := True\<rparr>) = Inr (mc1, []) \<and>
     MediaController_enableVideo
       (\<lambda>k n _ _. Inr \<lparr>pr_id = ''id1'', pr_kind = k, pr_enabled = True, pr_closed = False\<rparr>) False ''cam'' 640 480 mc1
       = Inr (mc2, [ApiCloseProducer ''id1''])"
proof -
  let ?mc = "(new_media default_options True)\<lparr>mc_device := Some [''video''], mc_sendTransport := True\<rparr>"
  from video_toggle [of ?mc "[''video'']" "''cam''" "\<lambda>k n _ _. Inr \<lparr>pr_id = ''id1'', pr_kind = k, pr_enabled = True, pr_closed = False\<rparr>"
      "\<lparr>pr_id = ''id1'', pr_kind = ''video'', pr_enabled = True, pr_closed = False\<rparr>" 640 480 640 480]
  show ?thesis by (simp add: new_media_def) blast
qed

lemma close_producers_null:
  "um_find ps n = Some None \<Longrightarrow> close_producers ps = Inl (NullDeref ''_producerMap'')"
proof (induction ps)
  case (Cons e ps)
  then show ?case by (cases e; cases "snd e") (auto split: if_splits)
qed simp

text \<open>Destroying the controller after a video track was switched off crashes: the entry of the
  track stays in \<open>_producerMap\<close> as a null pointer and \<open>destroy\<close> calls \<^verbatim>\<open>Close\<close> through it.\<close>

theorem destroy_after_disable:
  assumes "mc_device mc = Some kinds" and "''video'' \<in> set kinds" and "mc_sendTransport mc"
    and "um_find (mc_producerMap mc) name = None \<or> mc_api mc"
    and "MediaController_enableVideo Produce False name w h mc = Inr (mc', outs)"
  shows "MediaController_destroy mc' = Inl (NullDeref ''_producerMap'')"
proof -
  have "um_find (mc_producerMap mc') name = Some None"
    using assms
    by (auto simp: MediaController_enableVideo_def Let_def split_beta um_index_def split: option.splits if_splits)
  then show ?thesis by (simp add: MediaController_destroy_def close_producers_null)
qed

theorem destroy_after_disable_witness:
  "\<exists>mc' outs. MediaController_enableVideo (\<lambda>_ _ _ _. Inl ''x'') False ''cam'' 640 480
      ((new_media default_options True)\<lparr>mc_device := Some [''video''], mc_sendTransport := True\<rparr>) = Inr (mc', outs) \<and>
     MediaController_destroy mc' = Inl (NullDeref ''_producerMap'')"
proof -
  let ?mc = "(new_media default_options True)\<lparr>mc_device := Some [''video''], mc_sendTransport := True\<rparr>"
  obtain mc' outs where "MediaController_enableVideo (\<lambda>_ _ _ _. Inl ''x'') False ''cam'' 640 480 ?mc = Inr (mc', outs)"
    by (auto simp: MediaController_enableVideo_def Let_def split_beta new_media_def um_index_def)
  with destroy_after_disable [OF _ _ _ _ this, of "[''video'']"] show ?thesis by (simp add: new_media_def)
qed

subsection \<open>Remote tracks\<close>

lemma audio_tracks_spec:
  "entries_ok cs \<Longrightarrow> \<exists>ts. audio_tracks cs acc = Inr ts \<and>
     (\<forall>tid. um_find ts tid = (case um_find cs tid of
        Some (Some c) \<Rightarrow> if co_kind c = ''audio'' then Some (co_track c) else um_find acc tid
      | _ \<Rightarrow> um_find acc tid))"
proof (induction cs arbitrary: acc)
  case (Cons e cs)
  obtain k d where e: "e = (k, Some d)" and cs: "entries_ok cs" "k \<notin> fst ` set cs"
    using Cons.prems by (cases e) (auto simp: entries_ok_Cons)
  have none: "um_find cs k = None" using cs(2) by (simp add: um_find_None_iff)
  from Cons.IH [OF cs(1)] show ?case
    using none by (fastforce simp: e split: option.splits)
qed simp

lemma video_tracks_spec:
  "entries_ok cs \<Longrightarrow> list_all (\<lambda>(k, _). um_find peers k \<noteq> None) cs \<Longrightarrow>
   \<exists>ts. video_tracks pid cs peers acc = Inr (peers, ts) \<and>
     (\<forall>tid. um_find ts tid = (case um_find cs tid of
        Some (Some c) \<Rightarrow> if co_kind c = ''video'' \<and> um_find peers tid = Some pid then Some (co_track c) else um_find acc tid
      | _ \<Rightarrow> um_find acc tid))"
proof (induction cs arbitrary: acc)
  case (Cons e cs)
  obtain k d where e: "e = (k, Some d)" and cs: "entries_ok cs" "k \<notin> fst ` set cs"
    using Cons.prems(1) by (cases e) (auto simp: entries_ok_Cons)
  obtain p where p: "um_find peers k = Some p" using Cons.prems(2) e by auto
  have none: "um_find cs k = None" using cs(2) by (simp add: um_find_None_iff)
  have "list_all (\<lambda>(k, _). um_find peers k \<noteq> None) cs" using Cons.prems(2) by simp
  from Cons.IH [OF cs(1) this] show ?case
    using none p by (fastforce simp: e um_index_def split: option.splits)
qed simp

lemma remote_video_tracks:
  assumes "media_inv mc"
  shows "\<exists>ts. getRemoteVideoTracks pid mc = Inr (mc, ts) \<and>
    (\<forall>tid. um_find ts tid = (case um_find (mc_consumerMap mc) tid of
        Some (Some c) \<Rightarrow> if co_kind c = ''video'' \<and> um_find (mc_consumerIdToPeerId mc) tid = Some pid
                          then Some (co_track c) else None
      | _ \<Rightarrow> None))"
proof -
  have "list_all (\<lambda>(k, _). um_find (mc_consumerIdToPeerId mc) k \<noteq> None) (mc_consumerMap mc)"
    using assms by (auto simp: media_inv_def list_all_iff consumer_ok_def split: option.splits)
  from video_tracks_spec [OF media_inv_entries [OF assms] this, of pid "[]"] show ?thesis
    by (auto simp: getRemoteVideoTracks_def split: option.split)
qed

text \<open>\<open>getRemoteVideoTracks(pid)\<close> returns exactly the tracks of that peer's video consumers and
  leaves the tables alone; \<open>getRemoteAudioTracks(pid)\<close> ignores its argument and returns the audio
  tracks of every peer in the room.\<close>

theorem remote_tracks_spec:
  assumes "media_inv mc"
  shows "\<exists>video audio. getRemoteVideoTracks pid mc = Inr (mc, video) \<and> getRemoteAudioTracks pid mc = Inr audio \<and>
    (\<forall>tid t. um_find video tid = Some t \<longleftrightarrow>
       (\<exists>c. um_find (mc_consumerMap mc) tid = Some (Some c) \<and> co_kind c = ''video'' \<and> co_track c = t \<and>
            um_find (mc_consumerIdToPeerId mc) tid = Some pid)) \<and>
    (\<forall>tid t. um_find audio tid = Some t \<longleftrightarrow>
       (\<exists>c. um_find (mc_consumerMap mc) tid = Some (Some c) \<and> co_kind c = ''audio'' \<and> co_track c = t))"
proof -
  obtain video where "getRemoteVideoTracks pid mc = Inr (mc, video)"
    and "\<And>tid. um_find video tid = (case um_find (mc_consumerMap mc) tid of
        Some (Some c) \<Rightarrow> if co_kind c = ''video'' \<and> um_find (mc_consumerIdToPeerId mc) tid = Some pid then Some (co_track c) else None
      | _ \<Rightarrow> None)"
    using remote_video_tracks [OF assms, of pid] by blast
  moreover from audio_tracks_spec [OF media_inv_entries [OF assms], of "[]"]
  obtain audio where "getRemoteAudioTracks pid mc = Inr audio"
    and "\<And>tid. um_find audio tid = (case um_find (mc_consumerMap mc) tid of
        Some (Some c) \<Rightarrow> if co_kind c = ''audio'' then Some (co_track c) else um_find [] tid | _ \<Rightarrow> um_find [] tid)"
    by (auto simp: getRemoteAudioTracks_def)
  ultimately show ?thesis by (auto split: option.splits if_splits)
qed

theorem remote_tracks_spec_witness:
  "\<exists>audio. getRemoteAudioTracks ''somebody else'' demo_media = Inr audio \<and> um_find audio ''a1'' = Some ''t''"
proof -
  have 1: "media_inv demo_media" by code_simp
  have 2: "um_find (mc_consumerMap demo_media) ''a1'' =
      Some (Some \<lparr>co_id = ''a1'', co_kind = ''audio'', co_track = ''t'', co_enabled = True, co_closed = False\<rparr>)"
    by code_simp
  from remote_tracks_spec [OF 1, of "''somebody else''"] 2 show ?thesis by fastforce
qed

subsection \<open>Every reachable state is well formed\<close>

text \<open>What the library documents of \<^verbatim>\<open>Consume\<close>: the consumer it returns has the given id and is open.\<close>

definition consume_law :: "consume_fun \<Rightarrow> bool" where
  "consume_law Consume \<longleftrightarrow> (\<forall>i p k r a c. Consume i p k r a = Inr c \<longrightarrow> co_id c = i \<and> \<not> co_closed c)"

lemma media_inv_put_new:
  assumes "media_inv mc" and "co_id c = i" and "\<not> co_closed c"
  shows "media_inv (mc\<lparr>mc_consumerMap := um_put i (Some c) (mc_consumerMap mc),
     mc_consumerIdToPeerId := um_put i p (mc_consumerIdToPeerId mc)\<rparr>)"
  by (rule media_inv_intro)
    (use assms media_inv_wf [OF assms(1)] media_inv_find [OF assms(1)] in \<open>auto split: if_splits\<close>)

lemma media_inv_put_peer:
  assumes "media_inv mc"
  shows "media_inv (mc\<lparr>mc_consumerIdToPeerId := um_put i p (mc_consumerIdToPeerId mc)\<rparr>)"
  by (rule media_inv_intro)
    (use media_inv_wf [OF assms] media_inv_find [OF assms] in \<open>auto split: if_splits\<close>)

lemma createNewConsumer_inv:
  assumes "createNewConsumer Consume rq mc = Inr (mc', outs)" and "media_inv mc" and "consume_law Consume"
  shows "media_inv mc'"
  using assms
  by (auto simp: createNewConsumer_def ebind_eq_Inr Let_def consume_law_def media_inv_put_new
      split: option.splits if_splits)

lemma createNewDataConsumer_inv:
  assumes "createNewDataConsumer ConsumeData rq mc = Inr (mc', outs)" and "media_inv mc"
  shows "media_inv mc'"
proof -
  have cong: "media_inv (mc\<lparr>mc_dataConsumerMap := x, mc_consumerIdToPeerId := um_put i p (mc_consumerIdToPeerId mc)\<rparr>)" for x i p
    by (rule media_inv_cong [OF _ _ media_inv_put_peer [OF assms(2)]]) simp_all
  show ?thesis
    using assms
    by (auto simp: createNewDataConsumer_def ebind_eq_Inr Let_def cong
        split: option.splits if_splits)
qed

lemma update_loop_inv:
  assumes "updateConsumer tid b mc = Inr (mc', outs)" and "media_inv mc"
  shows "media_inv mc'"
proof (cases rule: media_find_cases [OF assms(2), of tid])
  case 1
  then show ?thesis
    using assms update_loop_absent [OF media_inv_entries [OF assms(2)]] by (simp add: updateConsumer_def)
next
  case (2 c peerId)
  have "media_inv (mc\<lparr>mc_consumerMap := um_put tid (Some (if b then Consumer_Pause c else Consumer_Resume c))
      (mc_consumerMap mc)\<rparr>)"
    by (rule media_inv_replace [OF assms(2)]) (use 2 in auto)
  then show ?thesis
    using assms(1) 2 update_loop_present [OF media_inv_entries [OF assms(2)] 2(1), of b mc]
    by (auto simp: updateConsumer_def um_index_def Let_def)
qed

lemma closed_loop_inv:
  assumes "closed_loop n (mc_consumerMap mc) mc = Inr (mc', outs)" and "media_inv mc"
  shows "media_inv mc'"
proof (cases "closed_id n")
  case (Inl e)
  then have "closed_loop n cs mc = Inr r \<Longrightarrow> cs = []" for cs r
    by (cases "(n, cs, mc)" rule: closed_loop.cases) simp_all
  from this [OF assms(1)] assms show ?thesis by simp
next
  case (Inr tid)
  show ?thesis
  proof (cases rule: media_find_cases [OF assms(2), of tid])
    case 1
    then show ?thesis
      using assms closed_loop_absent [OF Inr media_inv_entries [OF assms(2)]] by simp
  next
    case (2 c peerId)
    have "media_inv (mc\<lparr>mc_consumerIdToPeerId := um_erase tid (mc_consumerIdToPeerId mc),
        mc_consumerMap := um_erase tid (mc_consumerMap mc)\<rparr>)"
      by (rule media_inv_intro)
        (use media_inv_wf [OF assms(2)] media_inv_find [OF assms(2)] in \<open>auto split: if_splits\<close>)
    then show ?thesis
      using assms(1) 2 closed_loop_present [OF Inr media_inv_entries [OF assms(2)] 2(1), of mc]
      by (auto simp: um_index_def)
  qed
qed

lemma mute_loop_inv:
  "media_inv mc \<Longrightarrow> \<exists>mc' outs. mute_loop kind pid m ps mc = Inr (mc', outs) \<and> media_inv mc'"
proof (induction ps arbitrary: mc)
  case (Cons e ps)
  obtain tid p where e: "e = (tid, p)" by (cases e)
  show ?case
  proof (cases rule: media_find_cases [OF Cons.prems, of tid])
    case 1
    then show ?thesis using Cons by (auto simp: e)
  next
    case (2 c peerId)
    have "media_inv (mc\<lparr>mc_consumerMap := um_put tid (Some (if m then Consumer_Pause c else Consumer_Resume c))
        (mc_consumerMap mc)\<rparr>)"
      by (rule media_inv_replace [OF Cons.prems]) (use 2 in auto)
    from Cons.IH [OF this] Cons.IH [OF Cons.prems] 2(1) show ?thesis by (fastforce simp: e Let_def)
  qed
qed simp

text \<open>The steps of the controller: its operations and the tasks posted by the signaling handlers.\<close>

inductive media_step :: "produce_fun \<Rightarrow> consume_fun \<Rightarrow> consume_data_fun \<Rightarrow> media \<Rightarrow> mc_out list \<Rightarrow> media \<Rightarrow> bool"
  for Produce Consume ConsumeData where
  ms_init: "media_step Produce Consume ConsumeData mc [] (MediaController_init mc)"
| ms_destroy: "MediaController_destroy mc = Inr mc' \<Longrightarrow> media_step Produce Consume ConsumeData mc [] mc'"
| ms_device: "media_step Produce Consume ConsumeData mc [] (setMediasoupDevice d mc)"
| ms_send: "media_step Produce Consume ConsumeData mc [] (setSendTransport t mc)"
| ms_recv: "media_step Produce Consume ConsumeData mc [] (setRecvTransport t mc)"
| ms_audio: "MediaController_enableAudio Produce b mc = Inr (mc', outs) \<Longrightarrow>
    media_step Produce Consume ConsumeData mc outs mc'"
| ms_mic: "MediaController_muteMic b mc = (mc', outs) \<Longrightarrow> media_step Produce Consume ConsumeData mc outs mc'"
| ms_video: "MediaController_enableVideo Produce b name w h mc = Inr (mc', outs) \<Longrightarrow>
    media_step Produce Consume ConsumeData mc outs mc'"
| ms_frame: "MediaController_inputFrame name data mc = (mc', fs) \<Longrightarrow>
    media_step Produce Consume ConsumeData mc [] mc'"
| ms_muteAudio: "MediaController_muteAudio pid b mc = Inr (mc', outs) \<Longrightarrow>
    media_step Produce Consume ConsumeData mc outs mc'"
| ms_muteVideo: "MediaController_muteVideo pid b mc = Inr (mc', outs) \<Longrightarrow>
    media_step Produce Consume ConsumeData mc outs mc'"
| ms_tracks: "getRemoteVideoTracks pid mc = Inr (mc', ts) \<Longrightarrow> media_step Produce Consume ConsumeData mc [] mc'"
| ms_task: "run_media_task Consume ConsumeData task mc = Inr (mc', outs) \<Longrightarrow>
    media_step Produce Consume ConsumeData mc outs mc'"

inductive media_reachable :: "produce_fun \<Rightarrow> consume_fun \<Rightarrow> consume_data_fun \<Rightarrow> media \<Rightarrow> bool"
  for Produce Consume ConsumeData where
  mr_start: "media_reachable Produce Consume ConsumeData (new_media opts api)"
| mr_step: "media_reachable Produce Consume ConsumeData mc \<Longrightarrow>
    media_step Produce Consume ConsumeData mc outs mc' \<Longrightarrow> media_reachable Produce Consume ConsumeData mc'"

lemma run_media_task_inv:
  assumes "run_media_task Consume ConsumeData task mc = Inr (mc', outs)" and "media_inv mc" and "consume_law Consume"
  shows "media_inv mc'"
  using assms
  by (cases task)
    (auto intro: createNewConsumer_inv createNewDataConsumer_inv update_loop_inv closed_loop_inv)

lemma getRemoteVideoTracks_same:
  assumes "media_inv mc" and "getRemoteVideoTracks pid mc = Inr (mc', ts)"
  shows "mc' = mc"
proof -
  have "list_all (\<lambda>(k, _). um_find (mc_consumerIdToPeerId mc) k \<noteq> None) (mc_consumerMap mc)"
    using assms(1) by (auto simp: media_inv_def list_all_iff consumer_ok_def split: option.splits)
  from video_tracks_spec [OF media_inv_entries [OF assms(1)] this, of pid "[]"] assms(2)
  show ?thesis by (auto simp: getRemoteVideoTracks_def)
qed

lemma media_step_inv:
  assumes "media_step Produce Consume ConsumeData mc outs mc'" and "media_inv mc" and "consume_law Consume"
  shows "media_inv mc'"
  using assms
proof (cases rule: media_step.cases)
  case ms_destroy
  then show ?thesis
    using assms(2) by (auto simp: MediaController_destroy_def ebind_eq_Inr media_inv_def)
next
  case (ms_muteAudio pid b)
  then show ?thesis
    using assms(2) mute_loop_inv [OF assms(2), of "''audio''" pid b "mc_consumerIdToPeerId mc"]
    by (auto simp: MediaController_muteAudio_def split: if_splits)
next
  case (ms_muteVideo pid b)
  then show ?thesis
    using assms(2) mute_loop_inv [OF assms(2), of "''video''" pid b "mc_consumerIdToPeerId mc"]
    by (auto simp: MediaController_muteVideo_def split: if_splits)
next
  case (ms_tracks pid ts)
  then show ?thesis using assms(2) getRemoteVideoTracks_same by blast
next
  case (ms_task task)
  then show ?thesis using assms(2,3) run_media_task_inv by blast
qed (auto intro!: media_inv_cong [OF _ _ assms(2)]
      simp: MediaController_init_def configVideoEncodings_def setMediasoupDevice_def setSendTransport_def
        setRecvTransport_def MediaController_enableAudio_def MediaController_muteMic_def
        MediaController_enableVideo_def MediaController_inputFrame_def ebind_eq_Inr Let_def split_beta
      split: option.splits if_splits)

text \<open>C16. In every state the controller can reach, the consumer tables are well formed, so muting a
  peer, pausing or resuming a consumer on the server's request and listing the remote tracks never
  dereference a null consumer, whatever the peers and the server did before.\<close>

theorem consumers_never_null:
  assumes "media_reachable Produce Consume ConsumeData mc" and "consume_law Consume"
  shows "media_inv mc \<and>
    (\<exists>r. MediaController_muteAudio pid b mc = Inr r) \<and> (\<exists>r. MediaController_muteVideo pid b mc = Inr r) \<and>
    (\<exists>r. updateConsumer tid b mc = Inr r) \<and>
    (\<exists>r. getRemoteAudioTracks pid mc = Inr r) \<and> (\<exists>r. getRemoteVideoTracks pid mc = Inr r)"
proof -
  from assms have inv: "media_inv mc"
  proof induction
    case (mr_start opts api)
    show ?case by (rule media_inv_new)
  next
    case (mr_step mc outs mc')
    then show ?case using media_step_inv by blast
  qed
  have peers: "list_all (\<lambda>(k, _). um_find (mc_consumerIdToPeerId mc) k \<noteq> None) (mc_consumerMap mc)"
    using inv by (auto simp: media_inv_def list_all_iff consumer_ok_def split: option.splits)
  have "\<exists>r. updateConsumer tid b mc = Inr r"
    by (cases rule: media_find_cases [OF inv, of tid])
      (use update_loop_absent [OF media_inv_entries [OF inv]] update_loop_present [OF media_inv_entries [OF inv]] in
        \<open>simp_all add: updateConsumer_def um_index_def Let_def\<close>)
  then show ?thesis
    using inv mute_loop_inv [OF inv, of "''audio''" pid b "mc_consumerIdToPeerId mc"]
      mute_loop_inv [OF inv, of "''video''" pid b "mc_consumerIdToPeerId mc"]
      audio_tracks_spec [OF media_inv_entries [OF inv], of "[]"]
      video_tracks_spec [OF media_inv_entries [OF inv] peers, of pid "[]"]
    by (auto simp: MediaController_muteAudio_def MediaController_muteVideo_def getRemoteAudioTracks_def
        getRemoteVideoTracks_def)
qed

definition demo_consume :: consume_fun where
  "demo_consume i p k r a =
     (if k = ''audio'' \<or> k = ''video''
      then Inr \<lparr>co_id = i, co_kind = k, co_track = ''track-'' @ i, co_enabled = True, co_closed = False\<rparr>
      else Inl ''invalid kind'')"

lemma demo_consume_law: "consume_law demo_consume"
  by (simp add: consume_law_def demo_consume_def)

theorem consumers_never_null_witness:
  "\<exists>r. MediaController_muteAudio ''p'' True (MediaController_init (new_media default_options True)) = Inr r"
  using consumers_never_null [OF mr_step [OF mr_start ms_init] demo_consume_law] by blast

end
