(* ===== verification/Participants.thy ===== *)
theory Participants
  imports Media_Controller Signaling_Client
begin

text \<open>
  \<^verbatim>\<open>src/core/service/participant.cpp\<close> and \<^verbatim>\<open>participant_controller.cpp\<close>: the remote peers of a
  room, kept in step with the signaling notifications and the media events.

  A participant's fields \<^verbatim>\<open>_isActive\<close>, \<^verbatim>\<open>_isAudioMuted\<close>, \<^verbatim>\<open>_isVideoMuted\<close> and \<^verbatim>\<open>_volume\<close> are not
  initialised by the constructor: \<open>None\<close> stands for an indeterminate value. \<^verbatim>\<open>_participantMap\<close>
  may hold null pointers (\<open>None\<close>): every handler but two reads it with \<^verbatim>\<open>operator[]\<close>. The events of
  the observers carry the participant as it is when they are told. The media controller, which
  the handlers of new and removed tracks ask, is an argument.
\<close>

subsection \<open>Participants\<close>

record participant =
  pt_id :: string
  pt_displayName :: string
  pt_isActive :: "bool option"
  pt_isAudioMuted :: "bool option"
  pt_isVideoMuted :: "bool option"
  pt_volume :: "int option"
  pt_audioTracks :: "(string, string) umap"
  pt_videoTracks :: "(string, string) umap"

definition new_participant :: "string \<Rightarrow> string \<Rightarrow> participant" where
  "new_participant i displayName = \<lparr>pt_id = i, pt_displayName = displayName, pt_isActive = None,
     pt_isAudioMuted = None, pt_isVideoMuted = None, pt_volume = None, pt_audioTracks = [],
     pt_videoTracks = []\<rparr>"

definition Participant_hasAudio :: "participant \<Rightarrow> bool" where
  "Participant_hasAudio p = (if pt_audioTracks p = [] then False else True)"

definition Participant_hasVideo :: "participant \<Rightarrow> bool" where
  "Participant_hasVideo p = (if pt_videoTracks p = [] then False else True)"

definition setDisplayName :: "string \<Rightarrow> participant \<Rightarrow> participant" where
  "setDisplayName name p = p\<lparr>pt_displayName := name\<rparr>"

definition setActive :: "bool \<Rightarrow> participant \<Rightarrow> participant" where
  "setActive b p = p\<lparr>pt_isActive := Some b\<rparr>"

definition setAudioMuted :: "bool \<Rightarrow> participant \<Rightarrow> participant" where
  "setAudioMuted b p = p\<lparr>pt_isAudioMuted := Some b\<rparr>"

definition setVideoMuted :: "bool \<Rightarrow> participant \<Rightarrow> participant" where
  "setVideoMuted b p = p\<lparr>pt_isVideoMuted := Some b\<rparr>"

definition setSpeakingVolume :: "int \<Rightarrow> participant \<Rightarrow> participant" where
  "setSpeakingVolume v p = p\<lparr>pt_volume := Some v\<rparr>"

definition setAudioTracks :: "(string, string) umap \<Rightarrow> participant \<Rightarrow> participant" where
  "setAudioTracks ts p = p\<lparr>pt_audioTracks := ts\<rparr>"

definition setVideoTracks :: "(string, string) umap \<Rightarrow> participant \<Rightarrow> participant" where
  "setVideoTracks ts p = p\<lparr>pt_videoTracks := ts\<rparr>"

subsection \<open>The controller\<close>

type_synonym participants = "(string, participant option) umap"

datatype part_event =
    PJoin participant
  | PLeave participant
  | PActiveSpeaker participant int
  | PDisplayName participant
  | PCreateVideoTrack participant string string obj
  | PRemoveVideoTrack participant string
  | PAudioState participant bool
  | PVideoState participant bool

definition ParticipantController_destroy :: "participants \<Rightarrow> participants" where
  "ParticipantController_destroy pm = []"

definition getParticipant :: "string \<Rightarrow> participants \<Rightarrow> participant option" where
  "getParticipant pid pm = (case um_find pm pid of Some x \<Rightarrow> x | None \<Rightarrow> None)"

definition createParticipant :: "string \<Rightarrow> string \<Rightarrow> participants \<Rightarrow> participants \<times> part_event list" where
  "createParticipant pid displayName pm =
     (if um_find pm pid \<noteq> None then (pm, [])
      else let p = setActive True (new_participant pid displayName)
           in (um_put pid (Some p) pm, [PJoin p]))"

definition onNewPeer :: "obj option \<Rightarrow> participants \<Rightarrow> fault + participants \<times> part_event list" where
  "onNewPeer notification pm =
     (case notification of
        None \<Rightarrow> Inr (pm, [])
      | Some n \<Rightarrow>
          ebind (deref ''data'' (the_obj (member NewPeerNotification ''data'' n))) (\<lambda>d.
          let pid = value_or (the_str (member NewPeerNotification_Data ''id'' d)) [] in
          if pid = [] then Inr (pm, [])
          else if um_find pm pid = None
          then Inr (createParticipant pid (value_or (the_str (member NewPeerNotification_Data ''displayName'' d)) []) pm)
          else Inr (pm, [])))"

text \<open>
  The common beginning of the other handlers: \<^verbatim>\<open>auto participant = _participantMap[pid]; if
  (!participant) return;\<close>.
\<close>

definition with_participant ::
  "string \<Rightarrow> participants \<Rightarrow> (participant \<Rightarrow> participants \<Rightarrow> fault + participants \<times> part_event list) \<Rightarrow>
     fault + participants \<times> part_event list" where
  "with_participant pid pm f =
     (let (x, pm') = um_index None pid pm
      in case x of None \<Rightarrow> Inr (pm', []) | Some p \<Rightarrow> f p pm')"

definition onPeerClosed :: "obj option \<Rightarrow> participants \<Rightarrow> fault + participants \<times> part_event list" where
  "onPeerClosed notification pm =
     (case notification of
        None \<Rightarrow> Inr (pm, [])
      | Some n \<Rightarrow>
          ebind (deref ''data'' (the_obj (member PeerClosedNotification ''data'' n))) (\<lambda>d.
          let pid = value_or (the_str (member PeerClosedNotification_Data ''peerId'' d)) [] in
          if pid = [] then Inr (pm, [])
          else with_participant pid pm (\<lambda>p pm'. Inr (um_erase pid pm', [PLeave (setActive False p)]))))"

definition onPeerDisplayNameChanged :: "obj option \<Rightarrow> participants \<Rightarrow> fault + participants \<times> part_event list" where
  "onPeerDisplayNameChanged notification pm =
     (case notification of
        None \<Rightarrow> Inr (pm, [])
      | Some n \<Rightarrow>
          ebind (deref ''data'' (the_obj (member PeerDisplayNameChangedNotification ''data'' n))) (\<lambda>d.
          let pid = value_or (the_str (member PeerDisplayNameChangedNotification_Data ''peerId'' d)) [] in
          if pid = [] then Inr (pm, [])
          else with_participant pid pm (\<lambda>p pm'.
            let p' = setDisplayName
                  (value_or (the_str (member PeerDisplayNameChangedNotification_Data ''displayName'' d)) []) p
            in Inr (um_put pid (Some p') pm', [PDisplayName p']))))"

definition onActiveSpeaker :: "obj option \<Rightarrow> participants \<Rightarrow> fault + participants \<times> part_event list" where
  "onActiveSpeaker notification pm =
     (case notification of
        None \<Rightarrow> Inr (pm, [])
      | Some n \<Rightarrow>
          ebind (deref ''data'' (the_obj (member ActiveSpeakerNotification ''data'' n))) (\<lambda>d.
          let pid = value_or (the_str (member ActiveSpeakerNotification_Data ''peerId'' d)) [] in
          if pid = [] then Inr (pm, [])
          else with_participant pid pm (\<lambda>p pm'.
            let volume = value_or (the_int (member ActiveSpeakerNotification_Data ''volume'' d)) 0;
                p' = setSpeakingVolume volume p
            in Inr (um_put pid (Some p') pm', [PActiveSpeaker p' volume]))))"

definition onRemoteAudioStateChanged :: "string \<Rightarrow> bool \<Rightarrow> participants \<Rightarrow> fault + participants \<times> part_event list" where
  "onRemoteAudioStateChanged pid muted pm =
     (if pid = [] then Inr (pm, [])
      else with_participant pid pm (\<lambda>p pm'.
        let p' = setAudioMuted muted p in Inr (um_put pid (Some p') pm', [PAudioState p' muted])))"

definition onRemoteVideoStateChanged :: "string \<Rightarrow> bool \<Rightarrow> participants \<Rightarrow> fault + participants \<times> part_event list" where
  "onRemoteVideoStateChanged pid muted pm =
     (if pid = [] then Inr (pm, [])
      else with_participant pid pm (\<lambda>p pm'.
        let p' = setVideoMuted muted p in Inr (um_put pid (Some p') pm', [PVideoState p' muted])))"

definition onCreateRemoteAudioTrack :: "media \<Rightarrow> string \<Rightarrow> string \<Rightarrow> participants \<Rightarrow> fault + participants \<times> part_event list" where
  "onCreateRemoteAudioTrack mc pid tid pm =
     (if pid = [] then Inr (pm, [])
      else with_participant pid pm (\<lambda>p pm'.
        ebind (getRemoteAudioTracks pid mc) (\<lambda>ts. Inr (um_put pid (Some (setAudioTracks ts p)) pm', []))))"

definition onRemoveRemoteAudioTrack :: "media \<Rightarrow> string \<Rightarrow> string \<Rightarrow> participants \<Rightarrow> fault + participants \<times> part_event list" where
  "onRemoveRemoteAudioTrack mc pid tid pm =
     (if pid = [] then Inr (pm, [])
      else with_participant pid pm (\<lambda>p pm'.
        ebind (getRemoteAudioTracks pid mc) (\<lambda>ts. Inr (um_put pid (Some (setAudioTracks ts p)) pm', []))))"

text \<open>
  \<open>getRemoteVideoTracks\<close> reads \<^verbatim>\<open>_consumerIdToPeerId\<close> with \<^verbatim>\<open>operator[]\<close>; on the controller's
  well-formed tables that inserts nothing, so the media state is only read here.
\<close>

definition onCreateRemoteVideoTrack ::
  "media \<Rightarrow> string \<Rightarrow> string \<Rightarrow> string \<Rightarrow> obj \<Rightarrow> participants \<Rightarrow> fault + participants \<times> part_event list" where
  "onCreateRemoteVideoTrack mc pid tid track appData pm =
     (if pid = [] then Inr (pm, [])
      else with_participant pid pm (\<lambda>p pm'.
        ebind (getRemoteVideoTracks pid mc) (\<lambda>(_, ts).
          let p' = setVideoTracks ts p
          in Inr (um_put pid (Some p') pm', [PCreateVideoTrack p' tid track appData]))))"

definition onRemoveRemoteVideoTrack :: "media \<Rightarrow> string \<Rightarrow> string \<Rightarrow> participants \<Rightarrow> fault + participants \<times> part_event list" where
  "onRemoveRemoteVideoTrack mc pid tid pm =
     (if pid = [] then Inr (pm, [])
      else with_participant pid pm (\<lambda>p pm'.
        ebind (getRemoteVideoTracks pid mc) (\<lambda>(_, ts).
          let p' = setVideoTracks ts p
          in Inr (um_put pid (Some p') pm', [PRemoveVideoTrack p' tid]))))"

subsection \<open>The controller as an observer\<close>

text \<open>The signaling events it handles; the others have empty handlers.\<close>

fun on_signal :: "sig_event \<Rightarrow> participants \<Rightarrow> fault + participants \<times> part_event list" where
  "on_signal (SigNewPeer n) pm = onNewPeer (Some n) pm"
| "on_signal (SigPeerClosed n) pm = onPeerClosed (Some n) pm"
| "on_signal (SigPeerDisplayNameChanged n) pm = onPeerDisplayNameChanged (Some n) pm"
| "on_signal (SigActiveSpeaker n) pm = onActiveSpeaker (Some n) pm"
| "on_signal _ pm = Inr (pm, [])"

fun on_media :: "media \<Rightarrow> media_event \<Rightarrow> participants \<Rightarrow> fault + participants \<times> part_event list" where
  "on_media mc (EvAudioState pid muted) pm = onRemoteAudioStateChanged pid muted pm"
| "on_media mc (EvVideoState pid muted) pm = onRemoteVideoStateChanged pid muted pm"
| "on_media mc (EvCreateAudioTrack pid tid track) pm = onCreateRemoteAudioTrack mc pid tid pm"
| "on_media mc (EvRemoveAudioTrack pid tid) pm = onRemoveRemoteAudioTrack mc pid tid pm"
| "on_media mc (EvCreateVideoTrack pid tid track appData) pm = onCreateRemoteVideoTrack mc pid tid track appData pm"
| "on_media mc (EvRemoveVideoTrack pid tid) pm = onRemoveRemoteVideoTrack mc pid tid pm"
| "on_media mc (EvUncaught f) pm = Inl f"

text \<open>Its own calls on the media controller.\<close>

definition ParticipantController_muteAudio :: "string \<Rightarrow> bool \<Rightarrow> media \<Rightarrow> mc_result" where
  "ParticipantController_muteAudio pid muted mc = MediaController_muteAudio pid muted mc"

definition ParticipantController_isAudioMuted :: "string \<Rightarrow> media \<Rightarrow> fault + bool" where
  "ParticipantController_isAudioMuted pid mc = MediaController_isAudioMuted pid mc"

definition ParticipantController_muteVideo :: "string \<Rightarrow> bool \<Rightarrow> media \<Rightarrow> mc_result" where
  "ParticipantController_muteVideo pid muted mc = MediaController_muteVideo pid muted mc"

definition ParticipantController_isVideoMuted :: "string \<Rightarrow> media \<Rightarrow> fault + bool" where
  "ParticipantController_isVideoMuted pid mc = MediaController_isVideoMuted pid mc"

subsection \<open>Lookups\<close>

lemma getParticipant_simps [simp]:
  "getParticipant pid [] = None"
  "getParticipant pid' (um_put pid x pm) = (if pid' = pid then x else getParticipant pid' pm)"
  "getParticipant pid' (um_erase pid pm) = (if pid' = pid then None else getParticipant pid' pm)"
  by (simp_all add: getParticipant_def)

lemma getParticipant_index [simp]: "getParticipant pid' (snd (um_index None pid pm)) = getParticipant pid' pm"
  by (auto simp: getParticipant_def um_find_snd_index split: option.splits)

lemma fst_index_None: "fst (um_index None pid pm) = getParticipant pid pm"
  by (auto simp: um_index_def getParticipant_def split: option.splits)

lemma with_participant_unfold:
  "with_participant pid pm f =
     (case getParticipant pid pm of
        None \<Rightarrow> Inr (snd (um_index None pid pm), [])
      | Some p \<Rightarrow> f p (snd (um_index None pid pm)))"
  by (simp add: with_participant_def split_beta Let_def fst_index_None)

text \<open>The peer a notification is about, and the name it carries.\<close>

definition peer_of :: "cstruct \<Rightarrow> cstruct \<Rightarrow> string \<Rightarrow> obj \<Rightarrow> string option" where
  "peer_of s d field n =
     (case the_obj (member s ''data'' n) of None \<Rightarrow> None
      | Some x \<Rightarrow> Some (value_or (the_str (member d field x)) []))"

subsection \<open>Joins and leaves balance\<close>

fun joins :: "string \<Rightarrow> part_event list \<Rightarrow> nat" where
  "joins pid [] = 0"
| "joins pid (PJoin p # es) = (if pt_id p = pid then 1 else 0) + joins pid es"
| "joins pid (_ # es) = joins pid es"

fun leaves :: "string \<Rightarrow> part_event list \<Rightarrow> nat" where
  "leaves pid [] = 0"
| "leaves pid (PLeave p # es) = (if pt_id p = pid then 1 else 0) + leaves pid es"
| "leaves pid (_ # es) = leaves pid es"

lemma joins_append [simp]: "joins pid (es @ fs) = joins pid es + joins pid fs"
  by (induction pid es rule: joins.induct) auto

lemma leaves_append [simp]: "leaves pid (es @ fs) = leaves pid es + leaves pid fs"
  by (induction pid es rule: leaves.induct) auto

definition present :: "string \<Rightarrow> participants \<Rightarrow> nat" where
  "present pid pm = (if getParticipant pid pm = None then 0 else 1)"

text \<open>Every participant is stored under its own id.\<close>

definition part_inv :: "participants \<Rightarrow> bool" where
  "part_inv pm \<longleftrightarrow> (\<forall>pid p. getParticipant pid pm = Some p \<longrightarrow> pt_id p = pid)"

definition balanced :: "participants \<Rightarrow> participants \<times> part_event list \<Rightarrow> bool" where
  "balanced pm r \<longleftrightarrow> (part_inv pm \<longrightarrow> part_inv (fst r) \<and>
     (\<forall>pid. joins pid (snd r) + present pid pm = leaves pid (snd r) + present pid (fst r)))"

lemma balanced_same: "balanced pm (pm, [])"
  by (simp add: balanced_def)

lemma balanced_create: "balanced pm (createParticipant pid name pm)"
  by (auto simp: balanced_def createParticipant_def part_inv_def present_def setActive_def
      new_participant_def getParticipant_def Let_def)

lemma balanced_erase:
  "getParticipant pid pm = Some p \<Longrightarrow> balanced pm (um_erase pid (snd (um_index None pid pm)), [PLeave (setActive b p)])"
  by (auto simp: balanced_def part_inv_def present_def setActive_def)

lemma balanced_put:
  assumes "getParticipant pid pm = Some p" and "pt_id p' = pt_id p"
    and "\<And>q. joins q evs = 0" and "\<And>q. leaves q evs = 0"
  shows "balanced pm (um_put pid (Some p') (snd (um_index None pid pm)), evs)"
  using assms by (auto simp: balanced_def part_inv_def present_def)

lemma balanced_with_participant:
  assumes "with_participant pid pm f = Inr r"
    and "\<And>p. getParticipant pid pm = Some p \<Longrightarrow> f p (snd (um_index None pid pm)) = Inr r \<Longrightarrow> balanced pm r"
  shows "balanced pm r"
proof (cases "getParticipant pid pm")
  case None
  with assms(1) have "r = (snd (um_index None pid pm), [])" by (simp add: with_participant_unfold)
  then show ?thesis by (simp add: balanced_def part_inv_def present_def)
next
  case (Some p)
  with assms show ?thesis by (simp add: with_participant_unfold)
qed

lemmas setter_ids = setDisplayName_def setActive_def setAudioMuted_def setVideoMuted_def
  setSpeakingVolume_def setAudioTracks_def setVideoTracks_def

lemma balanced_update:
  assumes "with_participant pid pm (\<lambda>p pm'. Inr (um_put pid (Some (g p)) pm', evs p)) = Inr r"
    and "\<And>p. pt_id (g p) = pt_id p" and "\<And>p q. joins q (evs p) = 0" and "\<And>p q. leaves q (evs p) = 0"
  shows "balanced pm r"
  by (rule balanced_with_participant [OF assms(1)]) (use assms(2-4) balanced_put in blast)

lemma balanced_tracks:
  assumes "with_participant pid pm (\<lambda>p pm'. ebind ts (\<lambda>t. Inr (um_put pid (Some (g t p)) pm', evs t p))) = Inr r"
    and "\<And>t p. pt_id (g t p) = pt_id p" and "\<And>t p q. joins q (evs t p) = 0" and "\<And>t p q. leaves q (evs t p) = 0"
  shows "balanced pm r"
  by (rule balanced_with_participant [OF assms(1)]) (use assms(2-4) balanced_put in \<open>auto simp: ebind_eq_Inr\<close>)

lemma balanced_newPeer: "onNewPeer (Some n) pm = Inr r \<Longrightarrow> balanced pm r"
  by (auto simp: onNewPeer_def ebind_eq_Inr Let_def balanced_same balanced_create split: if_splits)

lemma balanced_peerClosed: "onPeerClosed (Some n) pm = Inr r \<Longrightarrow> balanced pm r"
  unfolding onPeerClosed_def option.case Let_def ebind_eq_Inr deref_eq_Inr
  by (elim exE conjE, simp split: if_splits)
    (metis balanced_same, erule balanced_with_participant, use balanced_erase in blast)

lemma balanced_displayName: "onPeerDisplayNameChanged (Some n) pm = Inr r \<Longrightarrow> balanced pm r"
  unfolding onPeerDisplayNameChanged_def option.case Let_def ebind_eq_Inr deref_eq_Inr
  by (elim exE conjE, simp split: if_splits)
    (metis balanced_same, erule balanced_update, simp_all add: setter_ids)

lemma balanced_activeSpeaker: "onActiveSpeaker (Some n) pm = Inr r \<Longrightarrow> balanced pm r"
  unfolding onActiveSpeaker_def option.case Let_def ebind_eq_Inr deref_eq_Inr
  by (elim exE conjE, simp split: if_splits)
    (metis balanced_same, erule balanced_update, simp_all add: setter_ids)

lemma balanced_signal: "on_signal ev pm = Inr r \<Longrightarrow> balanced pm r"
  by (cases ev)
    (auto simp: balanced_same intro: balanced_newPeer balanced_peerClosed balanced_displayName
      balanced_activeSpeaker)

lemma balanced_audioState: "onRemoteAudioStateChanged pid b pm = Inr r \<Longrightarrow> balanced pm r"
  unfolding onRemoteAudioStateChanged_def Let_def
  by (simp split: if_splits) (metis balanced_same, erule balanced_update, simp_all add: setter_ids)

lemma balanced_videoState: "onRemoteVideoStateChanged pid b pm = Inr r \<Longrightarrow> balanced pm r"
  unfolding onRemoteVideoStateChanged_def Let_def
  by (simp split: if_splits) (metis balanced_same, erule balanced_update, simp_all add: setter_ids)

lemma balanced_audioTrack:
  "onCreateRemoteAudioTrack mc pid tid pm = Inr r \<Longrightarrow> balanced pm r"
  "onRemoveRemoteAudioTrack mc pid tid pm = Inr r \<Longrightarrow> balanced pm r"
  unfolding onCreateRemoteAudioTrack_def onRemoveRemoteAudioTrack_def
  by (simp_all split: if_splits)
    (metis balanced_same, erule balanced_tracks, simp_all add: setter_ids,
     metis balanced_same, erule balanced_tracks, simp_all add: setter_ids)

lemma balanced_videoTrack:
  "onCreateRemoteVideoTrack mc pid tid track app pm = Inr r \<Longrightarrow> balanced pm r"
  "onRemoveRemoteVideoTrack mc pid tid pm = Inr r \<Longrightarrow> balanced pm r"
  unfolding onCreateRemoteVideoTrack_def onRemoveRemoteVideoTrack_def split_beta Let_def
  by (simp_all split: if_splits)
    (metis balanced_same, erule balanced_tracks, simp_all add: setter_ids,
     metis balanced_same, erule balanced_tracks, simp_all add: setter_ids)

lemma balanced_media: "on_media mc ev pm = Inr r \<Longrightarrow> balanced pm r"
  by (cases ev)
    (auto intro: balanced_audioState balanced_videoState balanced_audioTrack balanced_videoTrack)

text \<open>The steps of the controller while it is in use.\<close>

inductive pc_step :: "participants \<Rightarrow> part_event list \<Rightarrow> participants \<Rightarrow> bool" where
  ps_create: "createParticipant pid name pm = (pm', evs) \<Longrightarrow> pc_step pm evs pm'"
| ps_signal: "on_signal ev pm = Inr (pm', evs) \<Longrightarrow> pc_step pm evs pm'"
| ps_media: "on_media mc ev pm = Inr (pm', evs) \<Longrightarrow> pc_step pm evs pm'"

inductive pc_run :: "participants \<Rightarrow> part_event list \<Rightarrow> participants \<Rightarrow> bool" for pm where
  pr_start: "pc_run pm [] pm"
| pr_step: "pc_run pm evs pm' \<Longrightarrow> pc_step pm' evs' pm'' \<Longrightarrow> pc_run pm (evs @ evs') pm''"

lemma pc_step_balanced: "pc_step pm evs pm' \<Longrightarrow> balanced pm (pm', evs)"
  by (erule pc_step.cases) (metis balanced_create, auto intro: balanced_signal balanced_media)

lemma pc_run_balanced:
  assumes "pc_run [] evs pm"
  shows "part_inv pm \<and> joins pid evs = leaves pid evs + present pid pm"
  using assms
proof induction
  case pr_start
  then show ?case by (simp add: part_inv_def present_def)
next
  case (pr_step evs pm' evs' pm'')
  then have "balanced pm' (pm'', evs')" by (intro pc_step_balanced)
  with pr_step.IH have "part_inv pm''" and "joins pid evs' + present pid pm' = leaves pid evs' + present pid pm''"
    by (simp_all add: balanced_def)
  with pr_step.IH show ?case by simp
qed

text \<open>C13. The observers' view of the room: over any sequence of notifications, media events and
  creations from an empty room, the joins of a peer that were announced exceed its leaves by one
  exactly while the peer is in the table, and equal them otherwise. In particular no leave is
  announced before a join, and no peer joins twice in a row; a participant is always stored under
  its own id.\<close>

theorem joins_leaves_balance:
  assumes "pc_run [] evs pm"
  shows "joins pid evs = leaves pid evs + (if getParticipant pid pm = None then 0 else 1) \<and>
    (\<forall>p. getParticipant pid pm = Some p \<longrightarrow> pt_id p = pid)"
  using pc_run_balanced [OF assms, of pid] by (simp add: present_def part_inv_def)

theorem joins_leaves_balance_witness:
  "\<exists>pm. pc_run [] [PJoin (setActive True (new_participant ''a'' ''Ann''))] pm \<and>
     (if getParticipant ''a'' pm = None then 0 else 1) = (1 :: nat)"
proof -
  have "pc_step [] [PJoin (setActive True (new_participant ''a'' ''Ann''))]
      (fst (createParticipant ''a'' ''Ann'' []))"
    by (rule ps_create [of "''a''" "''Ann''"]) (simp add: createParticipant_def Let_def)
  from pr_step [OF pr_start this]
  have run: "pc_run [] [PJoin (setActive True (new_participant ''a'' ''Ann''))]
      (fst (createParticipant ''a'' ''Ann'' []))" by simp
  have "joins ''a'' [PJoin (setActive True (new_participant ''a'' ''Ann''))] = 1"
    "leaves ''a'' [PJoin (setActive True (new_participant ''a'' ''Ann''))] = 0"
    by (simp_all add: setActive_def new_participant_def)
  with joins_leaves_balance [OF run, of "''a''"]
  have "(if getParticipant ''a'' (fst (createParticipant ''a'' ''Ann'' [])) = None then 0 else 1) = (1 :: nat)"
    by linarith
  with run show ?thesis by blast
qed

subsection \<open>The roster\<close>

text \<open>
  What the controller promises: the set of peers in the room with their display names. The
  notifications are operations on it.
\<close>

type_synonym roster = "string \<Rightarrow> string option"

definition roster_of :: "participants \<Rightarrow> roster" where
  "roster_of pm pid = map_option pt_displayName (getParticipant pid pm)"

fun roster_spec :: "string set \<Rightarrow> sig_event \<Rightarrow> roster \<Rightarrow> roster" where
  "roster_spec blocked (SigNewPeer n) r =
     (case the_obj (member NewPeerNotification ''data'' n) of
        None \<Rightarrow> r
      | Some d \<Rightarrow>
          let pid = value_or (the_str (member NewPeerNotification_Data ''id'' d)) [] in
          if pid = [] \<or> pid \<in> blocked \<or> r pid \<noteq> None then r
          else r(pid \<mapsto> value_or (the_str (member NewPeerNotification_Data ''displayName'' d)) []))"
| "roster_spec blocked (SigPeerClosed n) r =
     (case the_obj (member PeerClosedNotification ''data'' n) of
        None \<Rightarrow> r
      | Some d \<Rightarrow>
          let pid = value_or (the_str (member PeerClosedNotification_Data ''peerId'' d)) [] in
          if pid = [] then r else r(pid := None))"
| "roster_spec blocked (SigPeerDisplayNameChanged n) r =
     (case the_obj (member PeerDisplayNameChangedNotification ''data'' n) of
        None \<Rightarrow> r
      | Some d \<Rightarrow>
          let pid = value_or (the_str (member PeerDisplayNameChangedNotification_Data ''peerId'' d)) [] in
          if pid = [] \<or> r pid = None then r
          else r(pid \<mapsto> value_or (the_str (member PeerDisplayNameChangedNotification_Data ''displayName'' d)) []))"
| "roster_spec blocked _ r = r"

text \<open>The peers whose entry of the table is a null pointer.\<close>

definition poisoned :: "participants \<Rightarrow> string set" where
  "poisoned pm = {pid. um_find pm pid = Some None}"

lemma roster_simps [simp]:
  "roster_of (um_put pid x pm) = (roster_of pm)(pid := map_option pt_displayName x)"
  "roster_of (um_erase pid pm) = (roster_of pm)(pid := None)"
  "roster_of (snd (um_index None pid pm)) = roster_of pm"
  by (auto simp: roster_of_def fun_eq_iff)

lemma roster_None: "roster_of pm pid = None \<longleftrightarrow> getParticipant pid pm = None"
  by (simp add: roster_of_def)

lemma roster_same: "getParticipant pid pm = Some p \<Longrightarrow> (roster_of pm)(pid \<mapsto> pt_displayName p) = roster_of pm"
  by (auto simp: roster_of_def fun_eq_iff)

lemma find_None_iff: "um_find pm pid = None \<longleftrightarrow> pid \<notin> poisoned pm \<and> roster_of pm pid = None"
  by (auto simp: poisoned_def roster_of_def getParticipant_def split: option.splits)

lemma refine_newPeer:
  "onNewPeer (Some n) pm = Inr (pm', evs) \<Longrightarrow> roster_of pm' = roster_spec (poisoned pm) (SigNewPeer n) (roster_of pm)"
  by (auto simp: onNewPeer_def createParticipant_def ebind_eq_Inr Let_def find_None_iff setActive_def
      new_participant_def split: if_splits)

lemma refine_peerClosed:
  "onPeerClosed (Some n) pm = Inr (pm', evs) \<Longrightarrow> roster_of pm' = roster_spec (poisoned pm) (SigPeerClosed n) (roster_of pm)"
  by (auto simp: onPeerClosed_def ebind_eq_Inr Let_def with_participant_unfold fun_upd_idem roster_None
      split: if_splits option.splits)

lemma refine_displayName:
  "onPeerDisplayNameChanged (Some n) pm = Inr (pm', evs) \<Longrightarrow>
     roster_of pm' = roster_spec (poisoned pm) (SigPeerDisplayNameChanged n) (roster_of pm)"
  by (auto simp: onPeerDisplayNameChanged_def ebind_eq_Inr Let_def with_participant_unfold roster_None
      setDisplayName_def split: if_splits option.splits)

lemma refine_activeSpeaker:
  "onActiveSpeaker (Some n) pm = Inr (pm', evs) \<Longrightarrow> roster_of pm' = roster_of pm"
  by (auto simp: onActiveSpeaker_def ebind_eq_Inr Let_def with_participant_unfold setSpeakingVolume_def
      roster_same split: if_splits option.splits)

text \<open>C15. The controller implements the roster: every signaling event it survives has exactly the
  effect of the event on the set of peers and their names, where a peer whose entry is a null
  pointer cannot be added.\<close>

theorem roster_refinement:
  assumes "on_signal ev pm = Inr (pm', evs)"
  shows "roster_of pm' = roster_spec (poisoned pm) ev (roster_of pm)"
  using assms refine_newPeer refine_peerClosed refine_displayName refine_activeSpeaker
  by (cases ev) simp_all

definition new_peer_msg :: "string \<Rightarrow> string \<Rightarrow> obj" where
  "new_peer_msg pid name =
     [Some (VBool True), Some (VStr ''newPeer''), Some (VStruct [Some (VStr pid), Some (VStr name), None])]"

definition active_speaker_msg :: "string \<Rightarrow> int \<Rightarrow> obj" where
  "active_speaker_msg pid volume =
     [Some (VBool True), Some (VStr ''activeSpeaker''), Some (VStruct [Some (VStr pid), Some (VInt volume)])]"

theorem roster_refinement_witness:
  "\<exists>pm' evs. on_signal (SigNewPeer (new_peer_msg ''a'' ''Ann'')) [] = Inr (pm', evs) \<and>
     roster_of pm' = roster_spec {} (SigNewPeer (new_peer_msg ''a'' ''Ann'')) (roster_of [])"
proof -
  obtain pm' evs where run: "on_signal (SigNewPeer (new_peer_msg ''a'' ''Ann'')) [] = Inr (pm', evs)"
    by (cases "createParticipant ''a'' ''Ann'' []")
      (auto simp: onNewPeer_def new_peer_msg_def member_def NewPeerNotification_def NewPeerNotification_Data_def)
  with roster_refinement [OF run] show ?thesis by (auto simp: poisoned_def)
qed

subsection \<open>Null entries\<close>

lemma poisoned_put: "getParticipant q pm \<noteq> None \<Longrightarrow> pid \<in> poisoned pm \<Longrightarrow> pid \<in> poisoned (um_put q x (snd (um_index None q pm)))"
  by (auto simp: poisoned_def getParticipant_def um_find_snd_index split: option.splits)

lemma poisoned_erase: "getParticipant q pm \<noteq> None \<Longrightarrow> pid \<in> poisoned pm \<Longrightarrow> pid \<in> poisoned (um_erase q (snd (um_index None q pm)))"
  by (auto simp: poisoned_def getParticipant_def um_find_snd_index split: option.splits)

lemma poisoned_index: "pid \<in> poisoned pm \<Longrightarrow> pid \<in> poisoned (snd (um_index None q pm))"
  by (auto simp: poisoned_def um_find_snd_index)

lemma poisoned_create: "pid \<in> poisoned pm \<Longrightarrow> pid \<in> poisoned (fst (createParticipant q name pm))"
  by (auto simp: poisoned_def createParticipant_def Let_def)

lemmas poisoned_rules = poisoned_put poisoned_erase poisoned_index poisoned_create

lemma poisoned_signal: "on_signal ev pm = Inr (pm', evs) \<Longrightarrow> pid \<in> poisoned pm \<Longrightarrow> pid \<in> poisoned pm'"
proof (cases ev)
  case (SigNewPeer n)
  moreover assume "on_signal ev pm = Inr (pm', evs)" "pid \<in> poisoned pm"
  ultimately show ?thesis
    using poisoned_create [of pid pm]
    by (auto simp: onNewPeer_def ebind_eq_Inr Let_def split: if_splits) (metis fst_conv)
qed (auto simp: onPeerClosed_def onPeerDisplayNameChanged_def onActiveSpeaker_def ebind_eq_Inr Let_def
      with_participant_unfold intro: poisoned_rules split: if_splits option.splits)

lemma poisoned_media: "on_media mc ev pm = Inr (pm', evs) \<Longrightarrow> pid \<in> poisoned pm \<Longrightarrow> pid \<in> poisoned pm'"
  by (cases ev)
    (auto simp: onRemoteAudioStateChanged_def onRemoteVideoStateChanged_def onCreateRemoteAudioTrack_def
      onRemoveRemoteAudioTrack_def onCreateRemoteVideoTrack_def onRemoveRemoteVideoTrack_def ebind_eq_Inr Let_def
      with_participant_unfold intro: poisoned_rules split: if_splits option.splits)

lemma poisoned_step: "pc_step pm evs pm' \<Longrightarrow> pid \<in> poisoned pm \<Longrightarrow> pid \<in> poisoned pm'"
  by (erule pc_step.cases) (metis poisoned_create fst_conv, auto intro: poisoned_signal poisoned_media)

lemma poisoned_absent: "pid \<in> poisoned pm \<Longrightarrow> getParticipant pid pm = None"
  by (simp add: poisoned_def getParticipant_def)

text \<open>C38. A single \<^verbatim>\<open>activeSpeaker\<close> notification about a peer the controller does not know (yet)
  locks that peer out for the rest of the session: its entry becomes a null pointer, and whatever
  arrives afterwards, new-peer notifications included, the peer never appears in the room.\<close>

theorem early_notification_locks_out:
  assumes "onActiveSpeaker (Some n) pm = Inr (pm1, evs1)"
    and "peer_of ActiveSpeakerNotification ActiveSpeakerNotification_Data ''peerId'' n = Some pid"
    and "pid \<noteq> []" and "um_find pm pid = None"
    and "pc_run pm1 evs pm'"
  shows "getParticipant pid pm' = None \<and> um_find pm' pid = Some None"
proof -
  have "pid \<in> poisoned pm1"
    using assms(1-4)
    by (auto simp: onActiveSpeaker_def peer_of_def with_participant_def um_index_def poisoned_def Let_def
        split: option.splits)
  moreover have "pid \<in> poisoned pm'" if "pid \<in> poisoned pm1"
    using assms(5) that by (induction) (auto intro: poisoned_step)
  ultimately show ?thesis using poisoned_absent by (auto simp: poisoned_def)
qed

lemma speak_then_join:
  "on_signal (SigActiveSpeaker (active_speaker_msg ''a'' 5)) [] = Inr ([(''a'', None)], [])"
  "on_signal (SigNewPeer (new_peer_msg ''a'' ''Ann'')) [(''a'', None)] = Inr ([(''a'', None)], [])"
  by code_simp+

theorem early_notification_locks_out_witness:
  "\<exists>evs pm'. on_signal (SigActiveSpeaker (active_speaker_msg ''a'' 5)) [] = Inr ([(''a'', None)], []) \<and>
     pc_step [(''a'', None)] evs pm' \<and> on_signal (SigNewPeer (new_peer_msg ''a'' ''Ann'')) [(''a'', None)] = Inr (pm', evs) \<and>
     getParticipant ''a'' pm' = None"
proof -
  have step: "pc_step [(''a'', None)] [] [(''a'', None)]"
    by (rule ps_signal [OF speak_then_join(2)])
  have peer: "peer_of ActiveSpeakerNotification ActiveSpeakerNotification_Data ''peerId'' (active_speaker_msg ''a'' 5) = Some ''a''"
    by code_simp
  have "getParticipant ''a'' [(''a'', None)] = None"
    using early_notification_locks_out [OF speak_then_join(1) [unfolded on_signal.simps] peer _ _ pr_step [OF pr_start step]]
    by simp
  with step speak_then_join show ?thesis by blast
qed

text \<open>A notification without its \<^verbatim>\<open>data\<close> member passes the parser but ends the task that
  handles it: the handler reads the empty optional.\<close>

theorem notification_without_data:
  "on_signal (SigNewPeer [Some (VBool True), Some (VStr ''newPeer''), None]) pm = Inl (BadOptionalAccess ''data'') \<and>
   on_signal (SigPeerClosed [Some (VBool True), Some (VStr ''peerClosed''), None]) pm = Inl (BadOptionalAccess ''data'') \<and>
   on_signal (SigPeerDisplayNameChanged [Some (VBool True), Some (VStr ''peerDisplayNameChanged''), None]) pm =
     Inl (BadOptionalAccess ''data'') \<and>
   on_signal (SigActiveSpeaker [Some (VBool True), Some (VStr ''activeSpeaker''), None]) pm = Inl (BadOptionalAccess ''data'')"
  by (simp add: onNewPeer_def onPeerClosed_def onPeerDisplayNameChanged_def onActiveSpeaker_def member_def
      NewPeerNotification_def PeerClosedNotification_def PeerDisplayNameChangedNotification_def
      ActiveSpeakerNotification_def)

end
