(* ===== verification/Room_Client.thy ===== *)
theory Room_Client
  imports Participants String_Algo
begin

text \<open>
  \<^verbatim>\<open>src/core/service/room_client.cpp\<close>: a room from \<open>join\<close> to \<open>leave\<close>. It owns the signaling
  client, the API on top of it, the media controller and the participant controller, drives the
  handshake (router capabilities, device, transports, join request) and passes events on.

  The mediasoup thread is a queue of tasks (\<open>rm_tasks\<close>), run one at a time by \<open>run_room_task\<close>;
  the transport thread runs \<open>room_on_signal\<close> and \<open>room_on_call\<close>. The callbacks given to the API
  are the constructors of \<open>room_cb\<close>. Libraries are the fields of \<open>lib\<close>: rapidjson's reader and
  writer, websocketpp's \<^verbatim>\<open>get_connection\<close> and \<^verbatim>\<open>add_subprotocol\<close>, \<^verbatim>\<open>Device::Load\<close> and the creation
  of transports, whose exceptions nothing catches. \<open>gid\<close> supplies the numbers \<^verbatim>\<open>generateID()\<close>
  draws. \<^verbatim>\<open>nlohmann::json::parse(x.toJsonStr())\<close> is the document \<open>jserialize\<close> builds.

  \<open>_onConnect\<close>, \<open>_onProduce\<close> and \<open>_onProduceData\<close> run on their own threads and block on a
  promise: \<open>Waiting\<close> is the state after the request was sent, and the \<open>_finish\<close> functions say
  what the promise is set to when the API calls back.
\<close>

subsection \<open>State\<close>

datatype RoomState = UNKNOWN | CONNECTING | CONNECTED | CLOSED

record device =
  dv_kinds :: "string list"
  dv_rtpCapabilities :: string
  dv_sctpCapabilities :: string

record lib =
  lb_parse :: "string \<Rightarrow> json option"
  lb_print :: "json \<Rightarrow> string"
  lb_get_connection :: "string \<Rightarrow> nat option"
  lb_add_subprotocol :: "nat \<Rightarrow> string \<Rightarrow> bool"
  lb_load :: "json \<Rightarrow> string + device"
  lb_transport :: "bool \<Rightarrow> string \<Rightarrow> json \<Rightarrow> json list \<Rightarrow> json \<Rightarrow> json \<Rightarrow> string + unit"

datatype room_cb =
    CbRouterCapabilities
  | CbCreateTransport bool bool
  | CbJoin
  | CbConnect
  | CbProduce
  | CbProduceData
  | CbLog

datatype room_task =
    TaskRouterCapabilities
  | TaskLoadDevice obj
  | TaskTransportCreated bool bool obj
  | TaskJoined RoomState obj
  | TaskClosed
  | TaskMedia media_task

record room =
  rm_hostname :: string
  rm_port :: nat
  rm_roomId :: string
  rm_peerId :: string
  rm_displayName :: string
  rm_options :: options
  rm_signaling :: "room_cb api_token signaling option"
  rm_api :: bool
  rm_device :: "device option"
  rm_sendTransport :: "string option"
  rm_recvTransport :: "string option"
  rm_pcOptions :: bool
  rm_media :: "media option"
  rm_participants :: "participants option"
  rm_state :: RoomState
  rm_volume :: int
  rm_tasks :: "room_task list"

datatype room_out =
    Wire wire
  | RoomStateChanged RoomState
  | LocalActiveSpeaker int
  | Participant part_event

type_synonym room_result = "fault + room \<times> room_out list"

definition new_room :: room where
  "new_room = \<lparr>rm_hostname = [], rm_port = 0, rm_roomId = [], rm_peerId = [], rm_displayName = [],
     rm_options = default_options, rm_signaling = None, rm_api = False, rm_device = None,
     rm_sendTransport = None, rm_recvTransport = None, rm_pcOptions = False, rm_media = None,
     rm_participants = None, rm_state = CLOSED, rm_volume = 0, rm_tasks = []\<rparr>"

definition post_task :: "room_task \<Rightarrow> room \<Rightarrow> room" where
  "post_task t rm = rm\<lparr>rm_tasks := rm_tasks rm @ [t]\<rparr>"

definition then_outs :: "room_result \<Rightarrow> (room \<Rightarrow> room_result) \<Rightarrow> room_result" where
  "then_outs r f = ebind r (\<lambda>(rm, outs). ebind (f rm) (\<lambda>(rm', outs'). Inr (rm', outs @ outs')))"

subsection \<open>Life cycle\<close>

definition RoomClient_init :: "room \<Rightarrow> room" where
  "RoomClient_init rm =
     (let rm1 = rm\<lparr>rm_pcOptions := True\<rparr>;
          rm2 = (case rm_signaling rm1 of
                   None \<Rightarrow> rm1\<lparr>rm_signaling := Some (SignalingClient_init (new_signaling True))\<rparr>
                 | Some _ \<Rightarrow> rm1);
          rm3 = (if rm_signaling rm2 \<noteq> None \<and> \<not> rm_api rm2 then rm2\<lparr>rm_api := True\<rparr> else rm2);
          rm4 = (case rm_media rm3 of
                   None \<Rightarrow> rm3\<lparr>rm_media := Some (MediaController_init (new_media (rm_options rm3) (rm_api rm3)))\<rparr>
                 | Some _ \<Rightarrow> rm3)
      in case rm_participants rm4 of
           None \<Rightarrow> rm4\<lparr>rm_participants := Some []\<rparr>
         | Some _ \<Rightarrow> rm4)"

definition destroyComponents :: "room \<Rightarrow> fault + room" where
  "destroyComponents rm =
     (let rm1 = rm\<lparr>rm_participants := None, rm_device := None, rm_recvTransport := None,
                    rm_sendTransport := None\<rparr>
      in case rm_media rm1 of
           None \<Rightarrow> Inr rm1
         | Some mc \<Rightarrow> ebind (MediaController_destroy mc) (\<lambda>_. Inr (rm1\<lparr>rm_media := None\<rparr>)))"

text \<open>The whole body of \<open>createComponents\<close> is commented out in the source.\<close>

definition createComponents :: "room \<Rightarrow> room" where
  "createComponents rm = rm"

definition onRoomStateChanged :: "RoomState \<Rightarrow> room \<Rightarrow> room_result" where
  "onRoomStateChanged state rm =
     ebind (if state = CONNECTED then Inr (createComponents rm)
            else if state = CLOSED then destroyComponents rm
            else Inr rm)
       (\<lambda>rm'. Inr (rm', [RoomStateChanged state]))"

definition RoomClient_destroy :: "room \<Rightarrow> fault + room" where
  "RoomClient_destroy rm = destroyComponents (rm\<lparr>rm_api := False, rm_signaling := None\<rparr>)"

text \<open>The port is streamed in decimal.\<close>

definition getProtooUrl :: "string \<Rightarrow> nat \<Rightarrow> string \<Rightarrow> string \<Rightarrow> string" where
  "getProtooUrl hostname port roomId peerId =
     ''wss://'' @ hostname @ '':'' @ decimal port @ ''/?roomId='' @ roomId @ ''&peerId='' @ peerId"

text \<open>\<open>peerId\<close> is the string \<^verbatim>\<open>randomString(8)\<close> returns.\<close>

definition RoomClient_join ::
  "lib \<Rightarrow> string \<Rightarrow> string \<Rightarrow> nat \<Rightarrow> string \<Rightarrow> string \<Rightarrow> options option \<Rightarrow> room \<Rightarrow> room_result" where
  "RoomClient_join lib peerId hostname port roomId displayName opts rm =
     (if rm_state rm \<noteq> CLOSED then Inr (rm, [])
      else if hostname = [] then Inr (rm, [])
      else
        let rm1 = rm\<lparr>rm_hostname := hostname, rm_port := port\<rparr> in
        if roomId = [] then Inr (rm1, [])
        else
          let rm2 = rm1\<lparr>rm_roomId := roomId\<rparr> in
          if displayName = [] then Inr (rm2, [])
          else
            let rm3 = rm2\<lparr>rm_displayName := displayName,
                          rm_options := (case opts of Some o' \<Rightarrow> o' | None \<Rightarrow> default_options),
                          rm_peerId := peerId\<rparr>
            in case rm_signaling rm3 of
                 None \<Rightarrow> Inr (rm3, [])
               | Some sc \<Rightarrow>
                   let (sc1, ws1) = SignalingClient_disconnect sc;
                       (sc2, ws2) = SignalingClient_connect (lb_get_connection lib) (lb_add_subprotocol lib)
                                      (getProtooUrl (rm_hostname rm3) port (rm_roomId rm3) (rm_peerId rm3))
                                      ''protoo'' sc1
                   in then_outs (Inr (rm3\<lparr>rm_signaling := Some sc2, rm_state := CONNECTING\<rparr>, map Wire (ws1 @ ws2)))
                        (onRoomStateChanged CONNECTING))"

definition RoomClient_leave :: "room \<Rightarrow> room_result" where
  "RoomClient_leave rm =
     (let rm1 = rm\<lparr>rm_roomId := []\<rparr> in
      if rm_state rm1 = CLOSED then Inr (rm1, [])
      else case rm_signaling rm1 of
        None \<Rightarrow> Inr (rm1, [])
      | Some sc \<Rightarrow>
          let (sc1, ws) = SignalingClient_disconnect sc
          in then_outs (Inr (rm1\<lparr>rm_signaling := Some sc1, rm_state := CLOSED\<rparr>, map Wire ws))
               (onRoomStateChanged CLOSED))"

subsection \<open>The handshake\<close>

text \<open>A call of the API: it holds the signaling client weakly.\<close>

definition on_api ::
  "(room_cb api_token signaling \<Rightarrow> fault + room_cb api_token signaling \<times> wire list) \<Rightarrow> room \<Rightarrow> room_result" where
  "on_api f rm =
     (case rm_signaling rm of
        None \<Rightarrow> Inr (rm, [])
      | Some sc \<Rightarrow> ebind (f sc) (\<lambda>(sc', ws). Inr (rm\<lparr>rm_signaling := Some sc'\<rparr>, map Wire ws)))"

definition RoomClient_getRouterRtpCapabilities :: "lib \<Rightarrow> int \<Rightarrow> room \<Rightarrow> room_result" where
  "RoomClient_getRouterRtpCapabilities lib gid rm =
     (if \<not> rm_api rm then Inr (rm, [])
      else on_api (MediasoupApi_getRouterRtpCapabilities (lb_print lib) gid True (Some CbRouterCapabilities)) rm)"

text \<open>
  \<^verbatim>\<open>fromJsonString<S>(caps.dump(), err)\<close> for a request's member: \<open>None\<close> stands for the early
  returns (an empty dump, a parse error).
\<close>

definition capabilities :: "lib \<Rightarrow> cstruct \<Rightarrow> string \<Rightarrow> obj option" where
  "capabilities lib s dump =
     (if dump = [] then None
      else case decode (lb_parse lib) 0 s dump of Inl _ \<Rightarrow> None | Inr x \<Rightarrow> Some x)"

definition requestCreateTransport :: "lib \<Rightarrow> int \<Rightarrow> bool \<Rightarrow> bool \<Rightarrow> bool \<Rightarrow> room \<Rightarrow> room_result" where
  "requestCreateTransport lib gid forceTcp producing consuming rm =
     (if \<not> rm_api rm then Inr (rm, [])
      else
        let send = (\<lambda>sctp.
              on_api (MediasoupApi_createWebRtcTransport (lb_print lib) True
                  (Some (with_data CreateWebRtcTransportRequest CreateWebRtcTransportRequest_Data
                     (sctp @ [(''consuming'', VBool consuming), (''forceTcp'', VBool forceTcp),
                              (''producing'', VBool producing)])
                     (new_object CreateWebRtcTransportRequest gid)))
                  (Some (CbCreateTransport producing consuming))) rm)
        in if value_or (opt_datachannel (rm_options rm)) False then
             (case rm_device rm of
                None \<Rightarrow> Inl (NullDeref ''_mediasoupDevice'')
              | Some dv \<Rightarrow>
                  (case capabilities lib CreateWebRtcTransportRequest_SCTPCapabilities (dv_sctpCapabilities dv) of
                     None \<Rightarrow> Inr (rm, [])
                   | Some sctp \<Rightarrow> send [(''sctpCapabilities'', VStruct sctp)]))
           else send [])"

definition createSendTransport :: "lib \<Rightarrow> int \<Rightarrow> room \<Rightarrow> room_result" where
  "createSendTransport lib gid rm = requestCreateTransport lib gid False True False rm"

definition createRecvTransport :: "lib \<Rightarrow> int \<Rightarrow> room \<Rightarrow> room_result" where
  "createRecvTransport lib gid rm = requestCreateTransport lib gid False False True rm"

definition joinImpl :: "lib \<Rightarrow> int \<Rightarrow> room \<Rightarrow> room_result" where
  "joinImpl lib gid rm =
     (if \<not> rm_api rm then Inr (rm, [])
      else
        let dev = fold (\<lambda>(m, v). set_member JoinRequest_Device m (Some (VStr v)))
                    [(''flag'', ''ubuntu''), (''name'', ''mediasoup-client-cpp''), (''version'', ''1.0.0'')]
                    (new_object JoinRequest_Device 0);
            args = [(''displayName'', VStr (rm_displayName rm)), (''device'', VStruct dev)];
            send = (\<lambda>args.
              on_api (MediasoupApi_join (lb_print lib) True
                  (Some (with_data JoinRequest JoinRequest_Data args (new_object JoinRequest gid)))
                  (Some CbJoin)) rm);
            sctp = (\<lambda>args.
              if value_or (opt_datachannel (rm_options rm)) False then
                (case rm_device rm of
                   None \<Rightarrow> Inl (NullDeref ''_mediasoupDevice'')
                 | Some dv \<Rightarrow>
                     (case capabilities lib JoinRequest_SCTPCapabilities (dv_sctpCapabilities dv) of
                        None \<Rightarrow> Inr (rm, [])
                      | Some c \<Rightarrow> send (args @ [(''sctpCapabilities'', VStruct c)])))
              else send args)
        in if value_or (opt_consume (rm_options rm)) False then
             (case rm_device rm of
                None \<Rightarrow> Inl (NullDeref ''_mediasoupDevice'')
              | Some dv \<Rightarrow>
                  (case capabilities lib JoinRequest_RTPCapabilities (dv_rtpCapabilities dv) of
                     None \<Rightarrow> Inr (rm, [])
                   | Some c \<Rightarrow> sctp (args @ [(''rtpCapabilities'', VStruct c)])))
           else sctp args)"

text \<open>A device that was loaded before throws; after \<^verbatim>\<open>Load\<close> returns, \<^verbatim>\<open>IsLoaded\<close> is true.\<close>

definition onLoadMediasoupDevice :: "lib \<Rightarrow> int \<Rightarrow> obj \<Rightarrow> room \<Rightarrow> room_result" where
  "onLoadMediasoupDevice lib gid response rm =
     ebind (deref ''data'' (the_obj (member GetRouterRtpCapabilitiesResponse ''data'' response))) (\<lambda>d.
     ebind (case rm_device rm of
              Some _ \<Rightarrow> Inl (LibException ''already loaded'')
            | None \<Rightarrow> lib_call (lb_load lib (jserialize (fields_of GetRouterRtpCapabilitiesResponse_Data) d))) (\<lambda>dv.
     case rm_media rm of
       None \<Rightarrow> Inl (NullDeref ''_mediaController'')
     | Some mc \<Rightarrow>
         let rm' = rm\<lparr>rm_device := Some dv, rm_media := Some (setMediasoupDevice (Some (dv_kinds dv)) mc)\<rparr> in
         if value_or (opt_produce (rm_options rm)) False then createSendTransport lib gid rm'
         else if value_or (opt_consume (rm_options rm)) False then createRecvTransport lib gid rm'
         else joinImpl lib gid rm'))"

definition createTransportImpl :: "lib \<Rightarrow> bool \<Rightarrow> bool \<Rightarrow> obj \<Rightarrow> room \<Rightarrow> fault + room" where
  "createTransportImpl lib producing consuming transportInfo rm =
     (if rm_device rm = None \<and> rm_pcOptions rm then Inr rm
      else
        ebind (deref ''data'' (the_obj (member CreateWebRtcTransportResponse ''data'' transportInfo))) (\<lambda>d.
        let field = (\<lambda>n. member CreateWebRtcTransportResponse_Data n d) in
        ebind (deref ''iceParameters'' (the_obj (field ''iceParameters''))) (\<lambda>ice.
        ebind (deref ''iceCandidates'' (the_objs (field ''iceCandidates''))) (\<lambda>candidates.
        ebind (deref ''dtlsParameters'' (the_obj (field ''dtlsParameters''))) (\<lambda>dtls.
        ebind (deref ''sctpParameters'' (the_obj (field ''sctpParameters''))) (\<lambda>sctp.
        let tid = value_or (the_str (field ''id'')) [];
            create = (\<lambda>sending.
              ebind (if rm_device rm = None then Inl (NullDeref ''_mediasoupDevice'') else Inr ()) (\<lambda>_.
              lib_call (lb_transport lib sending tid
                (jserialize (fields_of CreateWebRtcTransportResponse_ICEParameters) ice)
                (map (jserialize (fields_of CreateWebRtcTransportResponse_ICECandidate)) candidates)
                (jserialize (fields_of CreateWebRtcTransportResponse_DTLSParameters)
                  (set_member CreateWebRtcTransportResponse_DTLSParameters ''role'' (Some (VStr ''auto'')) dtls))
                (jserialize (fields_of CreateWebRtcTransportResponse_SCTPParameters) sctp))))
        in if producing then
             ebind (create True) (\<lambda>_.
             case rm_media rm of
               None \<Rightarrow> Inl (NullDeref ''_mediaController'')
             | Some mc \<Rightarrow> Inr (rm\<lparr>rm_sendTransport := Some tid, rm_media := Some (setSendTransport True mc)\<rparr>))
           else if consuming then
             ebind (create False) (\<lambda>_.
             case rm_media rm of
               None \<Rightarrow> Inl (NullDeref ''_mediaController'')
             | Some mc \<Rightarrow> Inr (rm\<lparr>rm_recvTransport := Some tid, rm_media := Some (setRecvTransport True mc)\<rparr>))
           else Inr rm))))))"

definition onCreateSendTransport :: "lib \<Rightarrow> int \<Rightarrow> obj \<Rightarrow> room \<Rightarrow> room_result" where
  "onCreateSendTransport lib gid transportInfo rm =
     ebind (createTransportImpl lib True False transportInfo rm) (\<lambda>rm'.
       if value_or (opt_consume (rm_options rm')) False then createRecvTransport lib gid rm'
       else joinImpl lib gid rm')"

definition onCreateRecvTransport :: "lib \<Rightarrow> int \<Rightarrow> obj \<Rightarrow> room \<Rightarrow> room_result" where
  "onCreateRecvTransport lib gid transportInfo rm =
     ebind (createTransportImpl lib False True transportInfo rm) (\<lambda>rm'. joinImpl lib gid rm')"

text \<open>The task posted by the join callback, with its loop over the peers of the response.\<close>

fun create_peers :: "obj list \<Rightarrow> participants \<Rightarrow> participants \<times> part_event list" where
  "create_peers [] pm = (pm, [])"
| "create_peers (peer # peers) pm =
     (let (pm1, evs1) = createParticipant (value_or (the_str (member JoinResponse_Peer ''id'' peer)) [])
                          (value_or (the_str (member JoinResponse_Peer ''displayName'' peer)) []) pm;
          (pm2, evs2) = create_peers peers pm1
      in (pm2, evs1 @ evs2))"

definition onJoined :: "RoomState \<Rightarrow> obj \<Rightarrow> room \<Rightarrow> room_result" where
  "onJoined state response rm =
     then_outs (onRoomStateChanged state rm) (\<lambda>rm'.
       case rm_participants rm' of
         None \<Rightarrow> Inr (rm', [])
       | Some pm \<Rightarrow>
           ebind (deref ''data'' (the_obj (member JoinResponse ''data'' response))) (\<lambda>d.
           let r = create_peers (value_or (the_objs (member JoinResponse_Data ''peers'' d)) []) pm
           in Inr (rm'\<lparr>rm_participants := Some (fst r)\<rparr>, map Participant (snd r))))"

subsection \<open>Answers of the server\<close>

text \<open>
  The guards at the head of every callback: \<^verbatim>\<open>errorCode != 0\<close>, \<^verbatim>\<open>!response || !response->ok\<close>. The
  member \<^verbatim>\<open>ok\<close> is an \<^verbatim>\<open>absl::optional<bool>\<close>, so the test asks whether it is present.
\<close>

definition accepted :: "cstruct \<Rightarrow> int \<Rightarrow> obj option \<Rightarrow> obj option" where
  "accepted s errorCode response =
     (if errorCode \<noteq> 0 then None
      else case response of
        None \<Rightarrow> None
      | Some r \<Rightarrow> if member s ''ok'' r = None then None else Some r)"

text \<open>
  What a callback does with the room; \<open>CbConnect\<close>, \<open>CbProduce\<close> and \<open>CbProduceData\<close> only set the
  promise of their thread.
\<close>

fun room_on_call :: "room_cb api_call \<Rightarrow> room \<Rightarrow> room" where
  "room_on_call (ApiCall CbRouterCapabilities errorCode info response) rm =
     (case accepted GetRouterRtpCapabilitiesResponse errorCode response of
        None \<Rightarrow> rm
      | Some r \<Rightarrow> post_task (TaskLoadDevice r) rm)"
| "room_on_call (ApiCall (CbCreateTransport producing consuming) errorCode info response) rm =
     (case accepted CreateWebRtcTransportResponse errorCode response of
        None \<Rightarrow> rm
      | Some r \<Rightarrow> post_task (TaskTransportCreated producing consuming r) rm)"
| "room_on_call (ApiCall CbJoin errorCode info response) rm =
     (case accepted JoinResponse errorCode response of
        None \<Rightarrow> rm
      | Some r \<Rightarrow> let rm' = rm\<lparr>rm_state := CONNECTED\<rparr> in post_task (TaskJoined (rm_state rm') r) rm')"
| "room_on_call (ApiCall _ errorCode info response) rm = rm"

text \<open>
  \<open>_onConnect\<close>, \<open>_onProduce\<close>, \<open>_onProduceData\<close> up to \<^verbatim>\<open>future.get()\<close>, and the promise. The callback of
  \<open>_onConnect\<close> sets its promise on every path, whatever the answer was.
\<close>

datatype 'a blocking = Returned 'a | Waiting

definition onConnect_start :: "lib \<Rightarrow> int \<Rightarrow> string \<Rightarrow> string \<Rightarrow> room \<Rightarrow> fault + room \<times> room_out list \<times> unit blocking" where
  "onConnect_start lib gid transportId dtlsParameters rm =
     (if \<not> rm_api rm then Inr (rm, [], Returned ())
      else case capabilities lib ConnectWebRtcTransportRequest_DTLSParameters dtlsParameters of
        None \<Rightarrow> Inr (rm, [], Returned ())
      | Some dtlsp \<Rightarrow>
          ebind (on_api (MediasoupApi_connectWebRtcTransport (lb_print lib) True
              (Some (with_data ConnectWebRtcTransportRequest ConnectWebRtcTransportRequest_Data
                 [(''transportId'', VStr transportId), (''dtlsParameters'', VStruct dtlsp)]
                 (new_object ConnectWebRtcTransportRequest gid)))
              (Some CbConnect)) rm)
            (\<lambda>(rm', outs). Inr (rm', outs, Waiting)))"

definition nlohmann_get :: "nlohmann_error + 'a \<Rightarrow> fault + 'a" where
  "nlohmann_get r = (case r of Inl TypeError \<Rightarrow> Inl (LibException ''type_error'') | Inr x \<Rightarrow> Inr x)"

definition onProduce_start ::
  "lib \<Rightarrow> int \<Rightarrow> string \<Rightarrow> string \<Rightarrow> string \<Rightarrow> json \<Rightarrow> room \<Rightarrow> fault + room \<times> room_out list \<times> string blocking" where
  "onProduce_start lib gid transportId kind rtpParameters appData rm =
     (if \<not> rm_api rm then Inr (rm, [], Returned [])
      else
        ebind (if FindMember appData ''sharing'' \<noteq> None
               then ebind (nlohmann_get (SharingAppData_from_json appData \<lparr>sharing = \<lparr>trackName = []\<rparr>\<rparr>)) (\<lambda>s.
                      Inr [(''appData'', VStruct (set_member ProduceRequest_AppData ''sharing''
                           (Some (VStruct (set_member ProduceRequest_SharingData ''trackName''
                              (Some (VStr (trackName (sharing s)))) (new_object ProduceRequest_SharingData 0))))
                           (new_object ProduceRequest_AppData 0)))])
               else Inr []) (\<lambda>app.
        case capabilities lib ProduceRequest_RTPParameters rtpParameters of
          None \<Rightarrow> Inr (rm, [], Returned [])
        | Some rtpp \<Rightarrow>
            ebind (on_api (MediasoupApi_produce (lb_print lib) True
                (Some (with_data ProduceRequest ProduceRequest_Data
                   ([(''transportId'', VStr transportId), (''kind'', VStr kind)] @ app @
                    [(''rtpParameters'', VStruct rtpp)])
                   (new_object ProduceRequest gid)))
                (Some CbProduce)) rm)
              (\<lambda>(rm', outs). Inr (rm', outs, Waiting))))"

definition onProduce_finish :: "int \<Rightarrow> obj option \<Rightarrow> fault + string" where
  "onProduce_finish errorCode response =
     (case accepted ProduceResponse errorCode response of
        None \<Rightarrow> Inr []
      | Some r \<Rightarrow> ebind (deref ''data'' (the_obj (member ProduceResponse ''data'' r)))
                    (\<lambda>d. Inr (value_or (the_str (member ProduceResponse_Data ''id'' d)) [])))"

definition onProduceData_start ::
  "lib \<Rightarrow> int \<Rightarrow> string \<Rightarrow> string \<Rightarrow> string \<Rightarrow> string \<Rightarrow> room \<Rightarrow> fault + room \<times> room_out list \<times> string blocking" where
  "onProduceData_start lib gid transportId sctpStreamParameters label protocol rm =
     (if \<not> rm_api rm then Inr (rm, [], Returned [])
      else case capabilities lib ProduceDataRequest_SCTPStreamParameters sctpStreamParameters of
        None \<Rightarrow> Inr (rm, [], Returned [])
      | Some stcpsp \<Rightarrow>
          ebind (on_api (MediasoupApi_produceData (lb_print lib) True
              (Some (with_data ProduceDataRequest ProduceDataRequest_Data
                 [(''transportId'', VStr transportId), (''label'', VStr label), (''protocol'', VStr protocol),
                  (''sctpStreamParameters'', VStruct stcpsp)]
                 (new_object ProduceDataRequest gid)))
              (Some CbProduceData)) rm)
            (\<lambda>(rm', outs). Inr (rm', outs, Waiting)))"

definition onProduceData_finish :: "int \<Rightarrow> obj option \<Rightarrow> fault + string" where
  "onProduceData_finish errorCode response =
     (case accepted ProduceDataResponse errorCode response of
        None \<Rightarrow> Inr []
      | Some r \<Rightarrow> ebind (deref ''data'' (the_obj (member ProduceDataResponse ''data'' r)))
                    (\<lambda>d. Inr (value_or (the_str (member ProduceDataResponse_Data ''id'' d)) [])))"

subsection \<open>Events\<close>

definition RoomClient_onActiveSpeaker :: "obj option \<Rightarrow> room \<Rightarrow> room_result" where
  "RoomClient_onActiveSpeaker notification rm =
     (case notification of
        None \<Rightarrow> Inr (rm, [])
      | Some n \<Rightarrow>
          ebind (deref ''data'' (the_obj (member ActiveSpeakerNotification ''data'' n))) (\<lambda>d.
          if rm_peerId rm \<noteq> value_or (the_str (member ActiveSpeakerNotification_Data ''peerId'' d)) []
          then Inr (rm, [])
          else
            let volume = value_or (the_int (member ActiveSpeakerNotification_Data ''volume'' d)) 0
            in Inr (rm\<lparr>rm_volume := volume\<rparr>, [LocalActiveSpeaker volume])))"

fun RoomClient_on_signal :: "sig_event \<Rightarrow> room \<Rightarrow> room_result" where
  "RoomClient_on_signal SigOpened rm = Inr (post_task TaskRouterCapabilities rm, [])"
| "RoomClient_on_signal SigClosed rm = Inr (post_task TaskClosed rm, [])"
| "RoomClient_on_signal (SigActiveSpeaker n) rm = RoomClient_onActiveSpeaker (Some n) rm"
| "RoomClient_on_signal _ rm = Inr (rm, [])"

fun MediaController_on_signal :: "sig_event \<Rightarrow> fault + media_task list" where
  "MediaController_on_signal (SigNewConsumer r) = Inr (MediaController_onNewConsumer (Some r))"
| "MediaController_on_signal (SigNewDataConsumer r) = Inr (MediaController_onNewDataConsumer (Some r))"
| "MediaController_on_signal (SigConsumerPaused n) = MediaController_onConsumerPaused (Some n)"
| "MediaController_on_signal (SigConsumerResumed n) = MediaController_onConsumerResumed (Some n)"
| "MediaController_on_signal (SigConsumerClosed n) = Inr (MediaController_onConsumerClosed (Some n))"
| "MediaController_on_signal _ = Inr []"

text \<open>
  The three observers of the signaling client, in the order they were registered; the two
  controllers are held weakly and drop out when the room lets go of them.
\<close>

definition room_on_signal :: "sig_event \<Rightarrow> room \<Rightarrow> room_result" where
  "room_on_signal ev rm =
     then_outs (RoomClient_on_signal ev rm) (\<lambda>rm1.
     then_outs (case rm_media rm1 of
                  None \<Rightarrow> Inr (rm1, [])
                | Some mc \<Rightarrow> ebind (MediaController_on_signal ev)
                               (\<lambda>ts. Inr (rm1\<lparr>rm_tasks := rm_tasks rm1 @ map TaskMedia ts\<rparr>, []))) (\<lambda>rm2.
     case rm_participants rm2 of
       None \<Rightarrow> Inr (rm2, [])
     | Some pm \<Rightarrow> ebind (on_signal ev pm)
                    (\<lambda>(pm', evs). Inr (rm2\<lparr>rm_participants := Some pm'\<rparr>, map Participant evs))))"

text \<open>
  The outputs of the media controller: calls of the API it shares with the room, and events for
  the participant controller, which may ask the media controller in the state \<open>mc\<close> it is in when
  it notifies.
\<close>

fun perform_out :: "lib \<Rightarrow> int \<Rightarrow> media \<Rightarrow> mc_out \<Rightarrow> room \<Rightarrow> room_result" where
  "perform_out lib gid mc (ApiCloseProducer i) rm =
     on_api (MediasoupApi_closeProducer (lb_print lib) gid True i (Some CbLog)) rm"
| "perform_out lib gid mc (ApiPauseProducer i) rm =
     on_api (MediasoupApi_pauseProducer (lb_print lib) gid True i (Some CbLog)) rm"
| "perform_out lib gid mc (ApiResumeProducer i) rm =
     on_api (MediasoupApi_resumeProducer (lb_print lib) gid True i (Some CbLog)) rm"
| "perform_out lib gid mc (ApiPauseConsumer i) rm =
     on_api (MediasoupApi_pauseConsumer (lb_print lib) gid True i (Some CbLog)) rm"
| "perform_out lib gid mc (ApiResumeConsumer i) rm =
     on_api (MediasoupApi_resumeConsumer (lb_print lib) gid True i (Some CbLog)) rm"
| "perform_out lib gid mc (ApiResponse i) rm =
     on_api (MediasoupApi_response (lb_print lib) True
       (Some [Some (VBool True), map_option VInt i, Some (VBool True)])) rm"
| "perform_out lib gid mc (ApiSetConsumerPreferredLayers i spatial temporal) rm =
     on_api (MediasoupApi_setConsumerPreferredLayers (lb_print lib) gid True i spatial temporal None) rm"
| "perform_out lib gid mc (Media ev) rm =
     (case rm_participants rm of
        None \<Rightarrow> Inr (rm, [])
      | Some pm \<Rightarrow> ebind (on_media mc ev pm)
                     (\<lambda>(pm', evs). Inr (rm\<lparr>rm_participants := Some pm'\<rparr>, map Participant evs)))"

fun perform_outs :: "lib \<Rightarrow> (nat \<Rightarrow> int) \<Rightarrow> media \<Rightarrow> mc_out list \<Rightarrow> room \<Rightarrow> room_result" where
  "perform_outs lib gid mc [] rm = Inr (rm, [])"
| "perform_outs lib gid mc (out # outs) rm =
     then_outs (perform_out lib (gid 0) mc out rm) (perform_outs lib (\<lambda>n. gid (Suc n)) mc outs)"

text \<open>
  A media task on the mediasoup thread. A consumer is closed after the observers were told, so
  they still find it; in the other tasks they see the new state.
\<close>

definition run_room_media ::
  "lib \<Rightarrow> (nat \<Rightarrow> int) \<Rightarrow> consume_fun \<Rightarrow> consume_data_fun \<Rightarrow> media_task \<Rightarrow> room \<Rightarrow> room_result" where
  "run_room_media lib gid Consume ConsumeData task rm =
     (case rm_media rm of
        None \<Rightarrow> Inr (rm, [])
      | Some mc \<Rightarrow>
          ebind (run_media_task Consume ConsumeData task mc) (\<lambda>(mc', outs).
            perform_outs lib gid (case task of TaskConsumerClosed _ \<Rightarrow> mc | _ \<Rightarrow> mc') outs
              (rm\<lparr>rm_media := Some mc'\<rparr>)))"

fun run_room_task ::
  "lib \<Rightarrow> (nat \<Rightarrow> int) \<Rightarrow> consume_fun \<Rightarrow> consume_data_fun \<Rightarrow> room_task \<Rightarrow> room \<Rightarrow> room_result" where
  "run_room_task lib gid Consume ConsumeData TaskRouterCapabilities rm =
     RoomClient_getRouterRtpCapabilities lib (gid 0) rm"
| "run_room_task lib gid Consume ConsumeData (TaskLoadDevice r) rm = onLoadMediasoupDevice lib (gid 0) r rm"
| "run_room_task lib gid Consume ConsumeData (TaskTransportCreated producing consuming r) rm =
     (if producing then onCreateSendTransport lib (gid 0) r rm
      else if consuming then onCreateRecvTransport lib (gid 0) r rm
      else Inr (rm, []))"
| "run_room_task lib gid Consume ConsumeData (TaskJoined state r) rm = onJoined state r rm"
| "run_room_task lib gid Consume ConsumeData TaskClosed rm =
     onRoomStateChanged CLOSED (rm\<lparr>rm_state := CLOSED\<rparr>)"
| "run_room_task lib gid Consume ConsumeData (TaskMedia t) rm = run_room_media lib gid Consume ConsumeData t rm"

subsection \<open>Local media through the room\<close>

definition on_media_controller ::
  "lib \<Rightarrow> (nat \<Rightarrow> int) \<Rightarrow> (media \<Rightarrow> mc_result) \<Rightarrow> room \<Rightarrow> room_result" where
  "on_media_controller lib gid f rm =
     (case rm_media rm of
        None \<Rightarrow> Inl (NullDeref ''_mediaController'')
      | Some mc \<Rightarrow> ebind (f mc) (\<lambda>(mc', outs). perform_outs lib gid mc' outs (rm\<lparr>rm_media := Some mc'\<rparr>)))"

definition RoomClient_enableAudio :: "lib \<Rightarrow> (nat \<Rightarrow> int) \<Rightarrow> produce_fun \<Rightarrow> bool \<Rightarrow> room \<Rightarrow> room_result" where
  "RoomClient_enableAudio lib gid Produce enabled rm =
     on_media_controller lib gid (MediaController_enableAudio Produce enabled) rm"

definition RoomClient_muteAudio :: "lib \<Rightarrow> (nat \<Rightarrow> int) \<Rightarrow> bool \<Rightarrow> room \<Rightarrow> room_result" where
  "RoomClient_muteAudio lib gid muted rm =
     on_media_controller lib gid (\<lambda>mc. Inr (MediaController_muteMic muted mc)) rm"

definition RoomClient_isAudioMuted :: "room \<Rightarrow> fault + bool" where
  "RoomClient_isAudioMuted rm =
     (case rm_media rm of
        None \<Rightarrow> Inl (NullDeref ''_mediaController'')
      | Some mc \<Rightarrow> Inr (MediaController_isMicMuted mc))"

definition RoomClient_enableVideo ::
  "lib \<Rightarrow> (nat \<Rightarrow> int) \<Rightarrow> produce_fun \<Rightarrow> bool \<Rightarrow> string \<Rightarrow> nat \<Rightarrow> nat \<Rightarrow> room \<Rightarrow> room_result" where
  "RoomClient_enableVideo lib gid Produce enabled name width height rm =
     on_media_controller lib gid (MediaController_enableVideo Produce enabled name width height) rm"

subsection \<open>The running client\<close>

fun room_signals :: "sig_event list \<Rightarrow> room \<Rightarrow> room_result" where
  "room_signals [] rm = Inr (rm, [])"
| "room_signals (ev # evs) rm = then_outs (room_on_signal ev rm) (room_signals evs)"

definition room_calls :: "lib \<Rightarrow> room_cb api_token call list \<Rightarrow> room \<Rightarrow> room" where
  "room_calls lib calls rm = fold room_on_call (concat (map (api_calls (lb_parse lib)) calls)) rm"

text \<open>
  The steps of a room after \<open>init\<close>: the calls of the application, the tasks of the mediasoup
  thread, what the transport delivers to the signaling client, and the requests of the library's
  transports.
\<close>

inductive room_step :: "lib \<Rightarrow> room \<Rightarrow> room_out list \<Rightarrow> room \<Rightarrow> bool" for lib where
  rs_join: "RoomClient_join lib peerId hostname port roomId displayName opts rm = Inr (rm', outs) \<Longrightarrow>
    room_step lib rm outs rm'"
| rs_leave: "RoomClient_leave rm = Inr (rm', outs) \<Longrightarrow> room_step lib rm outs rm'"
| rs_destroy: "RoomClient_destroy rm = Inr rm' \<Longrightarrow> room_step lib rm [] rm'"
| rs_audio: "RoomClient_enableAudio lib gid Produce b rm = Inr (rm', outs) \<Longrightarrow> room_step lib rm outs rm'"
| rs_mute: "RoomClient_muteAudio lib gid b rm = Inr (rm', outs) \<Longrightarrow> room_step lib rm outs rm'"
| rs_video: "RoomClient_enableVideo lib gid Produce b name w h rm = Inr (rm', outs) \<Longrightarrow> room_step lib rm outs rm'"
| rs_task: "rm_tasks rm = t # rest \<Longrightarrow>
    run_room_task lib gid Consume ConsumeData t (rm\<lparr>rm_tasks := rest\<rparr>) = Inr (rm', outs) \<Longrightarrow>
    room_step lib rm outs rm'"
| rs_opened: "rm_signaling rm = Some sc \<Longrightarrow> room_signals SignalingClient_onOpened rm = Inr (rm', outs) \<Longrightarrow>
    room_step lib rm outs rm'"
| rs_failed: "rm_signaling rm = Some sc \<Longrightarrow> room_signals (SignalingClient_onFailed code reason) rm = Inr (rm', outs) \<Longrightarrow>
    room_step lib rm outs rm'"
| rs_closed: "rm_signaling rm = Some sc \<Longrightarrow> SignalingClient_onClosed sc = (sc', calls, evs) \<Longrightarrow>
    room_signals evs (room_calls lib calls (rm\<lparr>rm_signaling := Some sc'\<rparr>)) = Inr (rm', outs) \<Longrightarrow>
    room_step lib rm outs rm'"
| rs_message: "rm_signaling rm = Some sc \<Longrightarrow> SignalingClient_onMessage (lb_parse lib) json sc = (sc', evs) \<Longrightarrow>
    room_signals evs (rm\<lparr>rm_signaling := Some sc'\<rparr>) = Inr (rm', outs) \<Longrightarrow> room_step lib rm outs rm'"
| rs_response: "rm_signaling rm = Some sc \<Longrightarrow> sc_posted sc = json # rest \<Longrightarrow>
    run_response (lb_parse lib) json (sc\<lparr>sc_posted := rest\<rparr>) = (sc', calls) \<Longrightarrow>
    room_step lib rm [] (room_calls lib calls (rm\<lparr>rm_signaling := Some sc'\<rparr>))"
| rs_connect: "onConnect_start lib i transportId dtls rm = Inr (rm', outs, b) \<Longrightarrow> room_step lib rm outs rm'"
| rs_produce: "onProduce_start lib i transportId kind rtp app rm = Inr (rm', outs, p) \<Longrightarrow> room_step lib rm outs rm'"
| rs_produceData: "onProduceData_start lib i transportId sctp label protocol rm = Inr (rm', outs, p) \<Longrightarrow>
    room_step lib rm outs rm'"

inductive room_run :: "lib \<Rightarrow> room \<Rightarrow> room_out list \<Rightarrow> room \<Rightarrow> bool" for lib rm where
  rr_start: "room_run lib rm [] rm"
| rr_step: "room_run lib rm outs rm' \<Longrightarrow> room_step lib rm' outs' rm'' \<Longrightarrow> room_run lib rm (outs @ outs') rm''"

subsection \<open>What the operations leave alone\<close>

text \<open>Calls of the API touch the signaling client only; events touch the participants as well.\<close>

definition same_room :: "room \<Rightarrow> room \<Rightarrow> bool" where
  "same_room rm rm' \<longleftrightarrow>
     rm' = rm\<lparr>rm_signaling := rm_signaling rm', rm_participants := rm_participants rm'\<rparr> \<and>
     (rm_participants rm' = None \<longleftrightarrow> rm_participants rm = None) \<and>
     (rm_signaling rm' = None \<longleftrightarrow> rm_signaling rm = None)"

lemma same_room_refl [simp]: "same_room rm rm"
  by (simp add: same_room_def)

lemma same_room_trans: "same_room a b \<Longrightarrow> same_room b c \<Longrightarrow> same_room a c"
  by (cases a; cases b; cases c) (auto simp: same_room_def)

lemma same_room_fields:
  assumes "same_room rm rm'"
  shows "rm_media rm' = rm_media rm" and "rm_device rm' = rm_device rm" and "rm_state rm' = rm_state rm"
    and "rm_options rm' = rm_options rm" and "rm_api rm' = rm_api rm" and "rm_tasks rm' = rm_tasks rm"
    and "rm_sendTransport rm' = rm_sendTransport rm" and "rm_recvTransport rm' = rm_recvTransport rm"
    and "rm_participants rm' = None \<longleftrightarrow> rm_participants rm = None"
    and "rm_signaling rm' = None \<longleftrightarrow> rm_signaling rm = None" and "rm_pcOptions rm' = rm_pcOptions rm"
  using assms by (cases rm; cases rm'; simp add: same_room_def)+

lemma then_outs_Inr:
  "then_outs r f = Inr (rm'', os) \<longleftrightarrow>
     (\<exists>rm' outs outs'. r = Inr (rm', outs) \<and> f rm' = Inr (rm'', outs') \<and> os = outs @ outs')"
  by (cases r) (auto simp: then_outs_def ebind_eq_Inr)

lemma on_api_same: "on_api f rm = Inr (rm', outs) \<Longrightarrow> same_room rm rm'"
  by (auto simp: on_api_def same_room_def ebind_eq_Inr split: option.splits)

lemma perform_out_same: "perform_out lib gid mc out rm = Inr (rm', outs) \<Longrightarrow> same_room rm rm'"
  by (cases out)
    (auto simp: ebind_eq_Inr same_room_def [where rm = rm] split: option.splits dest!: on_api_same)

lemma perform_outs_same: "perform_outs lib gid mc os rm = Inr (rm', outs) \<Longrightarrow> same_room rm rm'"
proof (induction os arbitrary: gid rm outs)
  case (Cons o' os)
  then obtain rm1 outs1 outs2 where "perform_out lib (gid 0) mc o' rm = Inr (rm1, outs1)"
    and "perform_outs lib (\<lambda>n. gid (Suc n)) mc os rm1 = Inr (rm', outs2)"
    by (auto simp: then_outs_Inr)
  with Cons.IH perform_out_same same_room_trans show ?case by blast
qed simp

text \<open>The configuration of the media controller changes only through its setters.\<close>

definition mc_config :: "media \<Rightarrow> options \<times> bool \<times> string list option \<times> bool \<times> bool" where
  "mc_config mc = (mc_options mc, mc_api mc, mc_device mc, mc_sendTransport mc, mc_recvTransport mc)"

lemma mc_config_updates [simp]:
  "mc_config (mc\<lparr>mc_micProducer := a\<rparr>) = mc_config mc"
  "mc_config (mc\<lparr>mc_producerMap := b\<rparr>) = mc_config mc"
  "mc_config (mc\<lparr>mc_sourceMap := c\<rparr>) = mc_config mc"
  "mc_config (mc\<lparr>mc_consumerMap := d\<rparr>) = mc_config mc"
  "mc_config (mc\<lparr>mc_dataConsumerMap := e\<rparr>) = mc_config mc"
  "mc_config (mc\<lparr>mc_consumerIdToPeerId := f\<rparr>) = mc_config mc"
  by (simp_all add: mc_config_def)

lemma enableAudio_config:
  "MediaController_enableAudio Produce b mc = Inr (mc', outs) \<Longrightarrow> mc_config mc' = mc_config mc"
  by (auto simp: MediaController_enableAudio_def ebind_eq_Inr split: option.splits if_splits)

lemma muteMic_config: "MediaController_muteMic b mc = (mc', outs) \<Longrightarrow> mc_config mc' = mc_config mc"
  by (auto simp: MediaController_muteMic_def split: option.splits if_splits)

lemma enableVideo_config:
  "MediaController_enableVideo Produce b name w h mc = Inr (mc', outs) \<Longrightarrow> mc_config mc' = mc_config mc"
  by (auto simp: MediaController_enableVideo_def ebind_eq_Inr Let_def split_beta split: option.splits if_splits)

lemma update_loop_config: "update_loop tid b cs mc = Inr (mc', outs) \<Longrightarrow> mc_config mc' = mc_config mc"
proof (induction cs arbitrary: mc outs)
  case (Cons e cs)
  obtain k x where e: "e = (k, x)" by (cases e)
  show ?case
  proof (cases x)
    case None
    with Cons.prems e show ?thesis by simp
  next
    case (Some c)
    show ?thesis
    proof (cases "co_id c = tid")
      case True
      let ?mc = "mc\<lparr>mc_consumerIdToPeerId := snd (um_index [] tid (mc_consumerIdToPeerId mc)),
          mc_consumerMap := um_put k (Some (if b then Consumer_Pause c else Consumer_Resume c)) (mc_consumerMap mc)\<rparr>"
      from Cons.prems e Some True have "\<exists>outs'. update_loop tid b cs ?mc = Inr (mc', outs')"
        by (auto simp: Let_def split_beta ebind_eq_Inr)
      then show ?thesis using Cons.IH [of ?mc] by auto
    qed (use Cons e Some in simp)
  qed
qed simp

lemma closed_loop_config: "closed_loop n cs mc = Inr (mc', outs) \<Longrightarrow> mc_config mc' = mc_config mc"
proof (induction cs)
  case (Cons e cs)
  then show ?case
    by (cases e; cases "snd e"; cases "closed_id n") (auto simp: Let_def split_beta split: if_splits)
qed simp

lemma run_media_task_config:
  assumes "run_media_task Consume ConsumeData t mc = Inr (mc', outs)"
  shows "mc_config mc' = mc_config mc"
proof (cases t)
  case (TaskNewConsumer rq)
  with assms show ?thesis
    by (auto simp: createNewConsumer_def ebind_eq_Inr Let_def split: option.splits if_splits)
next
  case (TaskNewDataConsumer rq)
  with assms show ?thesis
    by (auto simp: createNewDataConsumer_def ebind_eq_Inr Let_def split: option.splits if_splits)
qed (use assms in \<open>auto simp: updateConsumer_def intro: update_loop_config closed_loop_config\<close>)

text \<open>
  What a step may do to the controllers a room holds: replace the media controller's tables while
  keeping its configuration, or more.
\<close>

definition media_kept :: "room \<Rightarrow> room \<Rightarrow> bool" where
  "media_kept rm rm' \<longleftrightarrow>
     map_option mc_config (rm_media rm') = map_option mc_config (rm_media rm) \<and>
     rm_device rm' = rm_device rm \<and> rm_sendTransport rm' = rm_sendTransport rm \<and>
     rm_recvTransport rm' = rm_recvTransport rm \<and> rm_pcOptions rm' = rm_pcOptions rm \<and>
     (rm_participants rm' = None \<longleftrightarrow> rm_participants rm = None)"

lemma media_kept_refl [simp]: "media_kept rm rm"
  by (simp add: media_kept_def)

lemma media_kept_trans: "media_kept a b \<Longrightarrow> media_kept b c \<Longrightarrow> media_kept a c"
  by (simp add: media_kept_def)

lemma same_media_kept: "same_room rm rm' \<Longrightarrow> media_kept rm rm'"
  by (simp add: media_kept_def same_room_fields)

lemma media_kept_updates [simp]:
  "media_kept rm (rm\<lparr>rm_tasks := ts\<rparr>)" "media_kept rm (rm\<lparr>rm_state := s\<rparr>)"
  "media_kept rm (rm\<lparr>rm_signaling := sc\<rparr>)" "media_kept rm (post_task t rm)" "media_kept rm (rm\<lparr>rm_volume := v\<rparr>)"
  by (simp_all add: media_kept_def post_task_def)

lemma on_media_controller_kept:
  assumes "on_media_controller lib gid f rm = Inr (rm', outs)"
    and "\<And>mc mc' os. f mc = Inr (mc', os) \<Longrightarrow> mc_config mc' = mc_config mc"
  shows "media_kept rm rm'"
proof -
  from assms(1) obtain mc mc' os where mc: "rm_media rm = Some mc" "f mc = Inr (mc', os)"
    and run: "perform_outs lib gid mc' os (rm\<lparr>rm_media := Some mc'\<rparr>) = Inr (rm', outs)"
    by (auto simp: on_media_controller_def ebind_eq_Inr split: option.splits)
  have "media_kept rm (rm\<lparr>rm_media := Some mc'\<rparr>)"
    using mc assms(2) by (simp add: media_kept_def)
  then show ?thesis
    using perform_outs_same [OF run] same_media_kept media_kept_trans by blast
qed

lemma run_room_media_kept:
  assumes "run_room_media lib gid Consume ConsumeData t rm = Inr (rm', outs)"
  shows "media_kept rm rm'"
proof (cases "rm_media rm")
  case None
  with assms show ?thesis by (simp add: run_room_media_def)
next
  case (Some mc)
  with assms obtain mc' os mc0 where mc': "run_media_task Consume ConsumeData t mc = Inr (mc', os)"
    and run: "perform_outs lib gid mc0 os (rm\<lparr>rm_media := Some mc'\<rparr>) = Inr (rm', outs)"
    by (auto simp: run_room_media_def ebind_eq_Inr)
  have "media_kept rm (rm\<lparr>rm_media := Some mc'\<rparr>)"
    using Some run_media_task_config [OF mc'] by (simp add: media_kept_def)
  then show ?thesis
    using perform_outs_same [OF run] same_media_kept media_kept_trans by blast
qed

lemma room_on_call_kept: "media_kept rm (room_on_call c rm)"
  by (cases "(c, rm)" rule: room_on_call.cases)
    (auto split: option.splits simp: Let_def post_task_def media_kept_def)

lemma room_calls_kept: "media_kept rm (room_calls lib calls rm)"
proof -
  have "media_kept rm (fold room_on_call cs rm)" for cs
    by (induction cs arbitrary: rm) (auto intro: media_kept_trans room_on_call_kept)
  then show ?thesis by (simp add: room_calls_def)
qed

lemma RoomClient_on_signal_kept: "RoomClient_on_signal ev rm = Inr (rm', outs) \<Longrightarrow> media_kept rm rm'"
  by (cases ev) (auto simp: RoomClient_onActiveSpeaker_def ebind_eq_Inr Let_def split: if_splits)

lemma room_on_signal_kept: "room_on_signal ev rm = Inr (rm', outs) \<Longrightarrow> media_kept rm rm'"
proof -
  assume "room_on_signal ev rm = Inr (rm', outs)"
  then obtain rm1 outs1 rest where 1: "RoomClient_on_signal ev rm = Inr (rm1, outs1)"
    and 2: "then_outs (case rm_media rm1 of
                  None \<Rightarrow> Inr (rm1, [])
                | Some mc \<Rightarrow> ebind (MediaController_on_signal ev)
                               (\<lambda>ts. Inr (rm1\<lparr>rm_tasks := rm_tasks rm1 @ map TaskMedia ts\<rparr>, []))) (\<lambda>rm2.
     case rm_participants rm2 of
       None \<Rightarrow> Inr (rm2, [])
     | Some pm \<Rightarrow> ebind (on_signal ev pm)
                    (\<lambda>(pm', evs). Inr (rm2\<lparr>rm_participants := Some pm'\<rparr>, map Participant evs))) = Inr (rm', rest)"
    by (auto simp: room_on_signal_def then_outs_Inr)
  from 2 have "media_kept rm1 rm'"
    by (auto simp: then_outs_Inr ebind_eq_Inr media_kept_def split: option.splits)
  with RoomClient_on_signal_kept [OF 1] show ?thesis by (rule media_kept_trans)
qed

lemma room_signals_kept: "room_signals evs rm = Inr (rm', outs) \<Longrightarrow> media_kept rm rm'"
  by (induction evs arbitrary: rm outs)
    (auto simp: then_outs_Inr intro: media_kept_trans room_on_signal_kept)

subsection \<open>The three ways a step changes the components\<close>

definition torn_down :: "room \<Rightarrow> room \<Rightarrow> bool" where
  "torn_down rm rm' \<longleftrightarrow> rm_media rm' = None \<and> rm_participants rm' = None \<and> rm_device rm' = None \<and>
     rm_sendTransport rm' = None \<and> rm_recvTransport rm' = None \<and> rm_pcOptions rm' = rm_pcOptions rm"

definition component_set :: "room \<Rightarrow> room \<Rightarrow> bool" where
  "component_set rm rm' \<longleftrightarrow> (\<exists>mc. rm_media rm = Some mc \<and>
     (rm_device rm = None \<and>
        (\<exists>dv. rm' = rm\<lparr>rm_device := Some dv, rm_media := Some (setMediasoupDevice (Some (dv_kinds dv)) mc)\<rparr>) \<or>
      rm_device rm \<noteq> None \<and>
        (\<exists>t. rm' = rm\<lparr>rm_sendTransport := Some t, rm_media := Some (setSendTransport True mc)\<rparr> \<or>
             rm' = rm\<lparr>rm_recvTransport := Some t, rm_media := Some (setRecvTransport True mc)\<rparr>)))"

definition step_shape :: "room \<Rightarrow> room \<Rightarrow> bool" where
  "step_shape rm rm' \<longleftrightarrow> media_kept rm rm' \<or> torn_down rm rm' \<or>
     (\<exists>rm0 rm1. media_kept rm rm0 \<and> component_set rm0 rm1 \<and> media_kept rm1 rm')"

lemma step_shape_kept: "media_kept rm rm' \<Longrightarrow> step_shape rm rm'"
  by (simp add: step_shape_def)

lemma step_shape_set: "component_set rm rm1 \<Longrightarrow> same_room rm1 rm' \<Longrightarrow> step_shape rm rm'"
  using same_media_kept media_kept_refl unfolding step_shape_def by blast

lemma step_shape_after:
  assumes "media_kept rm rm0" and "step_shape rm0 rm'"
  shows "step_shape rm rm'"
  using assms(2) unfolding step_shape_def
proof (elim disjE exE conjE)
  assume "media_kept rm0 rm'"
  with assms(1) show "media_kept rm rm' \<or> torn_down rm rm' \<or> (\<exists>a b. media_kept rm a \<and> component_set a b \<and> media_kept b rm')"
    using media_kept_trans by blast
next
  assume "torn_down rm0 rm'"
  with assms(1) show "media_kept rm rm' \<or> torn_down rm rm' \<or> (\<exists>a b. media_kept rm a \<and> component_set a b \<and> media_kept b rm')"
    by (simp add: torn_down_def media_kept_def)
next
  fix a b
  assume "media_kept rm0 a" "component_set a b" "media_kept b rm'"
  with assms(1) show "media_kept rm rm' \<or> torn_down rm rm' \<or> (\<exists>a b. media_kept rm a \<and> component_set a b \<and> media_kept b rm')"
    using media_kept_trans by blast
qed

lemma destroyComponents_torn: "destroyComponents rm = Inr rm' \<Longrightarrow> torn_down rm rm'"
  by (auto simp: destroyComponents_def torn_down_def Let_def ebind_eq_Inr split: option.splits)

lemma torn_down_pre: "torn_down rm rm' \<Longrightarrow> rm_pcOptions rm0 = rm_pcOptions rm \<Longrightarrow> torn_down rm0 rm'"
  by (simp add: torn_down_def)

lemma requestCreateTransport_same:
  "requestCreateTransport lib gid f p c rm = Inr (rm', outs) \<Longrightarrow> same_room rm rm'"
  by (auto simp: requestCreateTransport_def Let_def split: if_splits option.splits dest: on_api_same)

lemma joinImpl_same: "joinImpl lib gid rm = Inr (rm', outs) \<Longrightarrow> same_room rm rm'"
  by (auto simp: joinImpl_def Let_def split: if_splits option.splits dest: on_api_same)

lemma next_request_same:
  "createSendTransport lib gid rm = Inr (rm', outs) \<Longrightarrow> same_room rm rm'"
  "createRecvTransport lib gid rm = Inr (rm', outs) \<Longrightarrow> same_room rm rm'"
  "RoomClient_getRouterRtpCapabilities lib gid rm = Inr (rm', outs) \<Longrightarrow> same_room rm rm'"
  by (auto simp: createSendTransport_def createRecvTransport_def RoomClient_getRouterRtpCapabilities_def
      dest: requestCreateTransport_same on_api_same split: if_splits)

lemma load_shape:
  assumes "onLoadMediasoupDevice lib gid r rm = Inr (rm', outs)"
  shows "\<exists>rm1. component_set rm rm1 \<and> same_room rm1 rm'"
proof -
  from assms obtain dv mc where mc: "rm_device rm = None" "rm_media rm = Some mc"
    and rest: "(let rm1 = rm\<lparr>rm_device := Some dv, rm_media := Some (setMediasoupDevice (Some (dv_kinds dv)) mc)\<rparr> in
         if value_or (opt_produce (rm_options rm)) False then createSendTransport lib gid rm1
         else if value_or (opt_consume (rm_options rm)) False then createRecvTransport lib gid rm1
         else joinImpl lib gid rm1) = Inr (rm', outs)"
    by (auto simp: onLoadMediasoupDevice_def ebind_eq_Inr split: option.splits)
  let ?rm1 = "rm\<lparr>rm_device := Some dv, rm_media := Some (setMediasoupDevice (Some (dv_kinds dv)) mc)\<rparr>"
  have "same_room ?rm1 rm'"
    using rest by (auto simp: Let_def dest: next_request_same joinImpl_same split: if_splits)
  moreover have "component_set rm ?rm1" using mc by (auto simp: component_set_def)
  ultimately show ?thesis by blast
qed

lemma createTransportImpl_shape:
  assumes "createTransportImpl lib p c r rm = Inr rm'"
  shows "rm' = rm \<or> component_set rm rm'"
  using assms
  by (auto simp: createTransportImpl_def ebind_eq_Inr Let_def component_set_def split: if_splits option.splits)

lemma transport_shape:
  assumes "onCreateSendTransport lib gid r rm = Inr (rm', outs) \<or> onCreateRecvTransport lib gid r rm = Inr (rm', outs)"
  shows "\<exists>rm1. (rm1 = rm \<or> component_set rm rm1) \<and> same_room rm1 rm'"
proof -
  have send: "\<exists>rm1. createTransportImpl lib True False r rm = Inr rm1 \<and> same_room rm1 rm'"
    if "onCreateSendTransport lib gid r rm = Inr (rm', outs)"
    using that by (auto simp: onCreateSendTransport_def ebind_eq_Inr dest: next_request_same joinImpl_same split: if_splits)
  have recv: "\<exists>rm1. createTransportImpl lib False True r rm = Inr rm1 \<and> same_room rm1 rm'"
    if "onCreateRecvTransport lib gid r rm = Inr (rm', outs)"
    using that by (auto simp: onCreateRecvTransport_def ebind_eq_Inr dest: joinImpl_same)
  from assms obtain p c rm1 where "createTransportImpl lib p c r rm = Inr rm1" and same: "same_room rm1 rm'"
    using send recv by (elim disjE) blast+
  from createTransportImpl_shape [OF this(1)] same show ?thesis by blast
qed

lemma onRoomStateChanged_shape:
  assumes "onRoomStateChanged s rm = Inr (rm', outs)"
  shows "rm' = rm \<or> torn_down rm rm'"
  using assms
  by (auto simp: onRoomStateChanged_def createComponents_def ebind_eq_Inr dest: destroyComponents_torn split: if_splits)

lemma onJoined_shape:
  assumes "onJoined s r rm = Inr (rm', outs)"
  shows "media_kept rm rm' \<or> torn_down rm rm'"
proof -
  from assms obtain rm1 outs1 where 1: "onRoomStateChanged s rm = Inr (rm1, outs1)"
    and 2: "media_kept rm1 rm'" and 3: "rm_participants rm1 = None \<longrightarrow> rm' = rm1"
    by (auto simp: onJoined_def then_outs_Inr ebind_eq_Inr Let_def media_kept_def split: option.splits)
  from onRoomStateChanged_shape [OF 1] 2 3 show ?thesis by (auto simp: torn_down_def)
qed

lemma room_task_shape:
  assumes "run_room_task lib gid Consume ConsumeData t rm = Inr (rm', outs)"
  shows "step_shape rm rm'"
proof (cases t)
  case TaskRouterCapabilities
  with assms show ?thesis by (auto intro!: step_shape_kept same_media_kept dest: next_request_same)
next
  case (TaskLoadDevice r)
  with assms load_shape [of lib "gid 0" r rm rm' outs] show ?thesis
    by (auto intro: step_shape_set)
next
  case (TaskTransportCreated p c r)
  with assms consider "rm' = rm" | "\<exists>rm1. (rm1 = rm \<or> component_set rm rm1) \<and> same_room rm1 rm'"
    using transport_shape [of lib "gid 0" r rm rm' outs] by (auto split: if_splits)
  then show ?thesis by cases (auto intro: step_shape_set step_shape_kept same_media_kept)
next
  case (TaskJoined s r)
  with assms onJoined_shape [of s r rm rm' outs] show ?thesis by (auto simp: step_shape_def)
next
  case TaskClosed
  with assms onRoomStateChanged_shape [of CLOSED "rm\<lparr>rm_state := CLOSED\<rparr>" rm' outs] show ?thesis
    by (auto simp: step_shape_def torn_down_def)
next
  case (TaskMedia m)
  with assms show ?thesis by (auto intro!: step_shape_kept run_room_media_kept)
qed

lemma join_kept:
  "RoomClient_join lib pid host port room name opts rm = Inr (rm', outs) \<Longrightarrow> media_kept rm rm'"
  by (auto simp: RoomClient_join_def Let_def media_kept_def then_outs_Inr onRoomStateChanged_def
      ebind_eq_Inr split: if_splits option.splits prod.splits)

lemma leave_shape:
  assumes "RoomClient_leave rm = Inr (rm', outs)"
  shows "if rm_state rm = CLOSED \<or> rm_signaling rm = None then media_kept rm rm' \<and> rm_state rm' = rm_state rm
    else torn_down rm rm' \<and> rm_state rm' = CLOSED"
proof (cases "rm_state rm = CLOSED \<or> rm_signaling rm = None")
  case True
  with assms show ?thesis
    by (auto simp: RoomClient_leave_def Let_def media_kept_def split: option.splits if_splits)
next
  case False
  then obtain sc where sc: "rm_signaling rm = Some sc" by auto
  obtain sc1 ws where d: "SignalingClient_disconnect sc = (sc1, ws)" by fastforce
  let ?rm = "rm\<lparr>rm_roomId := [], rm_signaling := Some sc1, rm_state := CLOSED\<rparr>"
  from assms False sc d have "destroyComponents ?rm = Inr rm'"
    by (auto simp: RoomClient_leave_def Let_def then_outs_Inr onRoomStateChanged_def ebind_eq_Inr)
  moreover from this have "rm_state rm' = CLOSED"
    by (auto simp: destroyComponents_def Let_def ebind_eq_Inr split: option.splits)
  ultimately show ?thesis using False destroyComponents_torn torn_down_pre [of ?rm rm' rm] by auto
qed

lemma blocking_kept:
  "onConnect_start lib i t d rm = Inr (rm', outs, b) \<Longrightarrow> media_kept rm rm'"
  "onProduce_start lib i t k r a rm = Inr (rm', outs, p) \<Longrightarrow> media_kept rm rm'"
  "onProduceData_start lib i t s l pr rm = Inr (rm', outs, p) \<Longrightarrow> media_kept rm rm'"
  by (auto simp: onConnect_start_def onProduce_start_def onProduceData_start_def ebind_eq_Inr
      intro!: same_media_kept dest!: on_api_same split: if_splits option.splits)

lemma room_step_shape:
  assumes "room_step lib rm outs rm'"
  shows "step_shape rm rm'"
  using assms
proof (cases rule: room_step.cases)
  case (rs_leave)
  then show ?thesis using leave_shape [of rm rm' outs] by (auto simp: step_shape_def split: if_splits)
next
  case rs_destroy
  then show ?thesis
    by (auto simp: RoomClient_destroy_def step_shape_def torn_down_def dest!: destroyComponents_torn)
next
  case (rs_task t rest gid Consume ConsumeData)
  then have "step_shape (rm\<lparr>rm_tasks := rest\<rparr>) rm'" by (intro room_task_shape)
  then show ?thesis by (rule step_shape_after [rotated]) simp
next
  case (rs_closed sc sc' calls evs)
  have "media_kept rm (room_calls lib calls (rm\<lparr>rm_signaling := Some sc'\<rparr>))"
    using room_calls_kept media_kept_trans media_kept_updates(3) by blast
  with rs_closed show ?thesis by (auto intro!: step_shape_kept intro: media_kept_trans room_signals_kept)
next
  case (rs_message sc json sc' evs)
  then show ?thesis
    by (intro step_shape_kept) (rule media_kept_trans [OF media_kept_updates(3)], rule room_signals_kept)
next
  case (rs_response sc json rest sc' calls)
  then show ?thesis
    using room_calls_kept media_kept_trans media_kept_updates(3) step_shape_kept by blast
qed (auto intro!: step_shape_kept intro: join_kept blocking_kept room_signals_kept
      on_media_controller_kept enableAudio_config enableVideo_config muteMic_config
      simp: RoomClient_enableAudio_def RoomClient_muteAudio_def RoomClient_enableVideo_def)

subsection \<open>Invariants of a room\<close>

text \<open>
  The room and its media controller agree: on the device, on both transports, and the
  participants exist exactly while the media controller does.
\<close>

definition room_inv :: "room \<Rightarrow> bool" where
  "room_inv rm \<longleftrightarrow> rm_pcOptions rm \<and> (rm_participants rm = None \<longleftrightarrow> rm_media rm = None) \<and>
     (rm_device rm = None \<longrightarrow> rm_sendTransport rm = None \<and> rm_recvTransport rm = None) \<and>
     (case rm_media rm of
        None \<Rightarrow> rm_device rm = None
      | Some mc \<Rightarrow> mc_device mc = map_option dv_kinds (rm_device rm) \<and>
          mc_sendTransport mc = (rm_sendTransport rm \<noteq> None) \<and> mc_recvTransport mc = (rm_recvTransport rm \<noteq> None))"

lemma room_inv_kept: "media_kept rm rm' \<Longrightarrow> room_inv rm \<Longrightarrow> room_inv rm'"
  by (auto simp: room_inv_def media_kept_def mc_config_def split: option.splits)

lemma room_inv_set: "component_set rm rm' \<Longrightarrow> room_inv rm \<Longrightarrow> room_inv rm'"
  by (auto simp: component_set_def room_inv_def setMediasoupDevice_def setSendTransport_def setRecvTransport_def)

lemma room_inv_torn: "torn_down rm rm' \<Longrightarrow> room_inv rm \<Longrightarrow> room_inv rm'"
  by (simp add: torn_down_def room_inv_def)

lemma room_inv_shape: "step_shape rm rm' \<Longrightarrow> room_inv rm \<Longrightarrow> room_inv rm'"
  unfolding step_shape_def using room_inv_kept room_inv_set room_inv_torn by blast

lemma room_inv_init: "room_inv (RoomClient_init new_room)"
  by (simp add: room_inv_def RoomClient_init_def new_room_def MediaController_init_def configVideoEncodings_def
      new_media_def)

lemma shape_media_None: "step_shape rm rm' \<Longrightarrow> rm_media rm = None \<Longrightarrow> rm_media rm' = None"
  by (auto simp: step_shape_def media_kept_def torn_down_def component_set_def)

lemma run_media_None: "room_run lib rm outs rm' \<Longrightarrow> rm_media rm = None \<Longrightarrow> rm_media rm' = None"
  by (induction rule: room_run.induct) (auto dest: room_step_shape shape_media_None)

text \<open>C18. In every state a room can reach from its initialisation, the room and its media controller
  agree on the device and on both transports, there is no transport without a device, and the
  participants exist exactly while the media controller does.\<close>

theorem room_invariant:
  assumes "room_run lib (RoomClient_init new_room) outs rm"
  shows "room_inv rm"
  using assms
proof induction
  case rr_start
  show ?case by (rule room_inv_init)
next
  case (rr_step outs rm' outs' rm'')
  then show ?case using room_step_shape room_inv_shape by blast
qed

lemma join_returns: "\<exists>rm' outs. RoomClient_join lib peerId host port roomId name opts rm = Inr (rm', outs)"
  by (simp add: RoomClient_join_def then_outs_def onRoomStateChanged_def Let_def case_prod_beta split: option.split)

definition demo_lib :: lib where
  "demo_lib = \<lparr>lb_parse = demo_parse, lb_print = (\<lambda>_. ''J''), lb_get_connection = (\<lambda>_. Some 1),
     lb_add_subprotocol = (\<lambda>_ _. True),
     lb_load = (\<lambda>_. Inr \<lparr>dv_kinds = [''audio'', ''video''], dv_rtpCapabilities = ''caps'', dv_sctpCapabilities = ''sctp''\<rparr>),
     lb_transport = (\<lambda>_ _ _ _ _ _. Inr ())\<rparr>"

theorem room_invariant_witness:
  "\<exists>rm outs. RoomClient_join demo_lib ''me'' ''host'' 4443 ''room'' ''Bob'' None (RoomClient_init new_room) = Inr (rm, outs) \<and>
     room_inv rm"
proof -
  obtain rm outs where join: "RoomClient_join demo_lib ''me'' ''host'' 4443 ''room'' ''Bob'' None (RoomClient_init new_room) = Inr (rm, outs)"
    using join_returns by blast
  with room_invariant [OF rr_step [OF rr_start rs_join [OF join]]] show ?thesis by blast
qed

subsection \<open>Joining\<close>

text \<open>C29. \<open>join\<close> starts a session exactly when the room is closed, every name is non-empty and there is
  a signaling client: then it connects to the room's URL with the subprotocol "protoo" and announces
  CONNECTING; in every other case nothing is sent, nothing is announced and the state is unchanged.\<close>

theorem join_spec:
  assumes "RoomClient_join lib peerId hostname port roomId displayName opts rm = r"
  shows "\<exists>rm' outs. r = Inr (rm', outs) \<and>
    (if rm_state rm = CLOSED \<and> hostname \<noteq> [] \<and> roomId \<noteq> [] \<and> displayName \<noteq> [] \<and> rm_signaling rm \<noteq> None
     then rm_state rm' = CONNECTING \<and> last outs = RoomStateChanged CONNECTING \<and> rm_peerId rm' = peerId \<and>
       (\<forall>con. lb_get_connection lib (getProtooUrl hostname port roomId peerId) = Some con \<and>
              lb_add_subprotocol lib con ''protoo'' \<longrightarrow> Wire (WireConnect con) \<in> set outs)
     else rm_state rm' = rm_state rm \<and> rm_signaling rm' = rm_signaling rm \<and> outs = [])"
proof (cases "rm_state rm = CLOSED \<and> hostname \<noteq> [] \<and> roomId \<noteq> [] \<and> displayName \<noteq> [] \<and> rm_signaling rm \<noteq> None")
  case True
  then obtain sc where sc: "rm_signaling rm = Some sc" by auto
  obtain sc1 ws1 where 1: "SignalingClient_disconnect sc = (sc1, ws1)" by fastforce
  let ?url = "getProtooUrl hostname port roomId peerId"
  obtain sc2 ws2 where 2: "SignalingClient_connect (lb_get_connection lib) (lb_add_subprotocol lib) ?url ''protoo'' sc1 = (sc2, ws2)"
    by fastforce
  have "WireConnect con \<in> set ws2"
    if "lb_get_connection lib ?url = Some con" "lb_add_subprotocol lib con ''protoo''" for con
    using 2 that
    by (auto simp: SignalingClient_connect_def Transport_connect_def TLSEndpoint_connect_def Let_def split: prod.splits)
  with True sc 1 2 show ?thesis
    by (auto simp: RoomClient_join_def Let_def then_outs_def onRoomStateChanged_def assms [symmetric])
next
  case False
  then show ?thesis
    using assms by (auto simp: RoomClient_join_def Let_def split: if_splits option.splits)
qed

theorem join_spec_witness:
  "\<exists>rm' outs. RoomClient_join demo_lib ''me'' ''host'' 4443 ''r1'' ''Bob'' None (RoomClient_init new_room) = Inr (rm', outs) \<and>
     rm_state rm' = CONNECTING \<and> Wire (WireConnect 1) \<in> set outs"
  using join_spec [OF refl, of demo_lib "''me''" "''host''" 4443 "''r1''" "''Bob''" None "RoomClient_init new_room"]
  by (auto simp: RoomClient_init_def new_room_def demo_lib_def)

subsection \<open>After leaving\<close>


definition demo_joined :: room where
  "demo_joined = (RoomClient_init new_room)\<lparr>rm_state := CONNECTED\<rparr>"


subsection \<open>Options\<close>

lemma options_shape:
  assumes "step_shape rm rm'" and "\<And>mc. rm_media rm = Some mc \<Longrightarrow> mc_options mc = o'"
  shows "rm_media rm' = Some mc' \<Longrightarrow> mc_options mc' = o'"
proof -
  have kept: "mc_options mc = o'"
    if "media_kept a b" "rm_media b = Some mc" "\<And>m. rm_media a = Some m \<Longrightarrow> mc_options m = o'" for a b mc
  proof -
    from that(1,2) obtain m where "rm_media a = Some m" and "mc_config m = mc_config mc"
      by (cases "rm_media a") (simp_all add: media_kept_def)
    with that(3) [of m] show ?thesis by (simp add: mc_config_def)
  qed
  have set: "mc_options mc = o'"
    if "component_set a b" "rm_media b = Some mc" "\<And>m. rm_media a = Some m \<Longrightarrow> mc_options m = o'" for a b mc
  proof -
    from that(1) obtain m where "rm_media a = Some m" and "mc_options (the (rm_media b)) = mc_options m"
      unfolding component_set_def
      by (elim exE conjE disjE) (auto simp: setMediasoupDevice_def setSendTransport_def setRecvTransport_def)
    with that(2) that(3) [of m] show ?thesis by simp
  qed
  assume mc': "rm_media rm' = Some mc'"
  from assms(1) consider "media_kept rm rm'" | "torn_down rm rm'"
    | a b where "media_kept rm a" "component_set a b" "media_kept b rm'"
    unfolding step_shape_def by blast
  then show ?thesis
  proof cases
    case 1
    then show ?thesis using kept [OF 1 mc'] assms(2) by blast
  next
    case 2
    then show ?thesis using mc' by (simp add: torn_down_def)
  next
    case 3
    have "mc_options m = o'" if "rm_media a = Some m" for m using kept [OF 3(1) that] assms(2) by blast
    then have "mc_options m = o'" if "rm_media b = Some m" for m using set [OF 3(2) that] by blast
    then show ?thesis using kept [OF 3(3) mc'] by blast
  qed
qed

text \<open>The options an application passes to \<open>join\<close> never reach the media controller: it was built with
  the default options when the room was initialised, and keeps them in every reachable state. In
  particular simulcast is never used, and consuming and data channels cannot be switched off there.\<close>

theorem options_never_reach_media:
  assumes "room_run lib (RoomClient_init new_room) outs rm" and "rm_media rm = Some mc"
  shows "mc_options mc = default_options \<and> \<not> value_or (opt_useSimulcast (mc_options mc)) False"
proof -
  have "\<forall>mc. rm_media rm = Some mc \<longrightarrow> mc_options mc = default_options"
    using assms(1)
  proof induction
    case rr_start
    show ?case by (auto simp: RoomClient_init_def new_room_def MediaController_init_def configVideoEncodings_def new_media_def)
  next
    case (rr_step outs rm' outs' rm'')
    then show ?case using options_shape [OF room_step_shape] by blast
  qed
  with assms(2) show ?thesis by (simp add: default_options_def)
qed

theorem options_never_reach_media_witness:
  "\<exists>outs rm mc. room_run demo_lib (RoomClient_init new_room) outs rm \<and> rm_options rm = default_options\<lparr>opt_useSimulcast := Some True\<rparr> \<and>
     rm_media rm = Some mc \<and> \<not> value_or (opt_useSimulcast (mc_options mc)) False"
proof -
  let ?opts = "default_options\<lparr>opt_useSimulcast := Some True\<rparr>"
  obtain rm outs where join: "RoomClient_join demo_lib ''me'' ''host'' 4443 ''r1'' ''Bob'' (Some ?opts) (RoomClient_init new_room) = Inr (rm, outs)"
    and rm: "rm_options rm = ?opts" "rm_media rm \<noteq> None"
    by (auto simp: RoomClient_join_def RoomClient_init_def new_room_def Let_def then_outs_def onRoomStateChanged_def
        split_beta)
  have run: "room_run demo_lib (RoomClient_init new_room) ([] @ outs) rm"
    by (rule rr_step [OF rr_start rs_join [OF join]])
  with rm options_never_reach_media [OF run] show ?thesis by blast
qed

subsection \<open>Answers that should not count\<close>

text \<open>Any answer to the join request that carries an \<^verbatim>\<open>ok\<close> member, \<^verbatim>\<open>ok: false\<close> included, puts the room
  into CONNECTED, even when it has been left in the meantime.\<close>

theorem refused_join_connects:
  assumes "member JoinResponse ''ok'' r = Some (VBool b)"
  shows "rm_state (room_on_call (ApiCall CbJoin 0 info (Some r)) rm) = CONNECTED \<and>
    rm_tasks (room_on_call (ApiCall CbJoin 0 info (Some r)) rm) = rm_tasks rm @ [TaskJoined CONNECTED r]"
  using assms by (simp add: accepted_def post_task_def Let_def)

theorem refused_join_connects_witness:
  "rm_state (room_on_call (ApiCall CbJoin 0 [] (Some [Some (VBool True), Some (VInt 3), Some (VBool False), None])) new_room) = CONNECTED"
  using refused_join_connects [of "[Some (VBool True), Some (VInt 3), Some (VBool False), None]" False "[]" new_room]
  by (simp add: member_def JoinResponse_def)

text \<open>A room whose options switch data channels off asks for transports without SCTP capabilities, but
  an answer without \<^verbatim>\<open>sctpParameters\<close> ends the handshake: the empty optional is read regardless of
  the options.\<close>

theorem transport_needs_sctp:
  assumes "rm_device rm = Some dv" and "the_obj (member CreateWebRtcTransportResponse ''data'' r) = Some d"
    and "member CreateWebRtcTransportResponse_Data ''sctpParameters'' d = None"
  shows "isl (createTransportImpl lib producing consuming r rm)"
  using assms
  by (cases "the_obj (member CreateWebRtcTransportResponse_Data ''iceParameters'' d)";
      cases "the_objs (member CreateWebRtcTransportResponse_Data ''iceCandidates'' d)";
      cases "the_obj (member CreateWebRtcTransportResponse_Data ''dtlsParameters'' d)")
    (simp_all add: createTransportImpl_def Let_def)

theorem transport_needs_sctp_witness:
  "isl (createTransportImpl demo_lib True False [Some (VBool True), Some (VInt 1), Some (VBool True),
      Some (VStruct [Some (VStr ''t1''), Some (VStruct []), Some (VVec []), Some (VStruct []), None])]
      (new_room\<lparr>rm_options := default_options\<lparr>opt_datachannel := Some False\<rparr>,
                rm_device := Some \<lparr>dv_kinds = [], dv_rtpCapabilities = [], dv_sctpCapabilities = []\<rparr>\<rparr>))"
  by (rule transport_needs_sctp) code_simp+

end
