(* ===== verification/Transport_Listener.thy ===== *)
theory Transport_Listener
  imports Room_Client
begin

text \<open>
  The room as listener of its transports (\<^verbatim>\<open>core/service/room_client.cpp\<close>): the media library calls
  \<open>OnConnect\<close>, \<open>OnProduce\<close> and \<open>OnProduceData\<close> and waits for the future they return. Each runs its
  private counterpart of \<open>Room_Client\<close> on a thread of its own, if the room still exists
  (\<open>alive\<close>: what locking the weak pointer gives), and that thread blocks on a promise which the
  callback of a typed request sets.

  The lemmas follow such a call to its end, through the room, the typed interface and the
  signaling client: what the server's answer, the end of the connection and an answer that cannot
  be decoded make of the promise.
\<close>

subsection \<open>The calls of the media library\<close>

definition RoomClient_OnConnect ::
  "bool \<Rightarrow> lib \<Rightarrow> int \<Rightarrow> string \<Rightarrow> string \<Rightarrow> room \<Rightarrow> fault + room \<times> room_out list \<times> unit blocking" where
  "RoomClient_OnConnect alive lib gid transportId dtlsParameters rm =
     (if \<not> alive then Inr (rm, [], Returned ())
      else onConnect_start lib gid transportId dtlsParameters rm)"

definition RoomClient_OnConnectionStateChange :: "string \<Rightarrow> string \<Rightarrow> room \<Rightarrow> room" where
  "RoomClient_OnConnectionStateChange transportId connectionState rm = rm"

definition RoomClient_OnProduce ::
  "bool \<Rightarrow> lib \<Rightarrow> int \<Rightarrow> string \<Rightarrow> string \<Rightarrow> string \<Rightarrow> json \<Rightarrow> room \<Rightarrow> fault + room \<times> room_out list \<times> string blocking" where
  "RoomClient_OnProduce alive lib gid transportId kind rtpParameters appData rm =
     (if \<not> alive then Inr (rm, [], Returned [])
      else onProduce_start lib gid transportId kind rtpParameters appData rm)"

definition RoomClient_OnProduceData ::
  "bool \<Rightarrow> lib \<Rightarrow> int \<Rightarrow> string \<Rightarrow> string \<Rightarrow> string \<Rightarrow> string \<Rightarrow> room \<Rightarrow> fault + room \<times> room_out list \<times> string blocking" where
  "RoomClient_OnProduceData alive lib gid transportId sctpStreamParameters label protocol rm =
     (if \<not> alive then Inr (rm, [], Returned [])
      else onProduceData_start lib gid transportId sctpStreamParameters label protocol rm)"

text \<open>What the callbacks of these calls set their promise to; the one of \<open>OnConnect\<close> has no value.\<close>

fun promise_set :: "room_cb api_call \<Rightarrow> (fault + string) list" where
  "promise_set (ApiCall CbConnect errorCode errorInfo response) = [Inr []]"
| "promise_set (ApiCall CbProduce errorCode errorInfo response) = [onProduce_finish errorCode response]"
| "promise_set (ApiCall CbProduceData errorCode errorInfo response) = [onProduceData_finish errorCode response]"
| "promise_set _ = []"

definition promises :: "lib \<Rightarrow> room_cb api_token call list \<Rightarrow> (fault + string) list" where
  "promises lib calls = concat (map promise_set (concat (map (api_calls (lb_parse lib)) calls)))"

subsection \<open>A pending request of the listener\<close>

text \<open>The request with id \<open>gid\<close> is pending, with the callback \<open>k\<close> waiting for a response of class \<open>S\<close>.\<close>

definition pending :: "int \<Rightarrow> cstruct \<Rightarrow> room_cb \<Rightarrow> room_cb api_token signaling \<Rightarrow> bool" where
  "pending gid S k sc \<longleftrightarrow>
     (\<exists>rq. um_find (sc_requestMap sc) gid = Some rq \<and> rq_resolve rq = Some (S, Some k) \<and> rq_reject rq = Some (S, Some k))"

lemma send_pending:
  assumes "MediasoupApi_send print R S True (Some rq) (Some k) sc = Inr (sc', ws)"
    and "toJsonString print (fields_of R) rq \<noteq> []" and "the_int (member R ''id'' rq) = Some gid" and "generateID_range gid"
  shows "pending gid S k sc'"
proof -
  have "SignalingClient_send (toJsonString print (fields_of R) rq) gid (Some (S, Some k)) (Some (S, Some k)) sc = Inr (sc', ws)"
    using assms(1,3) by (simp add: MediasoupApi_send_def)
  moreover have "narrow32 gid = gid" using assms(4) by (intro narrow32_id generateID_is_int32)
  ultimately show ?thesis using assms(2)
    by (cases rule: SignalingClient_send_cases) (auto simp: pending_def)
qed

lemma pending_answered:
  assumes "pending gid S k sc" and "json \<noteq> []" and "response_id parse json = Some gid"
    and "decode parse 0 S json = Inr r"
  shows "\<exists>sc' calls. run_response parse json sc = (sc', calls) \<and> um_find (sc_requestMap sc') gid = None \<and>
    concat (map (api_calls parse) calls) = [ApiCall k 0 [] (Some r)]"
  using assms by (auto simp: pending_def run_response_unfold Request_resolve_def on_resolve_def)

lemma pending_undecodable:
  assumes "pending gid S k sc" and "response_id parse json = Some gid" and "decode parse 0 S json = Inl e"
  shows "\<exists>sc' calls. run_response parse json sc = (sc', calls) \<and> um_find (sc_requestMap sc') gid = None \<and>
    concat (map (api_calls parse) calls) = []"
  using assms by (auto simp: pending_def run_response_unfold Request_resolve_def on_resolve_def)

lemma pending_closed:
  assumes "pending gid S k sc" and "SignalingClient_onClosed sc = (sc', calls, evs)"
  shows "ApiCall k 2 ''connection closed'' None \<in> set (concat (map (api_calls parse) calls))"
proof -
  obtain rq where rq: "um_find (sc_requestMap sc) gid = Some rq" "rq_reject rq = Some (S, Some k)"
    using assms(1) by (auto simp: pending_def)
  then have "(gid, rq) \<in> set (sc_requestMap sc)" by (auto simp: um_find_def dest: map_of_SomeD)
  moreover have "CallReject (S, Some k) 2 ''connection closed'' \<in> set (Request_close rq)"
    using rq(2) by (simp add: Request_close_def)
  ultimately have "CallReject (S, Some k) 2 ''connection closed'' \<in> set calls"
    using assms(2) by (fastforce simp: SignalingClient_onClosed_def)
  then show ?thesis by (force simp: on_reject_def)
qed

text \<open>A call that waits has its request pending, as long as the room has a signaling client.\<close>

lemma listener_request_id:
  "the_int (member ProduceRequest ''id'' (with_data ProduceRequest ProduceRequest_Data args (new_object ProduceRequest gid))) = Some gid"
  "the_int (member ProduceDataRequest ''id'' (with_data ProduceDataRequest ProduceDataRequest_Data args (new_object ProduceDataRequest gid))) = Some gid"
  "the_int (member ConnectWebRtcTransportRequest ''id'' (with_data ConnectWebRtcTransportRequest ConnectWebRtcTransportRequest_Data args
     (new_object ConnectWebRtcTransportRequest gid))) = Some gid"
  by (simp_all add: member_def with_data_def set_member_def new_object_def ProduceRequest_def ProduceDataRequest_def
      ConnectWebRtcTransportRequest_def)

lemma on_api_pending:
  assumes "on_api (MediasoupApi_send (lb_print lib) R S True (Some rq) (Some k)) rm = Inr (rm', outs)"
    and "rm_signaling rm = Some sc" and "\<And>j. lb_print lib j \<noteq> []"
    and "the_int (member R ''id'' rq) = Some gid" and "generateID_range gid"
  shows "\<exists>sc'. rm_signaling rm' = Some sc' \<and> pending gid S k sc'"
  using assms by (auto simp: on_api_def ebind_eq_Inr toJsonString_def intro!: send_pending)

lemma produce_waits_pending:
  assumes "RoomClient_OnProduce alive lib gid tid kind rtp app rm = Inr (rm', outs, Waiting)"
    and "rm_signaling rm = Some sc" and "\<And>j. lb_print lib j \<noteq> []" and "generateID_range gid"
  shows "\<exists>sc'. rm_signaling rm' = Some sc' \<and> pending gid ProduceResponse CbProduce sc'"
  using assms(1)
  by (auto simp: RoomClient_OnProduce_def onProduce_start_def ebind_eq_Inr MediasoupApi_produce_def [abs_def]
      split: if_splits option.splits intro: on_api_pending [OF _ assms(2,3) listener_request_id(1) assms(4)])


definition listener_lib :: lib where
  "listener_lib = \<lparr>lb_parse = (\<lambda>s. if s = ''{}'' then Some (JObject []) else None), lb_print = (\<lambda>_. ''P''),
     lb_get_connection = (\<lambda>_. None), lb_add_subprotocol = (\<lambda>_ _. False), lb_load = (\<lambda>_. Inl ''x''),
     lb_transport = (\<lambda>_ _ _ _ _ _. Inl ''x'')\<rparr>"

definition listener_room :: room where
  "listener_room = new_room\<lparr>rm_api := True, rm_signaling := Some connected\<rparr>"


end
