(* ===== verification/Session.thy ===== *)
theory Session
  imports Room_Client
begin

text \<open>
  Properties that span the components: from the text a server sends to the state of the room and
  the events its observers see. A session is described by what the server answers
  (\<open>answers\<close>, \<open>transport_info\<close>) and by what the libraries accept; the theorems say where the room
  ends up.
\<close>

lemma room_run_trans:
  assumes "room_run lib rm outs rm'" and "room_run lib rm' outs' rm''"
  shows "room_run lib rm (outs @ outs') rm''"
  using assms(2,1)
proof induction
  case rr_start
  then show ?case by simp
next
  case (rr_step outs1 rm1 outs2 rm2)
  then show ?case using room_run.rr_step [of lib rm "outs @ outs1" rm1 outs2 rm2] by simp
qed

subsection \<open>One request and its answer\<close>

text \<open>A signaling client that can send, with no response waiting to be handled.\<close>

definition sc_ready :: "room_cb api_token signaling \<Rightarrow> bool" where
  "sc_ready sc \<longleftrightarrow> sc_thread sc \<and> sc_posted sc = [] \<and> tp_websocket (sc_transport sc) \<noteq> None"

text \<open>
  \<open>json\<close> answers the request \<open>i\<close> with the response \<open>r\<close> of type \<open>S\<close>: it is classified as a
  response, carries the id and decodes.
\<close>

definition is_response :: "(string \<Rightarrow> json option) \<Rightarrow> string \<Rightarrow> bool" where
  "is_response parse json =
     (case decode parse 0 MessageType json of
        Inl _ \<Rightarrow> False
      | Inr m \<Rightarrow> \<not> value_or (the_bool (member MessageType ''notification'' m)) False \<and>
                  value_or (the_bool (member MessageType ''response'' m)) False)"

definition answers :: "lib \<Rightarrow> int \<Rightarrow> cstruct \<Rightarrow> string \<Rightarrow> obj \<Rightarrow> bool" where
  "answers lib i S json r \<longleftrightarrow>
     json \<noteq> [] \<and> is_response (lb_parse lib) json \<and> response_id (lb_parse lib) json = Some i \<and>
     decode (lb_parse lib) 0 S json = Inr r \<and> generateID_range i \<and> member S ''ok'' r \<noteq> None"

lemma answers_accepted: "answers lib i S json r \<Longrightarrow> accepted S 0 (Some r) = Some r"
  by (simp add: answers_def accepted_def)

lemma onMessage_response:
  "is_response parse json \<Longrightarrow> SignalingClient_onMessage parse json sc = (handleResponse json sc, [])"
  by (auto simp: is_response_def SignalingClient_onMessage_def split: sum.splits)

text \<open>The two steps in which an answer reaches the room: the message, and the task it posts.\<close>

lemma answer_run:
  assumes "rm_signaling rm = Some sc" and "sc_ready sc" and "answers lib i S json r"
    and "um_find (sc_requestMap sc) i = Some rq" and "rq_resolve rq = Some (S, Some k)"
  shows "room_run lib rm [] (room_on_call (ApiCall k 0 [] (Some r))
           (rm\<lparr>rm_signaling := Some (sc\<lparr>sc_requestMap := um_erase i (sc_requestMap sc)\<rparr>)\<rparr>))"
proof -
  let ?rm1 = "rm\<lparr>rm_signaling := Some (sc\<lparr>sc_posted := [json]\<rparr>)\<rparr>"
  have posted: "handleResponse json sc = sc\<lparr>sc_posted := [json]\<rparr>"
    using assms(2) by (simp add: handleResponse_def sc_ready_def)
  have "room_step lib rm [] ?rm1"
    using rs_message [OF assms(1) onMessage_response [of "lb_parse lib" json], of ?rm1 "[]"] assms(3) posted
    by (simp add: answers_def)
  moreover have run: "run_response (lb_parse lib) json (sc\<lparr>sc_posted := []\<rparr>) =
      (sc\<lparr>sc_requestMap := um_erase i (sc_requestMap sc)\<rparr>, [CallResolve (S, Some k) json])"
    using assms(2-5) by (simp add: run_response_unfold answers_def Request_resolve_def sc_ready_def)
  have "room_step lib ?rm1 [] (room_on_call (ApiCall k 0 [] (Some r))
           (rm\<lparr>rm_signaling := Some (sc\<lparr>sc_requestMap := um_erase i (sc_requestMap sc)\<rparr>)\<rparr>))"
    using rs_response [of ?rm1 "sc\<lparr>sc_posted := [json]\<rparr>" json "[]" lib] run assms(3)
    by (simp add: room_calls_def on_resolve_def answers_def)
  ultimately show ?thesis
    using rr_step [OF rr_step [OF rr_start]] by fastforce
qed

lemma send_ready:
  assumes "sc_ready sc" and "lb_print lib (jserialize (fields_of Rq) rq) \<noteq> []"
    and "the_int (member Rq ''id'' rq) = Some i" and "generateID_range i" and "rm_signaling rm = Some sc"
  shows "\<exists>sc' ws rq'. on_api (MediasoupApi_send (lb_print lib) Rq Rs True (Some rq) (Some k)) rm =
      Inr (rm\<lparr>rm_signaling := Some sc'\<rparr>, map Wire ws) \<and> sc_ready sc' \<and>
      um_find (sc_requestMap sc') i = Some rq' \<and> rq_resolve rq' = Some (Rs, Some k)"
proof -
  obtain ep where ep: "tp_websocket (sc_transport sc) = Some ep" using assms(1) by (auto simp: sc_ready_def)
  let ?rq = "\<lparr>rq_id = i, rq_text = toJsonString (lb_print lib) (fields_of Rq) rq, rq_data = [],
     rq_resolve = Some (Rs, Some k), rq_reject = Some (Rs, Some k), rq_timer = True\<rparr>"
  let ?sc = "sc\<lparr>sc_requestMap := um_put i ?rq (sc_requestMap sc)\<rparr>"
  have "narrow32 i = i" using assms(4) by (intro narrow32_id generateID_is_int32)
  then have "\<exists>ws. on_api (MediasoupApi_send (lb_print lib) Rq Rs True (Some rq) (Some k)) rm =
      Inr (rm\<lparr>rm_signaling := Some ?sc\<rparr>, map Wire ws)"
    unfolding on_api_def using assms(2,3,5) ep
    by (simp add: MediasoupApi_send_def SignalingClient_send_def toJsonString_def Transport_send_def
        new_request_def Request_ticktock_def Request_id_def Let_def del: map_append list.map) blast
  moreover have "sc_ready ?sc" "um_find (sc_requestMap ?sc) i = Some ?rq" "rq_resolve ?rq = Some (Rs, Some k)"
    using assms(1) by (simp_all add: sc_ready_def)
  ultimately show ?thesis by blast
qed

text \<open>
  A task that ends by sending a request, followed by the answer: what remains is the effect of
  the callback on the room.
\<close>

lemma exchange:
  assumes "rm_tasks rm = [t]" and "rm_signaling rm' = Some sc" and "sc_ready sc"
    and "run_room_task lib (\<lambda>_. i) C D t (rm\<lparr>rm_tasks := []\<rparr>) =
      on_api (MediasoupApi_send (lb_print lib) Rq Rs True (Some rq) (Some k)) rm'"
    and "the_int (member Rq ''id'' rq) = Some i" and "\<And>j. lb_print lib j \<noteq> []"
    and "answers lib i Rs json r"
  shows "\<exists>sc' ws. sc_ready sc' \<and>
    room_run lib rm (map Wire ws) (room_on_call (ApiCall k 0 [] (Some r)) (rm'\<lparr>rm_signaling := Some sc'\<rparr>))"
proof -
  have gid: "generateID_range i" using assms(7) by (simp add: answers_def)
  obtain sc' ws rq' where sent: "run_room_task lib (\<lambda>_. i) C D t (rm\<lparr>rm_tasks := []\<rparr>) =
      Inr (rm'\<lparr>rm_signaling := Some sc'\<rparr>, map Wire ws)"
    and sc': "sc_ready sc'" "um_find (sc_requestMap sc') i = Some rq'" "rq_resolve rq' = Some (Rs, Some k)"
    using send_ready [OF assms(3,6,5) gid assms(2), of Rs k] assms(4) by metis
  let ?sc = "sc'\<lparr>sc_requestMap := um_erase i (sc_requestMap sc')\<rparr>"
  have "room_run lib (rm'\<lparr>rm_signaling := Some sc'\<rparr>) []
      (room_on_call (ApiCall k 0 [] (Some r)) (rm'\<lparr>rm_signaling := Some ?sc\<rparr>))"
    using answer_run [OF _ sc'(1) assms(7) sc'(2,3), of "rm'\<lparr>rm_signaling := Some sc'\<rparr>"] by simp
  moreover have "room_step lib rm (map Wire ws) (rm'\<lparr>rm_signaling := Some sc'\<rparr>)"
    by (rule rs_task [OF assms(1) sent])
  moreover have "sc_ready ?sc" using sc'(1) by (simp add: sc_ready_def)
  ultimately show ?thesis using room_run_trans rr_step [OF rr_start] by fastforce
qed

subsection \<open>The handshake\<close>

text \<open>What the device must be able to report for the requests to be built.\<close>

definition device_ok :: "lib \<Rightarrow> device \<Rightarrow> bool" where
  "device_ok lib dv \<longleftrightarrow>
     capabilities lib CreateWebRtcTransportRequest_SCTPCapabilities (dv_sctpCapabilities dv) \<noteq> None \<and>
     capabilities lib JoinRequest_SCTPCapabilities (dv_sctpCapabilities dv) \<noteq> None \<and>
     capabilities lib JoinRequest_RTPCapabilities (dv_rtpCapabilities dv) \<noteq> None"

text \<open>The description of a transport in an answer, and the id it gives.\<close>

definition transport_data :: "obj \<Rightarrow> obj option" where
  "transport_data r = the_obj (member CreateWebRtcTransportResponse ''data'' r)"

definition transport_info :: "obj \<Rightarrow> bool" where
  "transport_info r =
     (case transport_data r of
        None \<Rightarrow> False
      | Some d \<Rightarrow>
          the_obj (member CreateWebRtcTransportResponse_Data ''iceParameters'' d) \<noteq> None \<and>
          the_objs (member CreateWebRtcTransportResponse_Data ''iceCandidates'' d) \<noteq> None \<and>
          the_obj (member CreateWebRtcTransportResponse_Data ''dtlsParameters'' d) \<noteq> None \<and>
          the_obj (member CreateWebRtcTransportResponse_Data ''sctpParameters'' d) \<noteq> None)"

definition transport_id :: "obj \<Rightarrow> string" where
  "transport_id r =
     (case transport_data r of
        None \<Rightarrow> []
      | Some d \<Rightarrow> value_or (the_str (member CreateWebRtcTransportResponse_Data ''id'' d)) [])"

lemma request_ids:
  "the_int (member GetRouterRtpCapabilitiesRequest ''id'' (new_object GetRouterRtpCapabilitiesRequest g)) = Some g"
  "the_int (member CreateWebRtcTransportRequest ''id'' (with_data CreateWebRtcTransportRequest
     CreateWebRtcTransportRequest_Data args (new_object CreateWebRtcTransportRequest g))) = Some g"
  "the_int (member JoinRequest ''id'' (with_data JoinRequest JoinRequest_Data args (new_object JoinRequest g))) = Some g"
  by (simp_all add: member_def new_object_def with_data_def set_member_def
      GetRouterRtpCapabilitiesRequest_def CreateWebRtcTransportRequest_def JoinRequest_def)

lemma capabilities_request:
  "rm_api rm \<Longrightarrow> RoomClient_getRouterRtpCapabilities lib g rm =
     on_api (MediasoupApi_send (lb_print lib) GetRouterRtpCapabilitiesRequest GetRouterRtpCapabilitiesResponse True
       (Some (new_object GetRouterRtpCapabilitiesRequest g)) (Some CbRouterCapabilities)) rm"
  by (simp add: RoomClient_getRouterRtpCapabilities_def MediasoupApi_getRouterRtpCapabilities_def [abs_def])

lemma transport_request:
  assumes "rm_api rm" and "rm_device rm = Some dv" and "device_ok lib dv"
  shows "\<exists>args. requestCreateTransport lib g f p c rm =
     on_api (MediasoupApi_send (lb_print lib) CreateWebRtcTransportRequest CreateWebRtcTransportResponse True
       (Some (with_data CreateWebRtcTransportRequest CreateWebRtcTransportRequest_Data args
          (new_object CreateWebRtcTransportRequest g))) (Some (CbCreateTransport p c))) rm"
  using assms
  by (auto simp: requestCreateTransport_def device_ok_def MediasoupApi_createWebRtcTransport_def [abs_def] Let_def)

lemma join_request:
  assumes "rm_api rm" and "rm_device rm = Some dv" and "device_ok lib dv"
  shows "\<exists>args. joinImpl lib g rm =
     on_api (MediasoupApi_send (lb_print lib) JoinRequest JoinResponse True
       (Some (with_data JoinRequest JoinRequest_Data args (new_object JoinRequest g))) (Some CbJoin)) rm"
proof -
  obtain a b where "capabilities lib JoinRequest_SCTPCapabilities (dv_sctpCapabilities dv) = Some a"
    and "capabilities lib JoinRequest_RTPCapabilities (dv_rtpCapabilities dv) = Some b"
    using assms(3) by (auto simp: device_ok_def)
  with assms(1,2) show ?thesis
    unfolding joinImpl_def MediasoupApi_join_def [abs_def] Let_def
    by (cases "value_or (opt_datachannel (rm_options rm)) False"; cases "value_or (opt_consume (rm_options rm)) False")
      (auto simp del: fold_simps)
qed

lemma transport_created:
  assumes "transport_info r" and "rm_device rm = Some dv" and "rm_media rm = Some mc"
    and "\<And>s i a b c d. lb_transport lib s i a b c d = Inr ()"
  shows "createTransportImpl lib True False r rm =
      Inr (rm\<lparr>rm_sendTransport := Some (transport_id r), rm_media := Some (setSendTransport True mc)\<rparr>)"
    and "createTransportImpl lib False True r rm =
      Inr (rm\<lparr>rm_recvTransport := Some (transport_id r), rm_media := Some (setRecvTransport True mc)\<rparr>)"
proof -
  obtain d where d: "the_obj (member CreateWebRtcTransportResponse ''data'' r) = Some d"
    using assms(1) by (cases "the_obj (member CreateWebRtcTransportResponse ''data'' r)")
      (simp_all add: transport_info_def transport_data_def)
  obtain a b c e where "the_obj (member CreateWebRtcTransportResponse_Data ''iceParameters'' d) = Some a"
    and "the_objs (member CreateWebRtcTransportResponse_Data ''iceCandidates'' d) = Some b"
    and "the_obj (member CreateWebRtcTransportResponse_Data ''dtlsParameters'' d) = Some c"
    and "the_obj (member CreateWebRtcTransportResponse_Data ''sctpParameters'' d) = Some e"
    using assms(1) d by (auto simp: transport_info_def transport_data_def)
  with d assms(2-4) show
    "createTransportImpl lib True False r rm =
      Inr (rm\<lparr>rm_sendTransport := Some (transport_id r), rm_media := Some (setSendTransport True mc)\<rparr>)"
    "createTransportImpl lib False True r rm =
      Inr (rm\<lparr>rm_recvTransport := Some (transport_id r), rm_media := Some (setRecvTransport True mc)\<rparr>)"
    by (simp_all add: createTransportImpl_def Let_def transport_id_def transport_data_def lib_call_def)
qed

text \<open>The five tasks of a session that produces and consumes, each with the answer it waits for.\<close>

lemma phase_capabilities:
  assumes "rm_tasks rm = [TaskRouterCapabilities]" and "rm_signaling rm = Some sc" and "sc_ready sc" and "rm_api rm"
    and "\<And>j. lb_print lib j \<noteq> []" and "answers lib g GetRouterRtpCapabilitiesResponse json r"
  shows "\<exists>sc' ws. sc_ready sc' \<and> room_run lib rm (map Wire ws) (rm\<lparr>rm_signaling := Some sc', rm_tasks := [TaskLoadDevice r]\<rparr>)"
  using exchange [OF assms(1) _ assms(3) _ request_ids(1) assms(5,6), of "rm\<lparr>rm_tasks := []\<rparr>" _ _ CbRouterCapabilities]
    assms(2,4) answers_accepted [OF assms(6)]
  by (simp add: capabilities_request post_task_def)

lemma phase_device:
  assumes "rm_tasks rm = [TaskLoadDevice r1]" and "rm_signaling rm = Some sc" and "sc_ready sc" and "rm_api rm"
    and "\<And>j. lb_print lib j \<noteq> []" and "answers lib g CreateWebRtcTransportResponse json r"
    and "rm_device rm = None" and "rm_media rm = Some mc"
    and "the_obj (member GetRouterRtpCapabilitiesResponse ''data'' r1) = Some d"
    and "lb_load lib (jserialize (fields_of GetRouterRtpCapabilitiesResponse_Data) d) = Inr dv"
    and "device_ok lib dv" and "value_or (opt_produce (rm_options rm)) False"
  shows "\<exists>sc' ws. sc_ready sc' \<and> room_run lib rm (map Wire ws)
    (rm\<lparr>rm_device := Some dv, rm_media := Some (setMediasoupDevice (Some (dv_kinds dv)) mc),
        rm_signaling := Some sc', rm_tasks := [TaskTransportCreated True False r]\<rparr>)"
proof -
  let ?rm = "rm\<lparr>rm_tasks := [], rm_device := Some dv, rm_media := Some (setMediasoupDevice (Some (dv_kinds dv)) mc)\<rparr>"
  obtain args where req: "requestCreateTransport lib g False True False ?rm =
     on_api (MediasoupApi_send (lb_print lib) CreateWebRtcTransportRequest CreateWebRtcTransportResponse True
       (Some (with_data CreateWebRtcTransportRequest CreateWebRtcTransportRequest_Data args
          (new_object CreateWebRtcTransportRequest g))) (Some (CbCreateTransport True False))) ?rm"
    using transport_request [of ?rm dv lib g False True False] assms(4,11) by auto
  have "run_room_task lib (\<lambda>_. g) C D (TaskLoadDevice r1) (rm\<lparr>rm_tasks := []\<rparr>) =
      requestCreateTransport lib g False True False ?rm" for C D
    using assms(7-10,12) by (simp add: onLoadMediasoupDevice_def lib_call_def createSendTransport_def)
  from exchange [OF assms(1) _ assms(3) this [unfolded req] request_ids(2) assms(5,6)] show ?thesis
    using assms(2) answers_accepted [OF assms(6)] by (simp add: post_task_def)
qed

lemma phase_send:
  assumes "rm_tasks rm = [TaskTransportCreated True False r2]" and "rm_signaling rm = Some sc" and "sc_ready sc"
    and "rm_api rm" and "\<And>j. lb_print lib j \<noteq> []" and "answers lib g CreateWebRtcTransportResponse json r"
    and "rm_device rm = Some dv" and "rm_media rm = Some mc" and "device_ok lib dv" and "transport_info r2"
    and "\<And>s i a b c d. lb_transport lib s i a b c d = Inr ()" and "value_or (opt_consume (rm_options rm)) False"
  shows "\<exists>sc' ws. sc_ready sc' \<and> room_run lib rm (map Wire ws)
    (rm\<lparr>rm_sendTransport := Some (transport_id r2), rm_media := Some (setSendTransport True mc),
        rm_signaling := Some sc', rm_tasks := [TaskTransportCreated False True r]\<rparr>)"
proof -
  let ?rm = "rm\<lparr>rm_tasks := [], rm_sendTransport := Some (transport_id r2), rm_media := Some (setSendTransport True mc)\<rparr>"
  obtain args where req: "requestCreateTransport lib g False False True ?rm =
     on_api (MediasoupApi_send (lb_print lib) CreateWebRtcTransportRequest CreateWebRtcTransportResponse True
       (Some (with_data CreateWebRtcTransportRequest CreateWebRtcTransportRequest_Data args
          (new_object CreateWebRtcTransportRequest g))) (Some (CbCreateTransport False True))) ?rm"
    using transport_request [of ?rm dv lib g False False True] assms(4,7,9) by auto
  have "run_room_task lib (\<lambda>_. g) C D (TaskTransportCreated True False r2) (rm\<lparr>rm_tasks := []\<rparr>) =
      requestCreateTransport lib g False False True ?rm" for C D
    using transport_created(1) [OF assms(10) _ _ assms(11), of "rm\<lparr>rm_tasks := []\<rparr>"] assms(7,8,12)
    by (simp add: onCreateSendTransport_def createRecvTransport_def)
  from exchange [OF assms(1) _ assms(3) this [unfolded req] request_ids(2) assms(5,6)] show ?thesis
    using assms(2) answers_accepted [OF assms(6)] by (simp add: post_task_def)
qed

lemma phase_recv:
  assumes "rm_tasks rm = [TaskTransportCreated False True r3]" and "rm_signaling rm = Some sc" and "sc_ready sc"
    and "rm_api rm" and "\<And>j. lb_print lib j \<noteq> []" and "answers lib g JoinResponse json r"
    and "rm_device rm = Some dv" and "rm_media rm = Some mc" and "device_ok lib dv" and "transport_info r3"
    and "\<And>s i a b c d. lb_transport lib s i a b c d = Inr ()"
  shows "\<exists>sc' ws. sc_ready sc' \<and> room_run lib rm (map Wire ws)
    (rm\<lparr>rm_recvTransport := Some (transport_id r3), rm_media := Some (setRecvTransport True mc),
        rm_signaling := Some sc', rm_state := CONNECTED, rm_tasks := [TaskJoined CONNECTED r]\<rparr>)"
proof -
  let ?rm = "rm\<lparr>rm_tasks := [], rm_recvTransport := Some (transport_id r3), rm_media := Some (setRecvTransport True mc)\<rparr>"
  obtain args where req: "joinImpl lib g ?rm =
     on_api (MediasoupApi_send (lb_print lib) JoinRequest JoinResponse True
       (Some (with_data JoinRequest JoinRequest_Data args (new_object JoinRequest g))) (Some CbJoin)) ?rm"
    using join_request [of ?rm dv lib g] assms(4,7,9) by auto
  have "run_room_task lib (\<lambda>_. g) C D (TaskTransportCreated False True r3) (rm\<lparr>rm_tasks := []\<rparr>) = joinImpl lib g ?rm" for C D
    using transport_created(2) [OF assms(10) _ _ assms(11), of "rm\<lparr>rm_tasks := []\<rparr>"] assms(7,8)
    by (simp add: onCreateRecvTransport_def)
  from exchange [OF assms(1) _ assms(3) this [unfolded req] request_ids(3) assms(5,6)] show ?thesis
    using assms(2) answers_accepted [OF assms(6)] by (simp add: post_task_def Let_def)
qed

lemma phase_joined:
  assumes "rm_tasks rm = [TaskJoined CONNECTED r]" and "rm_participants rm = Some pm"
    and "the_obj (member JoinResponse ''data'' r) = Some d"
    and "create_peers (value_or (the_objs (member JoinResponse_Data ''peers'' d)) []) pm = (pm', evs)"
  shows "room_run lib rm (RoomStateChanged CONNECTED # map Participant evs) (rm\<lparr>rm_participants := Some pm', rm_tasks := []\<rparr>)"
proof -
  have "run_room_task lib g C D (TaskJoined CONNECTED r) (rm\<lparr>rm_tasks := []\<rparr>) =
      Inr (rm\<lparr>rm_participants := Some pm', rm_tasks := []\<rparr>, RoomStateChanged CONNECTED # map Participant evs)" for g C D
    using assms(2-4) by (simp add: onJoined_def onRoomStateChanged_def createComponents_def then_outs_def)
  from rr_step [OF rr_start rs_task [OF assms(1) this]] show ?thesis by simp
qed

text \<open>The peers of a join answer.\<close>

definition peer_id :: "obj \<Rightarrow> string" where
  "peer_id peer = value_or (the_str (member JoinResponse_Peer ''id'' peer)) []"

definition joined_peers :: "obj \<Rightarrow> obj list" where
  "joined_peers r =
     (case the_obj (member JoinResponse ''data'' r) of
        None \<Rightarrow> []
      | Some d \<Rightarrow> value_or (the_objs (member JoinResponse_Data ''peers'' d)) [])"

lemma create_peers_spec:
  "create_peers ps pm = (pm', evs) \<Longrightarrow> (\<And>pid. um_find pm pid \<noteq> Some None) \<Longrightarrow>
   (getParticipant pid pm' \<noteq> None \<longleftrightarrow> getParticipant pid pm \<noteq> None \<or> pid \<in> peer_id ` set ps) \<and>
   (getParticipant pid pm = None \<longrightarrow> pid \<in> peer_id ` set ps \<longrightarrow> (\<exists>p. PJoin p \<in> set evs \<and> pt_id p = pid))"
proof (induction ps arbitrary: pm evs)
  case (Cons peer ps)
  obtain pm1 evs1 where 1: "createParticipant (peer_id peer)
      (value_or (the_str (member JoinResponse_Peer ''displayName'' peer)) []) pm = (pm1, evs1)" by fastforce
  obtain evs2 where 2: "create_peers ps pm1 = (pm', evs2)" and evs: "evs = evs1 @ evs2"
    using Cons.prems(1) 1 by (auto simp: peer_id_def split: prod.splits)
  have fresh: "um_find pm1 q \<noteq> Some None" for q
    using 1 Cons.prems(2) by (auto simp: createParticipant_def Let_def split: if_splits)
  have pm1: "getParticipant pid pm1 \<noteq> None \<longleftrightarrow> getParticipant pid pm \<noteq> None \<or> pid = peer_id peer"
    using 1 Cons.prems(2) [of "peer_id peer"]
    by (auto simp: createParticipant_def Let_def getParticipant_def split: if_splits option.splits)
  have "\<exists>p. PJoin p \<in> set evs1 \<and> pt_id p = pid" if "pid = peer_id peer" "getParticipant pid pm = None"
    using 1 that Cons.prems(2) [of pid]
    by (auto simp: createParticipant_def Let_def getParticipant_def setActive_def new_participant_def
        split: if_splits option.splits)
  with Cons.IH [OF 2 fresh] pm1 evs show ?case by auto
qed simp

text \<open>What \<open>join\<close> and the opened connection leave behind in a fresh room.\<close>

lemma session_opened:
  assumes "RoomClient_join lib peerId hostname port roomId displayName opts (RoomClient_init new_room) = Inr (rm0, outs0)"
    and "hostname \<noteq> []" and "roomId \<noteq> []" and "displayName \<noteq> []"
  shows "\<exists>rm sc. room_run lib rm0 [] rm \<and> rm_signaling rm = Some sc \<and> sc_ready sc \<and>
    rm_tasks rm = [TaskRouterCapabilities] \<and> rm_api rm \<and> rm_device rm = None \<and>
    rm_media rm = Some (MediaController_init (new_media default_options True)) \<and>
    rm_participants rm = Some [] \<and> rm_options rm = (case opts of Some o' \<Rightarrow> o' | None \<Rightarrow> default_options)"
proof -
  have rm0: "\<exists>sc. rm_signaling rm0 = Some sc \<and> sc_ready sc" "rm_tasks rm0 = []" "rm_api rm0" "rm_device rm0 = None"
      "rm_media rm0 = Some (MediaController_init (new_media default_options True))" "rm_participants rm0 = Some []"
      "rm_options rm0 = (case opts of Some o' \<Rightarrow> o' | None \<Rightarrow> default_options)"
    using assms
    by (auto simp: RoomClient_join_def RoomClient_init_def new_room_def Let_def then_outs_def onRoomStateChanged_def
        split_beta sc_ready_def SignalingClient_disconnect_def SignalingClient_connect_def SignalingClient_init_def
        SignalingClient_clearRequests_def new_signaling_def Transport_disconnect_def Transport_connect_def new_transport_def)
  obtain sc where sc: "rm_signaling rm0 = Some sc" "sc_ready sc" using rm0(1) by blast
  note mc = rm0(5)
  let ?rm = "rm0\<lparr>rm_tasks := [TaskRouterCapabilities]\<rparr>"
  have "room_signals SignalingClient_onOpened rm0 = Inr (?rm, [])"
    using rm0(2,6) mc
    by (simp add: SignalingClient_onOpened_def room_on_signal_def then_outs_def post_task_def)
  then have "room_run lib rm0 [] ?rm"
    using rr_step [OF rr_start rs_opened [OF sc(1)]] by fastforce
  moreover have "rm_signaling ?rm = Some sc" "rm_api ?rm" "rm_device ?rm = None"
    "rm_media ?rm = Some (MediaController_init (new_media default_options True))"
    "rm_participants ?rm = Some []" "rm_options ?rm = (case opts of Some o' \<Rightarrow> o' | None \<Rightarrow> default_options)"
    using sc mc rm0 by simp_all
  ultimately show ?thesis using sc(2) by fastforce
qed

text \<open>The whole handshake: what is sent, what is announced after it, and the room it ends in.\<close>

definition connected_media :: "device \<Rightarrow> media" where
  "connected_media dv = setRecvTransport True (setSendTransport True (setMediasoupDevice (Some (dv_kinds dv))
     (MediaController_init (new_media default_options True))))"

definition connected_room :: "device \<Rightarrow> string \<Rightarrow> string \<Rightarrow> participants \<Rightarrow> room \<Rightarrow> bool" where
  "connected_room dv send recv pm rm \<longleftrightarrow>
     rm_state rm = CONNECTED \<and> rm_tasks rm = [] \<and> rm_device rm = Some dv \<and> rm_sendTransport rm = Some send \<and>
     rm_recvTransport rm = Some recv \<and> rm_media rm = Some (connected_media dv) \<and> rm_participants rm = Some pm \<and>
     rm_api rm \<and> (\<exists>sc. rm_signaling rm = Some sc \<and> sc_ready sc)"

lemma handshake_run:
  assumes "RoomClient_join lib peerId hostname port roomId displayName opts (RoomClient_init new_room) = Inr (rm0, outs0)"
    and "hostname \<noteq> []" and "roomId \<noteq> []" and "displayName \<noteq> []"
    and "(case opts of Some o' \<Rightarrow> o' | None \<Rightarrow> default_options) = o1"
    and "value_or (opt_produce o1) False" and "value_or (opt_consume o1) False"
    and prints: "\<And>j. lb_print lib j \<noteq> []"
    and "answers lib g1 GetRouterRtpCapabilitiesResponse j1 r1"
    and "the_obj (member GetRouterRtpCapabilitiesResponse ''data'' r1) = Some d1"
    and "lb_load lib (jserialize (fields_of GetRouterRtpCapabilitiesResponse_Data) d1) = Inr dv"
    and "device_ok lib dv"
    and transports: "\<And>s i a b c d. lb_transport lib s i a b c d = Inr ()"
    and "answers lib g2 CreateWebRtcTransportResponse j2 r2" and "transport_info r2"
    and "answers lib g3 CreateWebRtcTransportResponse j3 r3" and "transport_info r3"
    and "answers lib g4 JoinResponse j4 r4" and "the_obj (member JoinResponse ''data'' r4) = Some d4"
  shows "\<exists>ws evs rm pm. room_run lib rm0 (map Wire ws @ RoomStateChanged CONNECTED # map Participant evs) rm \<and>
    connected_room dv (transport_id r2) (transport_id r3) pm rm \<and> create_peers (joined_peers r4) [] = (pm, evs)"
proof -
  let ?mc = "MediaController_init (new_media default_options True)"
  obtain rma sca where run0: "room_run lib rm0 [] rma"
    and a: "rm_signaling rma = Some sca" "sc_ready sca" "rm_tasks rma = [TaskRouterCapabilities]" "rm_api rma"
      "rm_device rma = None" "rm_media rma = Some ?mc" "rm_participants rma = Some []" "rm_options rma = o1"
    using session_opened [OF assms(1-4)] assms(5) by blast
  obtain scb wsb where b: "sc_ready scb"
    and runb: "room_run lib rma (map Wire wsb) (rma\<lparr>rm_signaling := Some scb, rm_tasks := [TaskLoadDevice r1]\<rparr>)" (is "room_run _ _ _ ?b")
    using phase_capabilities [OF a(3,1,2,4) prints assms(9)] by blast
  let ?mcc = "setMediasoupDevice (Some (dv_kinds dv)) ?mc"
  obtain scc wsc where c: "sc_ready scc"
    and runc: "room_run lib ?b (map Wire wsc) (?b\<lparr>rm_device := Some dv, rm_media := Some ?mcc,
        rm_signaling := Some scc, rm_tasks := [TaskTransportCreated True False r2]\<rparr>)" (is "room_run _ _ _ ?c")
    using phase_device [of ?b r1 scb, OF _ _ b _ prints assms(14) _ _ assms(10-12)] a assms(6) by auto
  obtain scd wsd where d: "sc_ready scd"
    and rund: "room_run lib ?c (map Wire wsd) (?c\<lparr>rm_sendTransport := Some (transport_id r2), rm_media := Some (setSendTransport True ?mcc),
        rm_signaling := Some scd, rm_tasks := [TaskTransportCreated False True r3]\<rparr>)" (is "room_run _ _ _ ?d")
    using phase_send [of ?c r2 scc, OF _ _ c _ prints assms(16) _ _ assms(12,15) transports] a assms(7) by auto
  obtain sce wse where e: "sc_ready sce"
    and rune: "room_run lib ?d (map Wire wse) (?d\<lparr>rm_recvTransport := Some (transport_id r3), rm_media := Some (connected_media dv),
        rm_signaling := Some sce, rm_state := CONNECTED, rm_tasks := [TaskJoined CONNECTED r4]\<rparr>)" (is "room_run _ _ _ ?e")
    using phase_recv [of ?d r3 scd, OF _ _ d _ prints assms(18) _ _ assms(12,17) transports] a by (auto simp: connected_media_def)
  obtain pm evs where peers: "create_peers (joined_peers r4) [] = (pm, evs)" by fastforce
  let ?f = "?e\<lparr>rm_participants := Some pm, rm_tasks := []\<rparr>"
  have "room_run lib ?e (RoomStateChanged CONNECTED # map Participant evs) ?f"
    by (rule phase_joined [OF _ _ assms(19), where pm = "[]"]) (use a peers assms(19) in \<open>simp_all add: joined_peers_def\<close>)
  note run = room_run_trans [OF run0 room_run_trans [OF runb room_run_trans [OF runc room_run_trans [OF rund room_run_trans [OF rune this]]]]]
  have "connected_room dv (transport_id r2) (transport_id r3) pm ?f" using e a(4) by (simp add: connected_room_def)
  with run peers show ?thesis
    by (intro exI [of _ "wsb @ wsc @ wsd @ wse"] exI [of _ evs] exI [of _ ?f] exI [of _ pm]) simp
qed

text \<open>C1. The handshake completes: when the application joins a fresh room with options that produce and
  consume, the connection opens, the server answers the four requests (router capabilities, both
  transports, join) with messages that carry the matching id, an \<^verbatim>\<open>ok\<close> member and the data the client
  reads, and the media library accepts what it is given, then the room gets to CONNECTED, tells its
  observers, holds the device and both transports under the ids the server chose, and its participants
  are exactly the peers of the join answer, each announced.\<close>

theorem handshake_completes:
  assumes "RoomClient_join lib peerId hostname port roomId displayName opts (RoomClient_init new_room) = Inr (rm0, outs0)"
    and "hostname \<noteq> []" and "roomId \<noteq> []" and "displayName \<noteq> []"
    and "(case opts of Some o' \<Rightarrow> o' | None \<Rightarrow> default_options) = o1"
    and "value_or (opt_produce o1) False" and "value_or (opt_consume o1) False"
    and prints: "\<And>j. lb_print lib j \<noteq> []"
    and "answers lib g1 GetRouterRtpCapabilitiesResponse j1 r1"
    and "the_obj (member GetRouterRtpCapabilitiesResponse ''data'' r1) = Some d1"
    and "lb_load lib (jserialize (fields_of GetRouterRtpCapabilitiesResponse_Data) d1) = Inr dv"
    and "device_ok lib dv"
    and transports: "\<And>s i a b c d. lb_transport lib s i a b c d = Inr ()"
    and "answers lib g2 CreateWebRtcTransportResponse j2 r2" and "transport_info r2"
    and "answers lib g3 CreateWebRtcTransportResponse j3 r3" and "transport_info r3"
    and "answers lib g4 JoinResponse j4 r4" and "the_obj (member JoinResponse ''data'' r4) = Some d4"
  shows "\<exists>outs rm pm. room_run lib rm0 outs rm \<and> rm_state rm = CONNECTED \<and> RoomStateChanged CONNECTED \<in> set outs \<and>
    rm_tasks rm = [] \<and> rm_device rm = Some dv \<and>
    rm_sendTransport rm = Some (transport_id r2) \<and> rm_recvTransport rm = Some (transport_id r3) \<and>
    rm_participants rm = Some pm \<and>
    (\<forall>pid. getParticipant pid pm \<noteq> None \<longleftrightarrow> pid \<in> peer_id ` set (joined_peers r4)) \<and>
    (\<forall>pid. pid \<in> peer_id ` set (joined_peers r4) \<longrightarrow> (\<exists>p. Participant (PJoin p) \<in> set outs \<and> pt_id p = pid))"
proof -
  obtain ws evs rm pm where run: "room_run lib rm0 (map Wire ws @ RoomStateChanged CONNECTED # map Participant evs) rm"
    and rm: "connected_room dv (transport_id r2) (transport_id r3) pm rm" and peers: "create_peers (joined_peers r4) [] = (pm, evs)"
    using handshake_run [OF assms] by blast
  let ?outs = "map Wire ws @ RoomStateChanged CONNECTED # map Participant evs"
  have "(getParticipant pid pm \<noteq> None \<longleftrightarrow> pid \<in> peer_id ` set (joined_peers r4)) \<and>
      (pid \<in> peer_id ` set (joined_peers r4) \<longrightarrow> (\<exists>p. Participant (PJoin p) \<in> set ?outs \<and> pt_id p = pid))" for pid
    using create_peers_spec [OF peers, of pid] by fastforce
  moreover have "RoomStateChanged CONNECTED \<in> set ?outs" by simp
  ultimately show ?thesis using run rm unfolding connected_room_def by blast
qed

text \<open>A server with one other peer in the room.\<close>

definition session_answer :: "int \<Rightarrow> (string \<times> json) list \<Rightarrow> json" where
  "session_answer i d = JObject [(''response'', JBool True), (''id'', JInt i), (''ok'', JBool True), (''data'', JObject d)]"

definition session_transport :: "string \<Rightarrow> (string \<times> json) list" where
  "session_transport i = [(''id'', JString i), (''iceParameters'', JObject []), (''iceCandidates'', JArray []),
     (''dtlsParameters'', JObject []), (''sctpParameters'', JObject [])]"

definition session_parse :: "string \<Rightarrow> json option" where
  "session_parse s = map_of
     [(''router'', session_answer 1 []), (''send'', session_answer 2 (session_transport ''s'')),
      (''recv'', session_answer 3 (session_transport ''r'')),
      (''join'', session_answer 4 [(''peers'', JArray [JObject [(''id'', JString ''p1''), (''displayName'', JString ''Ann'')]])]),
      (''caps'', JObject [])] s"

definition session_device :: device where
  "session_device = \<lparr>dv_kinds = [''audio'', ''video''], dv_rtpCapabilities = ''caps'', dv_sctpCapabilities = ''caps''\<rparr>"

definition session_lib :: lib where
  "session_lib = \<lparr>lb_parse = session_parse, lb_print = (\<lambda>_. ''J''), lb_get_connection = (\<lambda>_. Some 1),
     lb_add_subprotocol = (\<lambda>_ _. True), lb_load = (\<lambda>_. Inr session_device), lb_transport = (\<lambda>_ _ _ _ _ _. Inr ())\<rparr>"

definition session_response :: "cstruct \<Rightarrow> string \<Rightarrow> obj" where
  "session_response S json = (case decode session_parse 0 S json of Inr r \<Rightarrow> r | Inl _ \<Rightarrow> [])"

lemma session_facts:
  "answers session_lib 1 GetRouterRtpCapabilitiesResponse ''router'' (session_response GetRouterRtpCapabilitiesResponse ''router'')"
  "answers session_lib 2 CreateWebRtcTransportResponse ''send'' (session_response CreateWebRtcTransportResponse ''send'')"
  "answers session_lib 3 CreateWebRtcTransportResponse ''recv'' (session_response CreateWebRtcTransportResponse ''recv'')"
  "answers session_lib 4 JoinResponse ''join'' (session_response JoinResponse ''join'')"
  "transport_info (session_response CreateWebRtcTransportResponse ''send'')"
  "transport_info (session_response CreateWebRtcTransportResponse ''recv'')"
  "device_ok session_lib session_device"
  "the_obj (member GetRouterRtpCapabilitiesResponse ''data'' (session_response GetRouterRtpCapabilitiesResponse ''router'')) \<noteq> None"
  "the_obj (member JoinResponse ''data'' (session_response JoinResponse ''join'')) \<noteq> None"
  "map peer_id (joined_peers (session_response JoinResponse ''join'')) = [''p1'']"
  by code_simp+

theorem handshake_completes_witness:
  "\<exists>rm0 outs0 outs rm pm.
     RoomClient_join session_lib ''me'' ''host'' 4443 ''r1'' ''Bob'' None (RoomClient_init new_room) = Inr (rm0, outs0) \<and>
     room_run session_lib rm0 outs rm \<and> rm_state rm = CONNECTED \<and> rm_participants rm = Some pm \<and>
     getParticipant ''p1'' pm \<noteq> None \<and> getParticipant ''p2'' pm = None"
proof -
  obtain rm0 outs0 where join:
    "RoomClient_join session_lib ''me'' ''host'' 4443 ''r1'' ''Bob'' None (RoomClient_init new_room) = Inr (rm0, outs0)"
    by (auto simp: RoomClient_join_def RoomClient_init_def new_room_def Let_def then_outs_def onRoomStateChanged_def split_beta)
  obtain d1 where d1: "the_obj (member GetRouterRtpCapabilitiesResponse ''data''
      (session_response GetRouterRtpCapabilitiesResponse ''router'')) = Some d1"
    using session_facts(8) by blast
  obtain d4 where d4: "the_obj (member JoinResponse ''data'' (session_response JoinResponse ''join'')) = Some d4"
    using session_facts(9) by blast
  have lib: "lb_print session_lib j \<noteq> []" "lb_load session_lib j = Inr session_device"
    "lb_transport session_lib s i a b c d = Inr ()" for j s i a b c d
    by (simp_all add: session_lib_def)
  have opts: "value_or (opt_produce default_options) False" "value_or (opt_consume default_options) False"
    by (simp_all add: default_options_def)
  have peers: "peer_id ` set (joined_peers (session_response JoinResponse ''join'')) = {''p1''}"
    using arg_cong [OF session_facts(10), of set] by simp
  have names: "''host'' \<noteq> []" "''r1'' \<noteq> []" "''Bob'' \<noteq> []"
    "(case None of Some o' \<Rightarrow> o' | None \<Rightarrow> default_options) = default_options" by simp_all
  from handshake_completes [OF join names opts lib(1) session_facts(1) d1 lib(2) session_facts(7) lib(3)
        session_facts(2,5,3,6,4) d4]
  obtain outs rm pm where "room_run session_lib rm0 outs rm" "rm_state rm = CONNECTED" "rm_participants rm = Some pm"
    and found: "\<forall>pid. getParticipant pid pm \<noteq> None \<longleftrightarrow> pid \<in> peer_id ` set (joined_peers (session_response JoinResponse ''join''))"
    by (elim exE conjE) (rule that)
  moreover have "getParticipant ''p1'' pm \<noteq> None" "getParticipant ''p2'' pm = None"
    using spec [OF found, of "''p1''"] spec [OF found, of "''p2''"] unfolding peers by simp_all
  ultimately show ?thesis using join by blast
qed

subsection \<open>From the wire to the observers\<close>

text \<open>C22. A peer that joins, end to end: when the server prints a well-typed \<^verbatim>\<open>newPeer\<close> notification about a peer
  the room does not know, receiving the text is one step of the room, in which exactly one event is
  raised, the join of that participant, and the table gains exactly that peer.\<close>

theorem new_peer_end_to_end:
  assumes "wts (fields_of NewPeerNotification) obj"
    and "value_at (fields_of NewPeerNotification) obj ''notification'' = Some (VBool True)"
    and "value_at (fields_of NewPeerNotification) obj ''method'' = Some (VStr ''newPeer'')"
    and reads_back: "lb_parse lib (lb_print lib (jserialize (fields_of NewPeerNotification) obj)) =
      Some (jserialize (fields_of NewPeerNotification) obj)"
    and "lb_print lib (jserialize (fields_of NewPeerNotification) obj) \<noteq> []"
    and "the_obj (member NewPeerNotification ''data'' obj) = Some d"
    and "the_str (member NewPeerNotification_Data ''id'' d) = Some pid" and "pid \<noteq> []"
    and "value_or (the_str (member NewPeerNotification_Data ''displayName'' d)) [] = name"
    and "rm_signaling rm = Some sc" and "rm_participants rm = Some pm" and "um_find pm pid = None"
  shows "\<exists>rm' pm'. room_step lib rm [Participant (PJoin (setActive True (new_participant pid name)))] rm' \<and>
    SignalingClient_onMessage (lb_parse lib) (toJsonString (lb_print lib) (fields_of NewPeerNotification) obj) sc =
      (sc, [SigNewPeer obj]) \<and>
    room_signals [SigNewPeer obj] rm = Inr (rm', [Participant (PJoin (setActive True (new_participant pid name)))]) \<and>
    rm_participants rm' = Some pm' \<and> getParticipant pid pm' = Some (setActive True (new_participant pid name)) \<and>
    (\<forall>q. q \<noteq> pid \<longrightarrow> getParticipant q pm' = getParticipant q pm) \<and> same_room rm rm'"
proof -
  let ?p = "setActive True (new_participant pid name)"
  let ?rm = "rm\<lparr>rm_participants := Some (um_put pid (Some ?p) pm)\<rparr>"
  have sig: "SignalingClient_onMessage (lb_parse lib) (toJsonString (lb_print lib) (fields_of NewPeerNotification) obj) sc =
      (sc, [SigNewPeer obj])"
    by (rule onMessage_notification [of "''newPeer''" NewPeerNotification SigNewPeer obj "lb_parse lib" "lb_print lib",
          OF _ assms(1-3) reads_back assms(5)]) (simp add: notifications_def)
  have rm: "rm\<lparr>rm_signaling := Some sc\<rparr> = rm" using assms(10) by (cases rm) simp
  have peer: "on_signal (SigNewPeer obj) pm = Inr (um_put pid (Some ?p) pm, [PJoin ?p])"
    using assms(6-9,12) by (simp add: onNewPeer_def createParticipant_def Let_def)
  have run: "room_signals [SigNewPeer obj] rm = Inr (?rm, [Participant (PJoin ?p)])"
    using assms(11) peer
    by (cases "rm_media rm") (simp_all add: room_on_signal_def then_outs_def del: on_signal.simps)
  then have "room_step lib rm [Participant (PJoin ?p)] ?rm"
    using rs_message [OF assms(10) sig, of ?rm] by (simp only: rm)
  moreover have "same_room rm ?rm" using assms(11) by (cases rm) (simp add: same_room_def)
  ultimately show ?thesis using sig run by (intro exI [of _ ?rm]) simp
qed

definition demo_peer :: obj where
  "demo_peer = [Some (VBool True), Some (VStr ''newPeer''),
     Some (VStruct [Some (VStr ''p1''), Some (VStr ''Ann''), None])]"

definition demo_peer_lib :: lib where
  "demo_peer_lib = session_lib\<lparr>lb_print := (\<lambda>_. ''N''),
     lb_parse := (\<lambda>s. Some (jserialize (fields_of NewPeerNotification) demo_peer))\<rparr>"

theorem new_peer_end_to_end_witness:
  "\<exists>rm' pm'. room_step demo_peer_lib (RoomClient_init new_room)
       [Participant (PJoin (setActive True (new_participant ''p1'' ''Ann'')))] rm' \<and>
     rm_participants rm' = Some pm' \<and> getParticipant ''p1'' pm' \<noteq> None"
proof -
  let ?rm = "RoomClient_init new_room"
  have obj: "wts (fields_of NewPeerNotification) demo_peer"
    "value_at (fields_of NewPeerNotification) demo_peer ''notification'' = Some (VBool True)"
    "value_at (fields_of NewPeerNotification) demo_peer ''method'' = Some (VStr ''newPeer'')"
    "the_obj (member NewPeerNotification ''data'' demo_peer) = Some [Some (VStr ''p1''), Some (VStr ''Ann''), None]"
    "the_str (member NewPeerNotification_Data ''id'' [Some (VStr ''p1''), Some (VStr ''Ann''), None]) = Some ''p1''"
    "value_or (the_str (member NewPeerNotification_Data ''displayName'' [Some (VStr ''p1''), Some (VStr ''Ann''), None])) [] = ''Ann''"
    by code_simp+
  have lib: "lb_parse demo_peer_lib (lb_print demo_peer_lib (jserialize (fields_of NewPeerNotification) demo_peer)) =
      Some (jserialize (fields_of NewPeerNotification) demo_peer)"
    "lb_print demo_peer_lib (jserialize (fields_of NewPeerNotification) demo_peer) \<noteq> []"
    by (simp_all add: demo_peer_lib_def)
  have rm: "rm_signaling ?rm = Some (SignalingClient_init (new_signaling True))" "rm_participants ?rm = Some []"
    by (simp_all add: RoomClient_init_def new_room_def)
  from new_peer_end_to_end [OF obj(1-3) lib obj(4,5) _ obj(6) rm] show ?thesis by fastforce
qed

text \<open>The task that closes a known peer's video consumer: what it leaves and what it announces.\<close>

lemma video_closed_task:
  assumes "media_inv mc" and "closed_id n = Inr tid" and "um_find (mc_consumerMap mc) tid = Some (Some c)"
    and "um_find (mc_consumerIdToPeerId mc) tid = Some pid" and "co_kind c = ''video''" and "pid \<noteq> []"
    and "rm_media rm = Some mc" and "rm_participants rm = Some pm" and "getParticipant pid pm = Some p"
  obtains mc' pm' p' where
    "run_room_media lib gid Consume ConsumeData (TaskConsumerClosed n) rm =
       Inr (rm\<lparr>rm_media := Some mc', rm_participants := Some pm'\<rparr>,
            [Participant (PVideoState (setVideoMuted True p) True), Participant (PRemoveVideoTrack p' tid)])"
    and "media_inv mc'" and "um_find (mc_consumerMap mc') tid = None"
    and "getParticipant pid pm' = Some p'" and "um_find (pt_videoTracks p') tid = Some (co_track c)"
proof -
  let ?mc = "mc\<lparr>mc_consumerIdToPeerId := um_erase tid (mc_consumerIdToPeerId mc),
     mc_consumerMap := um_erase tid (mc_consumerMap mc)\<rparr>"
  let ?evs = "[Media (EvVideoState pid True), Media (EvRemoveVideoTrack pid tid)]"
  have closed: "closed_loop n (mc_consumerMap mc) mc = Inr (?mc, ?evs)"
    using closed_loop_present [OF assms(2) media_inv_entries [OF assms(1)] assms(3), of mc] assms(4,5)
    by (simp add: um_index_def state_events_def)
  have inv: "media_inv ?mc" by (rule closed_loop_inv [OF closed assms(1)])
  obtain old where old: "getRemoteVideoTracks pid mc = Inr (mc, old)" "um_find old tid = Some (co_track c)"
    using remote_video_tracks [OF assms(1), of pid] assms(3-5) by fastforce
  obtain pm1 where 1: "on_media mc (EvVideoState pid True) pm = Inr (pm1, [PVideoState (setVideoMuted True p) True])"
    and pm1: "getParticipant pid pm1 = Some (setVideoMuted True p)"
    using assms(6,9) by (simp add: onRemoteVideoStateChanged_def with_participant_unfold Let_def)
  let ?p' = "setVideoTracks old (setVideoMuted True p)"
  obtain pm2 where 2: "on_media mc (EvRemoveVideoTrack pid tid) pm1 = Inr (pm2, [PRemoveVideoTrack ?p' tid])"
    and pm2: "getParticipant pid pm2 = Some ?p'"
    using assms(6) pm1 old by (simp add: onRemoveRemoteVideoTrack_def with_participant_unfold Let_def)
  have "perform_outs lib gid mc ?evs (rm\<lparr>rm_media := Some ?mc\<rparr>) =
      Inr (rm\<lparr>rm_media := Some ?mc, rm_participants := Some pm2\<rparr>,
        [Participant (PVideoState (setVideoMuted True p) True), Participant (PRemoveVideoTrack ?p' tid)])"
    using assms(8) 1 2 by (simp add: then_outs_def del: on_media.simps)
  then have "run_room_media lib gid Consume ConsumeData (TaskConsumerClosed n) rm =
      Inr (rm\<lparr>rm_media := Some ?mc, rm_participants := Some pm2\<rparr>,
        [Participant (PVideoState (setVideoMuted True p) True), Participant (PRemoveVideoTrack ?p' tid)])"
    using assms(7) closed by (simp add: run_room_media_def)
  from that [OF this inv _ pm2] old(2) show thesis by (simp add: setVideoTracks_def)
qed

text \<open>Closing a remote video consumer leaves a stale track behind: the observers are told before the
  consumer is erased, so the participant asks the media controller while it still lists the track.
  Afterwards the media controller has forgotten the track and the participant still holds it.\<close>

theorem closed_track_stays_listed:
  assumes "media_inv mc" and "closed_id n = Inr tid" and "um_find (mc_consumerMap mc) tid = Some (Some c)"
    and "um_find (mc_consumerIdToPeerId mc) tid = Some pid" and "co_kind c = ''video''" and "pid \<noteq> []"
    and "rm_media rm = Some mc" and "rm_participants rm = Some pm" and "getParticipant pid pm = Some p"
  shows "\<exists>rm' outs mc' pm' p' ts.
    run_room_media lib gid Consume ConsumeData (TaskConsumerClosed n) rm = Inr (rm', outs) \<and>
    rm_media rm' = Some mc' \<and> getRemoteVideoTracks pid mc' = Inr (mc', ts) \<and> um_find ts tid = None \<and>
    rm_participants rm' = Some pm' \<and> getParticipant pid pm' = Some p' \<and>
    um_find (pt_videoTracks p') tid = Some (co_track c)"
proof -
  obtain mc' pm' p' where run: "run_room_media lib gid Consume ConsumeData (TaskConsumerClosed n) rm =
       Inr (rm\<lparr>rm_media := Some mc', rm_participants := Some pm'\<rparr>,
            [Participant (PVideoState (setVideoMuted True p) True), Participant (PRemoveVideoTrack p' tid)])"
    and inv: "media_inv mc'" and gone: "um_find (mc_consumerMap mc') tid = None"
    and p': "getParticipant pid pm' = Some p'" "um_find (pt_videoTracks p') tid = Some (co_track c)"
    by (rule video_closed_task [OF assms])
  obtain ts where "getRemoteVideoTracks pid mc' = Inr (mc', ts)" "um_find ts tid = None"
    using remote_video_tracks [OF inv, of pid] gone by fastforce
  with run p' show ?thesis by fastforce
qed

definition demo_watcher :: room where
  "demo_watcher = new_room\<lparr>rm_media := Some demo_video, rm_participants := Some [(''p'', Some (new_participant ''p'' ''Ann''))]\<rparr>"

theorem closed_track_stays_listed_witness:
  "\<exists>rm' outs pm' p'. run_room_media session_lib (\<lambda>n. int n) (\<lambda>_ _ _ _ _. Inl ''x'') (\<lambda>_ _ _ _ _ _. Inl ''x'')
       (TaskConsumerClosed demo_closed) demo_watcher = Inr (rm', outs) \<and>
     rm_participants rm' = Some pm' \<and> getParticipant ''p'' pm' = Some p' \<and> um_find (pt_videoTracks p') ''v1'' = Some ''t''"
proof -
  let ?c = "\<lparr>co_id = ''v1'', co_kind = ''video'', co_track = ''t'', co_enabled = True, co_closed = False\<rparr>"
  have 1: "media_inv demo_video" "closed_id demo_closed = Inr ''v1''"
    "um_find (mc_consumerMap demo_video) ''v1'' = Some (Some ?c)"
    "um_find (mc_consumerIdToPeerId demo_video) ''v1'' = Some ''p''" by code_simp+
  have 2: "rm_media demo_watcher = Some demo_video"
    "rm_participants demo_watcher = Some [(''p'', Some (new_participant ''p'' ''Ann''))]"
    "getParticipant ''p'' [(''p'', Some (new_participant ''p'' ''Ann''))] = Some (new_participant ''p'' ''Ann'')"
    by (simp_all add: demo_watcher_def getParticipant_def um_find_def)
  have 3: "co_kind ?c = ''video''" "''p'' \<noteq> []" by simp_all
  show ?thesis
    using closed_track_stays_listed [OF 1 3 2, of session_lib "\<lambda>n. int n" "\<lambda>_ _ _ _ _. Inl ''x''" "\<lambda>_ _ _ _ _ _. Inl ''x''"]
    by (elim exE conjE) (intro exI conjI, assumption+, simp)
qed

end
