(* ===== verification/Threads.thy ===== *)
theory Threads
  imports Prelude
begin

text \<open>
  Threads and the calls between them: \<^verbatim>\<open>core/utils/thread_provider.cpp\<close>,
  \<^verbatim>\<open>core/utils/object_factory.hpp\<close>, \<^verbatim>\<open>core/utils/interface_proxy.hpp\<close>, \<^verbatim>\<open>core/utils/container.hpp\<close> and
  \<^verbatim>\<open>core/service/component_factory.cpp\<close>, in the non-Windows configuration.

  An \<^verbatim>\<open>rtc::Thread\<close> is known by its address (\<open>tid\<close>); \<open>fresh\<close> yields the addresses
  \<^verbatim>\<open>rtc::Thread::Create()\<close> returns. Starting and stopping a thread are outputs.

  \<^verbatim>\<open>MethodCall::marshal\<close> is the heart of every proxy: on the target thread it calls the method,
  elsewhere it posts the call and blocks until its promise is set. A thread is a first-in
  first-out queue of items, as \<^verbatim>\<open>PostTask\<close> promises; \<open>run_choices\<close> runs any interleaving of threads
  that take their next item and of further calls marshalled from elsewhere. \<open>tsk\<close> and \<open>mth\<close> say
  what a task and a method do to the shared state, and which tasks they post.
\<close>

subsection \<open>The thread provider\<close>

type_synonym tid = nat

datatype thread_op = ThreadStart tid string | ThreadStop tid

record thread_provider =
  tp_threadsMap :: "(string, tid) umap"
  tp_inited :: bool
  tp_destroy :: bool

definition new_provider :: thread_provider where
  "new_provider = \<lparr>tp_threadsMap = [], tp_inited = False, tp_destroy = True\<rparr>"

definition ThreadProvider_init :: "thread_provider \<Rightarrow> thread_provider" where
  "ThreadProvider_init tp = tp\<lparr>tp_inited := True\<rparr>"

text \<open>The call of \<open>stopAll\<close> is commented out in the source.\<close>

definition ThreadProvider_destroy :: "thread_provider \<Rightarrow> thread_provider \<times> thread_op list" where
  "ThreadProvider_destroy tp = (tp\<lparr>tp_destroy := True\<rparr>, [])"

fun create_threads ::
  "(nat \<Rightarrow> tid) \<Rightarrow> string list \<Rightarrow> (string, tid) umap \<Rightarrow> (string, tid) umap \<times> thread_op list" where
  "create_threads fresh [] m = (m, [])"
| "create_threads fresh (name # names) m =
     (let (m', ops) = create_threads (\<lambda>i. fresh (Suc i)) names (um_put name (fresh 0) m)
      in (m', ThreadStart (fresh 0) name # ops))"

definition ThreadProvider_create ::
  "(nat \<Rightarrow> tid) \<Rightarrow> string list \<Rightarrow> thread_provider \<Rightarrow> thread_provider \<times> thread_op list" where
  "ThreadProvider_create fresh threadNames tp =
     (if \<not> tp_inited tp then (tp, [])
      else let (m, ops) = create_threads fresh threadNames (tp_threadsMap tp)
           in (tp\<lparr>tp_threadsMap := m\<rparr>, ops))"

definition ThreadProvider_stopAll :: "thread_provider \<Rightarrow> thread_provider \<times> thread_op list" where
  "ThreadProvider_stopAll tp =
     (tp\<lparr>tp_threadsMap := [], tp_destroy := True\<rparr>, map (\<lambda>(name, t). ThreadStop t) (tp_threadsMap tp))"

definition ThreadProvider_thread :: "string \<Rightarrow> thread_provider \<Rightarrow> tid option" where
  "ThreadProvider_thread name tp = um_find (tp_threadsMap tp) name"

subsection \<open>The component factory\<close>

definition thread_names :: "string list" where
  "thread_names = [''transport'', ''mediasoup'', ''communication'', ''main'']"

definition ComponentFactory_init ::
  "(nat \<Rightarrow> tid) \<Rightarrow> thread_provider option \<Rightarrow> thread_provider option \<times> thread_op list" where
  "ComponentFactory_init fresh provider =
     (case provider of
        None \<Rightarrow>
          (let (tp, ops) = ThreadProvider_create fresh thread_names (ThreadProvider_init new_provider)
           in (Some tp, ops))
      | Some tp \<Rightarrow> (Some tp, []))"

definition ComponentFactory_destroy :: "thread_provider option \<Rightarrow> thread_provider option \<times> thread_op list" where
  "ComponentFactory_destroy provider =
     (case provider of
        None \<Rightarrow> (None, [])
      | Some tp \<Rightarrow> (let (tp', ops) = ThreadProvider_destroy tp in (None, ops)))"

text \<open>The macro \<^verbatim>\<open>getThread(T)\<close>.\<close>

definition getThread :: "string \<Rightarrow> thread_provider option \<Rightarrow> fault + tid option" where
  "getThread name provider =
     (case provider of
        None \<Rightarrow> Inl (NullDeref ''_threadProvider'')
      | Some tp \<Rightarrow> Inr (ThreadProvider_thread name tp))"

subsection \<open>The object factory\<close>

text \<open>A registered object may be null; \<open>init\<close> and \<open>destroy\<close> return the objects that are called.\<close>

definition ObjectFactory_init :: "(string, 'o option) umap \<Rightarrow> 'o list" where
  "ObjectFactory_init objects = concat (map (\<lambda>(key, object). case object of None \<Rightarrow> [] | Some x \<Rightarrow> [x]) objects)"

definition ObjectFactory_destroy :: "(string, 'o option) umap \<Rightarrow> (string, 'o option) umap \<times> 'o list" where
  "ObjectFactory_destroy objects =
     ([], concat (map (\<lambda>(key, object). case object of None \<Rightarrow> [] | Some x \<Rightarrow> [x]) objects))"

definition ObjectFactory_register ::
  "string \<Rightarrow> 'o option \<Rightarrow> (string, 'o option) umap \<Rightarrow> (string, 'o option) umap" where
  "ObjectFactory_register key object objects = um_put key object objects"

definition ObjectFactory_unregister :: "string \<Rightarrow> (string, 'o option) umap \<Rightarrow> (string, 'o option) umap" where
  "ObjectFactory_unregister key objects =
     (if um_find objects key \<noteq> None then um_erase key objects else objects)"

definition ObjectFactory_get :: "(string, 'o option) umap \<Rightarrow> string \<Rightarrow> 'o option" where
  "ObjectFactory_get objects key = (case um_find objects key of Some object \<Rightarrow> object | None \<Rightarrow> None)"

interpretation objects: keyed_store "[]" ObjectFactory_get "\<lambda>key x. ObjectFactory_register key (Some x)"
  ObjectFactory_unregister
  by unfold_locales
    (auto simp: ObjectFactory_get_def ObjectFactory_register_def ObjectFactory_unregister_def split: option.split)

subsection \<open>A proxy and its implementation\<close>

record ('p, 'i) proxy_impl =
  pi_proxy :: 'p
  pi_impl :: 'i

text \<open>\<open>impl()\<close> locks a weak pointer: \<open>live\<close> are the objects still owned.\<close>

definition ProxyImpl_impl :: "'i set \<Rightarrow> ('p, 'i) proxy_impl \<Rightarrow> 'i option" where
  "ProxyImpl_impl live p = (if pi_impl p \<in> live then Some (pi_impl p) else None)"

definition ProxyImpl_proxy :: "('p, 'i) proxy_impl \<Rightarrow> 'p" where
  "ProxyImpl_proxy p = pi_proxy p"

subsection \<open>Marshalled calls\<close>

text \<open>What a thread runs: a posted task, or the lambda of \<open>marshal\<close>, which owns the promise \<open>i\<close>.\<close>

datatype ('k, 'm) item = Task 'k | Call nat 'm

record ('s, 'k, 'm, 'r) sys =
  sy_state :: 's
  sy_queue :: "tid \<Rightarrow> ('k, 'm) item list"
  sy_promise :: "nat \<Rightarrow> 'r option"

type_synonym ('s, 'k) task_fun = "'k \<Rightarrow> 's \<Rightarrow> 's \<times> (tid \<times> 'k) list"
type_synonym ('s, 'k, 'm, 'r) method_fun = "'m \<Rightarrow> 's \<Rightarrow> 's \<times> 'r \<times> (tid \<times> 'k) list"

definition enqueue :: "tid \<Rightarrow> ('k, 'm) item \<Rightarrow> ('s, 'k, 'm, 'r) sys \<Rightarrow> ('s, 'k, 'm, 'r) sys" where
  "enqueue t it sy = sy\<lparr>sy_queue := (sy_queue sy)(t := sy_queue sy t @ [it])\<rparr>"

definition post_all :: "(tid \<times> 'k) list \<Rightarrow> ('s, 'k, 'm, 'r) sys \<Rightarrow> ('s, 'k, 'm, 'r) sys" where
  "post_all ps sy = fold (\<lambda>(t, k). enqueue t (Task k)) ps sy"

fun run_item ::
  "('s, 'k) task_fun \<Rightarrow> ('s, 'k, 'm, 'r) method_fun \<Rightarrow> ('k, 'm) item \<Rightarrow> ('s, 'k, 'm, 'r) sys \<Rightarrow> ('s, 'k, 'm, 'r) sys" where
  "run_item tsk mth (Task k) sy =
     (let (s, ps) = tsk k (sy_state sy) in post_all ps (sy\<lparr>sy_state := s\<rparr>))"
| "run_item tsk mth (Call i m) sy =
     (let (s, r, ps) = mth m (sy_state sy)
      in post_all ps (sy\<lparr>sy_state := s, sy_promise := (sy_promise sy)(i := Some r)\<rparr>))"

definition dispatch ::
  "('s, 'k) task_fun \<Rightarrow> ('s, 'k, 'm, 'r) method_fun \<Rightarrow> tid \<Rightarrow> ('s, 'k, 'm, 'r) sys \<Rightarrow> ('s, 'k, 'm, 'r) sys" where
  "dispatch tsk mth t sy =
     (case sy_queue sy t of
        [] \<Rightarrow> sy
      | it # rest \<Rightarrow> run_item tsk mth it (sy\<lparr>sy_queue := (sy_queue sy)(t := rest)\<rparr>))"

datatype 'r marshalled = Returns 'r | Blocks

text \<open>\<^verbatim>\<open>future.get()\<close> returns when the promise is set.\<close>

definition future_get :: "nat \<Rightarrow> ('s, 'k, 'm, 'r) sys \<Rightarrow> 'r marshalled" where
  "future_get i sy = (case sy_promise sy i of None \<Rightarrow> Blocks | Some r \<Rightarrow> Returns r)"

definition marshal ::
  "('s, 'k) task_fun \<Rightarrow> ('s, 'k, 'm, 'r) method_fun \<Rightarrow> tid \<Rightarrow> tid option \<Rightarrow> nat \<Rightarrow> 'm \<Rightarrow> ('s, 'k, 'm, 'r) sys \<Rightarrow>
   fault + ('s, 'k, 'm, 'r) sys" where
  "marshal tsk mth cur thread i m sy =
     (case thread of
        None \<Rightarrow> Inl (NullDeref ''thread'')
      | Some t \<Rightarrow> if t = cur then Inr (run_item tsk mth (Call i m) sy) else Inr (enqueue t (Call i m) sy))"

text \<open>Any interleaving: a thread takes its next item, or someone marshals another call to a thread.\<close>

datatype 'm choice = Run tid | CallTo tid nat 'm

fun run_choices ::
  "('s, 'k) task_fun \<Rightarrow> ('s, 'k, 'm, 'r) method_fun \<Rightarrow> 'm choice list \<Rightarrow> ('s, 'k, 'm, 'r) sys \<Rightarrow> ('s, 'k, 'm, 'r) sys" where
  "run_choices tsk mth [] sy = sy"
| "run_choices tsk mth (Run t # cs) sy = run_choices tsk mth cs (dispatch tsk mth t sy)"
| "run_choices tsk mth (CallTo t i m # cs) sy = run_choices tsk mth cs (enqueue t (Call i m) sy)"

text \<open>The items thread \<open>t\<close> runs in an interleaving, in order.\<close>

fun items_run ::
  "('s, 'k) task_fun \<Rightarrow> ('s, 'k, 'm, 'r) method_fun \<Rightarrow> tid \<Rightarrow> 'm choice list \<Rightarrow> ('s, 'k, 'm, 'r) sys \<Rightarrow> ('k, 'm) item list" where
  "items_run tsk mth t [] sy = []"
| "items_run tsk mth t (Run u # cs) sy =
     (if u = t then take 1 (sy_queue sy t) else []) @ items_run tsk mth t cs (dispatch tsk mth u sy)"
| "items_run tsk mth t (CallTo u i m # cs) sy = items_run tsk mth t cs (enqueue u (Call i m) sy)"

subsection \<open>The life of the threads\<close>

text \<open>After the component factory is initialised exactly the four named threads exist, each its own,
  and a second initialisation changes nothing. Destroying the factory forgets the threads without
  stopping one, and from then on asking for a thread dereferences a null pointer.\<close>

theorem factory_life_cycle:
  "getThread name (fst (ComponentFactory_init fresh None)) = Inr (um_find (zip thread_names (map fresh [0..<4])) name) \<and>
   snd (ComponentFactory_init fresh None) = map (\<lambda>i. ThreadStart (fresh i) (thread_names ! i)) [0..<4] \<and>
   ComponentFactory_init fresh' (fst (ComponentFactory_init fresh None)) = (fst (ComponentFactory_init fresh None), []) \<and>
   snd (ComponentFactory_destroy provider) = [] \<and>
   getThread name (fst (ComponentFactory_destroy provider)) = Inl (NullDeref ''_threadProvider'')"
  by (auto simp: ComponentFactory_init_def ComponentFactory_destroy_def getThread_def ThreadProvider_create_def
      ThreadProvider_init_def ThreadProvider_destroy_def ThreadProvider_thread_def new_provider_def thread_names_def
      numeral_eq_Suc case_prod_beta split: option.split)

lemma factory_mediasoup:
  "\<exists>tp. fst (ComponentFactory_init fresh None) = Some tp \<and> ThreadProvider_thread ''mediasoup'' tp = Some (fresh 1) \<and>
     ThreadProvider_thread ''main'' tp = Some (fresh 3)"
  by (simp add: ComponentFactory_init_def ThreadProvider_create_def ThreadProvider_init_def ThreadProvider_thread_def
      new_provider_def thread_names_def numeral_eq_Suc case_prod_beta)

lemma stopAll_stops:
  "snd (ThreadProvider_stopAll tp) = map (\<lambda>(name, t). ThreadStop t) (tp_threadsMap tp) \<and>
   ThreadProvider_thread name (fst (ThreadProvider_stopAll tp)) = None"
  by (simp add: ThreadProvider_stopAll_def ThreadProvider_thread_def)

subsection \<open>Queues are first in, first out\<close>

lemma enqueue_simps [simp]:
  "sy_queue (enqueue t it sy) u = (if u = t then sy_queue sy t @ [it] else sy_queue sy u)"
  "sy_promise (enqueue t it sy) = sy_promise sy"
  "sy_state (enqueue t it sy) = sy_state sy"
  by (simp_all add: enqueue_def)

lemma post_all_frame [simp]:
  "sy_promise (post_all ps sy) = sy_promise sy" "sy_state (post_all ps sy) = sy_state sy"
  by (induction ps arbitrary: sy) (auto simp: post_all_def)

lemma post_all_queue:
  "\<exists>ks. sy_queue (post_all ps sy) t = sy_queue sy t @ map Task ks"
proof (induction ps arbitrary: sy)
  case (Cons p ps)
  obtain ks where "sy_queue (post_all ps (enqueue (fst p) (Task (snd p)) sy)) t =
      sy_queue (enqueue (fst p) (Task (snd p)) sy) t @ map Task ks"
    using Cons by blast
  then show ?case
    by (cases "t = fst p") (auto simp: post_all_def case_prod_beta intro: exI [of _ "snd p # ks"])
qed (simp add: post_all_def)

lemma run_item_queue: "\<exists>ks. sy_queue (run_item tsk mth it sy) t = sy_queue sy t @ map Task ks"
proof (cases it)
  case (Task k)
  then show ?thesis using post_all_queue [of _ "sy\<lparr>sy_state := fst (tsk k (sy_state sy))\<rparr>" t] by (simp add: case_prod_beta)
next
  case (Call i m)
  obtain s r ps where "mth m (sy_state sy) = (s, r, ps)" by (cases "mth m (sy_state sy)") auto
  then show ?thesis
    using Call post_all_queue [of ps "sy\<lparr>sy_state := s, sy_promise := (sy_promise sy)(i := Some r)\<rparr>" t] by simp
qed

lemma dispatch_queue:
  "\<exists>ks. sy_queue (dispatch tsk mth u sy) t = (if u = t then drop 1 (sy_queue sy t) else sy_queue sy t) @ map Task ks"
proof (cases "sy_queue sy u")
  case (Cons it rest)
  then show ?thesis
    using run_item_queue [of tsk mth it "sy\<lparr>sy_queue := (sy_queue sy)(u := rest)\<rparr>" t] by (auto simp: dispatch_def)
qed (auto simp: dispatch_def)

text \<open>What a thread runs is a prefix of what was queued, followed by what is posted meanwhile.\<close>

lemma items_run_fifo:
  "\<exists>posted. sy_queue sy t @ posted = items_run tsk mth t cs sy @ sy_queue (run_choices tsk mth cs sy) t \<and>
     (\<forall>i m. Call i m \<in> set posted \<longrightarrow> CallTo t i m \<in> set cs)"
proof (induction tsk mth cs sy rule: run_choices.induct)
  case (2 tsk mth u cs sy)
  obtain ks where ks: "sy_queue (dispatch tsk mth u sy) t = (if u = t then drop 1 (sy_queue sy t) else sy_queue sy t) @ map Task ks"
    using dispatch_queue by blast
  obtain posted where IH: "sy_queue (dispatch tsk mth u sy) t @ posted =
      items_run tsk mth t cs (dispatch tsk mth u sy) @ sy_queue (run_choices tsk mth cs (dispatch tsk mth u sy)) t"
    and calls: "\<forall>i m. Call i m \<in> set posted \<longrightarrow> CallTo t i m \<in> set cs"
    using 2 by blast
  have "sy_queue sy t @ map Task ks @ posted = items_run tsk mth t (Run u # cs) sy @ sy_queue (run_choices tsk mth (Run u # cs) sy) t"
    using IH ks by (cases "u = t"; cases "sy_queue sy t") auto
  with calls show ?case by (intro exI [of _ "map Task ks @ posted"]) auto
next
  case (3 tsk mth u j n cs sy)
  then obtain posted where IH: "sy_queue (enqueue u (Call j n) sy) t @ posted =
      items_run tsk mth t cs (enqueue u (Call j n) sy) @ sy_queue (run_choices tsk mth cs (enqueue u (Call j n) sy)) t"
    and calls: "\<forall>i m. Call i m \<in> set posted \<longrightarrow> CallTo t i m \<in> set cs"
    by blast
  then show ?case by (intro exI [of _ "(if u = t then [Call j n] else []) @ posted"]) auto
qed simp

lemma items_run_enough:
  "n \<le> count_list cs (Run t) \<Longrightarrow> n \<le> length (sy_queue sy t) \<Longrightarrow> n \<le> length (items_run tsk mth t cs sy)"
proof (induction tsk mth cs sy arbitrary: n rule: run_choices.induct)
  case (2 tsk mth u cs sy)
  obtain ks where ks: "sy_queue (dispatch tsk mth u sy) t = (if u = t then drop 1 (sy_queue sy t) else sy_queue sy t) @ map Task ks"
    using dispatch_queue by blast
  show ?case
  proof (cases "u = t \<and> n \<noteq> 0")
    case True
    then obtain k where "n = Suc k" by (cases n) auto
    with True show ?thesis using 2(1) [of k] 2(2, 3) ks by (cases "sy_queue sy t") auto
  next
    case False
    then show ?thesis using 2(1) [of n] 2(2, 3) ks by (auto split: if_splits)
  qed
next
  case (3 tsk mth u j m cs sy)
  show ?case using 3(1) [of n] 3(2, 3) by (cases "t = u") auto
qed simp

lemma items_run_at_most: "length (items_run tsk mth t cs sy) \<le> count_list cs (Run t)"
  by (induction tsk mth t cs sy rule: items_run.induct) (auto simp: min_def)

subsection \<open>Promises\<close>

lemma run_item_promise [simp]:
  "sy_promise (run_item tsk mth it sy) i \<noteq> None \<longleftrightarrow> sy_promise sy i \<noteq> None \<or> (\<exists>m. it = Call i m)"
  by (cases it) (auto simp: case_prod_beta)

lemma dispatch_promise:
  "sy_promise (dispatch tsk mth t sy) i \<noteq> None \<longleftrightarrow>
     sy_promise sy i \<noteq> None \<or> (\<exists>m. Call i m \<in> set (take 1 (sy_queue sy t)))"
  unfolding dispatch_def by (cases "sy_queue sy t") (simp_all del: not_None_eq, blast)

text \<open>A promise is set exactly when some thread ran its call.\<close>

lemma promise_set_iff:
  "sy_promise (run_choices tsk mth cs sy) i \<noteq> None \<longleftrightarrow>
     sy_promise sy i \<noteq> None \<or> (\<exists>t m. Call i m \<in> set (items_run tsk mth t cs sy))"
proof (induction tsk mth cs sy rule: run_choices.induct)
  case (2 tsk mth u cs sy)
  show ?case unfolding run_choices.simps 2 dispatch_promise items_run.simps by auto
qed auto

definition fresh_promise :: "nat \<Rightarrow> 'm choice list \<Rightarrow> ('s, 'k, 'm, 'r) sys \<Rightarrow> bool" where
  "fresh_promise i cs sy \<longleftrightarrow> sy_promise sy i = None \<and> (\<forall>t m. Call i m \<notin> set (sy_queue sy t)) \<and>
     (\<forall>t m. CallTo t i m \<notin> set cs)"

lemma items_run_call:
  assumes "Call i m \<in> set (items_run tsk mth t cs sy)"
  shows "Call i m \<in> set (sy_queue sy t) \<or> CallTo t i m \<in> set cs"
proof -
  obtain posted where eq: "sy_queue sy t @ posted = items_run tsk mth t cs sy @ sy_queue (run_choices tsk mth cs sy) t"
    and calls: "\<forall>i m. Call i m \<in> set posted \<longrightarrow> CallTo t i m \<in> set cs"
    using items_run_fifo [of sy t tsk mth cs] by (elim exE conjE)
  have "Call i m \<in> set (sy_queue sy t @ posted)" unfolding eq using assms by simp
  with calls show ?thesis by auto
qed

lemma queue_prefix_run:
  assumes "sy_queue sy t = xs @ ys" and "length xs \<le> count_list cs (Run t)"
  shows "take (length xs) (items_run tsk mth t cs sy) = xs"
proof -
  obtain posted where eq: "xs @ ys @ posted = items_run tsk mth t cs sy @ sy_queue (run_choices tsk mth cs sy) t"
    using items_run_fifo [of sy t tsk mth cs] assms(1) by auto
  have "length xs \<le> length (items_run tsk mth t cs sy)"
    using items_run_enough [OF assms(2), of sy] assms(1) by simp
  then show ?thesis using arg_cong [OF eq, of "take (length xs)"] by simp
qed

text \<open>A few runs of the target thread reach only what was queued first.\<close>

lemma call_not_reached:
  assumes "fresh_promise i cs sy" and "count_list cs (Run t) \<le> length (sy_queue sy t)"
  shows "Call i m' \<notin> set (items_run tsk mth u cs (enqueue t (Call i m) sy))"
proof
  let ?sy = "enqueue t (Call i m) sy"
  assume run: "Call i m' \<in> set (items_run tsk mth u cs ?sy)"
  then have u: "u = t" using items_run_call [OF run] assms(1) by (auto simp: fresh_promise_def split: if_splits)
  obtain posted where eq: "sy_queue sy t @ Call i m # posted = items_run tsk mth t cs ?sy @ sy_queue (run_choices tsk mth cs ?sy) t"
    using items_run_fifo [of ?sy t tsk mth cs] by auto
  have short: "length (items_run tsk mth t cs ?sy) \<le> length (sy_queue sy t)"
    using items_run_at_most [of tsk mth t cs ?sy] assms(2) by simp
  have "items_run tsk mth t cs ?sy = take (length (items_run tsk mth t cs ?sy)) (sy_queue sy t)"
    using arg_cong [OF eq, of "take (length (items_run tsk mth t cs ?sy))"] short by simp
  then have "set (items_run tsk mth t cs ?sy) \<subseteq> set (sy_queue sy t)" by (metis set_take_subset)
  with run u assms(1) show False by (auto simp: fresh_promise_def)
qed

lemma future_get_set: "future_get i s \<noteq> Blocks \<longleftrightarrow> sy_promise s i \<noteq> None"
  by (simp add: future_get_def split: option.split)

text \<open>C8. A call marshalled to another thread waits its turn, in every interleaving with other threads and
  other calls: it returns as soon as, and not before, the target thread has run one item more than
  were queued, and then what the thread ran is those items in order and the call.\<close>

theorem marshal_waits_its_turn:
  assumes "t \<noteq> cur" and "fresh_promise i cs sy" and "marshal tsk mth cur (Some t) i m sy = Inr sy'"
  shows "(future_get i (run_choices tsk mth cs sy') \<noteq> Blocks \<longleftrightarrow> length (sy_queue sy t) < count_list cs (Run t)) \<and>
    (length (sy_queue sy t) < count_list cs (Run t) \<longrightarrow>
       take (Suc (length (sy_queue sy t))) (items_run tsk mth t cs sy') = sy_queue sy t @ [Call i m])"
proof -
  let ?q = "sy_queue sy t"
  have sy': "sy' = enqueue t (Call i m) sy" using assms(1, 3) by (simp add: marshal_def)
  have none: "sy_promise sy' i = None" using assms(2) by (simp add: sy' fresh_promise_def)
  show ?thesis
  proof (cases "length ?q < count_list cs (Run t)")
    case True
    have "take (length (?q @ [Call i m])) (items_run tsk mth t cs sy') = ?q @ [Call i m]"
      using True by (intro queue_prefix_run [where ys = "[]"]) (simp_all add: sy')
    then have front: "take (Suc (length ?q)) (items_run tsk mth t cs sy') = ?q @ [Call i m]" by simp
    then have "Call i m \<in> set (items_run tsk mth t cs sy')" by (metis in_set_conv_decomp in_set_takeD)
    then show ?thesis using True front promise_set_iff [of tsk mth cs sy' i] unfolding future_get_set by blast
  next
    case False
    then have "\<nexists>u m'. Call i m' \<in> set (items_run tsk mth u cs sy')"
      using call_not_reached [OF assms(2)] by (simp add: sy')
    then show ?thesis using False none promise_set_iff [of tsk mth cs sy' i] unfolding future_get_set by blast
  qed
qed

text \<open>Thread 7 has one task queued; another thread and another call interleave.\<close>

theorem marshal_waits_its_turn_witness:
  "\<exists>sy'. marshal (\<lambda>k s. (s + k, [])) (\<lambda>m s. (s * m, s, [])) 1 (Some 7) 0 (3 :: nat)
       \<lparr>sy_state = 0, sy_queue = (\<lambda>t. if t = 7 then [Task 5] else []), sy_promise = (\<lambda>_. None)\<rparr> = Inr sy' \<and>
     future_get 0 (run_choices (\<lambda>k s. (s + k, [])) (\<lambda>m s. (s * m, s, [])) [Run 7, CallTo 8 1 2, Run 8, Run 7] sy') \<noteq>
       (Blocks :: nat marshalled)"
proof -
  let ?sy = "\<lparr>sy_state = 0 :: nat, sy_queue = (\<lambda>t. if t = 7 then [Task (5 :: nat)] else []), sy_promise = (\<lambda>_. None :: nat option)\<rparr>"
  have fresh: "fresh_promise 0 [Run 7, CallTo 8 1 (2 :: nat), Run 8, Run 7] ?sy" by (simp add: fresh_promise_def)
  show ?thesis
    using marshal_waits_its_turn [OF _ fresh, of 7 1 "\<lambda>k s. (s + k, [])" "\<lambda>m s. (s * m, s, [])" 3]
    by (simp add: marshal_def)
qed

subsection \<open>A proxy is transparent\<close>

text \<open>\<open>sy2\<close> is \<open>sy1\<close> with one more item in the queue of \<open>t\<close>, right behind the items \<open>q\<close>.\<close>

definition behind ::
  "tid \<Rightarrow> ('k, 'm) item list \<Rightarrow> ('k, 'm) item \<Rightarrow> ('s, 'k, 'm, 'r) sys \<Rightarrow> ('s, 'k, 'm, 'r) sys \<Rightarrow> bool" where
  "behind t q c sy1 sy2 \<longleftrightarrow> (\<exists>rest. sy_queue sy1 t = q @ rest \<and> sy2 = sy1\<lparr>sy_queue := (sy_queue sy1)(t := q @ c # rest)\<rparr>)"

lemma behind_enqueue: "behind t q c sy1 sy2 \<Longrightarrow> behind t q c (enqueue u it sy1) (enqueue u it sy2)"
  by (cases "u = t") (auto simp: behind_def enqueue_def fun_upd_twist)

lemma behind_post_all: "behind t q c sy1 sy2 \<Longrightarrow> behind t q c (post_all ps sy1) (post_all ps sy2)"
  by (induction ps arbitrary: sy1 sy2) (auto simp: post_all_def behind_enqueue)

lemma behind_run_item:
  assumes "behind t q c sy1 sy2"
  shows "behind t q c (run_item tsk mth it sy1) (run_item tsk mth it sy2)"
proof -
  have same: "sy_state sy2 = sy_state sy1" "sy_promise sy2 = sy_promise sy1"
    using assms by (auto simp: behind_def)
  have upd: "behind t q c (sy1\<lparr>sy_state := s\<rparr>) (sy2\<lparr>sy_state := s\<rparr>)"
    "behind t q c (sy1\<lparr>sy_state := s, sy_promise := p\<rparr>) (sy2\<lparr>sy_state := s, sy_promise := p\<rparr>)" for s p
    using assms by (auto simp: behind_def)
  show ?thesis
    by (cases it) (simp_all add: same case_prod_beta behind_post_all upd)
qed

lemma behind_dispatch:
  assumes "behind t (it # q) c sy1 sy2"
  shows "behind t q c (dispatch tsk mth t sy1) (dispatch tsk mth t sy2)"
proof -
  obtain rest where rest: "sy_queue sy1 t = it # q @ rest"
    and sy2: "sy2 = sy1\<lparr>sy_queue := (sy_queue sy1)(t := it # q @ c # rest)\<rparr>"
    using assms by (auto simp: behind_def)
  have "behind t q c (sy1\<lparr>sy_queue := (sy_queue sy1)(t := q @ rest)\<rparr>) (sy2\<lparr>sy_queue := (sy_queue sy2)(t := q @ c # rest)\<rparr>)"
    by (auto simp: behind_def sy2)
  from behind_run_item [OF this] show ?thesis using rest by (simp add: dispatch_def sy2)
qed

lemma behind_run:
  "behind t q c sy1 sy2 \<Longrightarrow>
   behind t [] c (run_choices tsk mth (replicate (length q) (Run t)) sy1) (run_choices tsk mth (replicate (length q) (Run t)) sy2)"
  by (induction q arbitrary: sy1 sy2) (auto dest: behind_dispatch)

lemma run_choices_append: "run_choices tsk mth (cs @ cs') sy = run_choices tsk mth cs' (run_choices tsk mth cs sy)"
  by (induction tsk mth cs sy rule: run_choices.induct) auto

lemma call_behind:
  "run_choices tsk mth (replicate (Suc (length (sy_queue sy t))) (Run t)) (enqueue t (Call i m) sy) =
     run_item tsk mth (Call i m) (run_choices tsk mth (replicate (length (sy_queue sy t)) (Run t)) sy)"
proof -
  let ?cs = "replicate (length (sy_queue sy t)) (Run t)" and ?sy = "enqueue t (Call i m) sy"
  have "behind t (sy_queue sy t) (Call i m) sy ?sy" by (simp add: behind_def enqueue_def)
  then have "behind t [] (Call i m) (run_choices tsk mth ?cs sy) (run_choices tsk mth ?cs ?sy)" by (rule behind_run)
  then have "dispatch tsk mth t (run_choices tsk mth ?cs ?sy) = run_item tsk mth (Call i m) (run_choices tsk mth ?cs sy)"
    by (auto simp: behind_def dispatch_def)
  then show ?thesis
    using run_choices_append [of tsk mth ?cs "[Run t]" ?sy] by (simp add: replicate_append_same)
qed

text \<open>C7. A call through a proxy is the call itself made later: when the target thread has worked off what
  was queued and the call, the whole system is in the state in which it would be had the thread
  worked off its queue and then made the call directly. On an idle thread the two are the same.\<close>

theorem proxy_transparent:
  assumes "t \<noteq> cur" and "marshal tsk mth cur (Some t) i m sy = Inr sy'"
  shows "Inr (run_choices tsk mth (replicate (Suc (length (sy_queue sy t))) (Run t)) sy') =
    marshal tsk mth t (Some t) i m (run_choices tsk mth (replicate (length (sy_queue sy t)) (Run t)) sy)"
proof -
  have "sy' = enqueue t (Call i m) sy" using assms by (simp add: marshal_def)
  then show ?thesis by (simp only: marshal_def option.case refl if_True call_behind)
qed

theorem proxy_transparent_witness:
  "let sy = \<lparr>sy_state = 2, sy_queue = (\<lambda>_. []), sy_promise = (\<lambda>_. None)\<rparr>;
       tsk = (\<lambda>(k :: nat) s. (s, [])); mth = (\<lambda>m s. (s * m, s + m, []))
   in map_sum id (dispatch tsk mth 7) (marshal tsk mth 1 (Some 7) 0 3 sy) = marshal tsk mth 7 (Some 7) 0 (3 :: nat) sy"
  using proxy_transparent [of 7 1 "\<lambda>(k :: nat) s. (s, [])" "\<lambda>m s. (s * m, s + m, [])" 0 "3 :: nat"
      "\<lparr>sy_state = 2, sy_queue = (\<lambda>_. []), sy_promise = (\<lambda>_. None)\<rparr>"]
  by (simp add: marshal_def Let_def)

subsection \<open>The proxy object and its destructor\<close>

text \<open>
  A proxy owns its implementation: its state is the implementation's or, once released, nothing.
  Its methods are called on \<^verbatim>\<open>_c.get()\<close>; the destructor marshals \<^verbatim>\<open>destroyInternal\<close> to the proxy's
  thread, so the implementation is released there.
\<close>

datatype 'm proxy_method = PMethod 'm | DestroyInternal

definition proxied :: "('s, 'k, 'm, 'r) method_fun \<Rightarrow> ('s option, 'k, 'm proxy_method, fault + 'r option) method_fun" where
  "proxied mth pm c =
     (case pm of
        DestroyInternal \<Rightarrow> (None, Inr None, [])
      | PMethod m \<Rightarrow>
          (case c of None \<Rightarrow> (None, Inl (NullDeref ''_c''), [])
           | Some s \<Rightarrow> let (s', r, ps) = mth m s in (Some s', Inr (Some r), ps)))"

definition Proxy_create :: "'s \<Rightarrow> ('s option, 'k, 'm proxy_method, fault + 'r option) sys" where
  "Proxy_create c = \<lparr>sy_state = Some c, sy_queue = (\<lambda>_. []), sy_promise = (\<lambda>_. None)\<rparr>"

definition Proxy_destroy ::
  "('s option, 'k) task_fun \<Rightarrow> ('s, 'k, 'm, 'r) method_fun \<Rightarrow> tid \<Rightarrow> tid \<Rightarrow> nat \<Rightarrow>
   ('s option, 'k, 'm proxy_method, fault + 'r option) sys \<Rightarrow> fault + ('s option, 'k, 'm proxy_method, fault + 'r option) sys" where
  "Proxy_destroy tsk mth cur thread i sy = marshal tsk (proxied mth) cur (Some thread) i DestroyInternal sy"

text \<open>The object is there and no call has found it missing.\<close>

definition served :: "('s option, 'k, 'm, fault + 'r) sys \<Rightarrow> bool" where
  "served sy \<longleftrightarrow> sy_state sy \<noteq> None \<and> (\<forall>j e. sy_promise sy j \<noteq> Some (Inl e))"

lemma served_run_item:
  assumes "served sy" and "\<And>k s. fst (tsk k (Some s)) \<noteq> None" and "\<forall>j. it \<noteq> Call j DestroyInternal"
  shows "served (run_item tsk (proxied mth) it sy)"
proof (cases it)
  case (Task k)
  with assms(1) assms(2) show ?thesis by (auto simp: served_def case_prod_beta)
next
  case (Call j pm)
  with assms(3) obtain m where "pm = PMethod m" by (cases pm) auto
  with Call assms(1) show ?thesis by (auto simp: served_def proxied_def case_prod_beta)
qed

lemma served_run:
  assumes "\<And>k s. fst (tsk k (Some s)) \<noteq> None"
  shows "served sy \<Longrightarrow> \<forall>j. Call j DestroyInternal \<notin> set (take n (sy_queue sy t)) \<Longrightarrow>
     served (run_choices tsk (proxied mth) (replicate n (Run t)) sy)"
proof (induction n arbitrary: sy)
  case (Suc n)
  show ?case
  proof (cases "sy_queue sy t")
    case Nil
    then have idle: "dispatch tsk (proxied mth) t sy = sy" by (simp add: dispatch_def)
    have "served (run_choices tsk (proxied mth) (replicate n (Run t)) sy)"
      using Suc.prems Nil by (intro Suc.IH) simp_all
    with idle show ?thesis by simp
  next
    case (Cons it rest)
    let ?sy = "sy\<lparr>sy_queue := (sy_queue sy)(t := rest)\<rparr>"
    obtain ks where "sy_queue (run_item tsk (proxied mth) it ?sy) t = rest @ map Task ks"
      using run_item_queue [of tsk "proxied mth" it ?sy t] by auto
    then have "\<forall>j. Call j DestroyInternal \<notin> set (take n (sy_queue (run_item tsk (proxied mth) it ?sy) t))"
      using Suc.prems(2) Cons by (auto dest: in_set_takeD)
    moreover have "served (run_item tsk (proxied mth) it ?sy)"
      using Suc.prems Cons by (intro served_run_item assms) (auto simp: served_def)
    ultimately show ?thesis using Suc.IH Cons by (simp add: dispatch_def)
  qed
qed simp



end
