(* ===== verification/Logging.thy ===== *)
theory Logging
  imports Prelude
begin

text \<open>
  The log of the library: \<^verbatim>\<open>core/logger/spd_logger.cpp\<close> and \<^verbatim>\<open>rtc_log_sink.cpp\<close> on spdlog. The static
  members of \<^verbatim>\<open>Logger\<close> and what they rely on elsewhere are one record: the two loggers, the sink
  object, the names in spdlog's registry, spdlog's thread pool (a number, because a new pool
  replaces the old one and a logger holds on to the pool it was made with), whether the sink is
  registered with WebRTC and the handler with mediasoupclient, and the lines that were written.

  A macro such as \<^verbatim>\<open>DLOG\<close> goes through the logger pointer, so before \<open>Logger_init\<close> it fails; a
  logger whose pool is gone drops its lines. spdlog refuses to create a second logger of a name
  that is registered. The lemmas follow the log through any sequence of initialisations and
  destructions of the library.
\<close>

subsection \<open>Loggers\<close>

datatype log_level = L_trace | L_debug | L_info | L_warn | L_error

datatype ms_level = LOG_NONE | LOG_ERROR | LOG_WARN | LOG_DEBUG | LOG_TRACE

datatype severity = LS_VERBOSE | LS_INFO | LS_WARNING | LS_ERROR | LS_NONE

record spd_logger =
  sl_name :: string
  sl_file :: string
  sl_max_size :: nat
  sl_max_files :: nat
  sl_console :: bool
  sl_pool :: nat

record logger =
  lg_appLogger :: "spd_logger option"
  lg_rtcLogger :: "spd_logger option"
  lg_rtcLogSink :: bool
  lg_registry :: "string list"
  lg_pool :: nat
  lg_stream :: bool
  lg_handler :: bool
  lg_lines :: "(string \<times> log_level \<times> string) list"

definition new_logger :: logger where
  "new_logger = \<lparr>lg_appLogger = None, lg_rtcLogger = None, lg_rtcLogSink = False, lg_registry = [],
     lg_pool = 0, lg_stream = False, lg_handler = False, lg_lines = []\<rparr>"

text \<open>A line through a logger pointer.\<close>

definition log_through :: "string \<Rightarrow> spd_logger option \<Rightarrow> log_level \<Rightarrow> string \<Rightarrow> logger \<Rightarrow> fault + logger" where
  "log_through name l level msg lg =
     (case l of None \<Rightarrow> Inl (NullDeref name)
      | Some s \<Rightarrow> Inr (if sl_pool s = lg_pool lg
                        then lg\<lparr>lg_lines := lg_lines lg @ [(sl_file s, level, msg)]\<rparr> else lg))"

definition app_log :: "log_level \<Rightarrow> string \<Rightarrow> logger \<Rightarrow> fault + logger" where
  "app_log level msg lg = log_through ''_appLogger'' (lg_appLogger lg) level msg lg"

definition rtc_log :: "log_level \<Rightarrow> string \<Rightarrow> logger \<Rightarrow> fault + logger" where
  "rtc_log level msg lg = log_through ''_rtcLogger'' (lg_rtcLogger lg) level msg lg"

text \<open>What mediasoupclient and WebRTC hand over.\<close>

definition LogHandler_OnLog :: "ms_level \<Rightarrow> string \<Rightarrow> nat \<Rightarrow> logger \<Rightarrow> fault + logger" where
  "LogHandler_OnLog level payload len lg =
     (let s = take len payload
      in case level of
           LOG_TRACE \<Rightarrow> app_log L_trace s lg
         | LOG_DEBUG \<Rightarrow> app_log L_debug s lg
         | LOG_WARN \<Rightarrow> app_log L_warn s lg
         | LOG_ERROR \<Rightarrow> app_log L_error s lg
         | LOG_NONE \<Rightarrow> Inr lg)"

definition RTCLogSink_OnLogMessage :: "string \<Rightarrow> severity \<Rightarrow> logger \<Rightarrow> fault + logger" where
  "RTCLogSink_OnLogMessage message sev lg =
     (case sev of
        LS_VERBOSE \<Rightarrow> rtc_log L_trace message lg
      | LS_INFO \<Rightarrow> rtc_log L_info message lg
      | LS_WARNING \<Rightarrow> rtc_log L_warn message lg
      | LS_ERROR \<Rightarrow> rtc_log L_error message lg
      | LS_NONE \<Rightarrow> Inr lg)"

text \<open>WebRTC calls the sinks that are registered; mediasoupclient calls its one handler.\<close>

definition webrtc_message :: "string \<Rightarrow> severity \<Rightarrow> logger \<Rightarrow> fault + logger" where
  "webrtc_message message sev lg = (if lg_stream lg then RTCLogSink_OnLogMessage message sev lg else Inr lg)"

definition mediasoup_message :: "ms_level \<Rightarrow> string \<Rightarrow> logger \<Rightarrow> fault + logger" where
  "mediasoup_message level s lg = (if lg_handler lg then LogHandler_OnLog level s (length s) lg else Inr lg)"

subsection \<open>Start and stop\<close>

text \<open>\<^verbatim>\<open>spdlog::create_async_nb\<close>: a rotating file sink, registered under its name.\<close>

definition create_async_nb :: "string \<Rightarrow> string \<Rightarrow> nat \<Rightarrow> nat \<Rightarrow> logger \<Rightarrow> fault + (spd_logger \<times> logger)" where
  "create_async_nb name file max_size max_files lg =
     (if name \<in> set (lg_registry lg) then Inl (LibException (''logger with name '' @ name @ '' already exists''))
      else Inr (\<lparr>sl_name = name, sl_file = file, sl_max_size = max_size, sl_max_files = max_files,
                 sl_console = False, sl_pool = lg_pool lg\<rparr>, lg\<lparr>lg_registry := name # lg_registry lg\<rparr>))"

text \<open>An exception leaves what was done before it: the result is the exception, if any, and the state.\<close>

definition Logger_init :: "string \<Rightarrow> logger \<Rightarrow> fault option \<times> logger" where
  "Logger_init log_path lg =
     (let lg1 = lg\<lparr>lg_pool := Suc (lg_pool lg)\<rparr>
      in case create_async_nb ''app'' (log_path @ ''/app.log'') (1024 * 1024 * 5) 5 lg1 of
           Inl e \<Rightarrow> (Some e, lg1)
         | Inr (app, lg2) \<Rightarrow>
             (let lg3 = lg2\<lparr>lg_appLogger := Some (app\<lparr>sl_console := True\<rparr>)\<rparr>
              in case create_async_nb ''rtc'' (log_path @ ''/rtc.log'') (1024 * 1024 * 5) 3 lg3 of
                   Inl e \<Rightarrow> (Some e, lg3)
                 | Inr (rtc, lg4) \<Rightarrow>
                     (let lg5 = lg4\<lparr>lg_rtcLogger := Some rtc\<rparr>;
                          lg6 = (if \<not> lg_rtcLogSink lg5
                                 then lg5\<lparr>lg_rtcLogSink := True, lg_stream := True\<rparr> else lg5)
                      in (None, lg6\<lparr>lg_handler := True\<rparr>))))"

definition Logger_destroy :: "logger \<Rightarrow> fault + logger" where
  "Logger_destroy lg =
     (case lg_rtcLogger lg of None \<Rightarrow> Inl (NullDeref ''_rtcLogger'')
      | Some _ \<Rightarrow>
          (case lg_appLogger lg of None \<Rightarrow> Inl (NullDeref ''_appLogger'')
           | Some _ \<Rightarrow>
               (let lg1 = lg\<lparr>lg_registry := []\<rparr>
                in Inr (if lg_rtcLogSink lg1 then lg1\<lparr>lg_stream := False\<rparr> else lg1))))"

datatype log_call = LInit string | LDestroy

fun log_run :: "log_call list \<Rightarrow> logger \<Rightarrow> fault + logger" where
  "log_run [] lg = Inr lg"
| "log_run (LInit path # cs) lg =
     (case Logger_init path lg of (None, lg') \<Rightarrow> log_run cs lg' | (Some e, _) \<Rightarrow> Inl e)"
| "log_run (LDestroy # cs) lg = ebind (Logger_destroy lg) (log_run cs)"

subsection \<open>The life of the log\<close>

text \<open>The state of the log after calls that all went well: which path, if any, the files are under.\<close>

definition log_at :: "string \<Rightarrow> bool \<Rightarrow> bool \<Rightarrow> logger \<Rightarrow> bool" where
  "log_at path started heard lg \<longleftrightarrow>
     (\<exists>app rtc. lg_appLogger lg = Some app \<and> lg_rtcLogger lg = Some rtc \<and>
        sl_pool app = lg_pool lg \<and> sl_pool rtc = lg_pool lg \<and>
        sl_file app = path @ ''/app.log'' \<and> sl_file rtc = path @ ''/rtc.log'') \<and>
     lg_registry lg = (if started then [''rtc'', ''app''] else []) \<and>
     lg_rtcLogSink lg \<and> lg_stream lg = heard \<and> lg_handler lg"

lemma init_fresh:
  assumes "lg_registry lg = []"
  shows "\<exists>lg'. Logger_init path lg = (None, lg') \<and> lg_lines lg' = lg_lines lg \<and>
    log_at path True (\<not> lg_rtcLogSink lg \<or> lg_stream lg) lg'"
  using assms by (simp add: Logger_init_def create_async_nb_def log_at_def Let_def)

lemma init_registered:
  "''app'' \<in> set (lg_registry lg) \<Longrightarrow>
     Logger_init path lg = (Some (LibException ''logger with name app already exists''), lg\<lparr>lg_pool := Suc (lg_pool lg)\<rparr>)"
  by (simp add: Logger_init_def create_async_nb_def)

lemma destroy_at:
  "log_at path started heard lg \<Longrightarrow>
     \<exists>lg'. Logger_destroy lg = Inr lg' \<and> lg_lines lg' = lg_lines lg \<and> log_at path False False lg'"
  by (auto simp: log_at_def Logger_destroy_def Let_def)

text \<open>Sequences of calls in which no initialisation meets a log that is still started.\<close>

fun calls_ok :: "bool \<Rightarrow> log_call list \<Rightarrow> bool" where
  "calls_ok started [] \<longleftrightarrow> True"
| "calls_ok started (LInit path # cs) \<longleftrightarrow> \<not> started \<and> calls_ok True cs"
| "calls_ok started (LDestroy # cs) \<longleftrightarrow> calls_ok False cs"

fun last_path :: "string \<Rightarrow> log_call list \<Rightarrow> string" where
  "last_path path [] = path"
| "last_path path (LInit p # cs) = last_path p cs"
| "last_path path (LDestroy # cs) = last_path path cs"

fun last_started :: "bool \<Rightarrow> log_call list \<Rightarrow> bool" where
  "last_started started [] \<longleftrightarrow> started"
| "last_started started (LInit p # cs) \<longleftrightarrow> last_started True cs"
| "last_started started (LDestroy # cs) \<longleftrightarrow> last_started False cs"

lemma log_run_at:
  "log_at path started heard lg \<Longrightarrow>
     (if calls_ok started cs
      then \<exists>lg'. log_run cs lg = Inr lg' \<and> lg_lines lg' = lg_lines lg \<and>
             log_at (last_path path cs) (last_started started cs) (heard \<and> LDestroy \<notin> set cs) lg'
      else log_run cs lg = Inl (LibException ''logger with name app already exists''))"
proof (induction cs arbitrary: path started heard lg)
  case (Cons c cs)
  show ?case
  proof (cases c)
    case (LInit p)
    show ?thesis
    proof (cases started)
      case True
      with Cons.prems have "''app'' \<in> set (lg_registry lg)" by (simp add: log_at_def)
      from init_registered [OF this] LInit True show ?thesis by simp
    next
      case False
      with Cons.prems have "lg_registry lg = []" and sink: "lg_rtcLogSink lg" "lg_stream lg = heard"
        by (auto simp: log_at_def)
      from init_fresh [OF this(1), of p] sink obtain lg' where
          "Logger_init p lg = (None, lg')" "lg_lines lg' = lg_lines lg" "log_at p True heard lg'" by auto
      with Cons.IH [OF this(3)] LInit False show ?thesis by auto
    qed
  next
    case LDestroy
    from destroy_at [OF Cons.prems] obtain lg' where
        "Logger_destroy lg = Inr lg'" "lg_lines lg' = lg_lines lg" "log_at path False False lg'" by blast
    with Cons.IH [OF this(3)] LDestroy show ?thesis by auto
  qed
qed auto

lemma messages_at:
  assumes "log_at path started heard lg"
  shows "\<exists>lg'. app_log level msg lg = Inr lg' \<and> lg_lines lg' = lg_lines lg @ [(path @ ''/app.log'', level, msg)]"
    and "\<exists>lg'. webrtc_message msg LS_INFO lg = Inr lg' \<and>
      lg_lines lg' = lg_lines lg @ (if heard then [(path @ ''/rtc.log'', L_info, msg)] else [])"
  using assms
  by (auto simp: log_at_def app_log_def rtc_log_def log_through_def webrtc_message_def RTCLogSink_OnLogMessage_def)

lemma app_log_at: "log_at path started heard lg \<Longrightarrow> app_log level msg lg = Inr lg' \<Longrightarrow> log_at path started heard lg'"
  by (auto simp: log_at_def app_log_def log_through_def split: if_splits)

text \<open>C32. 
  The log over the life of the library. From the start, a sequence of initialisations and
  destructions goes well exactly when it begins with an initialisation and no two of those meet
  without a destruction between them: a destruction first reads a null pointer, and a second
  initialisation fails because spdlog still has the loggers. After a sequence that went well the
  program's own lines go to the file of the last initialisation, also after a destruction; those
  of WebRTC do only as long as nothing was ever destroyed, because the sink object is kept and
  registered only when it is made.
\<close>

theorem log_life:
  "(cs = [] \<or> (\<exists>path rest. cs = LInit path # rest \<and> calls_ok True rest) \<longleftrightarrow>
      (\<exists>lg. log_run cs new_logger = Inr lg))
   \<and> (\<forall>rest. cs = LDestroy # rest \<longrightarrow> log_run cs new_logger = Inl (NullDeref ''_rtcLogger''))
   \<and> (\<forall>path rest lg msg. cs = LInit path # rest \<and> log_run cs new_logger = Inr lg \<longrightarrow>
       (\<exists>lg'. app_log L_debug msg lg = Inr lg' \<and>
          lg_lines lg' = [(last_path path rest @ ''/app.log'', L_debug, msg)]) \<and>
       (\<exists>lg'. webrtc_message msg LS_INFO lg = Inr lg' \<and>
          lg_lines lg' = (if LDestroy \<in> set rest then [] else [(last_path path rest @ ''/rtc.log'', L_info, msg)])))"
proof (cases cs)
  case (Cons c rest)
  show ?thesis
  proof (cases c)
    case (LInit path)
    obtain lg1 where 1: "Logger_init path new_logger = (None, lg1)" "lg_lines lg1 = []" "log_at path True True lg1"
      using init_fresh [of new_logger path] by (auto simp: new_logger_def)
    show ?thesis
    proof (cases "calls_ok True rest")
      case True
      with log_run_at [OF 1(3), of rest] 1 obtain lg where 2: "log_run rest lg1 = Inr lg" "lg_lines lg = []"
          "log_at (last_path path rest) (last_started True rest) (LDestroy \<notin> set rest) lg" by auto
      show ?thesis using messages_at [OF 2(3)] 1 2 Cons LInit True by auto
    next
      case False
      with log_run_at [OF 1(3), of rest] 1 Cons LInit show ?thesis by auto
    qed
  next
    case LDestroy
    with Cons show ?thesis by (simp add: Logger_destroy_def new_logger_def)
  qed
qed auto

theorem log_life_witness:
  "\<exists>lg lg'. log_run [LInit ''/tmp'', LDestroy, LInit ''/var''] new_logger = Inr lg \<and>
     webrtc_message ''ice'' LS_INFO lg = Inr lg' \<and> lg_lines lg' = []"
proof -
  have "calls_ok True [LDestroy, LInit ''/var'']" by simp
  with log_life [of "[LInit ''/tmp'', LDestroy, LInit ''/var'']"] show ?thesis by auto
qed

text \<open>
  The failing second initialisation is not harmless: it has already replaced the thread pool, so
  the loggers that are still in place drop every line from then on.
\<close>

theorem second_init_silences:
  assumes "log_at path True heard lg"
  shows "\<exists>e lg'. Logger_init path' lg = (Some e, lg') \<and> app_log level msg lg' = Inr lg'"
proof -
  from assms have "''app'' \<in> set (lg_registry lg)" by (simp add: log_at_def)
  from init_registered [OF this] assms show ?thesis
    by (auto simp: log_at_def app_log_def log_through_def)
qed

end
