(* ===== verification/Engine.thy ===== *)
theory Engine
  imports Session Threads Logging
begin

text \<open>
  \<^verbatim>\<open>core/service/rtc_context.cpp\<close>, \<^verbatim>\<open>engine.cpp\<close>, \<^verbatim>\<open>core.cpp\<close> and the proxy of a room
  (\<^verbatim>\<open>i_room_client.h\<close>): what is created when the library starts, how rooms are created and called, and
  what is left when it stops.

  A room is an object the engine's table, the application and pending callbacks share: rooms live
  in a list and are known by their position. A room object carries its random \<^verbatim>\<open>_id\<close>, the room and
  whether the application observes the room and its participant controller.

  A call through the proxy runs the tasks the mediasoup thread has queued for the room and then the
  method, as \<open>Proxy_Refinement\<close> and, for the queue the rooms share, \<open>Shared_Thread\<close> show; \<open>gid\<close> supplies the numbers drawn in each of them. Faults of
  \<^verbatim>\<open>_rtcContext\<close> and of missing threads are explicit, and so is the log, whose state is part of the
  core. The initialisation of the media library is a flag.
\<close>

subsection \<open>The RTC context\<close>

text \<open>The three threads are plain pointers that the constructor leaves indeterminate (\<open>None\<close>).\<close>

record rtc_context =
  rc_factory :: bool
  rc_networkThread :: "tid option"
  rc_signalingThread :: "tid option"
  rc_workerThread :: "tid option"

definition new_context :: rtc_context where
  "new_context = \<lparr>rc_factory = False, rc_networkThread = None, rc_signalingThread = None, rc_workerThread = None\<rparr>"

definition RTCContext_init :: "(nat \<Rightarrow> tid) \<Rightarrow> rtc_context \<Rightarrow> rtc_context \<times> thread_op list" where
  "RTCContext_init fresh rc =
     (if rc_factory rc then (rc, [])
      else (\<lparr>rc_factory = True, rc_networkThread = Some (fresh 0), rc_signalingThread = Some (fresh 1),
             rc_workerThread = Some (fresh 2)\<rparr>,
            [ThreadStart (fresh 0) ''network_thread'', ThreadStart (fresh 1) ''signaling_thread'',
             ThreadStart (fresh 2) ''worker_thread'']))"

definition RTCContext_destroy :: "rtc_context \<Rightarrow> rtc_context" where
  "RTCContext_destroy rc = (if rc_factory rc then rc\<lparr>rc_factory := False\<rparr> else rc)"

text \<open>\<^verbatim>\<open>RoomClient::configure\<close>: the options of every peer connection of a room, with the factory of the context.\<close>

record pc_options =
  po_dscp :: bool
  po_factory :: bool

definition RoomClient_configure :: "rtc_context option \<Rightarrow> pc_options" where
  "RoomClient_configure rtcContext =
     \<lparr>po_dscp = True, po_factory = (case rtcContext of None \<Rightarrow> False | Some rc \<Rightarrow> rc_factory rc)\<rparr>"

subsection \<open>Calling a room through its proxy\<close>

record env =
  ev_lib :: lib
  ev_gid :: "nat \<Rightarrow> nat \<Rightarrow> int"
  ev_produce :: produce_fun
  ev_consume :: consume_fun
  ev_consumeData :: consume_data_fun
  ev_peerId :: string

datatype room_method =
    Init
  | Destroy
  | GetId
  | GetRoomId
  | AddObserver
  | RemoveObserver
  | Join string nat string string "options option"
  | Leave
  | GetRoomState
  | EnableAudio bool
  | MuteAudio bool
  | IsAudioMuted
  | EnableVideo bool string nat nat
  | SpeakingVolume
  | GetParticipantController
  | GetMediaController

datatype room_value =
    VoidValue
  | StrValue string
  | StateValue RoomState
  | BoolValue bool
  | IntValue int
  | PtrValue bool

record room_object =
  ro_id :: string
  ro_room :: room
  ro_observed :: bool
  ro_partObserved :: bool

type_synonym call_result = "fault + room_object \<times> room_out list \<times> room_value"

definition void_call :: "room_object \<Rightarrow> room_result \<Rightarrow> call_result" where
  "void_call ob r = ebind r (\<lambda>(rm, outs). Inr (ob\<lparr>ro_room := rm\<rparr>, outs, VoidValue))"

definition RoomClient_getRoomState :: "room \<Rightarrow> RoomState" where
  "RoomClient_getRoomState rm = rm_state rm"

definition RoomClient_speakingVolume :: "room \<Rightarrow> int" where
  "RoomClient_speakingVolume rm = rm_volume rm"

text \<open>A pointer result is whether the pointer is set.\<close>

definition RoomClient_getParticipantController :: "room \<Rightarrow> bool" where
  "RoomClient_getParticipantController rm = (rm_participants rm \<noteq> None)"

definition RoomClient_getMediaController :: "room \<Rightarrow> bool" where
  "RoomClient_getMediaController rm = (rm_media rm \<noteq> None)"

text \<open>The methods of the proxy map, each on the room itself; \<open>rtc\<close> says whether the room has a context.\<close>

fun invoke :: "env \<Rightarrow> bool \<Rightarrow> nat \<Rightarrow> room_method \<Rightarrow> room_object \<Rightarrow> call_result" where
  "invoke env rtc n Init ob =
     (if rm_media (ro_room ob) = None \<and> \<not> rtc then Inl (NullDeref ''_rtcContext'')
      else Inr (ob\<lparr>ro_room := RoomClient_init (ro_room ob)\<rparr>, [], VoidValue))"
| "invoke env rtc n Destroy ob = void_call ob (ebind (RoomClient_destroy (ro_room ob)) (\<lambda>rm. Inr (rm, [])))"
| "invoke env rtc n GetId ob = Inr (ob, [], StrValue (ro_id ob))"
| "invoke env rtc n GetRoomId ob = Inr (ob, [], StrValue (rm_roomId (ro_room ob)))"
| "invoke env rtc n AddObserver ob = Inr (ob\<lparr>ro_observed := True\<rparr>, [], VoidValue)"
| "invoke env rtc n RemoveObserver ob = Inr (ob\<lparr>ro_observed := False\<rparr>, [], VoidValue)"
| "invoke env rtc n (Join host port roomId displayName opts) ob =
     void_call ob (RoomClient_join (ev_lib env) (ev_peerId env) host port roomId displayName opts (ro_room ob))"
| "invoke env rtc n Leave ob = void_call ob (RoomClient_leave (ro_room ob))"
| "invoke env rtc n GetRoomState ob = Inr (ob, [], StateValue (RoomClient_getRoomState (ro_room ob)))"
| "invoke env rtc n (EnableAudio b) ob =
     void_call ob (RoomClient_enableAudio (ev_lib env) (ev_gid env n) (ev_produce env) b (ro_room ob))"
| "invoke env rtc n (MuteAudio b) ob = void_call ob (RoomClient_muteAudio (ev_lib env) (ev_gid env n) b (ro_room ob))"
| "invoke env rtc n IsAudioMuted ob = ebind (RoomClient_isAudioMuted (ro_room ob)) (\<lambda>b. Inr (ob, [], BoolValue b))"
| "invoke env rtc n (EnableVideo b name w h) ob =
     void_call ob (RoomClient_enableVideo (ev_lib env) (ev_gid env n) (ev_produce env) b name w h (ro_room ob))"
| "invoke env rtc n SpeakingVolume ob = Inr (ob, [], IntValue (RoomClient_speakingVolume (ro_room ob)))"
| "invoke env rtc n GetParticipantController ob = Inr (ob, [], PtrValue (RoomClient_getParticipantController (ro_room ob)))"
| "invoke env rtc n GetMediaController ob = Inr (ob, [], PtrValue (RoomClient_getMediaController (ro_room ob)))"

text \<open>The next \<open>n\<close> tasks the mediasoup thread has for the room; \<open>i\<close> counts the items it has run.\<close>

fun run_queued :: "env \<Rightarrow> nat \<Rightarrow> nat \<Rightarrow> room \<Rightarrow> room_result" where
  "run_queued env i 0 rm = Inr (rm, [])"
| "run_queued env i (Suc n) rm =
     (case rm_tasks rm of
        [] \<Rightarrow> Inr (rm, [])
      | t # rest \<Rightarrow>
          then_outs (run_room_task (ev_lib env) (ev_gid env i) (ev_consume env) (ev_consumeData env) t (rm\<lparr>rm_tasks := rest\<rparr>))
            (run_queued env (Suc i) n))"

definition RoomClientProxy_call :: "env \<Rightarrow> bool \<Rightarrow> bool \<Rightarrow> room_method \<Rightarrow> room_object \<Rightarrow> call_result" where
  "RoomClientProxy_call env on_mediasoup rtc m ob =
     (let n = length (rm_tasks (ro_room ob)) in
      if on_mediasoup then invoke env rtc 0 m ob
      else
        ebind (run_queued env 0 n (ro_room ob)) (\<lambda>(rm, outs).
        ebind (invoke env rtc n m (ob\<lparr>ro_room := rm\<rparr>)) (\<lambda>(ob', outs', v). Inr (ob', outs @ outs', v))))"

subsection \<open>The engine\<close>

record engine =
  en_rtcContext :: "rtc_context option"
  en_objects :: "room_object list"
  en_roomClients :: "(string, nat) umap"

definition new_engine :: engine where
  "new_engine = \<lparr>en_rtcContext = None, en_objects = [], en_roomClients = []\<rparr>"

definition Engine_init :: "(nat \<Rightarrow> tid) \<Rightarrow> engine \<Rightarrow> engine \<times> thread_op list" where
  "Engine_init fresh en =
     (case en_rtcContext en of
        None \<Rightarrow> (let (rc, ops) = RTCContext_init fresh new_context in (en\<lparr>en_rtcContext := Some rc\<rparr>, ops))
      | Some rc \<Rightarrow> (en, []))"

text \<open>A call of the application on a room object.\<close>

definition call_room :: "env \<Rightarrow> bool \<Rightarrow> nat \<Rightarrow> room_method \<Rightarrow> engine \<Rightarrow> fault + engine \<times> room_out list \<times> room_value" where
  "call_room env on_mediasoup addr m en =
     (if addr < length (en_objects en) then
        ebind (RoomClientProxy_call env on_mediasoup (en_rtcContext en \<noteq> None) m (en_objects en ! addr)) (\<lambda>(ob, outs, v).
          Inr (en\<lparr>en_objects := (en_objects en)[addr := ob]\<rparr>, outs, v))
      else Inl (NullDeref ''_room_client''))"

fun destroy_rooms :: "env \<Rightarrow> nat list \<Rightarrow> engine \<Rightarrow> fault + engine \<times> room_out list" where
  "destroy_rooms env [] en = Inr (en, [])"
| "destroy_rooms env (addr # addrs) en =
     ebind (call_room env False addr Destroy en) (\<lambda>(en', outs, _).
     ebind (destroy_rooms env addrs en') (\<lambda>(en'', outs'). Inr (en'', outs @ outs')))"

definition Engine_destroy :: "env \<Rightarrow> engine \<Rightarrow> fault + engine \<times> room_out list" where
  "Engine_destroy env en =
     ebind (destroy_rooms env (map snd (en_roomClients en)) en) (\<lambda>(en', outs).
       Inr (en'\<lparr>en_rtcContext := map_option RTCContext_destroy (en_rtcContext en')\<rparr>, outs))"

text \<open>
  \<open>createRoomClient\<close>: \<open>ident\<close> is the text of \<^verbatim>\<open>rtc::CreateRandomId()\<close>. Both calls go through the proxy,
  which needs the mediasoup thread; the call of \<open>init\<close> comes from the application's thread.
\<close>

definition Engine_createRoomClient ::
  "env \<Rightarrow> thread_provider option \<Rightarrow> string \<Rightarrow> engine \<Rightarrow> fault + engine \<times> nat" where
  "Engine_createRoomClient env provider ident en =
     ebind (getThread ''mediasoup'' provider) (\<lambda>mediasoupThread.
     ebind (getThread ''transport'' provider) (\<lambda>transportThread.
     case mediasoupThread of
       None \<Rightarrow> Inl (NullDeref ''thread'')
     | Some _ \<Rightarrow>
         let addr = length (en_objects en);
             ob = \<lparr>ro_id = ident, ro_room = new_room, ro_observed = False, ro_partObserved = False\<rparr>;
             en1 = en\<lparr>en_objects := en_objects en @ [ob]\<rparr>
         in ebind (call_room env False addr Init en1) (\<lambda>(en2, _, _).
            Inr (en2\<lparr>en_roomClients := um_put ident addr (en_roomClients en2)\<rparr>, addr))))"

definition Engine_getRoomClients :: "engine \<Rightarrow> (string, nat) umap" where
  "Engine_getRoomClients en = en_roomClients en"

subsection \<open>Start and stop\<close>

record core =
  cr_logger :: logger
  cr_mediasoupclient :: bool
  cr_provider :: "thread_provider option"
  cr_engine :: engine

definition new_core :: core where
  "new_core = \<lparr>cr_logger = new_logger, cr_mediasoupclient = False, cr_provider = None, cr_engine = new_engine\<rparr>"

text \<open>An exception of the log ends \<^verbatim>\<open>Core::init\<close> there: the result is the fault, if any, and the state it leaves.\<close>

definition Core_init :: "string \<Rightarrow> string \<Rightarrow> (nat \<Rightarrow> tid) \<Rightarrow> (nat \<Rightarrow> tid) \<Rightarrow> core \<Rightarrow> fault option \<times> core \<times> thread_op list" where
  "Core_init version log_path fresh fresh' c =
     (case Logger_init log_path (cr_logger c) of
        (Some e, lg) \<Rightarrow> (Some e, c\<lparr>cr_logger := lg\<rparr>, [])
      | (None, lg) \<Rightarrow>
          (let (provider, ops) = ComponentFactory_init fresh (cr_provider c);
               (en, ops') = Engine_init fresh' (cr_engine c);
               c1 = \<lparr>cr_logger = lg, cr_mediasoupclient = True, cr_provider = provider, cr_engine = en\<rparr>
           in case app_log L_debug (''mediasoupclient version: '' @ version) lg of
                Inl e \<Rightarrow> (Some e, c1, ops @ ops')
              | Inr lg' \<Rightarrow> (None, c1\<lparr>cr_logger := lg'\<rparr>, ops @ ops')))"

definition Core_destroy :: "env \<Rightarrow> core \<Rightarrow> fault + core \<times> room_out list \<times> thread_op list" where
  "Core_destroy env c =
     ebind (Engine_destroy env (cr_engine c)) (\<lambda>(en, outs).
     let (provider, ops) = ComponentFactory_destroy (cr_provider c)
     in ebind (Logger_destroy (cr_logger c)) (\<lambda>lg.
        Inr (\<lparr>cr_logger = lg, cr_mediasoupclient = False, cr_provider = provider, cr_engine = en\<rparr>, outs, ops)))"

subsection \<open>A call through the proxy is a run of the room\<close>

lemma run_queued_run:
  "run_queued env i n rm = Inr (rm', outs) \<Longrightarrow> room_run (ev_lib env) rm outs rm'"
proof (induction n arbitrary: i rm outs)
  case (Suc n)
  show ?case
  proof (cases "rm_tasks rm")
    case (Cons t rest)
    with Suc.prems obtain rm1 outs1 outs2 where
      step: "run_room_task (ev_lib env) (ev_gid env i) (ev_consume env) (ev_consumeData env) t (rm\<lparr>rm_tasks := rest\<rparr>) = Inr (rm1, outs1)"
      and more: "run_queued env (Suc i) n rm1 = Inr (rm', outs2)" and outs: "outs = outs1 @ outs2"
      by (auto simp: then_outs_Inr)
    have "room_run (ev_lib env) rm outs1 rm1"
      using rr_step [OF rr_start rs_task [OF Cons step]] by simp
    from room_run_trans [OF this Suc.IH [OF more]] show ?thesis by (simp add: outs)
  qed (use Suc.prems in \<open>auto intro: rr_start\<close>)
qed (auto intro: rr_start)

lemma void_call_Inr:
  "void_call ob r = Inr (ob', outs, v) \<longleftrightarrow> v = VoidValue \<and> (\<exists>rm. r = Inr (rm, outs) \<and> ob' = ob\<lparr>ro_room := rm\<rparr>)"
  by (cases r) (auto simp: void_call_def)

lemma invoke_run:
  assumes "invoke env rtc n m ob = Inr (ob', outs, v)" and "m \<noteq> Init"
  shows "room_run (ev_lib env) (ro_room ob) outs (ro_room ob')"
proof (cases "ro_room ob' = ro_room ob \<and> outs = []")
  case True
  then show ?thesis using rr_start by simp
next
  case False
  have "room_step (ev_lib env) (ro_room ob) outs (ro_room ob')"
    using assms False by (cases m) (auto simp: void_call_Inr ebind_eq_Inr intro: room_step.intros)
  from rr_step [OF rr_start this] show ?thesis by simp
qed

lemma proxy_call_run:
  assumes "RoomClientProxy_call env on rtc m ob = Inr (ob', outs, v)" and "m \<noteq> Init"
  shows "room_run (ev_lib env) (ro_room ob) outs (ro_room ob')"
proof (cases on)
  case True
  with assms show ?thesis by (auto simp: RoomClientProxy_call_def Let_def intro: invoke_run)
next
  case False
  with assms(1) obtain rm outs1 outs2 where
    q: "run_queued env 0 (length (rm_tasks (ro_room ob))) (ro_room ob) = Inr (rm, outs1)"
    and i: "invoke env rtc (length (rm_tasks (ro_room ob))) m (ob\<lparr>ro_room := rm\<rparr>) = Inr (ob', outs2, v)"
    and outs: "outs = outs1 @ outs2"
    by (auto simp: RoomClientProxy_call_def Let_def ebind_eq_Inr)
  from room_run_trans [OF run_queued_run [OF q]] invoke_run [OF i assms(2)] outs show ?thesis by auto
qed

subsection \<open>Every room of the engine is consistent\<close>

lemma room_inv_init_again: "room_inv rm \<Longrightarrow> room_inv (RoomClient_init rm)"
  by (auto simp: room_inv_def RoomClient_init_def Let_def MediaController_init_def new_media_def
      configVideoEncodings_def split: option.splits)

lemma room_inv_run: "room_run lib rm outs rm' \<Longrightarrow> room_inv rm \<Longrightarrow> room_inv rm'"
  by (induction rule: room_run.induct) (auto dest: room_step_shape intro: room_inv_shape)


definition engine_inv :: "engine \<Rightarrow> bool" where
  "engine_inv en \<longleftrightarrow> list_all (\<lambda>ob. room_inv (ro_room ob)) (en_objects en) \<and>
     list_all (\<lambda>(ident, addr). addr < length (en_objects en)) (en_roomClients en)"

text \<open>
  The steps of the engine: it is initialised, creates a room, a room is called through its proxy, a
  room moves on its own, and it is destroyed.
\<close>

inductive engine_step :: "engine \<Rightarrow> engine \<Rightarrow> bool" where
  es_init: "engine_step en (fst (Engine_init fresh en))"
| es_create: "Engine_createRoomClient env provider ident en = Inr (en', addr) \<Longrightarrow> engine_step en en'"
| es_call: "call_room env on addr m en = Inr (en', outs, v) \<Longrightarrow> engine_step en en'"
| es_room: "addr < length (en_objects en) \<Longrightarrow> room_step lib (ro_room (en_objects en ! addr)) outs rm \<Longrightarrow>
    engine_step en (en\<lparr>en_objects := (en_objects en)[addr := (en_objects en ! addr)\<lparr>ro_room := rm\<rparr>]\<rparr>)"
| es_destroy: "Engine_destroy env en = Inr (en', outs) \<Longrightarrow> engine_step en en'"

lemma call_room_Inr:
  assumes "call_room env on addr m en = Inr (en', outs, v)"
  obtains ob where "addr < length (en_objects en)"
    and "RoomClientProxy_call env on (en_rtcContext en \<noteq> None) m (en_objects en ! addr) = Inr (ob, outs, v)"
    and "en' = en\<lparr>en_objects := (en_objects en)[addr := ob]\<rparr>"
  using assms by (auto simp: call_room_def ebind_eq_Inr split: if_splits)

lemma call_room_frame:
  "call_room env on addr m en = Inr (en', outs, v) \<Longrightarrow>
   en_rtcContext en' = en_rtcContext en \<and> en_roomClients en' = en_roomClients en \<and>
   length (en_objects en') = length (en_objects en)"
  by (auto elim!: call_room_Inr)

lemma list_all_update: "list_all P xs \<Longrightarrow> P x \<Longrightarrow> list_all P (xs[i := x])"
  by (cases "i < length xs") (auto simp: list_all_length nth_list_update list_update_beyond)

lemma set_um_put: "set (um_put k v m) \<subseteq> insert (k, v) (set m)"
  unfolding um_put_def by (induction m) auto

lemma run_queued_inv: "run_queued env i n rm = Inr (rm', outs) \<Longrightarrow> room_inv rm \<Longrightarrow> room_inv rm'"
  using run_queued_run room_inv_run by blast

lemma proxy_init_inv:
  assumes "RoomClientProxy_call env on rtc Init ob = Inr (ob', outs, v)" and "room_inv (ro_room ob)"
  shows "room_inv (ro_room ob')"
  using assms by (auto simp: RoomClientProxy_call_def Let_def ebind_eq_Inr split: if_splits
      intro!: room_inv_init_again intro: run_queued_inv)

lemma call_room_inv:
  assumes "call_room env on addr m en = Inr (en', outs, v)" and "engine_inv en"
  shows "engine_inv en'"
  using assms(1)
proof (rule call_room_Inr)
  fix ob
  assume addr: "addr < length (en_objects en)"
    and call: "RoomClientProxy_call env on (en_rtcContext en \<noteq> None) m (en_objects en ! addr) = Inr (ob, outs, v)"
    and en': "en' = en\<lparr>en_objects := (en_objects en)[addr := ob]\<rparr>"
  have "room_inv (ro_room (en_objects en ! addr))"
    using assms(2) addr by (simp add: engine_inv_def list_all_length)
  then have "room_inv (ro_room ob)"
    using call proxy_call_run [OF call] proxy_init_inv room_inv_run by (cases "m = Init") blast+
  then show ?thesis using assms(2) by (simp add: engine_inv_def en' list_all_update)
qed

lemma destroy_rooms_inv:
  "destroy_rooms env addrs en = Inr (en', outs) \<Longrightarrow> engine_inv en \<Longrightarrow> engine_inv en'"
  by (induction addrs arbitrary: en outs) (auto simp: ebind_eq_Inr dest: call_room_inv)

lemma create_unfold:
  "Engine_createRoomClient env provider ident en =
     (case provider of
        None \<Rightarrow> Inl (NullDeref ''_threadProvider'')
      | Some tp \<Rightarrow>
          if ThreadProvider_thread ''mediasoup'' tp = None then Inl (NullDeref ''thread'')
          else if en_rtcContext en = None then Inl (NullDeref ''_rtcContext'')
          else Inr (en\<lparr>en_objects := en_objects en @ [\<lparr>ro_id = ident, ro_room = RoomClient_init new_room,
                        ro_observed = False, ro_partObserved = False\<rparr>],
                      en_roomClients := um_put ident (length (en_objects en)) (en_roomClients en)\<rparr>,
                    length (en_objects en)))"
  by (cases provider; cases "en_rtcContext en")
    (auto simp: Engine_createRoomClient_def getThread_def call_room_def RoomClientProxy_call_def new_room_def Let_def
      split: option.split)

text \<open>C19. Whatever the application does with the engine and its rooms, and however the rooms move on their
  own meanwhile, every room of the engine is consistent and every entry of its table is a room.\<close>

theorem engine_invariant:
  assumes "engine_step\<^sup>*\<^sup>* new_engine en"
  shows "engine_inv en"
  using assms
proof induction
  case base
  show ?case by (simp add: engine_inv_def new_engine_def)
next
  case (step en en')
  from step(2) show ?case
  proof (cases rule: engine_step.cases)
    case (es_init fresh)
    then show ?thesis using step(3)
      by (simp add: engine_inv_def Engine_init_def case_prod_beta split: option.split)
  next
    case (es_create env provider ident addr)
    then show ?thesis using step(3) room_inv_init
      by (auto simp: create_unfold engine_inv_def list_all_iff less_Suc_eq
          dest!: subsetD [OF set_um_put] split: option.splits if_splits)
  next
    case es_call
    then show ?thesis using call_room_inv step(3) by blast
  next
    case (es_room addr lib outs rm)
    then have "room_inv rm"
      using room_inv_shape [OF room_step_shape [OF es_room(3)]] step(3) by (simp add: engine_inv_def list_all_length)
    then show ?thesis using step(3) by (simp add: es_room(1) engine_inv_def list_all_update)
  next
    case es_destroy
    then show ?thesis using destroy_rooms_inv step(3)
      by (fastforce simp: Engine_destroy_def ebind_eq_Inr engine_inv_def)
  qed
qed


definition demo_env :: env where
  "demo_env = \<lparr>ev_lib = demo_lib, ev_gid = (\<lambda>n i. int i), ev_produce = (\<lambda>_ _ _ _. Inl ''none''),
     ev_consume = (\<lambda>_ _ _ _ _. Inl ''none''), ev_consumeData = (\<lambda>_ _ _ _ _ _. Inl ''none''), ev_peerId = ''me''\<rparr>"

definition demo_engine :: engine where
  "demo_engine = fst (Engine_init id new_engine)"

lemma demo_engine_context: "en_rtcContext demo_engine \<noteq> None" "en_objects demo_engine = []"
  by (simp_all add: demo_engine_def Engine_init_def new_engine_def RTCContext_init_def new_context_def)

text \<open>A room is created and joined.\<close>

theorem engine_invariant_witness:
  "\<exists>en en' outs v. engine_step\<^sup>*\<^sup>* new_engine en' \<and> engine_inv en' \<and>
     call_room demo_env False 0 (Join ''host'' 443 ''room'' ''name'' None) en = Inr (en', outs, v)"
proof -
  obtain en where en: "Engine_createRoomClient demo_env (fst (ComponentFactory_init id None)) ''1'' demo_engine = Inr (en, 0)"
    and ob: "length (en_objects en) = 1" "ro_room (en_objects en ! 0) = RoomClient_init new_room"
    using demo_engine_context factory_mediasoup [of id] by (auto simp: create_unfold)
  obtain rm' outs where "RoomClient_join demo_lib ''me'' ''host'' 443 ''room'' ''name'' None (RoomClient_init new_room) = Inr (rm', outs)"
    using join_returns by blast
  moreover have "rm_tasks (RoomClient_init new_room) = []"
    by (simp add: RoomClient_init_def new_room_def Let_def)
  ultimately obtain en' v where call: "call_room demo_env False 0 (Join ''host'' 443 ''room'' ''name'' None) en = Inr (en', outs, v)"
    using ob by (auto simp: call_room_def RoomClientProxy_call_def void_call_def demo_env_def Let_def)
  have "engine_step\<^sup>*\<^sup>* new_engine en'"
    using es_init [of new_engine id] es_create [OF en] es_call [OF call] unfolding demo_engine_def [symmetric]
    by (meson converse_rtranclp_into_rtranclp rtranclp.rtrancl_refl)
  with engine_invariant [OF this] call show ?thesis by blast
qed

subsection \<open>Creating rooms\<close>

text \<open>Creating a room needs the factory's threads and an initialised engine, and fails at a null pointer
  without them. Otherwise the room is new and initialised, is found under its id, and no other room
  and no other entry of the table changes.\<close>

theorem create_room_spec:
  "(case Engine_createRoomClient env provider ident en of
      Inl f \<Rightarrow> provider = None \<or> (\<exists>tp. provider = Some tp \<and> ThreadProvider_thread ''mediasoup'' tp = None) \<or> en_rtcContext en = None
    | Inr (en', addr) \<Rightarrow>
        addr = length (en_objects en) \<and> take addr (en_objects en') = en_objects en \<and> length (en_objects en') = Suc addr \<and>
        ro_room (en_objects en' ! addr) = RoomClient_init new_room \<and> room_inv (ro_room (en_objects en' ! addr)) \<and>
        (\<forall>i. um_find (Engine_getRoomClients en') i = (if i = ident then Some addr else um_find (Engine_getRoomClients en) i)))"
  by (cases provider) (auto simp: create_unfold Engine_getRoomClients_def room_inv_init)

subsection \<open>Destroying the engine\<close>

definition room_destroyed :: "room_object \<Rightarrow> bool" where
  "room_destroyed ob \<longleftrightarrow> rm_signaling (ro_room ob) = None \<and> \<not> rm_api (ro_room ob) \<and> rm_media (ro_room ob) = None \<and>
     rm_participants (ro_room ob) = None \<and> rm_device (ro_room ob) = None"

lemma destroyed_room: "RoomClient_destroy rm = Inr rm' \<Longrightarrow> room_destroyed (ob\<lparr>ro_room := rm'\<rparr>)"
  by (cases "rm_media rm") (auto simp: RoomClient_destroy_def destroyComponents_def room_destroyed_def ebind_eq_Inr)

lemma proxy_destroy: "RoomClientProxy_call env on rtc Destroy ob = Inr (ob', outs, v) \<Longrightarrow> room_destroyed ob'"
  by (auto simp: RoomClientProxy_call_def Let_def ebind_eq_Inr void_call_Inr destroyed_room split: if_splits)

lemma destroy_one:
  assumes "call_room env on addr Destroy en = Inr (en', outs, v)"
  shows "room_destroyed (en_objects en' ! addr) \<and> (a \<noteq> addr \<longrightarrow> en_objects en' ! a = en_objects en ! a)"
  using assms proxy_destroy by (auto elim!: call_room_Inr)

lemma destroy_rooms_all:
  "destroy_rooms env addrs en = Inr (en', outs) \<Longrightarrow>
   en_rtcContext en' = en_rtcContext en \<and> en_roomClients en' = en_roomClients en \<and>
   (\<forall>a. a \<in> set addrs \<or> room_destroyed (en_objects en ! a) \<longrightarrow> room_destroyed (en_objects en' ! a))"
proof (induction addrs arbitrary: en outs)
  case (Cons addr addrs)
  then obtain en1 outs1 v outs2 where one: "call_room env False addr Destroy en = Inr (en1, outs1, v)"
    and more: "destroy_rooms env addrs en1 = Inr (en', outs2)"
    by (auto simp: ebind_eq_Inr)
  have "room_destroyed (en_objects en1 ! a)" if "a = addr \<or> room_destroyed (en_objects en ! a)" for a
    using destroy_one [OF one, of a] that by metis
  then show ?case using Cons.IH [OF more] call_room_frame [OF one] by auto
qed simp

lemma core_init_fresh:
  assumes "lg_registry (cr_logger c) = []"
  shows "\<exists>c' ops. Core_init version path fresh fresh' c = (None, c', ops) \<and>
    cr_engine c' = fst (Engine_init fresh' (cr_engine c)) \<and> cr_provider c' = fst (ComponentFactory_init fresh (cr_provider c)) \<and>
    log_at path True (\<not> lg_rtcLogSink (cr_logger c) \<or> lg_stream (cr_logger c)) (cr_logger c') \<and>
    lg_lines (cr_logger c') = lg_lines (cr_logger c) @ [(path @ ''/app.log'', L_debug, ''mediasoupclient version: '' @ version)]"
proof -
  obtain lg where lg: "Logger_init path (cr_logger c) = (None, lg)" "lg_lines lg = lg_lines (cr_logger c)"
      "log_at path True (\<not> lg_rtcLogSink (cr_logger c) \<or> lg_stream (cr_logger c)) lg"
    using init_fresh [OF assms] by blast
  obtain lg' where "app_log L_debug (''mediasoupclient version: '' @ version) lg = Inr lg'"
      "lg_lines lg' = lg_lines lg @ [(path @ ''/app.log'', L_debug, ''mediasoupclient version: '' @ version)]"
      "log_at path True (\<not> lg_rtcLogSink (cr_logger c) \<or> lg_stream (cr_logger c)) lg'"
    using messages_at(1) [OF lg(3)] app_log_at [OF lg(3)] by fastforce
  with lg show ?thesis by (simp add: Core_init_def case_prod_beta Let_def)
qed

lemma logger_destroy_registry:
  "Logger_destroy lg = Inr lg' \<Longrightarrow> lg_registry lg' = [] \<and> lg_rtcLogSink lg' = lg_rtcLogSink lg \<and> (lg_rtcLogSink lg \<longrightarrow> \<not> lg_stream lg')"
  by (auto simp: Logger_destroy_def Let_def split: option.splits if_splits)

text \<open>C31. After the engine is destroyed every room of its table is torn down, but all stay in the table. When
  the library is then initialised again, its threads exist again while the peer connection factory
  does not: the engine keeps its context and does not initialise it a second time, so every room
  that is created from then on configures its peer connections without a factory; and no message of WebRTC is logged any more.\<close>

theorem restart_has_no_factory:
  assumes "Core_destroy env c = Inr (c', outs, ops)" and "en_rtcContext (cr_engine c) \<noteq> None"
  shows "(\<forall>ident addr. (ident, addr) \<in> set (en_roomClients (cr_engine c)) \<longrightarrow>
        (ident, addr) \<in> set (en_roomClients (cr_engine c')) \<and> room_destroyed (en_objects (cr_engine c') ! addr)) \<and>
    (\<exists>c'' ops' tp rc. Core_init version path fresh fresh' c' = (None, c'', ops') \<and>
       cr_provider c'' = Some tp \<and> ThreadProvider_thread ''mediasoup'' tp \<noteq> None \<and>
       en_rtcContext (cr_engine c'') = Some rc \<and> \<not> po_factory (RoomClient_configure (en_rtcContext (cr_engine c''))) \<and>
       (lg_rtcLogSink (cr_logger c) \<longrightarrow> \<not> lg_stream (cr_logger c'')))"
proof -
  obtain en outs' where des: "destroy_rooms env (map snd (en_roomClients (cr_engine c))) (cr_engine c) = Inr (en, outs')"
    and c': "cr_engine c' = en\<lparr>en_rtcContext := map_option RTCContext_destroy (en_rtcContext en)\<rparr>" "cr_provider c' = None"
      "Logger_destroy (cr_logger c) = Inr (cr_logger c')"
    using assms(1) by (auto simp: Core_destroy_def Engine_destroy_def ComponentFactory_destroy_def ThreadProvider_destroy_def
        ebind_eq_Inr Let_def split: option.splits)
  note all = destroy_rooms_all [OF des]
  obtain rc where rc: "en_rtcContext en = Some rc" using all assms(2) by auto
  note log = logger_destroy_registry [OF c'(3)]
  obtain c'' ops' where c'': "Core_init version path fresh fresh' c' = (None, c'', ops')"
      "cr_engine c'' = fst (Engine_init fresh' (cr_engine c'))" "cr_provider c'' = fst (ComponentFactory_init fresh (cr_provider c'))"
      "log_at path True (\<not> lg_rtcLogSink (cr_logger c') \<or> lg_stream (cr_logger c')) (cr_logger c'')"
    using core_init_fresh [of c' version path fresh fresh'] log by blast
  have "\<not> rc_factory (RTCContext_destroy rc)" by (simp add: RTCContext_destroy_def)
  then have "\<exists>tp rc. cr_provider c'' = Some tp \<and> ThreadProvider_thread ''mediasoup'' tp \<noteq> None \<and>
       en_rtcContext (cr_engine c'') = Some rc \<and> \<not> po_factory (RoomClient_configure (en_rtcContext (cr_engine c'')))"
    using factory_mediasoup [of fresh] c'' by (auto simp: RoomClient_configure_def c' rc Engine_init_def case_prod_beta Let_def)
  moreover have "lg_rtcLogSink (cr_logger c) \<longrightarrow> \<not> lg_stream (cr_logger c'')"
    using log c''(4) by (auto simp: log_at_def)
  moreover have "room_destroyed (en_objects en ! addr)" if "(ident, addr) \<in> set (en_roomClients (cr_engine c))" for ident addr
    using all that by (force intro: image_eqI [of _ snd])
  ultimately show ?thesis using all c' c''(1) by auto
qed

theorem restart_has_no_factory_witness:
  "\<exists>c1 ops1 c2 outs ops2 c3 ops3 rc. Core_init ''3.4'' ''/tmp'' id id new_core = (None, c1, ops1) \<and>
     Core_destroy demo_env c1 = Inr (c2, outs, ops2) \<and> Core_init ''3.4'' ''/tmp'' id id c2 = (None, c3, ops3) \<and>
     en_rtcContext (cr_engine c3) = Some rc \<and> \<not> po_factory (RoomClient_configure (en_rtcContext (cr_engine c3)))"
proof -
  obtain c1 ops1 where c1: "Core_init ''3.4'' ''/tmp'' id id new_core = (None, c1, ops1)"
      "cr_engine c1 = fst (Engine_init id (cr_engine new_core))" "log_at ''/tmp'' True True (cr_logger c1)"
    using core_init_fresh [of new_core "''3.4''" "''/tmp''" id id] by (auto simp: new_core_def new_logger_def)
  have ctx: "en_rtcContext (cr_engine c1) \<noteq> None"
    using c1(2) by (simp add: new_core_def Engine_init_def new_engine_def case_prod_beta Let_def)
  obtain lg where "Logger_destroy (cr_logger c1) = Inr lg" using destroy_at [OF c1(3)] by blast
  then obtain c2 outs ops2 where "Core_destroy demo_env c1 = Inr (c2, outs, ops2)"
    using c1(2) by (simp add: Core_destroy_def Engine_destroy_def new_core_def Engine_init_def new_engine_def
        case_prod_beta Let_def)
  with restart_has_no_factory [OF this ctx, of "''3.4''" "''/tmp''" id id] c1(1) show ?thesis by blast
qed

end
