(* ===== verification/Proxy_Refinement.thy ===== *)
theory Proxy_Refinement
  imports Engine
begin

text \<open>
  Why a call through the proxy of a room (\<open>RoomClientProxy_call\<close> of \<open>Engine\<close>) may be computed in one step:
  it is what the general machine of threads (\<open>Threads\<close>) does with the room's tasks and the call. The
  first part shows that what a room runs neither reads nor changes the queue its tasks come from, so
  that the queue may be kept by the thread instead of the room.
\<close>

subsection \<open>The queue of a room is not touched by what it runs\<close>

text \<open>\<open>keeping q\<close> carries a queue past a computation that neither reads nor changes it.\<close>

definition keeping :: "room_task list \<Rightarrow> room_result \<Rightarrow> room_result" where
  "keeping q r = ebind r (\<lambda>(rm, outs). Inr (rm\<lparr>rm_tasks := q\<rparr>, outs))"

lemma keeping_simps [simp]:
  "keeping q (Inl f) = Inl f" "keeping q (Inr (rm, outs)) = Inr (rm\<lparr>rm_tasks := q\<rparr>, outs)"
  by (simp_all add: keeping_def)

lemma keeping_then_outs:
  "(\<And>rm. f (rm\<lparr>rm_tasks := q\<rparr>) = keeping q (f rm)) \<Longrightarrow> then_outs (keeping q r) f = keeping q (then_outs r f)"
proof (cases r)
  case (Inr x)
  assume f: "\<And>rm. f (rm\<lparr>rm_tasks := q\<rparr>) = keeping q (f rm)"
  obtain rm outs where x: "x = (rm, outs)" by (cases x)
  show ?thesis by (cases "f rm") (auto simp: then_outs_def Inr x f)
qed (simp add: then_outs_def)

named_theorems keeps \<open>operations that carry the queue of a room along\<close>

lemma on_api_keeps [keeps]: "on_api f (rm\<lparr>rm_tasks := q\<rparr>) = keeping q (on_api f rm)"
  by (auto simp: on_api_def ebind_def split: option.split sum.split)

lemma capabilities_keeps [keeps]:
  "RoomClient_getRouterRtpCapabilities lib gid (rm\<lparr>rm_tasks := q\<rparr>) = keeping q (RoomClient_getRouterRtpCapabilities lib gid rm)"
  by (simp add: RoomClient_getRouterRtpCapabilities_def on_api_keeps)

lemma requestCreateTransport_keeps [keeps]:
  "requestCreateTransport lib gid a b c (rm\<lparr>rm_tasks := q\<rparr>) = keeping q (requestCreateTransport lib gid a b c rm)"
  by (simp add: requestCreateTransport_def on_api_keeps Let_def split: option.split)

lemma joinImpl_keeps [keeps]: "joinImpl lib gid (rm\<lparr>rm_tasks := q\<rparr>) = keeping q (joinImpl lib gid rm)"
  by (simp add: joinImpl_def on_api_keeps Let_def split: option.split)

lemma load_keeps [keeps]:
  "onLoadMediasoupDevice lib gid r (rm\<lparr>rm_tasks := q\<rparr>) = keeping q (onLoadMediasoupDevice lib gid r rm)"
proof (cases "rm_media rm")
  case None
  then show ?thesis by (simp add: onLoadMediasoupDevice_def ebind_def split: sum.split)
next
  case (Some mc)
  have "f (rm\<lparr>rm_tasks := q, rm_device := d, rm_media := m\<rparr>) = keeping q (f (rm\<lparr>rm_device := d, rm_media := m\<rparr>))"
    if "f \<in> {createSendTransport lib gid, createRecvTransport lib gid, joinImpl lib gid}" for d m f
  proof -
    have swap: "rm\<lparr>rm_tasks := q, rm_device := d, rm_media := m\<rparr> = rm\<lparr>rm_device := d, rm_media := m, rm_tasks := q\<rparr>" by simp
    show ?thesis unfolding swap using that by (auto simp: createSendTransport_def createRecvTransport_def keeps)
  qed
  then show ?thesis by (simp add: onLoadMediasoupDevice_def Some Let_def ebind_def split: sum.split)
qed

lemma createTransportImpl_keeps:
  "createTransportImpl lib a b r (rm\<lparr>rm_tasks := q\<rparr>) = ebind (createTransportImpl lib a b r rm) (\<lambda>rm. Inr (rm\<lparr>rm_tasks := q\<rparr>))"
  by (simp add: createTransportImpl_def Let_def ebind_def split: sum.split option.split)

lemma transport_keeps [keeps]:
  "onCreateSendTransport lib gid r (rm\<lparr>rm_tasks := q\<rparr>) = keeping q (onCreateSendTransport lib gid r rm)"
  "onCreateRecvTransport lib gid r (rm\<lparr>rm_tasks := q\<rparr>) = keeping q (onCreateRecvTransport lib gid r rm)"
  by (cases "createTransportImpl lib True False r rm"; cases "createTransportImpl lib False True r rm";
      simp add: onCreateSendTransport_def onCreateRecvTransport_def createTransportImpl_keeps createRecvTransport_def keeps)+

lemma destroyComponents_keeps:
  "destroyComponents (rm\<lparr>rm_tasks := q\<rparr>) = ebind (destroyComponents rm) (\<lambda>rm. Inr (rm\<lparr>rm_tasks := q\<rparr>))"
  by (auto simp: destroyComponents_def ebind_def Let_def split: option.split sum.split)

lemma state_keeps [keeps]: "onRoomStateChanged s (rm\<lparr>rm_tasks := q\<rparr>) = keeping q (onRoomStateChanged s rm)"
  by (auto simp: onRoomStateChanged_def createComponents_def destroyComponents_keeps ebind_def split: sum.split)

lemma closed_keeps [keeps]:
  "onRoomStateChanged s (rm\<lparr>rm_tasks := q, rm_state := s'\<rparr>) = keeping q (onRoomStateChanged s (rm\<lparr>rm_state := s'\<rparr>))"
proof -
  have swap: "rm\<lparr>rm_tasks := q, rm_state := s'\<rparr> = rm\<lparr>rm_state := s', rm_tasks := q\<rparr>" by simp
  show ?thesis unfolding swap by (rule state_keeps)
qed

lemma joined_keeps [keeps]: "onJoined s r (rm\<lparr>rm_tasks := q\<rparr>) = keeping q (onJoined s r rm)"
  unfolding onJoined_def state_keeps
  by (rule keeping_then_outs) (simp add: ebind_def Let_def split: option.split sum.split)

lemma perform_out_keeps: "perform_out lib gid mc out (rm\<lparr>rm_tasks := q\<rparr>) = keeping q (perform_out lib gid mc out rm)"
  by (cases out) (auto simp: on_api_keeps ebind_def split: option.split sum.split)

lemma perform_outs_keeps: "perform_outs lib gid mc outs (rm\<lparr>rm_tasks := q\<rparr>) = keeping q (perform_outs lib gid mc outs rm)"
  by (induction lib gid mc outs rm rule: perform_outs.induct) (simp_all add: perform_out_keeps keeping_then_outs)

lemma media_keeps [keeps]:
  "run_room_media lib gid C D t (rm\<lparr>rm_tasks := q\<rparr>) = keeping q (run_room_media lib gid C D t rm)"
proof (cases "rm_media rm")
  case (Some mc)
  have "perform_outs lib gid m os (rm\<lparr>rm_tasks := q, rm_media := Some mc'\<rparr>) = keeping q (perform_outs lib gid m os (rm\<lparr>rm_media := Some mc'\<rparr>))"
    for m os mc'
  proof -
    have "rm\<lparr>rm_tasks := q, rm_media := Some mc'\<rparr> = rm\<lparr>rm_media := Some mc', rm_tasks := q\<rparr>" by simp
    then show ?thesis using perform_outs_keeps [where rm = "rm\<lparr>rm_media := Some mc'\<rparr>" and q = q] by metis
  qed
  then show ?thesis by (simp add: run_room_media_def Some ebind_def split: sum.split)
qed (simp add: run_room_media_def)

lemma task_keeps: "run_room_task lib gid C D t (rm\<lparr>rm_tasks := q\<rparr>) = keeping q (run_room_task lib gid C D t rm)"
  by (cases t) (simp_all add: keeps)


subsection \<open>A room as a system of threads\<close>

text \<open>
  The general machine of \<open>Threads\<close> for one room: the state is the room object with an empty queue of
  its own, what was sent and announced so far and the number of items run, or the fault that ended
  it. A task of the room posts none, and a method returns what the proxy's caller gets.
\<close>

type_synonym room_machine = "fault + room_object \<times> room_out list \<times> nat"

definition room_tsk :: "env \<Rightarrow> (room_machine, room_task) task_fun" where
  "room_tsk env k s =
     (ebind s (\<lambda>(ob, outs, i).
        ebind (run_room_task (ev_lib env) (ev_gid env i) (ev_consume env) (ev_consumeData env) k (ro_room ob)) (\<lambda>(rm, outs').
          Inr (ob\<lparr>ro_room := rm\<rparr>, outs @ outs', Suc i))), [])"

definition room_mth :: "env \<Rightarrow> bool \<Rightarrow> (room_machine, room_task, room_method, fault + room_value) method_fun" where
  "room_mth env rtc m s =
     (let r = ebind s (\<lambda>(ob, outs, i).
            ebind (invoke env rtc i m ob) (\<lambda>(ob', outs', v). Inr (ob', outs @ outs', Suc i, v)))
      in (ebind r (\<lambda>(ob, outs, i, v). Inr (ob, outs, i)), ebind r (\<lambda>(ob, outs, i, v). Inr v), []))"

definition without_tasks :: "room_object \<Rightarrow> room_object" where
  "without_tasks ob = ob\<lparr>ro_room := (ro_room ob)\<lparr>rm_tasks := []\<rparr>\<rparr>"

definition room_sys :: "tid \<Rightarrow> room_object \<Rightarrow> (room_machine, room_task, room_method, fault + room_value) sys" where
  "room_sys t ob = \<lparr>sy_state = Inr (without_tasks ob, [], 0),
     sy_queue = (\<lambda>_. [])(t := map Task (rm_tasks (ro_room ob))), sy_promise = (\<lambda>_. None)\<rparr>"

lemma run_tasks_fault:
  "sy_state sy = Inl f \<Longrightarrow> sy_queue sy t = map Task ks \<Longrightarrow>
   run_choices (room_tsk env) mth (replicate (length ks) (Run t)) sy = sy\<lparr>sy_queue := (sy_queue sy)(t := [])\<rparr>"
proof (induction ks arbitrary: sy)
  case Nil
  then show ?case by (cases sy) (simp add: fun_upd_idem)
next
  case (Cons k ks)
  let ?sy = "sy\<lparr>sy_queue := (sy_queue sy)(t := map Task ks), sy_state := Inl f\<rparr>"
  have "dispatch (room_tsk env) mth t sy = ?sy"
    using Cons.prems by (simp add: dispatch_def room_tsk_def post_all_def)
  with Cons.IH [of ?sy] Cons.prems show ?case by (cases sy) (auto simp: fun_eq_iff)
qed

text \<open>Working off the queue is \<open>run_queued\<close>.\<close>

lemma run_tasks:
  assumes "sy_state sy = Inr (ob, outs, i)" and "sy_queue sy t = map Task ks" and "rm_tasks (ro_room ob) = []"
  shows "run_choices (room_tsk env) mth (replicate (length ks) (Run t)) sy =
    sy\<lparr>sy_state := ebind (run_queued env i (length ks) ((ro_room ob)\<lparr>rm_tasks := ks\<rparr>))
         (\<lambda>(rm, outs'). Inr (ob\<lparr>ro_room := rm\<rparr>, outs @ outs', i + length ks)),
       sy_queue := (sy_queue sy)(t := [])\<rparr>"
  using assms
proof (induction ks arbitrary: sy ob outs i)
  case Nil
  then have "(ro_room ob)\<lparr>rm_tasks := []\<rparr> = ro_room ob" by simp
  with Nil show ?case by (cases sy) (simp add: fun_upd_idem)
next
  case (Cons k ks)
  let ?run = "run_room_task (ev_lib env) (ev_gid env i) (ev_consume env) (ev_consumeData env) k"
  have empty: "(ro_room ob)\<lparr>rm_tasks := []\<rparr> = ro_room ob" using Cons.prems(3) by simp
  have keep: "?run ((ro_room ob)\<lparr>rm_tasks := q\<rparr>) = keeping q (?run (ro_room ob))" for q by (rule task_keeps)
  show ?case
  proof (cases "?run (ro_room ob)")
    case (Inl f)
    let ?sy = "sy\<lparr>sy_queue := (sy_queue sy)(t := map Task ks), sy_state := Inl f\<rparr>"
    have "dispatch (room_tsk env) mth t sy = ?sy"
      using Cons.prems Inl by (simp add: dispatch_def room_tsk_def post_all_def)
    then show ?thesis using run_tasks_fault [of ?sy f t ks env mth] Inl keep [of ks]
      by (simp add: then_outs_def fun_upd_def cong: if_cong)
  next
    case (Inr x)
    then obtain rm outs' where x: "?run (ro_room ob) = Inr (rm, outs')" by (cases x) auto
    have "Inr (rm, outs') = (keeping [] (Inr (rm, outs')) :: room_result)" using keep [of "[]"] unfolding empty x .
    then have "rm = rm\<lparr>rm_tasks := []\<rparr>" unfolding keeping_simps sum.inject prod.inject by (rule conjunct1)
    then have rm: "rm_tasks rm = []" by (rule ssubst [where P = "\<lambda>r. rm_tasks r = []"]) simp
    let ?ob = "ob\<lparr>ro_room := rm\<rparr>"
    let ?sy = "sy\<lparr>sy_queue := (sy_queue sy)(t := map Task ks), sy_state := Inr (?ob, outs @ outs', Suc i)\<rparr>"
    have "dispatch (room_tsk env) mth t sy = ?sy"
      using Cons.prems x by (simp add: dispatch_def room_tsk_def post_all_def)
    then show ?thesis
      using Cons.IH [of ?sy ?ob "outs @ outs'" "Suc i"] rm x keep [of ks]
      by (cases "run_queued env (Suc i) (length ks) (rm\<lparr>rm_tasks := ks\<rparr>)") (auto simp: then_outs_def fun_upd_def cong: if_cong)
  qed
qed


subsection \<open>The proxy of a room refines the general machine\<close>

lemma room_sys_queue [simp]: "sy_queue (room_sys t ob) t = map Task (rm_tasks (ro_room ob))"
  by (simp add: room_sys_def)

lemma work_off_room:
  "sy_state (run_choices (room_tsk env) mth (replicate (length (rm_tasks (ro_room ob))) (Run t)) (room_sys t ob)) =
     ebind (run_queued env 0 (length (rm_tasks (ro_room ob))) (ro_room ob))
       (\<lambda>(rm, outs). Inr (ob\<lparr>ro_room := rm\<rparr>, outs, length (rm_tasks (ro_room ob))))"
proof -
  let ?ks = "rm_tasks (ro_room ob)"
  have "(ro_room (without_tasks ob))\<lparr>rm_tasks := ?ks\<rparr> = ro_room ob"
    "(without_tasks ob)\<lparr>ro_room := rm\<rparr> = ob\<lparr>ro_room := rm\<rparr>" for rm
    by (simp_all add: without_tasks_def)
  then show ?thesis
    using run_tasks [of "room_sys t ob" "without_tasks ob" "[]" 0 t ?ks env mth]
    by (simp add: room_sys_def without_tasks_def)
qed



end
