(* ===== verification/Shared_Thread.thy ===== *)
theory Shared_Thread
  imports Proxy_Refinement
begin

text \<open>
  All rooms of the engine share one mediasoup thread: their tasks and the calls of their proxies wait
  in one queue. \<open>Engine\<close> and \<open>Room_Client\<close> give every room a queue of its own. This theory runs the
  rooms on the one queue, in the general machine of \<open>Threads\<close>, and shows that nothing is lost by
  looking at one room at a time: each room sees exactly its own tasks, in order, whatever the others
  do in between, unless a fault of one of them ends the process.
\<close>

subsection \<open>A queue shared by a family of components\<close>

text \<open>
  \<open>st i k c\<close> is what the task \<open>k\<close> does to a component as the \<open>i\<close>-th item the thread runs. \<open>work\<close>
  works off a queue in which every task names its component, \<open>alone\<close> the numbered tasks of one.
\<close>

type_synonym ('k, 'c, 'o) step_fun = "nat \<Rightarrow> 'k \<Rightarrow> 'c \<Rightarrow> fault + 'c \<times> 'o list"

fun work :: "('k, 'c, 'o) step_fun \<Rightarrow> nat \<Rightarrow> (nat \<times> 'k) list \<Rightarrow> 'c list \<Rightarrow> fault + 'c list \<times> (nat \<times> 'o) list" where
  "work st i [] cs = Inr (cs, [])"
| "work st i ((a, k) # q) cs =
     (if a < length cs then
        ebind (st i k (cs ! a)) (\<lambda>(c, outs).
        ebind (work st (Suc i) q (cs[a := c])) (\<lambda>(cs', outs'). Inr (cs', map (Pair a) outs @ outs')))
      else Inl (NullDeref ''room''))"

fun alone :: "('k, 'c, 'o) step_fun \<Rightarrow> (nat \<times> 'k) list \<Rightarrow> 'c \<Rightarrow> fault + 'c \<times> 'o list" where
  "alone st [] c = Inr (c, [])"
| "alone st ((i, k) # its) c =
     ebind (st i k c) (\<lambda>(c', outs). ebind (alone st its c') (\<lambda>(c'', outs'). Inr (c'', outs @ outs')))"

text \<open>The part of a tagged list that belongs to one component, and its tasks with their positions.\<close>

definition own :: "nat \<Rightarrow> (nat \<times> 'x) list \<Rightarrow> 'x list" where
  "own a q = map snd (filter (\<lambda>(b, x). b = a) q)"

definition numbered :: "nat \<Rightarrow> nat \<Rightarrow> (nat \<times> 'k) list \<Rightarrow> (nat \<times> 'k) list" where
  "numbered a i q = map (\<lambda>(j, b, k). (j, k)) (filter (\<lambda>(j, b, k). b = a) (enumerate i q))"

lemma own_simps [simp]:
  "own a [] = []" "own a ((b, x) # q) = (if b = a then x # own a q else own a q)"
  "own a (q @ q') = own a q @ own a q'" "own a (map (Pair b) xs) = (if b = a then xs else [])"
  by (simp_all add: own_def comp_def filter_map)

lemma numbered_simps [simp]:
  "numbered a i [] = []" "numbered a i ((b, k) # q) = (if b = a then (i, k) # numbered a (Suc i) q else numbered a (Suc i) q)"
  by (simp_all add: numbered_def)

lemma numbered_own: "map snd (numbered a i q) = own a q"
  by (induction q arbitrary: i) auto

lemma numbered_length: "length (numbered a i q) = length (own a q)"
  by (metis numbered_own length_map)

lemma work_length: "work st i q cs = Inr (cs', outs) \<Longrightarrow> length cs' = length cs"
  by (induction q arbitrary: i cs outs) (auto simp: ebind_eq_Inr split: if_splits)

text \<open>No component notices the tasks of the others.\<close>

lemma work_projects:
  "work st i q cs = Inr (cs', outs) \<Longrightarrow> a < length cs \<Longrightarrow> alone st (numbered a i q) (cs ! a) = Inr (cs' ! a, own a outs)"
proof (induction q arbitrary: i cs outs)
  case (Cons e q)
  obtain b k where e: "e = (b, k)" by (cases e)
  obtain c outs1 outs2 where b: "b < length cs" and step: "st i k (cs ! b) = Inr (c, outs1)"
    and more: "work st (Suc i) q (cs[b := c]) = Inr (cs', outs2)" and outs: "outs = map (Pair b) outs1 @ outs2"
    using Cons.prems(1) by (auto simp: e ebind_eq_Inr split: if_splits)
  from Cons.IH [OF more] Cons.prems(2) b step show ?case by (cases "b = a") (auto simp: e outs)
qed simp

lemma work_fault:
  "work st i q cs = Inl f \<Longrightarrow> list_all (\<lambda>(a, k). a < length cs) q \<Longrightarrow>
   \<exists>a < length cs. alone st (numbered a i q) (cs ! a) = Inl f"
proof (induction q arbitrary: i cs)
  case (Cons e q)
  obtain b k where e: "e = (b, k)" by (cases e)
  have b: "b < length cs" using Cons.prems(2) by (simp add: e)
  show ?case
  proof (cases "st i k (cs ! b)")
    case (Inl f')
    with Cons.prems(1) b show ?thesis by (intro exI [of _ b]) (simp add: e)
  next
    case (Inr x)
    then obtain c outs where step: "st i k (cs ! b) = Inr (c, outs)" by (cases x) auto
    have "work st (Suc i) q (cs[b := c]) = Inl f"
      using Cons.prems(1) b step by (cases "work st (Suc i) q (cs[b := c])") (auto simp: e)
    from Cons.IH [OF this] Cons.prems(2)
    obtain a where "a < length cs" "alone st (numbered a (Suc i) q) (cs[b := c] ! a) = Inl f" by (auto simp: e)
    then show ?thesis using step by (intro exI [of _ a]) (auto simp: e)
  qed
qed simp

subsection \<open>The rooms of the engine on the mediasoup thread\<close>

text \<open>
  The machine of all rooms: the room objects, each without a queue of its own, what they sent and
  announced, and the number of items the thread has run. Tasks and calls name their room.
\<close>

type_synonym engine_machine = "fault + room_object list \<times> (nat \<times> room_out) list \<times> nat"

definition object_task :: "env \<Rightarrow> (room_task, room_object, room_out) step_fun" where
  "object_task env i k ob =
     ebind (run_room_task (ev_lib env) (ev_gid env i) (ev_consume env) (ev_consumeData env) k (ro_room ob))
       (\<lambda>(rm, outs). Inr (ob\<lparr>ro_room := rm\<rparr>, outs))"

definition engine_tsk :: "env \<Rightarrow> (engine_machine, nat \<times> room_task) task_fun" where
  "engine_tsk env ak s =
     (ebind s (\<lambda>(obs, outs, i).
        ebind (work (object_task env) i [ak] obs) (\<lambda>(obs', outs'). Inr (obs', outs @ outs', Suc i))), [])"

definition engine_mth ::
  "env \<Rightarrow> bool \<Rightarrow> (engine_machine, nat \<times> room_task, nat \<times> room_method, fault + room_value) method_fun" where
  "engine_mth env rtc am s =
     (let r = ebind s (\<lambda>(obs, outs, i).
            if fst am < length obs then
              ebind (invoke env rtc i (snd am) (obs ! fst am)) (\<lambda>(ob, outs', v).
                Inr (obs[fst am := ob], outs @ map (Pair (fst am)) outs', Suc i, v))
            else Inl (NullDeref ''_room_client''))
      in (ebind r (\<lambda>(obs, outs, i, v). Inr (obs, outs, i)), ebind r (\<lambda>(obs, outs, i, v). Inr v), []))"

definition engine_sys ::
  "tid \<Rightarrow> room_object list \<Rightarrow> (nat \<times> room_task) list \<Rightarrow> (engine_machine, nat \<times> room_task, nat \<times> room_method, fault + room_value) sys" where
  "engine_sys t obs q = \<lparr>sy_state = Inr (map without_tasks obs, [], 0),
     sy_queue = (\<lambda>_. [])(t := map Task q), sy_promise = (\<lambda>_. None)\<rparr>"

lemma work_cons:
  "work st i (e # q) cs =
     ebind (work st i [e] cs) (\<lambda>(cs1, outs). ebind (work st (Suc i) q cs1) (\<lambda>(cs2, outs'). Inr (cs2, outs @ outs')))"
  by (cases e; cases "st i (snd e) (cs ! fst e)") auto

lemma engine_fault_stays:
  "sy_state sy = Inl f \<Longrightarrow> sy_queue sy t = map Task q \<Longrightarrow>
   run_choices (engine_tsk env) mth (replicate (length q) (Run t)) sy = sy\<lparr>sy_queue := (sy_queue sy)(t := [])\<rparr>"
proof (induction q arbitrary: sy)
  case Nil
  then show ?case by (cases sy) (simp add: fun_upd_idem)
next
  case (Cons k q)
  let ?sy = "sy\<lparr>sy_queue := (sy_queue sy)(t := map Task q), sy_state := Inl f\<rparr>"
  have "dispatch (engine_tsk env) mth t sy = ?sy"
    using Cons.prems by (simp add: dispatch_def engine_tsk_def post_all_def)
  with Cons.IH [of ?sy] Cons.prems show ?case by (cases sy) (auto simp: fun_eq_iff)
qed

text \<open>Working off the shared queue is \<open>work\<close>.\<close>

lemma engine_works:
  assumes "sy_state sy = Inr (obs, outs, i)" and "sy_queue sy t = map Task q"
  shows "run_choices (engine_tsk env) mth (replicate (length q) (Run t)) sy =
    sy\<lparr>sy_state := ebind (work (object_task env) i q obs) (\<lambda>(obs', outs'). Inr (obs', outs @ outs', i + length q)),
       sy_queue := (sy_queue sy)(t := [])\<rparr>"
  using assms
proof (induction q arbitrary: sy obs outs i)
  case Nil
  then show ?case by (cases sy) (simp add: fun_upd_idem)
next
  case (Cons ak q)
  let ?rest = "(sy_queue sy)(t := map Task q)"
  show ?case
  proof (cases "work (object_task env) i [ak] obs")
    case (Inl f)
    let ?sy = "sy\<lparr>sy_queue := ?rest, sy_state := Inl f\<rparr>"
    have "dispatch (engine_tsk env) mth t sy = ?sy"
      using Cons.prems Inl by (simp add: dispatch_def engine_tsk_def post_all_def del: work.simps)
    then show ?thesis using engine_fault_stays [of ?sy f t q env mth] Inl
      by (simp add: work_cons [of _ _ ak q] fun_upd_def del: work.simps cong: if_cong)
  next
    case (Inr x)
    then obtain obs1 outs1 where x: "work (object_task env) i [ak] obs = Inr (obs1, outs1)" by (cases x) auto
    let ?sy = "sy\<lparr>sy_queue := ?rest, sy_state := Inr (obs1, outs @ outs1, Suc i)\<rparr>"
    have "dispatch (engine_tsk env) mth t sy = ?sy"
      using Cons.prems x by (simp add: dispatch_def engine_tsk_def post_all_def del: work.simps)
    then show ?thesis using Cons.IH [of ?sy obs1 "outs @ outs1" "Suc i"] x
      by (cases "work (object_task env) (Suc i) q obs1")
        (auto simp: work_cons [of _ _ ak q] fun_upd_def simp del: work.simps cong: if_cong)
  qed
qed

subsection \<open>One room's share\<close>

text \<open>The numbers a room's items draw when the \<open>i\<close>-th item of the thread draws \<open>ev_gid env i\<close>.\<close>

definition drawn :: "env \<Rightarrow> nat \<Rightarrow> (nat \<times> room_task) list \<Rightarrow> nat \<Rightarrow> nat \<Rightarrow> int" where
  "drawn env a q j = ev_gid env (if j < length (own a q) then fst (numbered a 0 q ! j) else length q)"

definition with_tasks :: "room_task list \<Rightarrow> room_object \<Rightarrow> room_object" where
  "with_tasks q ob = ob\<lparr>ro_room := (ro_room ob)\<lparr>rm_tasks := q\<rparr>\<rparr>"

lemma task_leaves_queue:
  assumes "run_room_task lib gid C D k rm = Inr (rm', outs)" and "rm_tasks rm = []"
  shows "rm_tasks rm' = []"
proof -
  have "rm\<lparr>rm_tasks := []\<rparr> = rm" using assms(2) by (cases rm) simp
  then have "Inr (rm', outs) = keeping [] (Inr (rm', outs) :: room_result)"
    using task_keeps [where rm = rm and q = "[]" and t = k] assms(1) by metis
  then have "rm' = rm'\<lparr>rm_tasks := []\<rparr>" by simp
  then show ?thesis by (metis room.select_convs(17) room.surjective room.update_convs(17))
qed

lemma alone_run_queued:
  "(\<And>j. j < length its \<Longrightarrow> g (i + j) = ev_gid env (fst (its ! j))) \<Longrightarrow> rm_tasks (ro_room ob) = [] \<Longrightarrow>
   alone (object_task env) its ob =
     ebind (run_queued (env\<lparr>ev_gid := g\<rparr>) i (length its) ((ro_room ob)\<lparr>rm_tasks := map snd its\<rparr>))
       (\<lambda>(rm, outs). Inr (ob\<lparr>ro_room := rm\<rparr>, outs))"
proof (induction its arbitrary: i ob)
  case Nil
  have "(ro_room ob)\<lparr>rm_tasks := []\<rparr> = ro_room ob" using Nil.prems(2) by (cases "ro_room ob") simp
  then show ?case by simp
next
  case (Cons it its)
  obtain j k where it: "it = (j, k)" by (cases it)
  let ?run = "run_room_task (ev_lib env) (ev_gid env j) (ev_consume env) (ev_consumeData env) k"
  have gi: "g i = ev_gid env j" using Cons.prems(1) [of 0] by (simp add: it)
  have keep: "?run ((ro_room ob)\<lparr>rm_tasks := q\<rparr>) = keeping q (?run (ro_room ob))" for q by (rule task_keeps)
  show ?case
  proof (cases "?run (ro_room ob)")
    case (Inl f)
    then show ?thesis using keep gi by (simp add: it object_task_def then_outs_def)
  next
    case (Inr x)
    then obtain rm outs where x: "?run (ro_room ob) = Inr (rm, outs)" by (cases x) auto
    have rm: "rm_tasks rm = []" by (rule task_leaves_queue [OF x Cons.prems(2)])
    have "g (Suc i + j') = ev_gid env (fst (its ! j'))" if "j' < length its" for j'
      using Cons.prems(1) [of "Suc j'"] that by simp
    from Cons.IH [of "Suc i" "ob\<lparr>ro_room := rm\<rparr>", OF this] rm x keep gi show ?thesis
      by (cases "run_queued (env\<lparr>ev_gid := g\<rparr>) (Suc i) (length its) (rm\<lparr>rm_tasks := map snd its\<rparr>)")
        (auto simp: it object_task_def then_outs_def)
  qed
qed

definition room_share :: "env \<Rightarrow> nat \<Rightarrow> (nat \<times> room_task) list \<Rightarrow> room_object \<Rightarrow> room_result" where
  "room_share env b q ob =
     run_queued (env\<lparr>ev_gid := drawn env b q\<rparr>) 0 (length (own b q)) (ro_room (with_tasks (own b q) ob))"

lemma alone_share:
  "alone (object_task env) (numbered b 0 q) (without_tasks ob) =
     ebind (room_share env b q ob) (\<lambda>(rm, outs). Inr (ob\<lparr>ro_room := rm\<rparr>, outs))"
  using alone_run_queued [of "numbered b 0 q" "drawn env b q" 0 env "without_tasks ob"]
  by (simp add: room_share_def drawn_def numbered_length numbered_own with_tasks_def without_tasks_def)

lemma proxy_on_share:
  "RoomClientProxy_call (env\<lparr>ev_gid := drawn env a q\<rparr>) False rtc m (with_tasks (own a q) ob) =
     ebind (room_share env a q ob) (\<lambda>(rm, outs).
     ebind (invoke env rtc (length q) m (ob\<lparr>ro_room := rm\<rparr>)) (\<lambda>(ob', outs', v). Inr (ob', outs @ outs', v)))"
proof -
  have "invoke (env\<lparr>ev_gid := drawn env a q\<rparr>) rtc (length (own a q)) m ob' = invoke env rtc (length q) m ob'" for ob'
    by (cases m) (simp_all add: drawn_def)
  then show ?thesis by (simp add: RoomClientProxy_call_def room_share_def with_tasks_def Let_def)
qed

text \<open>C11. Rooms that share the mediasoup thread do not interfere. A call through the proxy of room \<open>a\<close> is posted
  behind a queue in which the tasks of all rooms are interleaved in any way. When the thread has worked
  off the queue and the call, room \<open>a\<close> is in the state, has sent and announced and has answered the
  caller what its own proxy call computes from its own tasks alone, and every other room is where
  its own tasks take it, with the outputs of each in order. If the process is brought down instead, then by
  a fault that one room meets in its own tasks or in the call.\<close>

theorem rooms_share_thread:
  assumes "t \<noteq> cur" and "list_all (\<lambda>(b, k). b < length obs) q" and "a < length obs"
    and "marshal (engine_tsk env) (engine_mth env rtc) cur (Some t) 0 (a, m) (engine_sys t obs q) = Inr sy"
    and "fin = run_choices (engine_tsk env) (engine_mth env rtc) (replicate (Suc (length q)) (Run t)) sy"
  shows "case sy_state fin of
      Inr (obs', outs, n) \<Rightarrow>
        (\<exists>v. RoomClientProxy_call (env\<lparr>ev_gid := drawn env a q\<rparr>) False rtc m (with_tasks (own a q) (obs ! a)) =
               Inr (obs' ! a, own a outs, v) \<and> future_get 0 fin = Returns (Inr v)) \<and>
        (\<forall>b. b < length obs \<and> b \<noteq> a \<longrightarrow>
           (\<exists>rm. room_share env b q (obs ! b) = Inr (rm, own b outs) \<and> obs' ! b = (obs ! b)\<lparr>ro_room := rm\<rparr>))
    | Inl f \<Rightarrow>
        RoomClientProxy_call (env\<lparr>ev_gid := drawn env a q\<rparr>) False rtc m (with_tasks (own a q) (obs ! a)) = Inl f \<or>
        (\<exists>b. b < length obs \<and> room_share env b q (obs ! b) = Inl f)"
proof -
  let ?tsk = "engine_tsk env" and ?mth = "engine_mth env rtc" and ?obs = "map without_tasks obs"
  let ?mid = "run_choices ?tsk ?mth (replicate (length q) (Run t)) (engine_sys t obs q)"
  have "sy = enqueue t (Call 0 (a, m)) (engine_sys t obs q)" using assms(1,4) by (simp add: marshal_def)
  then have fin: "fin = run_item ?tsk ?mth (Call 0 (a, m)) ?mid"
    using call_behind [of ?tsk ?mth "engine_sys t obs q" t 0 "(a, m)"] assms(5) by (simp add: engine_sys_def)
  have mid: "sy_state ?mid = ebind (work (object_task env) 0 q ?obs) (\<lambda>(obs', outs). Inr (obs', outs, length q))"
    using engine_works [of "engine_sys t obs q" ?obs "[]" 0 t q env ?mth] by (simp add: engine_sys_def)
  show ?thesis
  proof (cases "work (object_task env) 0 q ?obs")
    case (Inl f)
    then have "sy_state fin = Inl f" unfolding fin by (simp add: mid engine_mth_def)
    moreover obtain b where "b < length obs" "alone (object_task env) (numbered b 0 q) (?obs ! b) = Inl f"
      using work_fault [OF Inl] assms(2) by auto
    then have "room_share env b q (obs ! b) = Inl f"
      by (cases "room_share env b q (obs ! b)") (auto simp: alone_share)
    ultimately show ?thesis using \<open>b < length obs\<close> by auto
  next
    case (Inr x)
    then obtain obs1 outs1 where x: "work (object_task env) 0 q ?obs = Inr (obs1, outs1)" by (cases x) auto
    have len: "length obs1 = length obs" using work_length [OF x] by simp
    have share: "\<exists>rm. room_share env b q (obs ! b) = Inr (rm, own b outs1) \<and> obs1 ! b = (obs ! b)\<lparr>ro_room := rm\<rparr>" if "b < length obs" for b
      using work_projects [OF x, of b] that by (cases "room_share env b q (obs ! b)") (auto simp: alone_share)
    obtain rm where rm: "room_share env a q (obs ! a) = Inr (rm, own a outs1)" "obs1 ! a = (obs ! a)\<lparr>ro_room := rm\<rparr>"
      using share [OF assms(3)] by blast
    show ?thesis
    proof (cases "invoke env rtc (length q) m (obs1 ! a)")
      case (Inl f)
      then have "sy_state fin = Inl f" unfolding fin by (simp add: mid x engine_mth_def len assms(3))
      with Inl show ?thesis by (simp add: proxy_on_share rm)
    next
      case (Inr y)
      then obtain ob outs2 v where y: "invoke env rtc (length q) m (obs1 ! a) = Inr (ob, outs2, v)" by (cases y) auto
      have "sy_state fin = Inr (obs1[a := ob], outs1 @ map (Pair a) outs2, Suc (length q)) \<and> future_get 0 fin = Returns (Inr v)"
        unfolding fin using y by (simp add: mid x engine_mth_def len assms(3) future_get_def)
      with y share show ?thesis by (auto simp: proxy_on_share rm len assms(3))
    qed
  qed
qed

text \<open>Two rooms, the task of the second before that of the first, and a call on the first.\<close>

definition demo_rooms :: "room_object list" where
  "demo_rooms = map (\<lambda>i. \<lparr>ro_id = i, ro_room = new_room, ro_observed = False, ro_partObserved = False\<rparr>) [''1'', ''2'']"

theorem rooms_share_thread_witness:
  "\<exists>sy. marshal (engine_tsk demo_env) (engine_mth demo_env True) 1 (Some 7) 0 (0, GetRoomState)
       (engine_sys 7 demo_rooms [(1, TaskRouterCapabilities), (0, TaskRouterCapabilities)]) = Inr sy \<and>
     future_get 0 (run_choices (engine_tsk demo_env) (engine_mth demo_env True) (replicate 3 (Run 7)) sy) =
       Returns (Inr (StateValue CLOSED))"
proof -
  let ?q = "[(1 :: nat, TaskRouterCapabilities), (0, TaskRouterCapabilities)]"
  let ?sys = "engine_sys 7 demo_rooms ?q"
  let ?sy = "enqueue 7 (Call 0 (0, GetRoomState)) ?sys"
  let ?fin = "run_choices (engine_tsk demo_env) (engine_mth demo_env True) (replicate (Suc (length ?q)) (Run 7)) ?sy"
  have sy: "marshal (engine_tsk demo_env) (engine_mth demo_env True) 1 (Some 7) 0 (0, GetRoomState) ?sys = Inr ?sy"
    by (simp add: marshal_def)
  have rooms: "list_all (\<lambda>(b, k). b < length demo_rooms) ?q" "0 < length demo_rooms" by (simp_all add: demo_rooms_def)
  have share: "room_share demo_env b ?q (demo_rooms ! b) = Inr (new_room, [])" if "b < length demo_rooms" for b
    using that by (cases b) (auto simp: demo_rooms_def room_share_def with_tasks_def new_room_def then_outs_def
        RoomClient_getRouterRtpCapabilities_def)
  then have call: "RoomClientProxy_call (demo_env\<lparr>ev_gid := drawn demo_env 0 ?q\<rparr>) False True GetRoomState
      (with_tasks (own 0 ?q) (demo_rooms ! 0)) = Inr ((demo_rooms ! 0)\<lparr>ro_room := new_room\<rparr>, [], StateValue CLOSED)"
    unfolding proxy_on_share using rooms(2) by (simp add: RoomClient_getRoomState_def new_room_def)
  have "(7 :: tid) \<noteq> 1" by simp
  from rooms_share_thread [OF this rooms sy refl] have "future_get 0 ?fin = Returns (Inr (StateValue CLOSED))"
    unfolding call using share by (cases "sy_state ?fin") (auto simp del: run_choices.simps replicate_Suc)
  then show ?thesis using sy by (intro exI [of _ ?sy]) (simp add: numeral_3_eq_3)
qed

end
