(* ===== verification/Dummy_Video.thy ===== *)
theory Dummy_Video
  imports String_Algo "HOL-Library.Word"
begin

text \<open>
  The pass-through video path: \<^verbatim>\<open>core/service/dummy_video_source.cc\<close> wraps bytes that are already
  encoded into a frame whose luma plane is the bytes and whose luma stride is their number, and
  \<^verbatim>\<open>core/service/dummy_video_encoder.cc\<close> unwraps them again. \<^verbatim>\<open>sdk/video_receiver.cpp\<close> is the other
  end, where decoded frames are handed to the application.

  Integers keep their width: a length travels as \<^verbatim>\<open>uint32_t\<close>, \<^verbatim>\<open>size_t\<close>, \<^verbatim>\<open>int\<close> and \<^verbatim>\<open>uint32_t\<close>. A
  pointer argument is the memory it points to, a function from offsets to bytes. Parameters stand
  for the library: \<open>FindNaluIndices\<close> (the payload offsets of the units it finds), \<open>ParseNaluType\<close>,
  \<open>kIdr\<close>, the name of the codec, and the clock.
\<close>

subsection \<open>Buffers\<close>

type_synonym byte = "8 word"

record i420_buffer =
  ib_width :: "32 word"
  ib_height :: "32 word"
  ib_encoded_data :: "byte list"

definition EncodedVideoI420Buffer :: "32 word \<Rightarrow> 32 word \<Rightarrow> byte list \<Rightarrow> i420_buffer" where
  "EncodedVideoI420Buffer width height encoded_data =
     \<lparr>ib_width = width, ib_height = height, ib_encoded_data = encoded_data\<rparr>"

definition DataY :: "i420_buffer \<Rightarrow> byte list" where
  "DataY b = ib_encoded_data b"

text \<open>\<^verbatim>\<open>size_t\<close> (64 bits) to \<^verbatim>\<open>int\<close>.\<close>

definition StrideY :: "i420_buffer \<Rightarrow> 32 word" where
  "StrideY b = ucast (of_nat (length (ib_encoded_data b)) :: 64 word)"

datatype buffer_type = kNative | kI420 | kOther

text \<open>What an encoder sees of a frame buffer: its type and the result of \<^verbatim>\<open>GetI420()\<close>.\<close>

record frame_buffer =
  fb_type :: buffer_type
  fb_i420 :: "i420_buffer option"

definition EncodedVideoFrameBuffer :: "32 word \<Rightarrow> 32 word \<Rightarrow> byte list \<Rightarrow> frame_buffer" where
  "EncodedVideoFrameBuffer width height encoded_data =
     \<lparr>fb_type = kNative, fb_i420 = Some (EncodedVideoI420Buffer width height encoded_data)\<rparr>"

record video_frame =
  vf_buffer :: frame_buffer
  vf_width :: "32 word"
  vf_height :: "32 word"
  vf_timestamp :: "32 word"
  vf_render_time_ms :: int
  vf_ntp_time_ms :: int

subsection \<open>The source\<close>

record dummy_source =
  ds_ref_count :: "32 word"
  ds_width :: "32 word"
  ds_height :: "32 word"

text \<open>The constructor leaves \<^verbatim>\<open>ref_count_\<close> indeterminate: it is an argument.\<close>

definition DummyVideoSource :: "32 word \<Rightarrow> 32 word \<Rightarrow> 32 word \<Rightarrow> dummy_source" where
  "DummyVideoSource garbage width height = \<lparr>ds_ref_count = garbage, ds_width = width, ds_height = height\<rparr>"

definition DummyVideoSource_AddRef :: "dummy_source \<Rightarrow> dummy_source" where
  "DummyVideoSource_AddRef ds = ds\<lparr>ds_ref_count := ds_ref_count ds + 1\<rparr>"

datatype release_status = kDroppedLastRef | kOtherRefsRemained

definition DummyVideoSource_Release :: "dummy_source \<Rightarrow> dummy_source \<times> release_status" where
  "DummyVideoSource_Release ds =
     (let count = ds_ref_count ds - 1
      in (ds\<lparr>ds_ref_count := count\<rparr>, if count = 0 then kDroppedLastRef else kOtherRefsRemained))"

text \<open>
  \<^verbatim>\<open>std::string((const char *)data, len)\<close> copies the bytes; the frame takes its size from the buffer.
  \<open>now\<close> is \<^verbatim>\<open>rtc::TimeMillis()\<close> and \<open>ts\<close> the RTP timestamp the frame carries; the result is the frame
  given to \<^verbatim>\<open>OnFrame\<close>.
\<close>

definition InputFrame :: "int \<Rightarrow> 32 word \<Rightarrow> (nat \<Rightarrow> byte) \<Rightarrow> 32 word \<Rightarrow> dummy_source \<Rightarrow> video_frame" where
  "InputFrame now ts data len ds =
     (let buffer = EncodedVideoFrameBuffer (ds_width ds) (ds_height ds) (map data [0..<unat len])
      in \<lparr>vf_buffer = buffer, vf_width = ds_width ds, vf_height = ds_height ds, vf_timestamp = ts,
          vf_render_time_ms = now, vf_ntp_time_ms = 0\<rparr>)"

subsection \<open>The encoder\<close>

datatype frame_type = kVideoFrameKey | kVideoFrameDelta

record encoded_image =
  ei_data :: "byte list"
  ei_height :: "32 word"
  ei_width :: "32 word"
  ei_capture_time_ms :: int
  ei_timestamp :: "32 word"
  ei_ntp_time_ms :: int
  ei_frameType :: frame_type

datatype codec_status = WEBRTC_VIDEO_CODEC_OK | WEBRTC_VIDEO_CODEC_UNINITIALIZED | WEBRTC_VIDEO_CODEC_ERR_PARAMETER

datatype encode_fault = NullI420 | OutOfBounds nat

text \<open>\<^verbatim>\<open>DummyEncoder\<close>, the base class, keeps the callback and encodes nothing.\<close>

record dummy_encoder =
  de_callback :: bool

definition DummyEncoder :: dummy_encoder where
  "DummyEncoder = \<lparr>de_callback = False\<rparr>"

definition RegisterEncodeCompleteCallback :: "bool \<Rightarrow> dummy_encoder \<Rightarrow> dummy_encoder \<times> codec_status" where
  "RegisterEncodeCompleteCallback callback de = (de\<lparr>de_callback := callback\<rparr>, WEBRTC_VIDEO_CODEC_OK)"

definition DummyEncoder_InitEncode :: "dummy_encoder \<Rightarrow> dummy_encoder \<times> codec_status" where
  "DummyEncoder_InitEncode de = (de, WEBRTC_VIDEO_CODEC_OK)"

definition DummyEncoder_Release :: "dummy_encoder \<Rightarrow> dummy_encoder \<times> codec_status" where
  "DummyEncoder_Release de = (de, WEBRTC_VIDEO_CODEC_OK)"


text \<open>The loop over the units: it stops at the first unit of an IDR picture.\<close>

fun frame_type_loop :: "(byte \<Rightarrow> nat) \<Rightarrow> nat \<Rightarrow> byte list \<Rightarrow> nat list \<Rightarrow> encode_fault + frame_type" where
  "frame_type_loop ParseNaluType kIdr data [] = Inr kVideoFrameDelta"
| "frame_type_loop ParseNaluType kIdr data (offset # offsets) =
     (if offset < length data then
        (if ParseNaluType (data ! offset) = kIdr then Inr kVideoFrameKey
         else frame_type_loop ParseNaluType kIdr data offsets)
      else Inl (OutOfBounds offset))"

text \<open>
  \<open>Encode\<close>: the status and the images given to the callback. The first \<open>len\<close> bytes of the luma
  plane are copied.
\<close>

definition DummyH264Encoder_Encode ::
  "(byte list \<Rightarrow> nat list) \<Rightarrow> (byte \<Rightarrow> nat) \<Rightarrow> nat \<Rightarrow> dummy_encoder \<Rightarrow> video_frame \<Rightarrow>
   encode_fault + codec_status \<times> encoded_image list" where
  "DummyH264Encoder_Encode FindNaluIndices ParseNaluType kIdr de frame =
     (if \<not> de_callback de then Inr (WEBRTC_VIDEO_CODEC_UNINITIALIZED, [])
      else if fb_type (vf_buffer frame) \<noteq> kNative then Inr (WEBRTC_VIDEO_CODEC_ERR_PARAMETER, [])
      else case fb_i420 (vf_buffer frame) of
        None \<Rightarrow> Inl NullI420
      | Some b \<Rightarrow>
          let data = take (unat (StrideY b)) (DataY b) in
          ebind (frame_type_loop ParseNaluType kIdr data (FindNaluIndices data)) (\<lambda>frameType.
            Inr (WEBRTC_VIDEO_CODEC_OK,
              [\<lparr>ei_data = data, ei_height = vf_height frame, ei_width = vf_width frame,
                ei_capture_time_ms = vf_render_time_ms frame, ei_timestamp = vf_timestamp frame,
                ei_ntp_time_ms = vf_ntp_time_ms frame, ei_frameType = frameType\<rparr>])))"

text \<open>The base class reports success and delivers nothing.\<close>

definition DummyEncoder_Encode :: "video_frame \<Rightarrow> codec_status \<times> encoded_image list" where
  "DummyEncoder_Encode frame = (WEBRTC_VIDEO_CODEC_OK, [])"

record encoder_info =
  in_supports_native_handle :: bool
  in_implementation_name :: string
  in_has_trusted_rate_controller :: bool

definition DummyH264Encoder_GetEncoderInfo :: encoder_info where
  "DummyH264Encoder_GetEncoderInfo =
     \<lparr>in_supports_native_handle = True, in_implementation_name = ''NULL_H264Encoder'', in_has_trusted_rate_controller = True\<rparr>"

definition DummyEncoder_GetEncoderInfo :: encoder_info where
  "DummyEncoder_GetEncoderInfo =
     \<lparr>in_supports_native_handle = True, in_implementation_name = ''NULL_Encoder'', in_has_trusted_rate_controller = True\<rparr>"

datatype encoder = DummyH264Encoder

text \<open>\<^verbatim>\<open>absl::EqualsIgnoreCase(format.name, kH264CodecName)\<close>.\<close>

definition CreateVideoEncoder :: "string \<Rightarrow> string \<Rightarrow> encoder option" where
  "CreateVideoEncoder kH264CodecName name =
     (if map toupper name = map toupper kH264CodecName then Some DummyH264Encoder else None)"

subsection \<open>The receiver\<close>

text \<open>A decoded frame: the planes \<^verbatim>\<open>GetI420()\<close> gives access to, if any, and its size.\<close>

record planes =
  pl_y :: "byte list"
  pl_u :: "byte list"
  pl_v :: "byte list"

record decoded_frame =
  df_i420 :: "planes option"
  df_width :: "32 word"
  df_height :: "32 word"

datatype yuv_call = YuvCall string planes "32 word" "32 word"

record video_receiver =
  vr_trackName :: string
  vr_cb :: bool

definition VideoReceiver_OnFrame :: "decoded_frame \<Rightarrow> video_receiver \<Rightarrow> encode_fault + yuv_call list" where
  "VideoReceiver_OnFrame frame vr =
     (if vr_cb vr then
        (case df_i420 frame of
           None \<Rightarrow> Inl NullI420
         | Some b \<Rightarrow> Inr [YuvCall (vr_trackName vr) b (df_width frame) (df_height frame)])
      else Inr [])"

subsection \<open>Bytes pass through\<close>

text \<open>The length of a copied buffer survives the trip through \<^verbatim>\<open>size_t\<close>, \<^verbatim>\<open>int\<close> and \<^verbatim>\<open>uint32_t\<close>.\<close>

lemma StrideY_length:
  assumes "length (ib_encoded_data b) < 2 ^ 32"
  shows "unat (StrideY b) = length (ib_encoded_data b)"
proof -
  have "unat (of_nat (length (ib_encoded_data b)) :: 64 word) = length (ib_encoded_data b)"
    using assms by (simp add: unat_of_nat take_bit_nat_eq_self)
  then show ?thesis using assms by (simp add: StrideY_def unsigned_ucast_eq take_bit_nat_eq_self)
qed

lemma frame_type_loop_spec:
  assumes "list_all (\<lambda>i. i < length data) offsets"
  shows "frame_type_loop ParseNaluType kIdr data offsets =
    Inr (if list_ex (\<lambda>i. ParseNaluType (data ! i) = kIdr) offsets then kVideoFrameKey else kVideoFrameDelta)"
  using assms by (induction offsets) auto

text \<open>What the encoder makes of a frame of the source.\<close>

lemma encode_input:
  assumes find: "\<And>d. list_all (\<lambda>i. i < length d) (FindNaluIndices d)"
  shows "\<exists>img. DummyH264Encoder_Encode FindNaluIndices ParseNaluType kIdr (fst (RegisterEncodeCompleteCallback True de)) (InputFrame now ts data len ds) =
      Inr (WEBRTC_VIDEO_CODEC_OK, [img]) \<and>
    ei_data img = map data [0..<unat len] \<and> ei_width img = ds_width ds \<and> ei_height img = ds_height ds \<and>
    ei_timestamp img = ts \<and>
    (ei_frameType img = kVideoFrameKey \<longleftrightarrow>
       list_ex (\<lambda>i. ParseNaluType (data i) = kIdr) (FindNaluIndices (map data [0..<unat len])))"
proof -
  let ?d = "map data [0..<unat len]"
  have "unat (StrideY (EncodedVideoI420Buffer (ds_width ds) (ds_height ds) ?d)) = unat len"
    using StrideY_length [of "EncodedVideoI420Buffer (ds_width ds) (ds_height ds) ?d"] unsigned_less [where w = len, where 'a = nat]
    by (simp add: EncodedVideoI420Buffer_def)
  then have plane: "take (unat (StrideY (EncodedVideoI420Buffer (ds_width ds) (ds_height ds) ?d)))
      (DataY (EncodedVideoI420Buffer (ds_width ds) (ds_height ds) ?d)) = ?d"
    by (simp add: DataY_def EncodedVideoI420Buffer_def)
  have same: "list_ex (\<lambda>i. ParseNaluType (?d ! i) = kIdr) (FindNaluIndices ?d) =
      list_ex (\<lambda>i. ParseNaluType (data i) = kIdr) (FindNaluIndices ?d)"
    using find [of ?d] by (auto simp: list_ex_iff list_all_iff)
  show ?thesis
    by (simp add: DummyH264Encoder_Encode_def RegisterEncodeCompleteCallback_def InputFrame_def EncodedVideoFrameBuffer_def plane
        frame_type_loop_spec [OF find] same Let_def)
qed

text \<open>C26. Encoded bytes put into a source come out of the encoder as they went in, whatever their number:
  for a frame of the source the encoder delivers one image with exactly the given bytes and the
  size of the source, marked as a key frame exactly when one of its units belongs to an IDR
  picture.\<close>

theorem bytes_pass_through:
  assumes "\<And>d. list_all (\<lambda>i. i < length d) (FindNaluIndices d)"
  shows "\<exists>img. DummyH264Encoder_Encode FindNaluIndices ParseNaluType kIdr (fst (RegisterEncodeCompleteCallback True de)) (InputFrame now ts data len ds) =
      Inr (WEBRTC_VIDEO_CODEC_OK, [img]) \<and>
    ei_data img = map data [0..<unat len] \<and> ei_width img = ds_width ds \<and> ei_height img = ds_height ds \<and>
    ei_timestamp img = ts \<and>
    (ei_frameType img = kVideoFrameKey \<longleftrightarrow>
       list_ex (\<lambda>i. ParseNaluType (data i) = kIdr) (FindNaluIndices (map data [0..<unat len])))"
  by (rule encode_input [OF assms])

text \<open>Two units; the second one starts an IDR picture.\<close>

theorem bytes_pass_through_witness:
  "\<exists>img. DummyH264Encoder_Encode (\<lambda>d. if length d = 8 then [3, 7] else []) (\<lambda>b. unat b mod 32) 5 (fst (RegisterEncodeCompleteCallback True DummyEncoder))
      (InputFrame 0 0 (\<lambda>i. [0, 0, 1, 0x41, 0, 0, 1, 0x65] ! i) 8 (DummyVideoSource 0 1280 720)) =
        Inr (WEBRTC_VIDEO_CODEC_OK, [img]) \<and>
    ei_data img = [0, 0, 1, 0x41, 0, 0, 1, 0x65] \<and> ei_frameType img = kVideoFrameKey"
proof -
  have "list_all (\<lambda>i. i < length d) (if length d = 8 then [3, 7] else [])" for d :: "byte list" by simp
  from bytes_pass_through [OF this, of "\<lambda>b. unat b mod 32" 5 DummyEncoder 0 0 "\<lambda>i. [0, 0, 1, 0x41, 0, 0, 1, 0x65] ! i" 8
      "DummyVideoSource 0 1280 720"]
  show ?thesis by (auto simp: upt_rec)
qed

text \<open>What the encoder refuses.\<close>

lemma encode_errors:
  "DummyH264Encoder_Encode F P k DummyEncoder frame = Inr (WEBRTC_VIDEO_CODEC_UNINITIALIZED, [])"
  "fb_type (vf_buffer frame) \<noteq> kNative \<Longrightarrow> de_callback de \<Longrightarrow>
     DummyH264Encoder_Encode F P k de frame = Inr (WEBRTC_VIDEO_CODEC_ERR_PARAMETER, [])"
  by (simp_all add: DummyH264Encoder_Encode_def DummyEncoder_def)

text \<open>A reference that is taken and given back leaves the count as it was, around the wrap as well.\<close>

lemma AddRef_Release: "fst (DummyVideoSource_Release (DummyVideoSource_AddRef ds)) = ds"
  by (simp add: DummyVideoSource_Release_def DummyVideoSource_AddRef_def)

end
