(* ===== verification/Rtc_Client.thy ===== *)
theory Rtc_Client
  imports Engine Dummy_Video
begin

text \<open>
  The facade of the SDK, \<^verbatim>\<open>sdk/rtc_client.cpp\<close>: a client that publishes (role 0) or watches (role 1) a
  room. It creates a room through the engine, observes the room and its participants, and handles
  their events on the thread "main".

  The state is the client and the core it uses. \<open>_room_client\<close> is the position of the room object in
  the engine. Calls of the application come from a thread of its own. \<open>handle_event\<close> is one event
  that was posted to the main thread; \<open>delivered\<close> says which outputs of a room reach the client.
  A \<^verbatim>\<open>YuvCallback\<close> is whether the function is set.
\<close>

subsection \<open>The client\<close>

record rtc_client =
  cl_ip :: string
  cl_port :: nat
  cl_room_id :: string
  cl_user_name :: string
  cl_role :: int
  cl_room_client :: "nat option"
  cl_video_receivers :: "(string, video_receiver) umap"
  cl_cb :: bool

definition RtcClient :: "string \<Rightarrow> nat \<Rightarrow> string \<Rightarrow> string \<Rightarrow> int \<Rightarrow> rtc_client" where
  "RtcClient ip port room_id user_name role =
     \<lparr>cl_ip = ip, cl_port = port, cl_room_id = room_id, cl_user_name = user_name, cl_role = role,
      cl_room_client = None, cl_video_receivers = [], cl_cb = False\<rparr>"

text \<open>The constructor and the destructor write a line to the log; \<open>describe\<close> is the text spdlog formats.\<close>

definition describe :: "rtc_client \<Rightarrow> string" where
  "describe cl = ''Ip:'' @ cl_ip cl @ '', Port:'' @ convert_primitive (int (cl_port cl)) @ '', Room Id:'' @ cl_room_id cl @
     '', User Name:'' @ cl_user_name cl"

definition RtcClient_construct :: "string \<Rightarrow> nat \<Rightarrow> string \<Rightarrow> string \<Rightarrow> int \<Rightarrow> core \<Rightarrow> fault + rtc_client \<times> core" where
  "RtcClient_construct ip port room_id user_name role c =
     (let cl = RtcClient ip port room_id user_name role
      in ebind (app_log L_debug (''RtcClient() Construct, '' @ describe cl @ '', Role:'' @ convert_primitive role) (cr_logger c))
           (\<lambda>lg. Inr (cl, c\<lparr>cr_logger := lg\<rparr>)))"

definition RtcClient_destruct :: "rtc_client \<Rightarrow> core \<Rightarrow> fault + core" where
  "RtcClient_destruct cl c =
     ebind (app_log L_debug (''~RtcClient() Desstruct, '' @ describe cl) (cr_logger c)) (\<lambda>lg. Inr (c\<lparr>cr_logger := lg\<rparr>))"

text \<open>
  Registering with the participant controller, or unregistering: a call through its proxy, which
  runs on the mediasoup thread as well.
\<close>

definition observe_participants :: "env \<Rightarrow> nat \<Rightarrow> bool \<Rightarrow> engine \<Rightarrow> fault + engine \<times> room_out list" where
  "observe_participants env addr b en =
     (if addr < length (en_objects en) then
        let ob = en_objects en ! addr in
        ebind (run_queued env 0 (length (rm_tasks (ro_room ob))) (ro_room ob)) (\<lambda>(rm, outs).
          Inr (en\<lparr>en_objects := (en_objects en)[addr := ob\<lparr>ro_room := rm, ro_partObserved := b\<rparr>]\<rparr>, outs))
      else Inl (NullDeref ''participantController''))"

definition RtcClient_init :: "env \<Rightarrow> string \<Rightarrow> rtc_client \<Rightarrow> core \<Rightarrow> fault + rtc_client \<times> core \<times> room_out list" where
  "RtcClient_init env ident cl c =
     ebind (Engine_createRoomClient env (cr_provider c) ident (cr_engine c)) (\<lambda>(en, addr).
     ebind (getThread ''main'' (cr_provider c)) (\<lambda>callbackThread.
     ebind (call_room env False addr AddObserver en) (\<lambda>(en1, outs1, _).
     ebind (call_room env False addr GetParticipantController en1) (\<lambda>(en2, outs2, v).
     ebind (if v = PtrValue True then observe_participants env addr True en2 else Inr (en2, [])) (\<lambda>(en3, outs3).
     ebind (call_room env False addr (Join (cl_ip cl) (cl_port cl) (cl_room_id cl) (cl_user_name cl) None) en3)
       (\<lambda>(en4, outs4, _).
     Inr (cl\<lparr>cl_room_client := Some addr\<rparr>, c\<lparr>cr_engine := en4\<rparr>, outs1 @ outs2 @ outs3 @ outs4)))))))"

definition RtcClient_destroy :: "env \<Rightarrow> rtc_client \<Rightarrow> core \<Rightarrow> fault + rtc_client \<times> core \<times> room_out list" where
  "RtcClient_destroy env cl c =
     (case cl_room_client cl of
        None \<Rightarrow> Inl (NullDeref ''_room_client'')
      | Some addr \<Rightarrow>
          ebind (call_room env False addr RemoveObserver (cr_engine c)) (\<lambda>(en1, outs1, _).
          ebind (call_room env False addr GetParticipantController en1) (\<lambda>(en2, outs2, v).
          ebind (if v = PtrValue True then observe_participants env addr False en2 else Inr (en2, [])) (\<lambda>(en3, outs3).
          ebind (call_room env False addr Leave en3) (\<lambda>(en4, outs4, _).
          Inr (cl\<lparr>cl_room_client := None\<rparr>, c\<lparr>cr_engine := en4\<rparr>, outs1 @ outs2 @ outs3 @ outs4))))))"

definition RtcClient_setYuvCallback :: "bool \<Rightarrow> rtc_client \<Rightarrow> rtc_client" where
  "RtcClient_setYuvCallback cb cl = (if cl_role cl = 1 then cl\<lparr>cl_cb := cb\<rparr> else cl)"

text \<open>
  The media controller is called directly, on the thread of the caller; the result lists the frames
  handed to a source.
\<close>

definition RtcClient_inputFrame ::
  "env \<Rightarrow> string \<Rightarrow> string \<Rightarrow> rtc_client \<Rightarrow> core \<Rightarrow> fault + core \<times> room_out list \<times> (string \<times> string) list" where
  "RtcClient_inputFrame env name data cl c =
     (case cl_room_client cl of
        None \<Rightarrow> Inl (NullDeref ''_room_client'')
      | Some addr \<Rightarrow>
          ebind (call_room env False addr GetMediaController (cr_engine c)) (\<lambda>(en, outs, _).
          let ob = en_objects en ! addr in
          case rm_media (ro_room ob) of
            None \<Rightarrow> Inr (c\<lparr>cr_engine := en\<rparr>, outs, [])
          | Some mc \<Rightarrow>
              let (mc', frames) = MediaController_inputFrame name data mc;
                  ob' = ob\<lparr>ro_room := (ro_room ob)\<lparr>rm_media := Some mc'\<rparr>\<rparr>
              in Inr (c\<lparr>cr_engine := en\<lparr>en_objects := (en_objects en)[addr := ob']\<rparr>\<rparr>, outs, frames)))"

subsection \<open>Events\<close>

definition delivered :: "room_object \<Rightarrow> room_out list \<Rightarrow> room_out list" where
  "delivered ob = filter (\<lambda>out. case out of
      Wire _ \<Rightarrow> False
    | RoomStateChanged _ \<Rightarrow> ro_observed ob
    | LocalActiveSpeaker _ \<Rightarrow> ro_observed ob
    | Participant _ \<Rightarrow> ro_partObserved ob)"

definition RtcClient_onRoomStateChanged ::
  "env \<Rightarrow> RoomState \<Rightarrow> rtc_client \<Rightarrow> core \<Rightarrow> fault + rtc_client \<times> core \<times> room_out list" where
  "RtcClient_onRoomStateChanged env state cl c =
     (if state = CONNECTED then
        (case cl_room_client cl of
           None \<Rightarrow> Inr (cl, c, [])
         | Some addr \<Rightarrow>
             if cl_role cl = 0 then
               ebind (call_room env False addr (EnableVideo True ''front'' 1280 720) (cr_engine c)) (\<lambda>(en, outs, _).
                 Inr (cl, c\<lparr>cr_engine := en\<rparr>, outs))
             else Inr (cl, c, []))
      else Inr (cl, c, []))"

text \<open>\<open>track\<close> is the track's address; \<^verbatim>\<open>track->id()\<close> is an argument of the log call and is evaluated first.\<close>

definition RtcClient_onCreateRemoteVideoTrack :: "string option \<Rightarrow> json \<Rightarrow> rtc_client \<Rightarrow> fault + rtc_client" where
  "RtcClient_onCreateRemoteVideoTrack track appData cl =
     ebind (nlohmann_get (SharingAppData_from_json appData \<lparr>sharing = \<lparr>trackName = []\<rparr>\<rparr>)) (\<lambda>app.
     case track of
       None \<Rightarrow> Inl (NullDeref ''track'')
     | Some t \<Rightarrow>
         if cl_role cl = 1
         then Inr (cl\<lparr>cl_video_receivers := um_put t \<lparr>vr_trackName = trackName (sharing app), vr_cb = cl_cb cl\<rparr>
                        (cl_video_receivers cl)\<rparr>)
         else Inr cl)"

definition RtcClient_onRemoveRemoteVideoTrack :: "string option \<Rightarrow> rtc_client \<Rightarrow> fault + rtc_client" where
  "RtcClient_onRemoveRemoteVideoTrack track cl =
     (case track of
        None \<Rightarrow> Inl (NullDeref ''track'')
      | Some t \<Rightarrow> if cl_role cl = 1 then Inr (cl\<lparr>cl_video_receivers := um_erase t (cl_video_receivers cl)\<rparr>) else Inr cl)"

text \<open>
  One event on the main thread. The media controller announces a removed track with \<^verbatim>\<open>nullptr\<close>; the
  other handlers only log.
\<close>

fun handle_event :: "env \<Rightarrow> room_out \<Rightarrow> rtc_client \<Rightarrow> core \<Rightarrow> fault + rtc_client \<times> core \<times> room_out list" where
  "handle_event env (RoomStateChanged state) cl c = RtcClient_onRoomStateChanged env state cl c"
| "handle_event env (Participant (PCreateVideoTrack p tid track appData)) cl c =
     ebind (RtcClient_onCreateRemoteVideoTrack (Some track) (jserialize (fields_of NewConsumerRequest_AppData) appData) cl)
       (\<lambda>cl'. Inr (cl', c, []))"
| "handle_event env (Participant (PRemoveVideoTrack p tid)) cl c =
     ebind (RtcClient_onRemoveRemoteVideoTrack None cl) (\<lambda>cl'. Inr (cl', c, []))"
| "handle_event env _ cl c = Inr (cl, c, [])"

fun handle_events :: "env \<Rightarrow> room_out list \<Rightarrow> rtc_client \<Rightarrow> core \<Rightarrow> fault + rtc_client \<times> core \<times> room_out list" where
  "handle_events env [] cl c = Inr (cl, c, [])"
| "handle_events env (out # outs) cl c =
     ebind (handle_event env out cl c) (\<lambda>(cl1, c1, outs1).
     ebind (handle_events env outs cl1 c1) (\<lambda>(cl2, c2, outs2). Inr (cl2, c2, outs1 @ outs2)))"

text \<open>A decoded frame arrives for the sink of a track.\<close>

definition frame_arrives :: "string \<Rightarrow> decoded_frame \<Rightarrow> rtc_client \<Rightarrow> encode_fault + yuv_call list" where
  "frame_arrives track frame cl =
     (case um_find (cl_video_receivers cl) track of
        None \<Rightarrow> Inr []
      | Some vr \<Rightarrow> VideoReceiver_OnFrame frame vr)"


subsection \<open>Calls on an idle room\<close>

lemma idle_call:
  assumes "addr < length (en_objects en)" and "rm_tasks (ro_room (en_objects en ! addr)) = []"
  shows "call_room env on addr m en =
    ebind (invoke env (en_rtcContext en \<noteq> None) 0 m (en_objects en ! addr)) (\<lambda>(ob, outs, v).
      Inr (en\<lparr>en_objects := (en_objects en)[addr := ob]\<rparr>, outs, v))"
  using assms
  by (cases "invoke env (en_rtcContext en \<noteq> None) 0 m (en_objects en ! addr)")
    (auto simp: call_room_def RoomClientProxy_call_def Let_def)

lemma enableVideo_on:
  assumes "mc_device mc = Some kinds" and "''video'' \<in> set kinds" and "mc_sendTransport mc"
    and "um_find (mc_producerMap mc) name \<in> {None, Some None}" and "um_find (mc_sourceMap mc) name \<in> {None, Some None}"
    and "\<And>enc app. Produce ''video'' name enc app = Inr p"
  obtains mc' where "MediaController_enableVideo Produce True name w h mc = Inr (mc', [])"
    and "um_find (mc_sourceMap mc') name = Some (Some (w, h))" and "um_find (mc_producerMap mc') name = Some (Some p)"
    and "\<And>n. n \<noteq> name \<Longrightarrow> um_find (mc_sourceMap mc') n = um_find (mc_sourceMap mc) n"
proof -
  have null: "fst (um_index None name (mc_producerMap mc)) = None" "fst (um_index None name (mc_sourceMap mc)) = None"
    using assms(4,5) by (auto simp: um_index_def)
  have "MediaController_enableVideo Produce True name w h mc =
      Inr (mc\<lparr>mc_sourceMap := um_put name (Some (w, h)) (snd (um_index None name (mc_sourceMap mc))),
               mc_producerMap := um_put name (Some p) (snd (um_index None name (mc_producerMap mc)))\<rparr>, [])"
    using assms(1-3,6) null by (simp add: MediaController_enableVideo_def Let_def split_beta)
  from that [OF this] show thesis by (simp add: um_find_snd_index)
qed

subsection \<open>Publishing\<close>

definition byte_of :: "char \<Rightarrow> byte" where
  "byte_of ch = of_nat (of_char ch)"

text \<open>A publisher streams once the room is connected: when the event CONNECTED reaches a client of role 0
  whose room has a device that can send video and a send transport, the track "front" of 1280 by
  720 is produced; from then on every frame the application puts in under that name reaches its
  source, and what the encoder makes of it is one image with exactly the given bytes.\<close>

theorem publisher_streams:
  assumes "cl_role cl = 0" and "cl_room_client cl = Some addr" and "addr < length (en_objects (cr_engine c))"
    and "ob = en_objects (cr_engine c) ! addr" and "rm_tasks (ro_room ob) = []" and "rm_media (ro_room ob) = Some mc"
    and "mc_device mc = Some kinds" and "''video'' \<in> set kinds" and "mc_sendTransport mc"
    and "um_find (mc_producerMap mc) ''front'' \<in> {None, Some None}" and "um_find (mc_sourceMap mc) ''front'' \<in> {None, Some None}"
    and "\<And>enc app. ev_produce env ''video'' ''front'' enc app = Inr p"
    and "\<And>d. list_all (\<lambda>i. i < length d) (FindNaluIndices d)" and "length data < 2 ^ 32"
  shows "\<exists>c' c'' img. handle_event env (RoomStateChanged CONNECTED) cl c = Inr (cl, c', []) \<and>
    RtcClient_inputFrame env ''front'' data cl c' = Inr (c'', [], [(''front'', data)]) \<and>
    DummyH264Encoder_Encode FindNaluIndices ParseNaluType kIdr (fst (RegisterEncodeCompleteCallback True de))
        (InputFrame now ts (\<lambda>i. byte_of (data ! i)) (of_nat (length data)) (DummyVideoSource garbage 1280 720)) =
      Inr (WEBRTC_VIDEO_CODEC_OK, [img]) \<and> ei_data img = map byte_of data"
proof -
  obtain mc' where on: "MediaController_enableVideo (ev_produce env) True ''front'' 1280 720 mc = Inr (mc', [])"
    and src: "um_find (mc_sourceMap mc') ''front'' = Some (Some (1280, 720))"
    using enableVideo_on [OF assms(7-11), where Produce = "ev_produce env" and p = p and w = 1280 and h = 720] assms(12)
    by metis
  let ?en = "cr_engine c"
  let ?ob = "ob\<lparr>ro_room := (ro_room ob)\<lparr>rm_media := Some mc'\<rparr>\<rparr>"
  let ?c = "c\<lparr>cr_engine := ?en\<lparr>en_objects := (en_objects ?en)[addr := ?ob]\<rparr>\<rparr>"
  have "call_room env False addr (EnableVideo True ''front'' 1280 720) ?en =
      Inr (?en\<lparr>en_objects := (en_objects ?en)[addr := ?ob]\<rparr>, [], VoidValue)"
    using idle_call [OF assms(3), of env False] assms(4-6) on
    by (simp add: void_call_def RoomClient_enableVideo_def on_media_controller_def)
  then have 1: "handle_event env (RoomStateChanged CONNECTED) cl c = Inr (cl, ?c, [])"
    using assms(1,2) by (simp add: RtcClient_onRoomStateChanged_def)
  have 2: "\<exists>c''. RtcClient_inputFrame env ''front'' data cl ?c = Inr (c'', [], [(''front'', data)])"
    using idle_call [of addr "cr_engine ?c" env False GetMediaController] assms(2,3,5) src
    by (simp add: RtcClient_inputFrame_def MediaController_inputFrame_def um_index_found)
  have len: "unat (of_nat (length data) :: 32 word) = length data"
    using assms(14) by (simp add: unat_of_nat take_bit_nat_eq_self)
  have "map (\<lambda>i. byte_of (data ! i)) [0..<length data] = map byte_of data"
    by (rule nth_equalityI) simp_all
  with 1 2 show ?thesis
    using encode_input [OF assms(13), of ParseNaluType kIdr de now ts "\<lambda>i. byte_of (data ! i)" "of_nat (length data)"
        "DummyVideoSource garbage 1280 720"] len by auto
qed


definition demo_publisher :: rtc_client where
  "demo_publisher = (RtcClient ''host'' 443 ''room'' ''ann'' 0)\<lparr>cl_room_client := Some 0\<rparr>"

definition demo_camera_room :: room where
  "demo_camera_room = new_room\<lparr>rm_media := Some ((new_media default_options True)\<lparr>mc_device := Some [''video''], mc_sendTransport := True\<rparr>)\<rparr>"

definition demo_object :: "room \<Rightarrow> room_object" where
  "demo_object rm = \<lparr>ro_id = ''1'', ro_room = rm, ro_observed = True, ro_partObserved = True\<rparr>"

definition demo_core :: "room \<Rightarrow> core" where
  "demo_core rm = new_core\<lparr>cr_engine := new_engine\<lparr>en_objects := [demo_object rm], en_roomClients := [(''1'', 0)]\<rparr>\<rparr>"

definition camera_env :: env where
  "camera_env = demo_env\<lparr>ev_produce := (\<lambda>k n _ _. Inr \<lparr>pr_id = ''id1'', pr_kind = k, pr_enabled = True, pr_closed = False\<rparr>)\<rparr>"

theorem publisher_streams_witness:
  "\<exists>c' c''. handle_event camera_env (RoomStateChanged CONNECTED) demo_publisher (demo_core demo_camera_room) =
      Inr (demo_publisher, c', []) \<and>
    RtcClient_inputFrame camera_env ''front'' ''frame'' demo_publisher c' = Inr (c'', [], [(''front'', ''frame'')])"
proof -
  let ?mc = "(new_media default_options True)\<lparr>mc_device := Some [''video''], mc_sendTransport := True\<rparr>"
  have 1: "cl_role demo_publisher = 0" "cl_room_client demo_publisher = Some 0"
    "0 < length (en_objects (cr_engine (demo_core demo_camera_room)))"
    "demo_object demo_camera_room = en_objects (cr_engine (demo_core demo_camera_room)) ! 0"
    "rm_tasks (ro_room (demo_object demo_camera_room)) = []" "rm_media (ro_room (demo_object demo_camera_room)) = Some ?mc"
    by (simp_all add: demo_publisher_def RtcClient_def demo_core_def demo_object_def demo_camera_room_def new_room_def)
  have 2: "mc_device ?mc = Some [''video'']" "''video'' \<in> set [''video'']" "mc_sendTransport ?mc"
    "um_find (mc_producerMap ?mc) ''front'' \<in> {None, Some None}" "um_find (mc_sourceMap ?mc) ''front'' \<in> {None, Some None}"
    by (simp_all add: new_media_def)
  have 3: "ev_produce camera_env ''video'' ''front'' enc app =
      Inr \<lparr>pr_id = ''id1'', pr_kind = ''video'', pr_enabled = True, pr_closed = False\<rparr>" for enc app
    by (simp add: camera_env_def)
  show ?thesis
    using publisher_streams [OF 1 2 3, of "\<lambda>_. []" "''frame''" "\<lambda>_. 0" 5 DummyEncoder 0 0 0] by fastforce
qed

subsection \<open>Watching\<close>

text \<open>A watcher gets the frames of a new remote track under the name its publisher gave it, if the
  callback was set before the track arrived, and nothing otherwise: setting or clearing the callback
  later has no effect on the track.\<close>

theorem watcher_receives:
  assumes "cl_role cl = 1"
    and "SharingAppData_from_json (jserialize (fields_of NewConsumerRequest_AppData) appData) \<lparr>sharing = \<lparr>trackName = []\<rparr>\<rparr> =
      Inr \<lparr>sharing = \<lparr>trackName = name\<rparr>\<rparr>"
    and "df_i420 frame = Some planes"
  shows "\<exists>cl'. handle_event env (Participant (PCreateVideoTrack p tid track appData)) cl c = Inr (cl', c, []) \<and>
    frame_arrives track frame (RtcClient_setYuvCallback later cl') =
      Inr (if cl_cb cl then [YuvCall name planes (df_width frame) (df_height frame)] else []) \<and>
    (\<forall>other. other \<noteq> track \<longrightarrow> um_find (cl_video_receivers cl') other = um_find (cl_video_receivers cl) other)"
  using assms
  by (simp add: RtcClient_onCreateRemoteVideoTrack_def nlohmann_get_def frame_arrives_def RtcClient_setYuvCallback_def
      VideoReceiver_OnFrame_def)

theorem watcher_receives_witness:
  "\<exists>cl'. handle_event demo_env (Participant (PCreateVideoTrack (new_participant ''p'' ''Ann'') ''v1'' ''t''
        (new_object NewConsumerRequest_AppData 0))) (RtcClient ''host'' 443 ''room'' ''bob'' 1) new_core = Inr (cl', new_core, []) \<and>
    frame_arrives ''t'' \<lparr>df_i420 = Some \<lparr>pl_y = [1], pl_u = [], pl_v = []\<rparr>, df_width = 1, df_height = 1\<rparr>
      (RtcClient_setYuvCallback True cl') = Inr []"
proof -
  have 1: "cl_role (RtcClient ''host'' 443 ''room'' ''bob'' 1) = 1" by (simp add: RtcClient_def)
  have 2: "SharingAppData_from_json (jserialize (fields_of NewConsumerRequest_AppData) (new_object NewConsumerRequest_AppData 0))
      \<lparr>sharing = \<lparr>trackName = []\<rparr>\<rparr> = Inr \<lparr>sharing = \<lparr>trackName = []\<rparr>\<rparr>"
    by code_simp
  show ?thesis
    using watcher_receives [OF 1 2, of "\<lparr>df_i420 = Some \<lparr>pl_y = [1], pl_u = [], pl_v = []\<rparr>, df_width = 1, df_height = 1\<rparr>"
        "\<lparr>pl_y = [1], pl_u = [], pl_v = []\<rparr>" demo_env "new_participant ''p'' ''Ann''" "''v1''" "''t''" new_core True]
    by (auto simp: RtcClient_def)
qed

text \<open>C23. A client crashes when a remote video track ends: the task that closes a known peer's video consumer
  announces the removed track with a null pointer, and the handler of every client that observes the
  participants reads the track's id, whatever its role.\<close>

theorem removed_track_crashes:
  assumes "media_inv mc" and "closed_id n = Inr tid" and "um_find (mc_consumerMap mc) tid = Some (Some co)"
    and "um_find (mc_consumerIdToPeerId mc) tid = Some pid" and "co_kind co = ''video''" and "pid \<noteq> []"
    and "rm_media (ro_room ob) = Some mc" and "rm_participants (ro_room ob) = Some pm" and "getParticipant pid pm = Some p"
    and "ro_partObserved ob"
  shows "\<exists>rm' outs. run_room_task lib gid Consume ConsumeData (TaskMedia (TaskConsumerClosed n)) (ro_room ob) = Inr (rm', outs) \<and>
    handle_events env (delivered (ob\<lparr>ro_room := rm'\<rparr>) outs) cl c = Inl (NullDeref ''track'')"
proof -
  obtain mc' pm' p' where "run_room_media lib gid Consume ConsumeData (TaskConsumerClosed n) (ro_room ob) =
       Inr ((ro_room ob)\<lparr>rm_media := Some mc', rm_participants := Some pm'\<rparr>,
            [Participant (PVideoState (setVideoMuted True p) True), Participant (PRemoveVideoTrack p' tid)])"
    by (rule video_closed_task [OF assms(1-9)])
  then show ?thesis using assms(10) by (simp add: delivered_def RtcClient_onRemoveRemoteVideoTrack_def)
qed

theorem removed_track_crashes_witness:
  "\<exists>rm' outs. run_room_task session_lib (\<lambda>n. int n) (\<lambda>_ _ _ _ _. Inl ''x'') (\<lambda>_ _ _ _ _ _. Inl ''x'')
       (TaskMedia (TaskConsumerClosed demo_closed)) (ro_room (demo_object demo_watcher)) = Inr (rm', outs) \<and>
     handle_events demo_env (delivered ((demo_object demo_watcher)\<lparr>ro_room := rm'\<rparr>) outs)
       (RtcClient ''host'' 443 ''room'' ''bob'' 1) new_core = Inl (NullDeref ''track'')"
proof -
  let ?c = "\<lparr>co_id = ''v1'', co_kind = ''video'', co_track = ''t'', co_enabled = True, co_closed = False\<rparr>"
  have 1: "media_inv demo_video" "closed_id demo_closed = Inr ''v1''"
    "um_find (mc_consumerMap demo_video) ''v1'' = Some (Some ?c)"
    "um_find (mc_consumerIdToPeerId demo_video) ''v1'' = Some ''p''" by code_simp+
  have 2: "rm_media (ro_room (demo_object demo_watcher)) = Some demo_video"
    "rm_participants (ro_room (demo_object demo_watcher)) = Some [(''p'', Some (new_participant ''p'' ''Ann''))]"
    "getParticipant ''p'' [(''p'', Some (new_participant ''p'' ''Ann''))] = Some (new_participant ''p'' ''Ann'')"
    "ro_partObserved (demo_object demo_watcher)"
    by (simp_all add: demo_watcher_def demo_object_def getParticipant_def um_find_def)
  have 3: "co_kind ?c = ''video''" "''p'' \<noteq> []" by simp_all
  show ?thesis by (rule removed_track_crashes [OF 1 3 2])
qed

subsection \<open>The life of a client\<close>

lemma observe_frame:
  "observe_participants env addr b en = Inr (en', outs) \<Longrightarrow>
   en_rtcContext en' = en_rtcContext en \<and> en_roomClients en' = en_roomClients en \<and>
   length (en_objects en') = length (en_objects en)"
  by (auto simp: observe_participants_def Let_def ebind_eq_Inr split: if_splits)

lemma fresh_idle: "rm_tasks (RoomClient_init new_room) = []" "rm_participants (RoomClient_init new_room) = Some []"
  "rm_state (RoomClient_init new_room) = CLOSED"
  by (simp_all add: RoomClient_init_def new_room_def Let_def)

text \<open>A client has a room between \<open>init\<close> and \<open>destroy\<close> only: without one, putting a frame in and
  destroying it dereference a null pointer. Destroying a client lets go of its room, which stays in
  the engine's table, so that rooms pile up there.\<close>

theorem client_without_room:
  assumes "RtcClient_destroy env cl c = Inr (cl', c', outs)"
  shows "RtcClient_inputFrame env name data cl' c' = Inl (NullDeref ''_room_client'') \<and>
    RtcClient_destroy env cl' c' = Inl (NullDeref ''_room_client'') \<and>
    RtcClient_inputFrame env name data (RtcClient ip port room_id user_name role) c = Inl (NullDeref ''_room_client'') \<and>
    Engine_getRoomClients (cr_engine c') = Engine_getRoomClients (cr_engine c) \<and>
    length (en_objects (cr_engine c')) = length (en_objects (cr_engine c))"
proof -
  obtain addr where addr: "cl_room_client cl = Some addr"
    using assms by (cases "cl_room_client cl") (auto simp: RtcClient_destroy_def)
  obtain en1 outs1 v1 en2 outs2 v2 en3 outs3 en4 outs4 v4 where
    "call_room env False addr RemoveObserver (cr_engine c) = Inr (en1, outs1, v1)"
    "call_room env False addr GetParticipantController en1 = Inr (en2, outs2, v2)"
    "(if v2 = PtrValue True then observe_participants env addr False en2 else Inr (en2, [])) = Inr (en3, outs3)"
    "call_room env False addr Leave en3 = Inr (en4, outs4, v4)"
    and r: "cl' = cl\<lparr>cl_room_client := None\<rparr>" "c' = c\<lparr>cr_engine := en4\<rparr>"
    using assms addr by (auto simp: RtcClient_destroy_def ebind_eq_Inr)
  then have "en_roomClients en4 = en_roomClients (cr_engine c) \<and> length (en_objects en4) = length (en_objects (cr_engine c))"
    by (auto dest!: call_room_frame observe_frame split: if_splits)
  with r show ?thesis
    by (simp add: RtcClient_inputFrame_def RtcClient_destroy_def RtcClient_def Engine_getRoomClients_def)
qed


theorem client_without_room_witness:
  "\<exists>cl' c' outs. RtcClient_destroy demo_env demo_publisher (demo_core (RoomClient_init new_room)) = Inr (cl', c', outs) \<and>
     RtcClient_inputFrame demo_env ''front'' ''frame'' cl' c' = Inl (NullDeref ''_room_client'') \<and>
     Engine_getRoomClients (cr_engine c') = [(''1'', 0)]"
proof -
  obtain cl' c' outs where "RtcClient_destroy demo_env demo_publisher (demo_core (RoomClient_init new_room)) = Inr (cl', c', outs)"
    by (simp add: RtcClient_destroy_def demo_publisher_def demo_core_def demo_object_def call_room_def RoomClientProxy_call_def
        observe_participants_def void_call_def RoomClient_leave_def RoomClient_getParticipantController_def fresh_idle Let_def)
  with client_without_room [OF this, of "''front''" "''frame''"] show ?thesis
    by (auto simp: demo_core_def Engine_getRoomClients_def)
qed

text \<open>The room a client joins for the first time.\<close>

lemma join_fresh_room:
  assumes "host \<noteq> []" and "roomId \<noteq> []" and "name \<noteq> []"
  shows "\<exists>rm ws. RoomClient_join lib peerId host port roomId name None (RoomClient_init new_room) =
      Inr (rm, map Wire ws @ [RoomStateChanged CONNECTING]) \<and> rm_state rm = CONNECTING"
  using assms
  by (simp add: RoomClient_join_def RoomClient_init_def new_room_def then_outs_def onRoomStateChanged_def Let_def case_prod_beta
      map_append [symmetric] del: map_append) blast

lemma core_start:
  assumes "lg_registry (cr_logger c) = []" and "cr_provider c = None" and "en_rtcContext (cr_engine c) = None"
  shows "\<exists>c' ops tp. Core_init version path fresh fresh' c = (None, c', ops) \<and> cr_provider c' = Some tp \<and>
    ThreadProvider_thread ''mediasoup'' tp \<noteq> None \<and> en_rtcContext (cr_engine c') \<noteq> None \<and>
    en_objects (cr_engine c') = en_objects (cr_engine c) \<and>
    log_at path True (\<not> lg_rtcLogSink (cr_logger c) \<or> lg_stream (cr_logger c)) (cr_logger c') \<and>
    lg_lines (cr_logger c') = lg_lines (cr_logger c) @ [(path @ ''/app.log'', L_debug, ''mediasoupclient version: '' @ version)]"
  using core_init_fresh [OF assms(1), of version path fresh fresh'] factory_mediasoup [of fresh] assms(2,3)
  by (force simp: Engine_init_def case_prod_beta Let_def)

lemma client_init_log: "RtcClient_init env ident cl c = Inr (cl', c', outs) \<Longrightarrow> cr_logger c' = cr_logger c"
  by (auto simp: RtcClient_init_def ebind_eq_Inr split: if_splits)

lemma client_init_run:
  assumes "cl_ip cl \<noteq> []" and "cl_room_id cl \<noteq> []" and "cl_user_name cl \<noteq> []"
    and "cr_provider c = Some tp" and "ThreadProvider_thread ''mediasoup'' tp \<noteq> None" and "en_rtcContext (cr_engine c) \<noteq> None"
  shows "\<exists>c' outs ob. RtcClient_init env ident cl c =
      Inr (cl\<lparr>cl_room_client := Some (length (en_objects (cr_engine c)))\<rparr>, c', outs) \<and>
    en_objects (cr_engine c') = en_objects (cr_engine c) @ [ob] \<and>
    um_find (Engine_getRoomClients (cr_engine c')) ident = Some (length (en_objects (cr_engine c))) \<and>
    ro_observed ob \<and> ro_partObserved ob \<and> rm_state (ro_room ob) = CONNECTING \<and>
    delivered ob outs = [RoomStateChanged CONNECTING] \<and>
    (\<exists>outs0. RoomClient_join (ev_lib env) (ev_peerId env) (cl_ip cl) (cl_port cl) (cl_room_id cl) (cl_user_name cl) None
       (RoomClient_init new_room) = Inr (ro_room ob, outs0))"
proof -
  obtain rm ws where join: "RoomClient_join (ev_lib env) (ev_peerId env) (cl_ip cl) (cl_port cl) (cl_room_id cl) (cl_user_name cl) None
      (RoomClient_init new_room) = Inr (rm, map Wire ws @ [RoomStateChanged CONNECTING])" and rm: "rm_state rm = CONNECTING"
    using join_fresh_room [OF assms(1-3)] by blast
  have wires: "filter (case_room_out (\<lambda>_. False) f g h) (map Wire ws) = []" for f g h by (induction ws) auto
  show ?thesis
    using assms(4-6) join rm
    by (simp add: RtcClient_init_def create_unfold getThread_def call_room_def RoomClientProxy_call_def observe_participants_def
        void_call_def fresh_idle RoomClient_getParticipantController_def delivered_def wires Engine_getRoomClients_def
        Let_def nth_append)
qed

text \<open>C30. Initialising a client on a started library creates one room of its own, registers the client with the
  room and with its participants before it joins, and joins: the room is connecting and CONNECTING
  is the one event the client is sent. Without the library started it fails at a null pointer.\<close>

theorem client_init_spec:
  assumes "cl_ip cl \<noteq> []" and "cl_room_id cl \<noteq> []" and "cl_user_name cl \<noteq> []"
    and "cr_provider c = Some tp" and "ThreadProvider_thread ''mediasoup'' tp \<noteq> None" and "en_rtcContext (cr_engine c) \<noteq> None"
  shows "\<exists>c' outs ob. RtcClient_init env ident cl c =
      Inr (cl\<lparr>cl_room_client := Some (length (en_objects (cr_engine c)))\<rparr>, c', outs) \<and>
    en_objects (cr_engine c') = en_objects (cr_engine c) @ [ob] \<and>
    um_find (Engine_getRoomClients (cr_engine c')) ident = Some (length (en_objects (cr_engine c))) \<and>
    ro_observed ob \<and> ro_partObserved ob \<and> rm_state (ro_room ob) = CONNECTING \<and>
    delivered ob outs = [RoomStateChanged CONNECTING] \<and>
    RtcClient_init env ident cl new_core = Inl (NullDeref ''_threadProvider'')"
proof -
  have "RtcClient_init env ident cl new_core = Inl (NullDeref ''_threadProvider'')"
    by (simp add: RtcClient_init_def create_unfold new_core_def)
  with client_init_run [OF assms, of env ident] show ?thesis by blast
qed

theorem client_init_spec_witness:
  "\<exists>c1 ops cl' c' outs ob. Core_init ''3.4'' ''/tmp'' id id new_core = (None, c1, ops) \<and>
    RtcClient_init demo_env ''1'' (RtcClient ''host'' 443 ''room'' ''ann'' 0) c1 = Inr (cl', c', outs) \<and>
    en_objects (cr_engine c') = [ob] \<and> delivered ob outs = [RoomStateChanged CONNECTING]"
proof -
  let ?cl = "RtcClient ''host'' 443 ''room'' ''ann'' 0"
  have 1: "cl_ip ?cl \<noteq> []" "cl_room_id ?cl \<noteq> []" "cl_user_name ?cl \<noteq> []" by (simp_all add: RtcClient_def)
  obtain c1 ops tp where c1: "Core_init ''3.4'' ''/tmp'' id id new_core = (None, c1, ops)"
      "cr_provider c1 = Some tp" "ThreadProvider_thread ''mediasoup'' tp \<noteq> None"
      "en_rtcContext (cr_engine c1) \<noteq> None" "en_objects (cr_engine c1) = []"
    using core_start [of new_core "''3.4''" "''/tmp''" id id] by (auto simp: new_core_def new_logger_def new_engine_def)
  from client_init_spec [OF 1 c1(2-4), of demo_env "''1''"] c1(1,5) show ?thesis by fastforce
qed

text \<open>
  The life of a program that uses the library: the core is started, a client is constructed,
  initialised and dropped. All of it works on a core that was never started before; the client's
  lines are in the application's log in that order. Constructing a client on a core that was
  not started reads the null pointer of the log.
\<close>

theorem client_life:
  assumes "ip \<noteq> []" and "room_id \<noteq> []" and "user_name \<noteq> []"
  shows "\<exists>c1 ops c2 c3 outs c4 cl ob. Core_init version path fresh fresh' new_core = (None, c1, ops) \<and>
    RtcClient_construct ip port room_id user_name role c1 = Inr (RtcClient ip port room_id user_name role, c2) \<and>
    RtcClient_init env ident (RtcClient ip port room_id user_name role) c2 = Inr (cl, c3, outs) \<and>
    en_objects (cr_engine c3) = [ob] \<and> delivered ob outs = [RoomStateChanged CONNECTING] \<and>
    RtcClient_destruct cl c3 = Inr c4 \<and>
    map (\<lambda>(file, _, _). file) (lg_lines (cr_logger c4)) = replicate 3 (path @ ''/app.log'') \<and>
    RtcClient_construct ip port room_id user_name role new_core = Inl (NullDeref ''_appLogger'')"
proof -
  let ?cl = "RtcClient ip port room_id user_name role"
  have 1: "cl_ip ?cl \<noteq> []" "cl_room_id ?cl \<noteq> []" "cl_user_name ?cl \<noteq> []" using assms by (simp_all add: RtcClient_def)
  obtain c1 ops tp where c1: "Core_init version path fresh fresh' new_core = (None, c1, ops)"
      "cr_provider c1 = Some tp" "ThreadProvider_thread ''mediasoup'' tp \<noteq> None"
      "en_rtcContext (cr_engine c1) \<noteq> None" "en_objects (cr_engine c1) = []"
      "log_at path True True (cr_logger c1)" "length (lg_lines (cr_logger c1)) = 1"
      "map (\<lambda>(file, _, _). file) (lg_lines (cr_logger c1)) = [path @ ''/app.log'']"
    using core_start [of new_core version path fresh fresh'] by (auto simp: new_core_def new_logger_def new_engine_def)
  obtain lg2 where lg2: "app_log L_debug (''RtcClient() Construct, '' @ describe ?cl @ '', Role:'' @ convert_primitive role) (cr_logger c1) = Inr lg2"
      "map (\<lambda>(file, _, _). file) (lg_lines lg2) = replicate 2 (path @ ''/app.log'')"
    using messages_at(1) [OF c1(6)] c1(8) by (fastforce simp: numeral_2_eq_2)
  let ?c2 = "c1\<lparr>cr_logger := lg2\<rparr>"
  have 2: "cr_provider ?c2 = Some tp" "en_rtcContext (cr_engine ?c2) \<noteq> None" using c1 by simp_all
  obtain cl c3 outs ob where c3: "RtcClient_init env ident ?cl ?c2 = Inr (cl, c3, outs)" "en_objects (cr_engine c3) = [ob]"
      "delivered ob outs = [RoomStateChanged CONNECTING]"
    using client_init_run [OF 1 2(1) c1(3) 2(2), of env ident] c1(5) by fastforce
  have log3: "cr_logger c3 = lg2" using client_init_log [OF c3(1)] by simp
  obtain lg4 where lg4: "app_log L_debug (''~RtcClient() Desstruct, '' @ describe cl) lg2 = Inr lg4"
      "map (\<lambda>(file, _, _). file) (lg_lines lg4) = replicate 3 (path @ ''/app.log'')"
    using messages_at(1) [OF app_log_at [OF c1(6) lg2(1)]] lg2(2) by (fastforce simp: numeral_3_eq_3 numeral_2_eq_2)
  have "RtcClient_construct ip port room_id user_name role new_core = Inl (NullDeref ''_appLogger'')"
    by (simp add: RtcClient_construct_def app_log_def log_through_def new_core_def new_logger_def)
  then show ?thesis
    using c1(1) lg2(1) c3 lg4 log3 by (simp add: RtcClient_construct_def RtcClient_destruct_def)
qed

end
