(* ===== verification/Streaming.thy ===== *)
theory Streaming
  imports Rtc_Client
begin

text \<open>
  Whole sessions: from the start of the library and the construction of a client to the bytes that
  leave the encoder, and from the text of a message of the server to the frames an application is
  given. The theorems put together the facade (\<^verbatim>\<open>sdk/rtc_client.cpp\<close>), the engine, the room with its
  handshake, the signaling client, the media and participant controllers and the video source.
\<close>

subsection \<open>A room inside the engine\<close>

text \<open>The core after the room at \<open>addr\<close> has moved on by itself to \<open>rm\<close>.\<close>

definition room_moved :: "nat \<Rightarrow> room \<Rightarrow> core \<Rightarrow> core" where
  "room_moved addr rm c =
     (let en = cr_engine c
      in c\<lparr>cr_engine := en\<lparr>en_objects := (en_objects en)[addr := (en_objects en ! addr)\<lparr>ro_room := rm\<rparr>]\<rparr>\<rparr>)"

lemma room_moved_same [simp]:
  "addr < length (en_objects (cr_engine c)) \<Longrightarrow> room_moved addr (ro_room (en_objects (cr_engine c) ! addr)) c = c"
  by (simp add: room_moved_def Let_def)

lemma room_moved_steps:
  assumes "room_run lib rm0 outs rm" and "addr < length (en_objects (cr_engine c))"
    and "rm0 = ro_room (en_objects (cr_engine c) ! addr)"
  shows "engine_step\<^sup>*\<^sup>* (cr_engine c) (cr_engine (room_moved addr rm c))"
  using assms
proof induction
  case rr_start
  then show ?case by simp
next
  case (rr_step outs rm' outs' rm'')
  let ?c = "room_moved addr rm' c"
  have "engine_step (cr_engine ?c) (cr_engine (room_moved addr rm'' c))"
    using es_room [of addr "cr_engine ?c" lib outs' rm''] rr_step by (simp add: room_moved_def Let_def)
  with rr_step show ?case by simp
qed

text \<open>Events that announce participants leave a client and its core alone.\<close>

lemma create_peers_joins: "create_peers ps pm = (pm', evs) \<Longrightarrow> \<exists>qs. evs = map PJoin qs"
proof (induction ps arbitrary: pm evs)
  case (Cons peer ps)
  obtain pm1 evs1 evs2 where 1: "createParticipant (value_or (the_str (member JoinResponse_Peer ''id'' peer)) [])
      (value_or (the_str (member JoinResponse_Peer ''displayName'' peer)) []) pm = (pm1, evs1)"
    and 2: "create_peers ps pm1 = (pm', evs2)" and evs: "evs = evs1 @ evs2"
    using Cons.prems by (auto split: prod.splits)
  have "\<exists>qs. evs1 = map PJoin qs"
    using 1 by (force simp: createParticipant_def Let_def split: if_splits intro: exI [of _ "[]"] exI [of _ "[x]" for x])
  with Cons.IH [OF 2] show ?case unfolding evs by (metis map_append)
qed (simp add: exI [of _ "[]"])

lemma joins_ignored: "handle_events env (map Participant (map PJoin qs)) cl c = Inr (cl, c, [])"
  by (induction qs) simp_all

lemma delivered_wires: "delivered ob (map Wire ws @ outs) = delivered ob outs"
  by (induction ws) (simp_all add: delivered_def)

lemma delivered_joins: "ro_partObserved ob \<Longrightarrow> delivered ob (map Participant evs) = map Participant evs"
  by (induction evs) (simp_all add: delivered_def)

lemma delivered_Cons: "delivered ob (out # outs) = delivered ob [out] @ delivered ob outs"
  by (simp add: delivered_def)

subsection \<open>Publishing, from the start of the library\<close>

text \<open>What the CONNECTED event finds in a connected room.\<close>

lemma connected_media_simps [simp]:
  "mc_device (connected_media dv) = Some (dv_kinds dv)" "mc_sendTransport (connected_media dv)"
  "mc_recvTransport (connected_media dv)" "mc_producerMap (connected_media dv) = []"
  "mc_sourceMap (connected_media dv) = []" "mc_consumerMap (connected_media dv) = []"
  "mc_consumerIdToPeerId (connected_media dv) = []" "mc_options (connected_media dv) = default_options"
  "mc_api (connected_media dv)"
  by (simp_all add: connected_media_def setRecvTransport_def setSendTransport_def setMediasoupDevice_def
      MediaController_init_def configVideoEncodings_def new_media_def)


definition session_env :: env where
  "session_env = camera_env\<lparr>ev_lib := session_lib\<rparr>"

lemma session_lib_facts:
  "lb_print session_lib j \<noteq> []" "lb_load session_lib j = Inr session_device"
  "lb_transport session_lib s i a b c d = Inr ()" "ev_lib session_env = session_lib" "''video'' \<in> set (dv_kinds session_device)"
  "ev_produce session_env ''video'' ''front'' enc app =
     Inr \<lparr>pr_id = ''id1'', pr_kind = ''video'', pr_enabled = True, pr_closed = False\<rparr>"
  by (simp_all add: session_lib_def session_env_def camera_env_def session_device_def)


subsection \<open>Watching, from the server's message\<close>

text \<open>The data of a \<^verbatim>\<open>newConsumer\<close> request for a video track.\<close>

definition video_offer :: "obj \<Rightarrow> string \<Rightarrow> string \<Rightarrow> string \<Rightarrow> obj \<Rightarrow> obj \<Rightarrow> bool \<Rightarrow> bool" where
  "video_offer rq tid producerId pid rtp appData paused \<longleftrightarrow>
     (case the_obj (member NewConsumerRequest ''data'' rq) of
        None \<Rightarrow> False
      | Some d \<Rightarrow>
          the_str (member NewConsumerRequest_Data ''id'' d) = Some tid \<and>
          the_str (member NewConsumerRequest_Data ''producerId'' d) = Some producerId \<and>
          the_str (member NewConsumerRequest_Data ''peerId'' d) = Some pid \<and>
          the_str (member NewConsumerRequest_Data ''kind'' d) = Some ''video'' \<and>
          the_obj (member NewConsumerRequest_Data ''rtpParameters'' d) = Some rtp \<and>
          the_obj (member NewConsumerRequest_Data ''appData'' d) = Some appData \<and>
          the_bool (member NewConsumerRequest_Data ''producerPaused'' d) = Some paused)"

lemma new_consumer_created:
  assumes "video_offer rq tid producerId pid rtp appData paused"
    and "value_or (opt_consume (mc_options mc)) False" and "mc_recvTransport mc" and "mc_api mc"
    and "Consume tid producerId ''video'' (jserialize (fields_of NewConsumerRequest_RTPParameters) rtp)
        (jserialize (fields_of NewConsumerRequest_AppData) appData) = Inr co"
    and "co_kind co = ''video''"
  shows "createNewConsumer Consume (Some rq) mc =
    Inr (mc\<lparr>mc_consumerMap := um_put tid (Some co) (mc_consumerMap mc),
            mc_consumerIdToPeerId := um_put tid pid (mc_consumerIdToPeerId mc)\<rparr>,
         [Media (EvCreateVideoTrack pid (co_id co) (co_track co) appData), Media (EvVideoState pid paused),
          ApiResponse (the_int (member NewConsumerRequest ''id'' rq)), ApiSetConsumerPreferredLayers tid 1 1])"
  using assms
  by (cases "the_obj (member NewConsumerRequest ''data'' rq)")
    (simp_all add: video_offer_def createNewConsumer_def new_consumer_events_def lib_call_def Let_def)

text \<open>Calls of the API go out while the signaling client is ready.\<close>

lemma sent_ready:
  assumes "sc_ready sc" and "text \<noteq> []"
  shows "\<exists>sc' ws. SignalingClient_send text tr scb fcb sc = Inr (sc', ws) \<and> sc_ready sc'"
  using assms
  by (auto simp: SignalingClient_send_def Transport_send_def sc_ready_def new_request_def Let_def)

lemma api_goes_out:
  assumes "rm_signaling rm = Some sc" and "sc_ready sc" and "\<And>j. lb_print lib j \<noteq> []"
  shows "\<exists>sc' ws. perform_out lib gid mc (ApiResponse i) rm = Inr (rm\<lparr>rm_signaling := Some sc'\<rparr>, map Wire ws) \<and> sc_ready sc'"
    and "\<exists>sc' ws. perform_out lib gid mc (ApiSetConsumerPreferredLayers tid sp tm) rm =
           Inr (rm\<lparr>rm_signaling := Some sc'\<rparr>, map Wire ws) \<and> sc_ready sc'"
proof -
  have sent: "\<exists>sc' ws. SignalingClient_send (toJsonString (lb_print lib) fs rq) tr scb fcb sc = Inr (sc', ws) \<and> sc_ready sc'"
    for fs rq tr scb fcb
    by (rule sent_ready [OF assms(2)]) (simp add: toJsonString_def assms(3))
  have call: "\<exists>sc' ws. on_api f rm = Inr (rm\<lparr>rm_signaling := Some sc'\<rparr>, map Wire ws) \<and> sc_ready sc'"
    if "\<exists>sc' ws. f sc = Inr (sc', ws) \<and> sc_ready sc'" for f
  proof -
    from that obtain sc' ws where "f sc = Inr (sc', ws)" "sc_ready sc'" by blast
    then have "on_api f rm = Inr (rm\<lparr>rm_signaling := Some sc'\<rparr>, map Wire ws)" using assms(1) by (simp add: on_api_def)
    with \<open>sc_ready sc'\<close> show ?thesis by blast
  qed
  show "\<exists>sc' ws. perform_out lib gid mc (ApiResponse i) rm = Inr (rm\<lparr>rm_signaling := Some sc'\<rparr>, map Wire ws) \<and> sc_ready sc'"
    unfolding perform_out.simps by (rule call) (use sent in \<open>auto simp: MediasoupApi_response_def\<close>)
  show "\<exists>sc' ws. perform_out lib gid mc (ApiSetConsumerPreferredLayers tid sp tm) rm =
      Inr (rm\<lparr>rm_signaling := Some sc'\<rparr>, map Wire ws) \<and> sc_ready sc'"
    unfolding perform_out.simps
    by (rule call) (use sent in \<open>auto simp: MediasoupApi_setConsumerPreferredLayers_def MediasoupApi_send_def\<close>)
qed

text \<open>The task of the mediasoup thread for a new video consumer of a known peer.\<close>

lemma new_consumer_task:
  assumes "video_offer rq tid producerId pid rtp appData paused" and "pid \<noteq> []"
    and "rm_media rm = Some mc" and "media_inv mc"
    and "value_or (opt_consume (mc_options mc)) False" and "mc_recvTransport mc" and "mc_api mc"
    and "Consume tid producerId ''video'' (jserialize (fields_of NewConsumerRequest_RTPParameters) rtp)
        (jserialize (fields_of NewConsumerRequest_AppData) appData) = Inr co"
    and "co_kind co = ''video''" and "consume_law Consume"
    and "rm_participants rm = Some pm" and "getParticipant pid pm = Some p"
    and "rm_signaling rm = Some sc" and "sc_ready sc" and "\<And>j. lb_print lib j \<noteq> []"
  shows "\<exists>rm' p' p'' ws. run_room_task lib gid Consume ConsumeData (TaskMedia (TaskNewConsumer (Some rq))) rm =
    Inr (rm', [Participant (PCreateVideoTrack p' tid (co_track co) appData), Participant (PVideoState p'' paused)] @ map Wire ws)"
proof -
  have co: "co_id co = tid" "\<not> co_closed co" using assms(8,10) by (auto simp: consume_law_def)
  let ?mc = "mc\<lparr>mc_consumerMap := um_put tid (Some co) (mc_consumerMap mc),
      mc_consumerIdToPeerId := um_put tid pid (mc_consumerIdToPeerId mc)\<rparr>"
  have inv: "media_inv ?mc" by (rule media_inv_put_new [OF assms(4) co])
  obtain ts where ts: "getRemoteVideoTracks pid ?mc = Inr (?mc, ts)" using remote_video_tracks [OF inv, of pid] by blast
  let ?p' = "setVideoTracks ts p"
  obtain pm1 where 1: "on_media ?mc (EvCreateVideoTrack pid tid (co_track co) appData) pm =
        Inr (pm1, [PCreateVideoTrack ?p' tid (co_track co) appData])" and pm1: "getParticipant pid pm1 = Some ?p'"
    using assms(2,12) ts by (simp add: onCreateRemoteVideoTrack_def with_participant_unfold Let_def)
  obtain pm2 where 2: "on_media ?mc (EvVideoState pid paused) pm1 = Inr (pm2, [PVideoState (setVideoMuted paused ?p') paused])"
    using assms(2) pm1 by (simp add: onRemoteVideoStateChanged_def with_participant_unfold Let_def)
  let ?rm = "rm\<lparr>rm_media := Some ?mc, rm_participants := Some pm2\<rparr>"
  have sc: "rm_signaling ?rm = Some sc" using assms(13) by simp
  obtain sc1 ws1 where 3: "perform_out lib (gid 2) ?mc (ApiResponse (the_int (member NewConsumerRequest ''id'' rq))) ?rm =
      Inr (?rm\<lparr>rm_signaling := Some sc1\<rparr>, map Wire ws1)" and sc1: "sc_ready sc1"
    using api_goes_out(1) [OF sc assms(14,15)] by blast
  let ?rm1 = "?rm\<lparr>rm_signaling := Some sc1\<rparr>"
  have sc1': "rm_signaling ?rm1 = Some sc1" by simp
  obtain sc2 ws2 where 4: "perform_out lib (gid 3) ?mc (ApiSetConsumerPreferredLayers tid 1 1) ?rm1 =
      Inr (?rm1\<lparr>rm_signaling := Some sc2\<rparr>, map Wire ws2)"
    using api_goes_out(2) [OF sc1' sc1 assms(15)] by blast
  have created: "run_media_task Consume ConsumeData (TaskNewConsumer (Some rq)) mc =
      Inr (?mc, [Media (EvCreateVideoTrack pid tid (co_track co) appData), Media (EvVideoState pid paused),
        ApiResponse (the_int (member NewConsumerRequest ''id'' rq)), ApiSetConsumerPreferredLayers tid 1 1])"
    using new_consumer_created [where Consume = Consume, OF assms(1,5-9)] co by simp
  have events: "perform_out lib g ?mc (Media (EvCreateVideoTrack pid tid (co_track co) appData)) (rm\<lparr>rm_media := Some ?mc\<rparr>) =
      Inr (rm\<lparr>rm_media := Some ?mc, rm_participants := Some pm1\<rparr>, [Participant (PCreateVideoTrack ?p' tid (co_track co) appData)])"
    "perform_out lib g ?mc (Media (EvVideoState pid paused)) (rm\<lparr>rm_media := Some ?mc, rm_participants := Some pm1\<rparr>) =
      Inr (?rm, [Participant (PVideoState (setVideoMuted paused ?p') paused)])" for g
    using assms(11) 1 2 by (simp_all del: on_media.simps)
  have "run_room_task lib gid Consume ConsumeData (TaskMedia (TaskNewConsumer (Some rq))) rm =
      Inr (?rm1\<lparr>rm_signaling := Some sc2\<rparr>, [Participant (PCreateVideoTrack ?p' tid (co_track co) appData),
        Participant (PVideoState (setVideoMuted paused ?p') paused)] @ map Wire (ws1 @ ws2))"
    unfolding run_room_task.simps run_room_media_def assms(3) option.case created
    using 3 4 by (simp add: events then_outs_def eval_nat_numeral del: perform_out.simps)
  then show ?thesis by blast
qed

text \<open>
  What \<^verbatim>\<open>_onProduce\<close> puts into the request as application data when it is given what \<open>enableVideo\<close> hands
  to \<^verbatim>\<open>Produce\<close>, and its JSON.
\<close>

definition published_app_data :: "string \<Rightarrow> obj" where
  "published_app_data name =
     set_member ProduceRequest_AppData ''sharing''
       (Some (VStruct (set_member ProduceRequest_SharingData ''trackName'' (Some (VStr name))
          (new_object ProduceRequest_SharingData 0))))
       (new_object ProduceRequest_AppData 0)"

lemma published_json:
  "jserialize (fields_of ProduceRequest_AppData) (published_app_data name) =
     SharingAppData_to_json \<lparr>sharing = \<lparr>trackName = name\<rparr>\<rparr>"
  by (simp add: published_app_data_def jserialize_def fields_of_def set_member_def new_object_def
      ProduceRequest_AppData_def ProduceRequest_SharingData_def SharingAppData_to_json_def Sharing_to_json_def)

lemma produce_request:
  assumes "rm_api rm" and "capabilities lib ProduceRequest_RTPParameters rtpText = Some rtpp"
  shows "onProduce_start lib i transportId ''video'' rtpText (SharingAppData_to_json \<lparr>sharing = \<lparr>trackName = name\<rparr>\<rparr>) rm =
    ebind (on_api (MediasoupApi_produce (lb_print lib) True
        (Some (with_data ProduceRequest ProduceRequest_Data
           [(''transportId'', VStr transportId), (''kind'', VStr ''video''), (''appData'', VStruct (published_app_data name)),
            (''rtpParameters'', VStruct rtpp)]
           (new_object ProduceRequest i)))
        (Some CbProduce)) rm)
      (\<lambda>(rm', outs). Inr (rm', outs, Waiting))"
  using assms
  by (simp add: onProduce_start_def published_app_data_def nlohmann_get_def SharingAppData_from_json_def
      SharingAppData_to_json_def Sharing_from_json_def Sharing_to_json_def)

lemma new_consumer_message:
  assumes "wts (fields_of NewConsumerRequest) rq"
    and "value_at (fields_of NewConsumerRequest) rq ''request'' = Some (VBool True)"
    and "value_at (fields_of NewConsumerRequest) rq ''method'' = Some (VStr ''newConsumer'')"
    and "lb_parse lib (lb_print lib (jserialize (fields_of NewConsumerRequest) rq)) = Some (jserialize (fields_of NewConsumerRequest) rq)"
    and "\<And>j. lb_print lib j \<noteq> []"
    and "rm_signaling rm = Some sc" and "rm_media rm = Some mc" and "rm_participants rm = Some pm" and "rm_tasks rm = []"
  shows "SignalingClient_onMessage (lb_parse lib) (toJsonString (lb_print lib) (fields_of NewConsumerRequest) rq) sc = (sc, [SigNewConsumer rq])"
    and "room_step lib rm [] (rm\<lparr>rm_tasks := [TaskMedia (TaskNewConsumer (Some rq))]\<rparr>)"
proof -
  let ?rm = "rm\<lparr>rm_tasks := [TaskMedia (TaskNewConsumer (Some rq))]\<rparr>"
  show sig: "SignalingClient_onMessage (lb_parse lib) (toJsonString (lb_print lib) (fields_of NewConsumerRequest) rq) sc = (sc, [SigNewConsumer rq])"
    by (rule server_request_delivered [of "''newConsumer''" NewConsumerRequest SigNewConsumer rq "lb_parse lib" "lb_print lib",
          OF _ assms(1-5)]) (simp add: server_requests_def)
  have rm: "rm\<lparr>rm_signaling := Some sc\<rparr> = rm" using assms(6) by (cases rm) simp
  have parts: "?rm\<lparr>rm_participants := Some pm\<rparr> = ?rm" using assms(8) by (cases rm) simp
  have "room_signals [SigNewConsumer rq] rm = Inr (?rm, [])"
    using assms(7-9) parts by (simp add: room_on_signal_def then_outs_def MediaController_onNewConsumer_def)
  then show "room_step lib rm [] ?rm"
    using rs_message [OF assms(6) sig, of ?rm] by (simp only: rm)
qed

text \<open>C3. The name of a track travels from its publisher to the application that watches it. The request the
  publisher's room sends when the media library calls it back for the track that \<open>enableVideo\<close> produced under
  a name carries that name in its application data. When the server hands this data on in a \<^verbatim>\<open>newConsumer\<close>
  request about a peer the watching room knows, the text of the request takes that room, in two
  steps, to announcing the track and its state and answering the server; the client that handles
  the announcement creates a receiver, and every frame that then arrives for the track reaches the
  application under the name, provided it had set its callback.\<close>

theorem watch_session:
  assumes "rm_api publisher" and "capabilities lib ProduceRequest_RTPParameters rtpText = Some rtpp"
    and handed_on: "jserialize (fields_of NewConsumerRequest_AppData) appData =
      jserialize (fields_of ProduceRequest_AppData) (published_app_data name)"
    and "wts (fields_of NewConsumerRequest) rq"
    and "value_at (fields_of NewConsumerRequest) rq ''request'' = Some (VBool True)"
    and "value_at (fields_of NewConsumerRequest) rq ''method'' = Some (VStr ''newConsumer'')"
    and "lb_parse (ev_lib env) (lb_print (ev_lib env) (jserialize (fields_of NewConsumerRequest) rq)) =
      Some (jserialize (fields_of NewConsumerRequest) rq)"
    and "\<And>j. lb_print (ev_lib env) j \<noteq> []"
    and "video_offer rq tid producerId pid rtp appData paused" and "pid \<noteq> []"
    and "Consume tid producerId ''video'' (jserialize (fields_of NewConsumerRequest_RTPParameters) rtp)
        (jserialize (fields_of NewConsumerRequest_AppData) appData) = Inr co"
    and "co_kind co = ''video''" and "consume_law Consume"
    and "rm_media (ro_room ob) = Some mc" and "media_inv mc" and "value_or (opt_consume (mc_options mc)) False"
    and "mc_recvTransport mc" and "mc_api mc"
    and "rm_participants (ro_room ob) = Some pm" and "getParticipant pid pm = Some p"
    and "rm_signaling (ro_room ob) = Some sc" and "sc_ready sc" and "rm_tasks (ro_room ob) = []" and "ro_partObserved ob"
    and "cl_role cl = 1" and "cl_cb cl" and "df_i420 frame = Some planes"
  shows "onProduce_start lib i transportId ''video'' rtpText (SharingAppData_to_json \<lparr>sharing = \<lparr>trackName = name\<rparr>\<rparr>) publisher =
    ebind (on_api (MediasoupApi_produce (lb_print lib) True
        (Some (with_data ProduceRequest ProduceRequest_Data
           [(''transportId'', VStr transportId), (''kind'', VStr ''video''), (''appData'', VStruct (published_app_data name)),
            (''rtpParameters'', VStruct rtpp)]
           (new_object ProduceRequest i)))
        (Some CbProduce)) publisher)
      (\<lambda>(rm', outs). Inr (rm', outs, Waiting)) \<and>
    (\<exists>rm1 rm2 outs cl'.
      SignalingClient_onMessage (lb_parse (ev_lib env)) (toJsonString (lb_print (ev_lib env)) (fields_of NewConsumerRequest) rq) sc =
        (sc, [SigNewConsumer rq]) \<and>
      room_step (ev_lib env) (ro_room ob) [] rm1 \<and>
      run_room_task (ev_lib env) gid Consume ConsumeData (TaskMedia (TaskNewConsumer (Some rq))) (rm1\<lparr>rm_tasks := []\<rparr>) = Inr (rm2, outs) \<and>
      room_step (ev_lib env) rm1 outs rm2 \<and>
      handle_events env (delivered ob outs) cl c = Inr (cl', c, []) \<and>
      frame_arrives (co_track co) frame cl' = Inr [YuvCall name planes (df_width frame) (df_height frame)])"
proof -
  let ?rm = "ro_room ob"
  let ?rm1 = "?rm\<lparr>rm_tasks := [TaskMedia (TaskNewConsumer (Some rq))]\<rparr>"
  note message = new_consumer_message [OF assms(4-8,21,14,19,23)]
  have idle: "?rm1\<lparr>rm_tasks := []\<rparr> = ?rm" using assms(23) by (cases ?rm) simp
  obtain rm2 p' p'' ws where task: "run_room_task (ev_lib env) gid Consume ConsumeData (TaskMedia (TaskNewConsumer (Some rq))) ?rm =
      Inr (rm2, [Participant (PCreateVideoTrack p' tid (co_track co) appData), Participant (PVideoState p'' paused)] @ map Wire ws)"
      (is "_ = Inr (rm2, ?outs)")
    using new_consumer_task [where Consume = Consume, OF assms(9,10,14-18,11-13,19-22,8)] by blast
  have step: "room_step (ev_lib env) ?rm1 ?outs rm2"
    by (rule rs_task [where rest = "[]" and gid = gid and Consume = Consume and ConsumeData = ConsumeData])
      (simp, simp only: idle task)
  have app: "SharingAppData_from_json (jserialize (fields_of NewConsumerRequest_AppData) appData) \<lparr>sharing = \<lparr>trackName = []\<rparr>\<rparr> =
      Inr \<lparr>sharing = \<lparr>trackName = name\<rparr>\<rparr>"
    unfolding handed_on published_json
    by (simp add: SharingAppData_from_json_def SharingAppData_to_json_def Sharing_from_json_def Sharing_to_json_def)
  obtain cl' where cl': "handle_event env (Participant (PCreateVideoTrack p' tid (co_track co) appData)) cl c = Inr (cl', c, [])"
      "frame_arrives (co_track co) frame (RtcClient_setYuvCallback True cl') = Inr [YuvCall name planes (df_width frame) (df_height frame)]"
    using watcher_receives [OF assms(25) app assms(27), of env p' tid "co_track co" c True] assms(26) by auto
  have same: "frame_arrives t f (RtcClient_setYuvCallback b cl') = frame_arrives t f cl'" for t f b
    by (simp add: frame_arrives_def RtcClient_setYuvCallback_def)
  have "delivered ob ?outs = [Participant (PCreateVideoTrack p' tid (co_track co) appData), Participant (PVideoState p'' paused)]"
    using assms(24) delivered_wires [of ob ws "[]"] by (simp add: delivered_def)
  then have "handle_events env (delivered ob ?outs) cl c = Inr (cl', c, [])" using cl'(1) by (simp del: handle_event.simps(2))
  with message task step idle cl'(2) same produce_request [OF assms(1,2), of i transportId name] show ?thesis by auto
qed

definition demo_app_data :: obj where
  "demo_app_data = [None, Some (VStruct [Some (VStr ''front'')])]"

definition demo_offer :: obj where
  "demo_offer = [Some (VBool True), Some (VInt 7), Some (VStr ''newConsumer''),
     Some (VStruct [Some (VStr ''v1''), Some (VStr ''p''), Some (VStr ''video''), None, Some (VStr ''pr1''), Some (VBool False),
       Some (VStruct (new_object NewConsumerRequest_RTPParameters 0)), Some (VStruct demo_app_data)])]"

definition watch_env :: env where
  "watch_env = camera_env\<lparr>ev_lib := session_lib\<lparr>lb_parse := (\<lambda>_. Some (jserialize (fields_of NewConsumerRequest) demo_offer))\<rparr>\<rparr>"

definition demo_connection :: "room_cb api_token signaling" where
  "demo_connection = fst (SignalingClient_connect (\<lambda>_. Some 1) (\<lambda>_ _. True) ''wss://host'' ''protoo'' (new_signaling True))"

definition demo_watching :: room where
  "demo_watching = (RoomClient_init new_room)\<lparr>rm_signaling := Some demo_connection, rm_media := Some (connected_media session_device),
     rm_participants := Some [(''p'', Some (new_participant ''p'' ''Ann''))]\<rparr>"

definition demo_track :: consume_fun where
  "demo_track i p k r a = Inr \<lparr>co_id = i, co_kind = k, co_track = ''t'', co_enabled = True, co_closed = False\<rparr>"

theorem watch_session_witness:
  "\<exists>rm1 rm2 outs cl'. room_step (ev_lib watch_env) demo_watching [] rm1 \<and> room_step (ev_lib watch_env) rm1 outs rm2 \<and>
     handle_events watch_env (delivered (demo_object demo_watching) outs)
       ((RtcClient ''host'' 443 ''room'' ''bob'' 1)\<lparr>cl_cb := True\<rparr>) new_core = Inr (cl', new_core, []) \<and>
     frame_arrives ''t'' \<lparr>df_i420 = Some \<lparr>pl_y = [1], pl_u = [], pl_v = []\<rparr>, df_width = 1, df_height = 1\<rparr> cl' =
       Inr [YuvCall ''front'' \<lparr>pl_y = [1], pl_u = [], pl_v = []\<rparr> 1 1]"
proof -
  let ?ob = "demo_object demo_watching"
  let ?co = "\<lparr>co_id = ''v1'', co_kind = ''video'', co_track = ''t'', co_enabled = True, co_closed = False\<rparr>"
  let ?frame = "\<lparr>df_i420 = Some \<lparr>pl_y = [1], pl_u = [], pl_v = []\<rparr>, df_width = 1, df_height = 1\<rparr> :: decoded_frame"
  let ?cl = "(RtcClient ''host'' 443 ''room'' ''bob'' 1)\<lparr>cl_cb := True\<rparr>"
  have api: "rm_api (RoomClient_init new_room)" by (simp add: RoomClient_init_def new_room_def)
  obtain rtpp where caps: "capabilities session_lib ProduceRequest_RTPParameters ''caps'' = Some rtpp"
  proof -
    have "capabilities session_lib ProduceRequest_RTPParameters ''caps'' \<noteq> None" by code_simp
    then show thesis using that by blast
  qed
  have rq: "jserialize (fields_of NewConsumerRequest_AppData) demo_app_data =
      jserialize (fields_of ProduceRequest_AppData) (published_app_data ''front'')"
    "wts (fields_of NewConsumerRequest) demo_offer"
    "value_at (fields_of NewConsumerRequest) demo_offer ''request'' = Some (VBool True)"
    "value_at (fields_of NewConsumerRequest) demo_offer ''method'' = Some (VStr ''newConsumer'')"
    "video_offer demo_offer ''v1'' ''pr1'' ''p'' (new_object NewConsumerRequest_RTPParameters 0) demo_app_data False"
    by code_simp+
  have lib: "lb_parse (ev_lib watch_env) (lb_print (ev_lib watch_env) (jserialize (fields_of NewConsumerRequest) demo_offer)) =
      Some (jserialize (fields_of NewConsumerRequest) demo_offer)" "lb_print (ev_lib watch_env) j \<noteq> []" for j
    by (simp_all add: watch_env_def session_lib_def)
  have track: "demo_track ''v1'' ''pr1'' ''video'' a b = Inr ?co" "co_kind ?co = ''video''" "consume_law demo_track" for a b
    by (simp_all add: demo_track_def consume_law_def)
  have media: "rm_media (ro_room ?ob) = Some (connected_media session_device)" "media_inv (connected_media session_device)"
    "value_or (opt_consume (mc_options (connected_media session_device))) False" "mc_recvTransport (connected_media session_device)"
    "mc_api (connected_media session_device)"
    by (simp_all add: demo_object_def demo_watching_def media_inv_def um_wf_def default_options_def)
  have room: "rm_participants (ro_room ?ob) = Some [(''p'', Some (new_participant ''p'' ''Ann''))]"
    "getParticipant ''p'' [(''p'', Some (new_participant ''p'' ''Ann''))] = Some (new_participant ''p'' ''Ann'')"
    "rm_signaling (ro_room ?ob) = Some demo_connection" "sc_ready demo_connection" "rm_tasks (ro_room ?ob) = []" "ro_partObserved ?ob"
    by (simp_all add: demo_object_def demo_watching_def getParticipant_def um_find_def RoomClient_init_def new_room_def
        sc_ready_def demo_connection_def SignalingClient_connect_def Transport_connect_def new_signaling_def new_transport_def
        Let_def split_beta)
  have cl: "cl_role ?cl = 1" "cl_cb ?cl" "df_i420 ?frame = Some \<lparr>pl_y = [1], pl_u = [], pl_v = []\<rparr>" by (simp_all add: RtcClient_def)
  have pid: "''p'' \<noteq> []" by simp
  from watch_session [OF api caps rq(1-4) lib rq(5) pid track(1) [of "jserialize (fields_of NewConsumerRequest_RTPParameters) x" for x] track(2,3) media room cl,
      of 1 "''s''" "\<lambda>_. 5" "\<lambda>_ _ _ _ _ _. Inl ''x''" new_core]
  show ?thesis by (auto simp: demo_object_def)
qed

end
