(* ===== verification/Spec2Isabelle.thy ===== *)
theory Spec2Isabelle
  imports Observables Json_Map Sdp_Utils Wide_Text String_Buffer Typed_Api Transport_Listener Shared_Thread Streaming
begin

text \<open>
  A verification of the mediasoup C++ client: the code under \<^verbatim>\<open>src/core\<close> and \<^verbatim>\<open>src/sdk\<close>, which joins a
  video room on a mediasoup server, publishes camera tracks and receives those of the other peers.

  \<^bold>\<open>The program.\<close> An application builds an \<^verbatim>\<open>RtcClient\<close> (\<^verbatim>\<open>sdk/rtc_client.cpp\<close>) on the engine
  (\<^verbatim>\<open>core/service/engine.cpp\<close>), which creates rooms behind proxies that move every call to the
  mediasoup thread (\<^verbatim>\<open>core/utils/interface_proxy.hpp\<close>). A room (\<^verbatim>\<open>room_client.cpp\<close>) owns a signaling
  client with its WebSocket transport, a typed API on top of it, a media controller for producers and
  consumers, and a participant controller. It drives the handshake (router capabilities, device, two
  transports, join) and passes the server's notifications on. Messages are JSON texts of the structs of
  \<^verbatim>\<open>signaling_models.h\<close>, coded by the reflective codec of \<^verbatim>\<open>core/json\<close>. Components tell each other what
  happens through observer lists that post to threads.

  \<^bold>\<open>The theories\<close>, in the order of their imports:

  \<^item> \<open>Prelude\<close>: the containers and pointers of the standard library as lists and options, the locale
    \<open>keyed_store\<close> of a keyed container with its interpretation, faults and fallible sequencing.
  \<^item> \<open>Observables\<close>: \<^verbatim>\<open>utils/universal_observable.hpp\<close>, \<^verbatim>\<open>observable.h\<close>, \<^verbatim>\<open>observer.hpp\<close>, \<^verbatim>\<open>notifications.hpp\<close>
    and the registrations of the components; the locale \<open>registry\<close>, interpreted by each of them. Over its whole
    life a registry refines a list of live objects with their threads.
  \<^item> \<open>String_Algo\<close>: \<^verbatim>\<open>json/string_algo.hpp\<close> and \<^verbatim>\<open>utils/string_utils.cpp\<close>. Each search, comparison and
    replacement against its textbook counterpart; exactly when \<open>replace\<close> returns.
  \<^item> \<open>Wide_Text\<close>: \<^verbatim>\<open>json/stringable.hpp\<close> and the conversions of \<^verbatim>\<open>string_algo.hpp\<close>, with UTF-8 written out:
    wide texts and valid bytes survive the way there and back, other bytes do not.
  \<^item> \<open>String_Buffer\<close>: \<^verbatim>\<open>json/StringBuffer.h\<close>, a stream buffer over a vector. Addresses, blocks and the get and
    put areas are explicit; appends, reads after a \<open>sync\<close>, writes at a position, the specialisation for
    input streams against the general class, and the states in which the class goes wrong.
  \<^item> \<open>Sdp_Utils\<close>: \<^verbatim>\<open>utils/sdp_utils.cpp\<close>. Split and join, parsers against writers, where simulcast
    lines are injected and that injecting is idempotent.
  \<^item> \<open>Json\<close>, \<open>Json_Map\<close>: \<^verbatim>\<open>json/serialization.hpp\<close>, \<^verbatim>\<open>jsonable.hpp\<close>. Member types are a datatype and the
    template dispatch is recursion on it. When decoding fails, what it yields, round trips, of
    models and of parameter packs, the error texts, and why an enumeration is never written.
  \<^item> \<open>Signaling_Models\<close>: every struct of \<^verbatim>\<open>service/signaling_models.h\<close> as a list of fields, with the round
    trip for all of them.
  \<^item> \<open>Websocket\<close>: \<^verbatim>\<open>websocket/*\<close>, the tables of connections, the transport, the TLS context and the
    certificate check, which is sound and without effect; the locale \<open>ws_endpoint\<close> interpreted by both endpoints.
  \<^item> \<open>Signaling_Client\<close>: \<^verbatim>\<open>websocket_request.h\<close>, \<^verbatim>\<open>signaling_client.cpp\<close>, \<^verbatim>\<open>mediasoup_api.cpp\<close>. Requests and
    answers, callbacks at most once, every notification delivered.
  \<^item> \<open>Typed_Api\<close>: the interface of \<^verbatim>\<open>i_mediasoup_api.h\<close> as a datatype; what every method sends and how it is
    answered.
  \<^item> \<open>Media_Controller\<close>: \<^verbatim>\<open>media_controller.cpp\<close> and the flags of libmediasoupclient's producers and
    consumers; the locale \<open>remote_mute\<close>. Tables without null consumers in every reachable state.
  \<^item> \<open>Participants\<close>: \<^verbatim>\<open>participant.cpp\<close>, \<^verbatim>\<open>participant_controller.cpp\<close>, refined to an abstract roster.
  \<^item> \<open>Room_Client\<close>: \<^verbatim>\<open>room_client.cpp\<close>, its step relation \<open>room_step\<close>, the room invariant.
  \<^item> \<open>Transport_Listener\<close>: \<^verbatim>\<open>OnConnect\<close>, \<^verbatim>\<open>OnProduce\<close>, \<^verbatim>\<open>OnProduceData\<close> of \<^verbatim>\<open>room_client.cpp\<close>, from the call of the
    media library to the promise it waits for.
  \<^item> \<open>Session\<close>: statements about a whole session, from the text of a message to the room's state.
  \<^item> \<open>Threads\<close>: \<^verbatim>\<open>thread_provider.cpp\<close>, \<^verbatim>\<open>object_factory.hpp\<close>, \<^verbatim>\<open>component_factory.cpp\<close> and the marshalling of
    \<^verbatim>\<open>interface_proxy.hpp\<close> over all interleavings of threads, up to the destructor of a proxy.
  \<^item> \<open>Logging\<close>: \<^verbatim>\<open>logger/spd_logger.cpp\<close>, \<^verbatim>\<open>rtc_log_sink.cpp\<close> and what they use of spdlog; the log over any
    sequence of initialisations and destructions.
  \<^item> \<open>Engine\<close>: \<^verbatim>\<open>rtc_context.cpp\<close>, \<^verbatim>\<open>engine.cpp\<close>, \<^verbatim>\<open>core.cpp\<close> with the log, and the proxy of a room.
  \<^item> \<open>Proxy_Refinement\<close>: a call through a room's proxy is a run of the general machine of \<open>Threads\<close>.
  \<^item> \<open>Shared_Thread\<close>: any number of rooms on the one mediasoup thread, with their tasks interleaved in its queue:
    every room does what it does alone.
  \<^item> \<open>Dummy_Video\<close>: \<^verbatim>\<open>dummy_video_source.cc\<close>, \<^verbatim>\<open>dummy_video_encoder.cc\<close>, \<^verbatim>\<open>sdk/video_receiver.cpp\<close>, with
    integers of their width.
  \<^item> \<open>Rtc_Client\<close>: \<^verbatim>\<open>sdk/rtc_client.cpp\<close>, the facade over all of this.
  \<^item> \<open>Streaming\<close>: whole sessions, a publisher from the start of the library to the encoded image and a
    watcher from the server's message to the callback of the application.

  \<^bold>\<open>Conventions.\<close> A class is a record and its methods are functions from the old state to the new one
  and the calls it makes. Null pointers, empty optionals and exceptions nothing catches are left values
  (\<open>fault\<close>). A callback is a token, and what it does is a function of its own. Work that is posted to a
  thread is a queue in the state. A random or library-made value is an argument. Names follow the
  source, with the class in front where two classes share a method.

  \<^bold>\<open>Parameters.\<close> rapidjson's reader and writer, websocketpp, OpenSSL's accessors and handshake, libmediasoupclient's
  device, transports, producers and consumers, and WebRTC's threads, frames and bit-stream helpers are
  arguments, with what the code relies on as hypotheses; each such theorem has a witness with concrete
  functions. Threads are first-in first-out queues. Which block a growing vector moves to is a parameter
  too (\<open>allocates\<close>).

  \<^bold>\<open>Termination and fuel.\<close> Every definition but three is total by a measure or structurally. The loop of
  \<open>replace\<close>, \<open>syncOutput\<close>, which calls itself, and \<open>drain\<close>, which reads a buffer to its end, are partial
  functions into options, with lemmas that say when they return. No definition uses fuel:
  \<open>run_queued\<close> counts the tasks that are queued when a call is made, as the thread does.

  \<^bold>\<open>Not modelled.\<close> \<^verbatim>\<open>bad_any_cast.cc\<close> is vendored and unused. \<^verbatim>\<open>Observable::notify\<close> calls a function that does
  not exist and cannot be instantiated. The string algorithms of \<^verbatim>\<open>string_algo.hpp\<close> at wide characters and
  floating-point texts have no use in the sources. Of the log only the lines of the constructor,
  the destructor and the start are followed, the other lines are pure output. The
  codec options of \<open>enableVideo\<close> only fill in settings of libraries. Locks are left out: every
  operation under a lock is one step. \<open>Engine\<close> keeps a queue per room; \<open>Shared_Thread\<close> shows that this is
  what the queue they share comes to. Declarations in headers are modelled where they are defined. Code under \<^verbatim>\<open>third_party\<close> is not part of the program, except for the
  flags of producers and consumers above and what the log uses of spdlog.
\<close>

end
